(* ===== verification/Prelude.thy ===== *)
theory Prelude
  imports Main "HOL-Library.Word"
begin

text \<open>
  Shared vocabulary of the development: Python exceptions as values, methods as functions of an
  explicit state that return either an exception or a result together with the state they leave
  behind (a Python \<open>raise\<close> keeps every earlier mutation), and the facts about them that the
  component theories use through the collection \<open>io_simps\<close>.
\<close>

named_theorems io_simps

type_synonym u32 = "32 word"
type_synonym u64 = "64 word"

section \<open>Exceptions\<close>

datatype exn_kind =
    RuntimeError | ValueError | TypeError | FileNotFoundError | FileExistsError | TimeoutError
  | OSError | NotImplementedError | AttributeError | KeyError | IndexError | EOFError
  | ArgumentError | ImportError | LocalEntryNotFoundError | OverflowError | StructError | AssertionError
  | SystemExit

datatype exn = Exn exn_kind string

primrec exn_kind_of :: "exn \<Rightarrow> exn_kind" where
  "exn_kind_of (Exn k m) = k"

section \<open>Stateful computations that may raise\<close>

type_synonym ('s, 'a) io = "'s \<Rightarrow> (exn + 'a) \<times> 's"

definition io_return :: "'a \<Rightarrow> ('s, 'a) io" where
  "io_return x = (\<lambda>s. (Inr x, s))"

definition io_raise :: "exn_kind \<Rightarrow> string \<Rightarrow> ('s, 'a) io" where
  "io_raise k m = (\<lambda>s. (Inl (Exn k m), s))"

definition io_bind :: "('s, 'a) io \<Rightarrow> ('a \<Rightarrow> ('s, 'b) io) \<Rightarrow> ('s, 'b) io" where
  "io_bind m f = (\<lambda>s. case m s of (Inl e, t) \<Rightarrow> (Inl e, t) | (Inr x, t) \<Rightarrow> f x t)"

definition io_then :: "('s, unit) io \<Rightarrow> ('s, 'b) io \<Rightarrow> ('s, 'b) io" where
  "io_then m n = io_bind m (\<lambda>_. n)"

definition io_get :: "('s, 's) io" where
  "io_get = (\<lambda>s. (Inr s, s))"

definition io_modify :: "('s \<Rightarrow> 's) \<Rightarrow> ('s, unit) io" where
  "io_modify f = (\<lambda>s. (Inr (), f s))"

definition io_when :: "bool \<Rightarrow> ('s, unit) io \<Rightarrow> ('s, unit) io" where
  "io_when b m = (if b then m else io_return ())"

text \<open>\<open>try: m except: h\<close> and \<open>try: m finally: f\<close>.\<close>

definition io_catch :: "('s, 'a) io \<Rightarrow> (exn \<Rightarrow> ('s, 'a) io) \<Rightarrow> ('s, 'a) io" where
  "io_catch m h = (\<lambda>s. case m s of (Inl e, t) \<Rightarrow> h e t | (Inr x, t) \<Rightarrow> (Inr x, t))"

definition io_finally :: "('s, 'a) io \<Rightarrow> ('s, unit) io \<Rightarrow> ('s, 'a) io" where
  "io_finally m f = (\<lambda>s. case m s of (r, t) \<Rightarrow>
     (case f t of (Inl e, u) \<Rightarrow> (Inl e, u) | (Inr _, u) \<Rightarrow> (r, u)))"

text \<open>A computation on one component of a larger state.\<close>

definition io_zoom :: "('t \<Rightarrow> 's) \<Rightarrow> ('s \<Rightarrow> 't \<Rightarrow> 't) \<Rightarrow> ('s, 'a) io \<Rightarrow> ('t, 'a) io" where
  "io_zoom g p m = (\<lambda>t. case m (g t) of (r, s) \<Rightarrow> (r, p s t))"

lemma io_return_apply [io_simps]: "io_return x s = (Inr x, s)"
  by (simp add: io_return_def)

lemma io_raise_apply [io_simps]: "io_raise k m s = (Inl (Exn k m), s)"
  by (simp add: io_raise_def)

lemma io_bind_Inr [io_simps]: "m s = (Inr x, t) \<Longrightarrow> io_bind m f s = f x t"
  by (simp add: io_bind_def)

lemma io_bind_Inl [io_simps]: "m s = (Inl e, t) \<Longrightarrow> io_bind m f s = (Inl e, t)"
  by (simp add: io_bind_def)

lemma io_bind_return [io_simps]: "io_bind (io_return x) f = f x"
  by (simp add: io_bind_def io_return_def fun_eq_iff)

lemma io_bind_raise [io_simps]: "io_bind (io_raise k m) f = io_raise k m"
  by (simp add: io_bind_def io_raise_def fun_eq_iff)

lemma io_bind_assoc: "io_bind (io_bind m f) g = io_bind m (\<lambda>x. io_bind (f x) g)"
  by (auto simp: io_bind_def fun_eq_iff split: prod.splits sum.splits)

lemma io_then_bind: "io_then m n = io_bind m (\<lambda>_. n)"
  by (simp add: io_then_def)

lemma io_then_return [io_simps]: "io_then (io_return ()) n = n"
  by (simp add: io_then_def io_bind_def io_return_def fun_eq_iff)

lemma io_then_raise [io_simps]: "io_then (io_raise k m) n = io_raise k m"
  by (simp add: io_then_def io_bind_def io_raise_def fun_eq_iff)

lemma io_get_apply [io_simps]: "io_get s = (Inr s, s)"
  by (simp add: io_get_def)

lemma io_modify_apply [io_simps]: "io_modify f s = (Inr (), f s)"
  by (simp add: io_modify_def)

lemma io_when_True [io_simps]: "io_when True m = m"
  by (simp add: io_when_def)

lemma io_when_False [io_simps]: "io_when False m = io_return ()"
  by (simp add: io_when_def)

text \<open>A successful sequence is a successful first part followed by a successful second part.\<close>

lemma io_bind_success_iff:
  "io_bind m f s = (Inr y, u) \<longleftrightarrow> (\<exists>x t. m s = (Inr x, t) \<and> f x t = (Inr y, u))"
  by (auto simp: io_bind_def split: prod.splits sum.splits)

lemma io_then_success_iff:
  "io_then m n s = (Inr y, u) \<longleftrightarrow> (\<exists>t. m s = (Inr (), t) \<and> n t = (Inr y, u))"
  by (auto simp: io_then_def io_bind_success_iff)

lemma io_return_success_iff: "io_return x s = (Inr y, u) \<longleftrightarrow> y = x \<and> u = s"
  by (auto simp: io_return_def)

lemma io_raise_success_iff: "io_raise k m s = (Inr y, u) \<longleftrightarrow> False"
  by (simp add: io_raise_def)

lemma io_modify_success_iff: "io_modify f s = (Inr y, u) \<longleftrightarrow> u = f s"
  by (auto simp: io_modify_def)

lemma io_get_success_iff: "io_get s = (Inr y, u) \<longleftrightarrow> y = s \<and> u = s"
  by (auto simp: io_get_def)

lemma io_zoom_success_iff:
  "io_zoom g p m t = (Inr y, u) \<longleftrightarrow> (\<exists>s. m (g t) = (Inr y, s) \<and> u = p s t)"
  by (auto simp: io_zoom_def split: prod.splits)

lemmas io_success = io_bind_success_iff io_then_success_iff io_return_success_iff
  io_raise_success_iff io_modify_success_iff io_get_success_iff io_zoom_success_iff

section \<open>Postconditions\<close>

text \<open>
  \<open>io_post m Q E s\<close>: run from \<open>s\<close>, \<open>m\<close> either returns with \<open>Q\<close> or raises with \<open>E\<close>. The collection
  \<open>wp\<close> computes it along a computation.
\<close>

named_theorems wp

definition io_post ::
  "('s, 'a) io \<Rightarrow> ('a \<Rightarrow> 's \<Rightarrow> bool) \<Rightarrow> (exn \<Rightarrow> 's \<Rightarrow> bool) \<Rightarrow> 's \<Rightarrow> bool" where
  "io_post m Q E s = (case m s of (Inl e, t) \<Rightarrow> E e t | (Inr y, t) \<Rightarrow> Q y t)"

lemma io_post_return [wp]: "io_post (io_return x) Q E = Q x"
  by (simp add: io_post_def io_return_def fun_eq_iff)

lemma io_post_raise [wp]: "io_post (io_raise k m) Q E = E (Exn k m)"
  by (simp add: io_post_def io_raise_def fun_eq_iff)

lemma io_post_bind [wp]: "io_post (io_bind m f) Q E = io_post m (\<lambda>x. io_post (f x) Q E) E"
  by (simp add: io_post_def io_bind_def fun_eq_iff split: prod.splits sum.splits)

lemma io_post_then [wp]: "io_post (io_then m n) Q E = io_post m (\<lambda>_. io_post n Q E) E"
  by (simp add: io_then_def io_post_bind)

lemma io_post_get [wp]: "io_post io_get Q E = (\<lambda>s. Q s s)"
  by (simp add: io_post_def io_get_def fun_eq_iff)

lemma io_post_modify [wp]: "io_post (io_modify f) Q E = (\<lambda>s. Q () (f s))"
  by (simp add: io_post_def io_modify_def fun_eq_iff)

lemma io_post_catch [wp]: "io_post (io_catch m h) Q E = io_post m Q (\<lambda>e. io_post (h e) Q E)"
  by (simp add: io_post_def io_catch_def fun_eq_iff split: prod.splits sum.splits)

lemma io_post_finally [wp]:
  "io_post (io_finally m f) Q E =
     io_post m (\<lambda>y. io_post f (\<lambda>_. Q y) E) (\<lambda>e. io_post f (\<lambda>_. E e) E)"
  by (simp add: io_post_def io_finally_def fun_eq_iff split: prod.splits sum.splits)

lemma io_post_zoom [wp]:
  "io_post (io_zoom g p m) Q E =
     (\<lambda>t. io_post m (\<lambda>y s. Q y (p s t)) (\<lambda>e s. E e (p s t)) (g t))"
  by (simp add: io_post_def io_zoom_def fun_eq_iff split: prod.splits sum.splits)

lemma io_post_if [wp]:
  "io_post (if b then m else n) Q E = (if b then io_post m Q E else io_post n Q E)"
  by simp

lemma io_post_case_option [wp]:
  "io_post (case x of None \<Rightarrow> m | Some y \<Rightarrow> f y) Q E =
     (case x of None \<Rightarrow> io_post m Q E | Some y \<Rightarrow> io_post (f y) Q E)"
  by (simp split: option.split)

declare case_prod_unfold [wp]

lemma io_post_any: "(\<And>y t. Q y t) \<Longrightarrow> (\<And>e t. E e t) \<Longrightarrow> io_post m Q E s"
  by (simp add: io_post_def split: prod.splits sum.splits)

lemma io_post_mono:
  "io_post m Q E s \<Longrightarrow> (\<And>y t. Q y t \<Longrightarrow> Q' y t) \<Longrightarrow> (\<And>e t. E e t \<Longrightarrow> E' e t) \<Longrightarrow> io_post m Q' E' s"
  by (auto simp: io_post_def split: prod.splits sum.splits)

lemma io_post_returns:
  "io_post m Q (\<lambda>_ _. False) s \<longleftrightarrow> (\<exists>y t. m s = (Inr y, t) \<and> Q y t)"
  by (auto simp: io_post_def split: prod.splits sum.splits)

lemma io_post_raises:
  "io_post m (\<lambda>_ _. False) E s \<longleftrightarrow> (\<exists>e t. m s = (Inl e, t) \<and> E e t)"
  by (auto simp: io_post_def split: prod.splits sum.splits)

section \<open>Lists\<close>

lemma take_Suc_snoc: "k < length xs \<Longrightarrow> take (Suc k) xs = take k xs @ [xs ! k]"
  by (simp add: take_Suc_conv_app_nth)

lemma concat_blocks_length:
  "(\<And>x. x \<in> set xs \<Longrightarrow> length (f x) = k) \<Longrightarrow> length (concat (map f xs)) = k * length xs"
  by (induction xs) auto

text \<open>Position \<open>p\<close> of a list made of blocks of length \<open>k\<close> lies in block \<open>p div k\<close>.\<close>

lemma concat_blocks_nth:
  assumes "\<And>x. x \<in> set xs \<Longrightarrow> length (f x) = k" and "p < k * length xs"
  shows "concat (map f xs) ! p = f (xs ! (p div k)) ! (p mod k)"
  using assms
proof (induction xs arbitrary: p)
  case Nil
  then show ?case by simp
next
  case (Cons x xs)
  have len: "length (f x) = k" using Cons.prems(1) by simp
  show ?case
  proof (cases "p < k")
    case True
    then show ?thesis by (simp add: nth_append len)
  next
    case False
    with Cons.prems(2) have k: "0 < k" by (cases k) auto
    from False have pk: "k \<le> p" by simp
    from pk k have "p div k = Suc ((p - k) div k)" and "p mod k = (p - k) mod k"
      by (simp_all add: le_div_geq le_mod_geq)
    with Cons.IH [of "p - k"] Cons.prems pk len show ?thesis
      by (simp add: nth_append algebra_simps)
  qed
qed

end
