(* ===== verification/Transition.thy ===== *)
theory Transition
  imports Prelude
begin

text \<open>
  Reachability of a step relation, and the two interfaces the protocol theories interpret:
  \<open>invariant_system\<close> (an invariant that holds at the start and is kept by every step) and its
  extension \<open>progressing_system\<close> (every step lowers a measure and every unfinished state can
  move), which gives termination and absence of deadlock for every schedule.
\<close>

inductive reach :: "('s \<Rightarrow> bool) \<Rightarrow> ('s \<Rightarrow> 's \<Rightarrow> bool) \<Rightarrow> 's \<Rightarrow> bool"
  for init :: "'s \<Rightarrow> bool" and step :: "'s \<Rightarrow> 's \<Rightarrow> bool" where
  reach_init: "init s \<Longrightarrow> reach init step s"
| reach_step: "reach init step s \<Longrightarrow> step s t \<Longrightarrow> reach init step t"

text \<open>A run of a given length.\<close>

inductive run_len :: "('s \<Rightarrow> 's \<Rightarrow> bool) \<Rightarrow> nat \<Rightarrow> 's \<Rightarrow> 's \<Rightarrow> bool"
  for step :: "'s \<Rightarrow> 's \<Rightarrow> bool" where
  run_nil: "run_len step 0 s s"
| run_cons: "step s t \<Longrightarrow> run_len step n t u \<Longrightarrow> run_len step (Suc n) s u"

lemma run_len_snoc: "run_len step n s t \<Longrightarrow> step t u \<Longrightarrow> run_len step (Suc n) s u"
  by (induction rule: run_len.induct) (auto intro: run_len.intros)

lemma reach_run: "run_len step n s t \<Longrightarrow> reach init step s \<Longrightarrow> reach init step t"
  by (induction rule: run_len.induct) (auto intro: reach_step)

locale invariant_system =
  fixes init :: "'s \<Rightarrow> bool"
    and step :: "'s \<Rightarrow> 's \<Rightarrow> bool"
    and inv :: "'s \<Rightarrow> bool"
  assumes init_inv: "init s \<Longrightarrow> inv s"
    and step_inv: "inv s \<Longrightarrow> step s t \<Longrightarrow> inv t"
begin

lemma reach_inv: "reach init step s \<Longrightarrow> inv s"
  by (induction rule: reach.induct) (auto intro: init_inv step_inv)

end

locale progressing_system = invariant_system +
  fixes left :: "'a \<Rightarrow> nat"
    and final :: "'a \<Rightarrow> bool"
  assumes step_left: "inv s \<Longrightarrow> step s t \<Longrightarrow> left t < left s"
    and progress: "inv s \<Longrightarrow> \<not> final s \<Longrightarrow> \<exists>t. step s t"
begin

lemma run_bounded: "run_len step n s t \<Longrightarrow> inv s \<Longrightarrow> n + left t \<le> left s"
proof (induction rule: run_len.induct)
  case (run_nil s)
  show ?case by simp
next
  case (run_cons s t n u)
  from run_cons.prems run_cons.hyps(1) have "inv t" and "left t < left s"
    by (auto intro: step_inv step_left)
  with run_cons.IH show ?case by simp
qed

lemma reach_final: "inv s \<Longrightarrow> \<exists>n t. run_len step n s t \<and> final t"
proof (induction "left s" arbitrary: s rule: less_induct)
  case less
  show ?case
  proof (cases "final s")
    case True
    then show ?thesis by (blast intro: run_nil)
  next
    case False
    with less.prems obtain t where t: "step s t" by (blast dest: progress)
    with less.prems have "left t < left s" and "inv t" by (auto intro: step_left step_inv)
    with less.hyps obtain n u where "run_len step n t u" and "final u" by blast
    with t show ?thesis by (blast intro: run_cons)
  qed
qed

lemma no_deadlock: "reach init step s \<Longrightarrow> final s \<or> (\<exists>t. step s t)"
  by (blast dest: reach_inv progress)

lemma always_finishes:
  "reach init step s \<Longrightarrow> \<exists>n t. run_len step n s t \<and> final t \<and> n \<le> left s"
  by (metis reach_inv reach_final run_bounded add_leD1)

end

end
