(* ===== verification/Gpu_Streams.thy ===== *)
theory Gpu_Streams
  imports Transition
begin

text \<open>
  The machine that executes what the host code enqueues: streams of commands, each stream in
  order, different streams interleaved in any way. Slots model memory that several GPUs can
  reach (a D3D12 cross-adapter heap, a registered host mapping); semaphores model timeline fences
  and the 32-bit words that \<open>hipStreamWaitValue32\<close> polls.

  Copies and reads are not atomic. A store first makes the slot undefined (\<open>None\<close>) and spoils
  every read that is under way on it, and defines it only when it ends; a read that overlaps a
  store yields \<open>None\<close>, never a value. So a result \<open>Some v\<close> states that no access raced with it.

  The kernels are those of \<open>native/mapped_peer_reduce.hip\<close>, the fence operations those of
  \<open>native/wavmg_d3d12.cpp\<close>. That a stream runs in order, that a wait blocks until the semaphore
  reaches the value, and that memory written before a signal is visible after the matching wait
  are the documented contracts of HIP and D3D12 on which the machine rests.
\<close>

datatype 'a cmd =
    StoreBegin nat
  | StoreEnd nat 'a
  | Signal nat nat
  | WaitGe nat nat
  | ReadBegin nat
  | AddEnd 'a
  | LoadEnd

record 'a gpu =
  pc :: "nat \<Rightarrow> nat"
  mem :: "nat \<Rightarrow> 'a option"
  reading :: "nat \<Rightarrow> (nat \<times> 'a option) option"
  sem :: "nat \<Rightarrow> nat"
  outs :: "nat \<Rightarrow> 'a option list"

definition torn :: "nat \<Rightarrow> (nat \<times> 'a option) option \<Rightarrow> (nat \<times> 'a option) option" where
  "torn b w = (case w of Some (b', v) \<Rightarrow> if b' = b then Some (b, None) else w | None \<Rightarrow> None)"

definition read_value :: "'a gpu \<Rightarrow> nat \<Rightarrow> 'a option" where
  "read_value s r = (case reading s r of Some (_, v) \<Rightarrow> v | None \<Rightarrow> None)"

fun exec :: "('a \<Rightarrow> 'a \<Rightarrow> 'a) \<Rightarrow> nat \<Rightarrow> 'a cmd \<Rightarrow> 'a gpu \<Rightarrow> 'a gpu option" where
  "exec add r (StoreBegin b) s =
     Some (s\<lparr>mem := (mem s)(b := None), reading := (\<lambda>q. torn b (reading s q))\<rparr>)"
| "exec add r (StoreEnd b x) s = Some (s\<lparr>mem := (mem s)(b := Some x)\<rparr>)"
| "exec add r (Signal f v) s = Some (s\<lparr>sem := (sem s)(f := v)\<rparr>)"
| "exec add r (WaitGe f v) s = (if v \<le> sem s f then Some s else None)"
| "exec add r (ReadBegin b) s = Some (s\<lparr>reading := (reading s)(r := Some (b, mem s b))\<rparr>)"
| "exec add r (AddEnd x) s =
     Some (s\<lparr>outs := (outs s)(r := outs s r @ [map_option (add x) (read_value s r)]),
             reading := (reading s)(r := None)\<rparr>)"
| "exec add r LoadEnd s =
     Some (s\<lparr>outs := (outs s)(r := outs s r @ [read_value s r]),
             reading := (reading s)(r := None)\<rparr>)"

inductive gpu_step ::
  "('a \<Rightarrow> 'a \<Rightarrow> 'a) \<Rightarrow> (nat \<Rightarrow> 'a cmd list) \<Rightarrow> 'a gpu \<Rightarrow> 'a gpu \<Rightarrow> bool"
  for add :: "'a \<Rightarrow> 'a \<Rightarrow> 'a" and progs :: "nat \<Rightarrow> 'a cmd list" where
  gpu_step_exec: "pc s r < length (progs r) \<Longrightarrow> exec add r (progs r ! pc s r) s = Some t \<Longrightarrow>
     gpu_step add progs s (t\<lparr>pc := (pc s)(r := Suc (pc s r))\<rparr>)"

inductive_cases gpu_stepE: "gpu_step add progs s t"

definition gpu_init :: "'a gpu \<Rightarrow> bool" where
  "gpu_init s \<longleftrightarrow> pc s = (\<lambda>_. 0) \<and> sem s = (\<lambda>_. 0) \<and> outs s = (\<lambda>_. []) \<and> reading s = (\<lambda>_. None)"

definition gpu_done :: "(nat \<Rightarrow> 'a cmd list) \<Rightarrow> nat list \<Rightarrow> 'a gpu \<Rightarrow> bool" where
  "gpu_done progs rs s \<longleftrightarrow> (\<forall>r\<in>set rs. pc s r = length (progs r))"

definition gpu_left :: "(nat \<Rightarrow> 'a cmd list) \<Rightarrow> nat list \<Rightarrow> 'a gpu \<Rightarrow> nat" where
  "gpu_left progs rs s = (\<Sum>r\<leftarrow>rs. length (progs r) - pc s r)"

text \<open>The state a fresh pair of streams starts in, whatever the slots hold.\<close>

definition gpu_start :: "'a gpu" where
  "gpu_start = \<lparr>pc = (\<lambda>_. 0), mem = (\<lambda>_. None), reading = (\<lambda>_. None), sem = (\<lambda>_. 0), outs = (\<lambda>_. [])\<rparr>"

lemma gpu_init_start: "gpu_init gpu_start"
  by (simp add: gpu_init_def gpu_start_def)

lemma gpu_reach_start: "reach gpu_init step gpu_start"
  by (rule reach_init) (rule gpu_init_start)

lemma torn_other [simp]: "torn b (Some (b', v)) = (if b' = b then Some (b, None) else Some (b', v))"
  by (simp add: torn_def)

lemma torn_None [simp]: "torn b None = None"
  by (simp add: torn_def)

lemma exec_pc: "exec add r c s = Some t \<Longrightarrow> pc t = pc s"
  by (cases c) (auto split: if_splits)

lemma read_value_Some [simp]: "reading s r = Some (b, v) \<Longrightarrow> read_value s r = v"
  by (simp add: read_value_def)

text \<open>A step lowers what is left by one, when the two streams are the only ones.\<close>

lemma gpu_left_step:
  assumes "gpu_step add progs s t" and "\<And>r. progs r \<noteq> [] \<Longrightarrow> r = 0 \<or> r = Suc 0"
  shows "gpu_left progs [0, 1] t < gpu_left progs [0, 1] s"
  using assms(1)
proof (cases rule: gpu_step.cases)
  case (gpu_step_exec r u)
  then have "progs r \<noteq> []" by auto
  then have "r = 0 \<or> r = Suc 0" by (rule assms(2))
  with gpu_step_exec show ?thesis by (elim disjE) (simp_all add: gpu_left_def)
qed

text \<open>A stream whose next command does not block gives a step of the machine.\<close>

lemma gpu_can_step:
  "pc s r < length (progs r) \<Longrightarrow> exec add r (progs r ! pc s r) s \<noteq> None \<Longrightarrow>
     \<exists>t. gpu_step add progs s t"
  by (auto intro: gpu_step_exec)

lemma exec_blocks: "exec add r c s = None \<longleftrightarrow> (\<exists>f v. c = WaitGe f v \<and> sem s f < v)"
  by (cases c) auto

section \<open>Positions in a stream of equal blocks\<close>

text \<open>
  Position \<open>k\<close> of block \<open>e\<close> is \<open>at_pos b e k\<close>; \<open>passed b k p\<close> counts the blocks whose first
  \<open>k\<close> commands have been executed at position \<open>p\<close>. The three readers of a position are opaque to
  the simplifier but for their value at \<open>at_pos\<close>, so the protocol proofs see no division.
\<close>

definition at_pos :: "nat \<Rightarrow> nat \<Rightarrow> nat \<Rightarrow> nat" where
  "at_pos b e k = b * e + k"

definition epoch_of :: "nat \<Rightarrow> nat \<Rightarrow> nat" where
  "epoch_of b p = p div b"

definition phase_of :: "nat \<Rightarrow> nat \<Rightarrow> nat" where
  "phase_of b p = p mod b"

definition passed :: "nat \<Rightarrow> nat \<Rightarrow> nat \<Rightarrow> nat" where
  "passed b k p = epoch_of b p + (if k \<le> phase_of b p then 1 else 0)"

lemma epoch_at [simp]: "k < b \<Longrightarrow> epoch_of b (at_pos b e k) = e"
  by (simp add: epoch_of_def at_pos_def)

lemma phase_at [simp]: "k < b \<Longrightarrow> phase_of b (at_pos b e k) = k"
  by (simp add: phase_of_def at_pos_def)

lemma at_pos_div: "k < b \<Longrightarrow> at_pos b e k div b = e"
  by (simp add: at_pos_def)

lemma at_pos_mod: "k < b \<Longrightarrow> at_pos b e k mod b = k"
  by (simp add: at_pos_def)

lemma at_pos_le: "k < b \<Longrightarrow> j < b \<Longrightarrow> at_pos b e k \<le> at_pos b f j \<Longrightarrow> e < f \<or> e = f \<and> k \<le> j"
  by (metis at_pos_def at_pos_div div_le_mono le_neq_implies_less nat_add_left_cancel_le)

lemma passed_at [simp]: "k < b \<Longrightarrow> passed b j (at_pos b e k) = (if j \<le> k then Suc e else e)"
  by (simp add: passed_def)

lemma passed_antimono: "j \<le> k \<Longrightarrow> passed b k p \<le> passed b j p"
  by (simp add: passed_def)

lemma passed_bounds: "epoch_of b p \<le> passed b k p" "passed b k p \<le> Suc (epoch_of b p)"
  by (simp_all add: passed_def)

lemma passed_phase: "passed b (Suc (phase_of b p)) p = epoch_of b p" "passed b (phase_of b p) p = Suc (epoch_of b p)"
  by (simp_all add: passed_def)

lemma Suc_at [simp]: "Suc (at_pos b e k) = at_pos b e (Suc k)"
  by (simp add: at_pos_def)

lemma at_wrap [simp]: "at_pos b e b = at_pos b (Suc e) 0"
  by (simp add: at_pos_def)

lemma at_cases:
  assumes "0 < b" obtains e k where "p = at_pos b e k" "k < b"
  using assms by (metis at_pos_def mod_less_divisor mult_div_mod_eq)

lemma at_less [simp]: "k < b \<Longrightarrow> at_pos b e k < b * n \<longleftrightarrow> e < n"
  by (metis (no_types) at_pos_def div_less_iff_less_mult epoch_at epoch_of_def gr_zeroI mult.commute not_less_zero)

lemma at_eq [simp]: "k < b \<Longrightarrow> at_pos b e k = b * n \<longleftrightarrow> e = n \<and> k = 0"
  by (metis add_0_right at_pos_def epoch_at gr_zeroI less_nat_zero_code phase_at)

lemma at_le [simp]: "k < b \<Longrightarrow> at_pos b e k \<le> b * n \<longleftrightarrow> e < n \<or> e = n \<and> k = 0"
  by (simp add: le_less)

lemma less_8_cases:
  "(k::nat) < 8 \<Longrightarrow> k = 0 \<or> k = 1 \<or> k = 2 \<or> k = 3 \<or> k = 4 \<or> k = 5 \<or> k = 6 \<or> k = 7"
  by arith

lemma passed_mono: "p \<le> q \<Longrightarrow> passed b k p \<le> passed b k q"
proof -
  assume "p \<le> q"
  then have "p div b < q div b \<or> p div b = q div b \<and> p mod b \<le> q mod b"
    by (metis div_le_mono le_neq_implies_less mult_div_mod_eq nat_add_left_cancel_le)
  then show ?thesis by (auto simp: passed_def epoch_of_def phase_of_def)
qed

section \<open>The interfaces of a two-stream protocol\<close>

text \<open>
  What a protocol theory has to supply about its two streams (numbers 0 and 1): an invariant, and
  that an unfinished state of the invariant can move. Absence of deadlock, termination of every
  schedule and existence of a completed run follow.
\<close>

locale two_stream_protocol =
  fixes add :: "'a \<Rightarrow> 'a \<Rightarrow> 'a"
    and progs :: "nat \<Rightarrow> 'a cmd list"
    and pinv :: "'a gpu \<Rightarrow> bool"
  assumes start: "gpu_init s \<Longrightarrow> pinv s"
    and keep: "pinv s \<Longrightarrow> gpu_step add progs s t \<Longrightarrow> pinv t"
    and moves: "pinv s \<Longrightarrow> \<not> gpu_done progs [0, 1] s \<Longrightarrow> \<exists>t. gpu_step add progs s t"
    and two: "progs r \<noteq> [] \<Longrightarrow> r = 0 \<or> r = Suc 0"

sublocale two_stream_protocol \<subseteq> progressing_system gpu_init "gpu_step add progs" pinv
  "gpu_left progs [0, 1]" "gpu_done progs [0, 1]"
proof unfold_locales
  fix s t :: "'a gpu"
  show "gpu_init s \<Longrightarrow> pinv s" by (rule start)
  show "pinv s \<Longrightarrow> gpu_step add progs s t \<Longrightarrow> pinv t" by (rule keep)
  show "gpu_step add progs s t \<Longrightarrow> gpu_left progs [0, 1] t < gpu_left progs [0, 1] s"
    by (rule gpu_left_step [OF _ two])
  show "pinv s \<Longrightarrow> \<not> gpu_done progs [0, 1] s \<Longrightarrow> \<exists>t. gpu_step add progs s t" by (rule moves)
qed

context two_stream_protocol
begin

lemma runs_bounded:
  assumes "reach gpu_init (gpu_step add progs) s" and "run_len (gpu_step add progs) n s t"
  shows "n \<le> length (progs 0) + length (progs 1)"
proof -
  have "n + gpu_left progs [0, 1] t \<le> gpu_left progs [0, 1] s"
    using assms(2) reach_inv [OF assms(1)] by (rule run_bounded)
  then show ?thesis by (simp add: gpu_left_def)
qed

lemma completes: "\<exists>s. reach gpu_init (gpu_step add progs) s \<and> gpu_done progs [0, 1] s"
  using always_finishes [OF gpu_reach_start] by (blast intro: reach_run gpu_reach_start)

lemma first_step:
  "progs 0 \<noteq> [] \<or> progs 1 \<noteq> [] \<Longrightarrow> \<exists>t. gpu_step add progs gpu_start t"
  using no_deadlock [OF gpu_reach_start]
  by (fastforce simp: gpu_done_def gpu_start_def simp del: length_0_conv)

end

text \<open>
  A collective in addition promises what the ranks obtain: its invariant fixes the outputs so far
  to be the sums of the first calls, and a drained stream has served every call.
\<close>

locale collective_protocol = two_stream_protocol +
  fixes calls :: "('a \<times> 'a) list"
    and served :: "nat \<Rightarrow> nat"
  assumes out0: "pinv s \<Longrightarrow> outs s 0 = map (\<lambda>(x, y). Some (add x y)) (take (served (pc s 0)) calls)"
    and out1: "pinv s \<Longrightarrow> outs s 1 = map (\<lambda>(x, y). Some (add y x)) (take (served (pc s 1)) calls)"
    and served_all: "r = 0 \<or> r = 1 \<Longrightarrow> length calls \<le> served (length (progs r))"
begin

lemma results:
  assumes "reach gpu_init (gpu_step add progs) s" and "gpu_done progs [0, 1] s"
  shows "outs s 0 = map (\<lambda>(x, y). Some (add x y)) calls \<and>
         outs s 1 = map (\<lambda>(x, y). Some (add y x)) calls"
  using assms(2) out0 [OF reach_inv [OF assms(1)]] out1 [OF reach_inv [OF assms(1)]]
    served_all [of 0] served_all [of 1]
  by (simp add: gpu_done_def)

lemma results_so_far:
  assumes "reach gpu_init (gpu_step add progs) s"
  shows "outs s 0 = map (\<lambda>(x, y). Some (add x y)) (take (length (outs s 0)) calls) \<and>
         outs s 1 = map (\<lambda>(x, y). Some (add y x)) (take (length (outs s 1)) calls)"
  using out0 [OF reach_inv [OF assms]] out1 [OF reach_inv [OF assms]]
  by (metis (no_types, lifting) length_map length_take min.cobounded2 take_all_iff take_map take_take
      linorder_le_cases min_def)

end

text \<open>Outputs indexed by call number are outputs mapped over a prefix of the calls.\<close>

lemma outs_zip:
  "m \<le> length calls \<Longrightarrow>
     map (\<lambda>i. Some (add (map fst calls ! i) (map snd calls ! i))) [0..<m] =
       map (\<lambda>(x, y). Some (add x y)) (take m calls)"
  "m \<le> length calls \<Longrightarrow>
     map (\<lambda>i. Some (add (map snd calls ! i) (map fst calls ! i))) [0..<m] =
       map (\<lambda>(x, y). Some (add y x)) (take m calls)"
  by (simp_all add: list_eq_iff_nth_eq case_prod_beta)

section \<open>Schedules\<close>

text \<open>Running a given schedule, the list of the streams that move.\<close>

fun gpu_schedule ::
  "('a \<Rightarrow> 'a \<Rightarrow> 'a) \<Rightarrow> (nat \<Rightarrow> 'a cmd list) \<Rightarrow> nat list \<Rightarrow> 'a gpu \<Rightarrow> 'a gpu option" where
  "gpu_schedule add progs [] s = Some s"
| "gpu_schedule add progs (r # rs) s =
     (if pc s r < length (progs r)
      then (case exec add r (progs r ! pc s r) s of
              None \<Rightarrow> None
            | Some t \<Rightarrow> gpu_schedule add progs rs (t\<lparr>pc := (pc s)(r := Suc (pc s r))\<rparr>))
      else None)"

lemma gpu_schedule_reach:
  "gpu_schedule add progs rs s = Some t \<Longrightarrow> reach gpu_init (gpu_step add progs) s \<Longrightarrow>
     reach gpu_init (gpu_step add progs) t"
  by (induction rs arbitrary: s) (auto split: if_splits option.splits intro: reach_step gpu_step_exec)

end
