(* ===== verification/D3d12_Protocol.thy ===== *)
theory D3d12_Protocol
  imports Gpu_Streams
begin

text \<open>
  The two-rank D3D12 collective as the GPUs see it. Each \<open>all_reduce\<close> call enqueues one block on
  the rank's stream (\<open>d3d12_all_reduce.py\<close>, lines 137-158): copy the local tensor into the own
  heap, signal the own fence with \<open>2 e - 1\<close>, wait for that value on the peer's fence, add the
  peer's heap to the local tensor, signal the peer's fence with \<open>2 e\<close>, wait for \<open>2 e\<close> on the own
  fence. Slot and semaphore \<open>r\<close> are the heap and the fence of rank \<open>r\<close>.

  The invariant is stated over the two stream positions: which phases of which epoch each rank can
  be in, that the value of a fence is the number of ready signals plus the number of consumption
  signals sent on it, what the heaps hold and what has been output.
\<close>

definition ready_value :: "nat \<Rightarrow> nat" where
  "ready_value epoch = epoch * 2 - 1"

definition consumed_value :: "nat \<Rightarrow> nat" where
  "consumed_value epoch = ready_value epoch + 1"

definition d3d12_block :: "nat \<Rightarrow> nat \<Rightarrow> 'a \<Rightarrow> 'a cmd list" where
  "d3d12_block rank epoch x =
     [StoreBegin rank, StoreEnd rank x,
      Signal rank (ready_value epoch),
      WaitGe (1 - rank) (ready_value epoch),
      ReadBegin (1 - rank), AddEnd x,
      Signal (1 - rank) (consumed_value epoch),
      WaitGe rank (consumed_value epoch)]"

definition d3d12_stream :: "nat \<Rightarrow> 'a list \<Rightarrow> 'a cmd list" where
  "d3d12_stream rank xs =
     concat (map (\<lambda>i. d3d12_block rank (Suc i) (xs ! i)) [0..<length xs])"

definition d3d12_progs :: "'a list \<Rightarrow> 'a list \<Rightarrow> nat \<Rightarrow> 'a cmd list" where
  "d3d12_progs xs ys r = (if r = 0 then d3d12_stream 0 xs else if r = 1 then d3d12_stream 1 ys else [])"

lemma length_d3d12_block [simp]: "length (d3d12_block r e x) = 8"
  by (simp add: d3d12_block_def)

text \<open>The block with the peer's rank named.\<close>

lemma d3d12_block_peer:
  "1 - r = q \<Longrightarrow> d3d12_block r (Suc e) x =
     [StoreBegin r, StoreEnd r x, Signal r (Suc (2 * e)), WaitGe q (Suc (2 * e)),
      ReadBegin q, AddEnd x, Signal q (2 * e + 2), WaitGe r (2 * e + 2)]"
  by (simp add: d3d12_block_def ready_value_def consumed_value_def)

lemma length_d3d12_stream [simp]: "length (d3d12_stream r xs) = 8 * length xs"
  by (simp add: d3d12_stream_def concat_blocks_length)

lemma d3d12_stream_at [simp]:
  "e < length xs \<Longrightarrow> k < 8 \<Longrightarrow>
     d3d12_stream r xs ! at_pos 8 e k = d3d12_block r (Suc e) (xs ! e) ! k"
  unfolding d3d12_stream_def
  by (subst concat_blocks_nth [where k = 8]) (simp_all add: at_pos_div at_pos_mod)

section \<open>The invariant\<close>

definition d3d12_order :: "nat \<Rightarrow> nat \<Rightarrow> bool" where
  "d3d12_order p q \<longleftrightarrow> passed 8 4 p \<le> passed 8 3 q \<and> epoch_of 8 p \<le> passed 8 7 q"

definition d3d12_half :: "('a \<Rightarrow> 'a \<Rightarrow> 'a) \<Rightarrow> 'a list \<Rightarrow> 'a list \<Rightarrow> 'a gpu \<Rightarrow> nat \<Rightarrow> nat \<Rightarrow> bool" where
  "d3d12_half add xs ys s r q \<longleftrightarrow>
     pc s r \<le> 8 * length xs \<and>
     sem s r = passed 8 3 (pc s r) + passed 8 7 (pc s q) \<and>
     (phase_of 8 (pc s r) \<noteq> 1 \<and> passed 8 2 (pc s r) \<noteq> 0 \<longrightarrow>
        mem s r = Some (xs ! (passed 8 2 (pc s r) - 1))) \<and>
     (phase_of 8 (pc s r) = 5 \<longrightarrow> reading s r = Some (q, Some (ys ! epoch_of 8 (pc s r)))) \<and>
     outs s r = map (\<lambda>i. Some (add (xs ! i) (ys ! i))) [0..<passed 8 6 (pc s r)]"

definition d3d12_inv :: "('a \<Rightarrow> 'a \<Rightarrow> 'a) \<Rightarrow> 'a list \<Rightarrow> 'a list \<Rightarrow> 'a gpu \<Rightarrow> bool" where
  "d3d12_inv add xs ys s \<longleftrightarrow>
     d3d12_order (pc s 0) (pc s 1) \<and> d3d12_order (pc s 1) (pc s 0) \<and>
     d3d12_half add xs ys s 0 1 \<and> d3d12_half add ys xs s 1 0"

lemma d3d12_inv_init: "gpu_init s \<Longrightarrow> d3d12_inv add xs ys s"
  by (simp add: gpu_init_def d3d12_inv_def d3d12_order_def d3d12_half_def passed_def epoch_of_def phase_of_def)


text \<open>The progress counts of a position, in the order the phases come.\<close>

lemma passed_chain:
  "epoch_of 8 q \<le> passed 8 7 q" "passed 8 7 q \<le> passed 8 4 q" "passed 8 4 q \<le> passed 8 3 q"
  "passed 8 3 q \<le> passed 8 2 q" "passed 8 2 q \<le> Suc (epoch_of 8 q)"
  "phase_of 8 q = 5 \<Longrightarrow> passed 8 4 q = Suc (epoch_of 8 q) \<and> passed 8 7 q = epoch_of 8 q"
  "phase_of 8 q = 1 \<Longrightarrow> passed 8 3 q = epoch_of 8 q"
  by (simp_all add: passed_def)

text \<open>One command of rank \<open>r\<close>, in epoch \<open>e\<close> and phase \<open>k\<close>, keeps both halves.\<close>

lemma d3d12_half_step:
  assumes rq: "r = 0 \<and> q = 1 \<or> r = 1 \<and> q = (0::nat)"
    and len: "length xs = length ys"
    and ord: "d3d12_order (pc s r) (pc s q)" "d3d12_order (pc s q) (pc s r)"
    and half: "d3d12_half add xs ys s r q" "d3d12_half add ys xs s q r"
    and lt: "pc s r < 8 * length xs"
    and ex: "exec add r (d3d12_stream r xs ! pc s r) s = Some u"
    and t: "t = u\<lparr>pc := (pc s)(r := Suc (pc s r))\<rparr>"
  shows "d3d12_order (pc t r) (pc t q) \<and> d3d12_order (pc t q) (pc t r) \<and>
         d3d12_half add xs ys t r q \<and> d3d12_half add ys xs t q r"
proof -
  obtain e k where p: "pc s r = at_pos 8 e k" "k < 8" by (rule at_cases [of 8]) auto
  from lt p have e: "e < length xs" by simp
  have q: "q \<noteq> r" using rq by auto
  have ex': "exec add r ([StoreBegin r, StoreEnd r (xs ! e), Signal r (Suc (2 * e)),
      WaitGe q (Suc (2 * e)), ReadBegin q, AddEnd (xs ! e), Signal q (2 * e + 2),
      WaitGe r (2 * e + 2)] ! k) s = Some u"
    using ex p e d3d12_block_peer [of r q e "xs ! e"] rq by (elim disjE) simp_all
  note c = passed_chain [of "pc s q"]
  have five: "k = 0 \<longrightarrow> phase_of 8 (pc s q) \<noteq> 5"
    using c(6) ord p by (auto simp: d3d12_order_def split: if_splits)
  have "mem s q = Some (ys ! e)" if "k = 4"
  proof -
    have "phase_of 8 (pc s q) \<noteq> 1" and "passed 8 2 (pc s q) = Suc e"
      using that c ord p by (auto simp: d3d12_order_def)
    with half(2) show ?thesis by (simp add: d3d12_half_def)
  qed
  then have four: "k = 4 \<longrightarrow> mem s q = Some (ys ! e)" by blast
  show ?thesis using less_8_cases [OF p(2)]
    by (elim disjE; use len ord half p(1) e ex' t q five four c(1-5) in
        \<open>clarsimp simp: d3d12_order_def d3d12_half_def split: if_split_asm\<close>)
qed

lemma d3d12_inv_step:
  assumes "length xs = length ys" and "d3d12_inv add xs ys s"
    and "gpu_step add (d3d12_progs xs ys) s t"
  shows "d3d12_inv add xs ys t"
  using assms(3)
proof (cases rule: gpu_step.cases)
  case (gpu_step_exec r u)
  then have "r = 0 \<or> r = 1" by (auto simp: d3d12_progs_def split: if_splits)
  then show ?thesis
  proof
    assume "r = 0"
    with gpu_step_exec assms(1,2) show ?thesis
      using d3d12_half_step [of 0 1 xs ys s add u t]
      by (simp add: d3d12_inv_def d3d12_progs_def)
  next
    assume "r = 1"
    with gpu_step_exec assms(1,2) show ?thesis
      using d3d12_half_step [of 1 0 ys xs s add u t]
      by (simp add: d3d12_inv_def d3d12_progs_def)
  qed
qed

text \<open>The rank that is not ahead is never blocked.\<close>

lemma d3d12_behind_moves:
  assumes rq: "r = 0 \<and> q = 1 \<or> r = 1 \<and> q = (0::nat)"
    and half: "d3d12_half add xs ys s r q" "d3d12_half add ys xs s q r"
    and lt: "pc s r < 8 * length xs" and behind: "pc s r \<le> pc s q"
  shows "exec add r (d3d12_stream r xs ! pc s r) s \<noteq> None"
proof -
  obtain e k where p: "pc s r = at_pos 8 e k" "k < 8" by (rule at_cases [of 8]) auto
  obtain f j where pq: "pc s q = at_pos 8 f j" "j < 8" by (rule at_cases [of 8]) auto
  have q: "1 - r = q" using rq by auto
  from behind p pq have ef: "e < f \<or> e = f \<and> k \<le> j"
    by (auto dest: at_pos_le [rotated 2])
  from lt p have e: "e < length xs" by simp
  show ?thesis using less_8_cases [OF p(2)] half e p pq q ef
    by (elim disjE; clarsimp simp: d3d12_block_def d3d12_half_def ready_value_def
        consumed_value_def passed_def split: if_splits)
qed

lemma d3d12_progress:
  assumes len: "length xs = length ys" and inv: "d3d12_inv add xs ys s"
    and nd: "\<not> gpu_done (d3d12_progs xs ys) [0, 1] s"
  shows "\<exists>t. gpu_step add (d3d12_progs xs ys) s t"
proof (cases "pc s 0 \<le> pc s 1")
  case True
  with len inv nd have "pc s 0 < 8 * length xs"
    by (auto simp: d3d12_inv_def d3d12_half_def gpu_done_def d3d12_progs_def)
  with True inv show ?thesis
    by (intro gpu_can_step [of s 0])
       (simp_all add: d3d12_progs_def d3d12_inv_def d3d12_behind_moves [of 0 1 _ _ ys, simplified])
next
  case False
  with len inv nd have "pc s 1 < 8 * length ys"
    by (auto simp: d3d12_inv_def d3d12_half_def gpu_done_def d3d12_progs_def)
  with False inv show ?thesis
    by (intro gpu_can_step [of s 1])
       (simp_all add: d3d12_progs_def d3d12_inv_def d3d12_behind_moves [of 1 0 _ _ xs, simplified])
qed

section \<open>The protocol as a progressing system\<close>

text \<open>
  Both ranks make the same sequence of collective calls, so a run is given by the list of the
  payload pairs: element \<open>i\<close> holds what rank 0 and what rank 1 pass to call \<open>i\<close>.
\<close>

abbreviation d3d12_run :: "('a \<times> 'a) list \<Rightarrow> nat \<Rightarrow> 'a cmd list" where
  "d3d12_run calls \<equiv> d3d12_progs (map fst calls) (map snd calls)"

abbreviation d3d12_reach :: "('a \<Rightarrow> 'a \<Rightarrow> 'a) \<Rightarrow> ('a \<times> 'a) list \<Rightarrow> 'a gpu \<Rightarrow> bool" where
  "d3d12_reach add calls \<equiv> reach gpu_init (gpu_step add (d3d12_run calls))"

lemma d3d12_served: "p \<le> 8 * n \<Longrightarrow> passed 8 6 p \<le> n"
  using passed_mono [of p "8 * n" 8 6] by (simp add: passed_def epoch_of_def phase_of_def)

lemma d3d12_inv_outs:
  assumes "d3d12_inv add (map fst calls) (map snd calls) s"
  shows "outs s 0 = map (\<lambda>(x, y). Some (add x y)) (take (passed 8 6 (pc s 0)) calls)"
    and "outs s 1 = map (\<lambda>(x, y). Some (add y x)) (take (passed 8 6 (pc s 1)) calls)"
proof -
  from assms have h: "d3d12_half add (map fst calls) (map snd calls) s 0 1"
    "d3d12_half add (map snd calls) (map fst calls) s 1 0"
    by (simp_all add: d3d12_inv_def)
  then have "passed 8 6 (pc s 0) \<le> length calls" "passed 8 6 (pc s 1) \<le> length calls"
    by (auto simp: d3d12_half_def intro: d3d12_served)
  with h show "outs s 0 = map (\<lambda>(x, y). Some (add x y)) (take (passed 8 6 (pc s 0)) calls)"
    and "outs s 1 = map (\<lambda>(x, y). Some (add y x)) (take (passed 8 6 (pc s 1)) calls)"
    unfolding d3d12_half_def by (simp_all only: outs_zip)
qed

interpretation d3d12: collective_protocol add "d3d12_run calls"
  "d3d12_inv add (map fst calls) (map snd calls)" calls "passed 8 6"
  for add :: "'a \<Rightarrow> 'a \<Rightarrow> 'a" and calls :: "('a \<times> 'a) list"
proof unfold_locales
  fix s t :: "'a gpu" and r
  show "gpu_init s \<Longrightarrow> d3d12_inv add (map fst calls) (map snd calls) s"
    by (rule d3d12_inv_init)
  show "d3d12_inv add (map fst calls) (map snd calls) s \<Longrightarrow> gpu_step add (d3d12_run calls) s t \<Longrightarrow>
      d3d12_inv add (map fst calls) (map snd calls) t"
    by (rule d3d12_inv_step) simp_all
  show "d3d12_inv add (map fst calls) (map snd calls) s \<Longrightarrow>
      \<not> gpu_done (d3d12_run calls) [0, 1] s \<Longrightarrow> \<exists>t. gpu_step add (d3d12_run calls) s t"
    by (rule d3d12_progress) simp_all
  show "d3d12_run calls r \<noteq> [] \<Longrightarrow> r = 0 \<or> r = Suc 0"
    by (simp add: d3d12_progs_def split: if_splits)
  show "d3d12_inv add (map fst calls) (map snd calls) s \<Longrightarrow>
      outs s 0 = map (\<lambda>(x, y). Some (add x y)) (take (passed 8 6 (pc s 0)) calls)"
    by (rule d3d12_inv_outs)
  show "d3d12_inv add (map fst calls) (map snd calls) s \<Longrightarrow>
      outs s 1 = map (\<lambda>(x, y). Some (add y x)) (take (passed 8 6 (pc s 1)) calls)"
    by (rule d3d12_inv_outs)
  show "r = 0 \<or> r = 1 \<Longrightarrow> length calls \<le> passed 8 6 (length (d3d12_run calls r))"
    by (auto simp: d3d12_progs_def passed_def epoch_of_def phase_of_def)
qed

section \<open>What the two ranks obtain\<close>

text \<open>C1: for every schedule of the two GPU streams, when both have drained, the \<open>i\<close>-th collective of
  rank 0 returned its own payload plus rank 1's payload of the same call, and symmetrically for
  rank 1; no result is missing, torn or taken from another epoch.\<close>

theorem d3d12_collectives_correct:
  assumes "d3d12_reach add calls s" and "gpu_done (d3d12_run calls) [0, 1] s"
  shows "outs s 0 = map (\<lambda>(x, y). Some (add x y)) calls \<and>
         outs s 1 = map (\<lambda>(x, y). Some (add y x)) calls"
  using assms by (rule d3d12.results)

lemma d3d12_collectives_correct_witness:
  "\<exists>s. gpu_done (d3d12_run [(1::nat, 2), (3, 4)]) [0, 1] s \<and>
       outs s 0 = [Some 3, Some 7] \<and> outs s 1 = [Some 3, Some 7]"
  using d3d12.completes [of "(+)" "[(1::nat, 2), (3, 4)]"]
    d3d12_collectives_correct [of "(+)" "[(1::nat, 2), (3, 4)]"] by fastforce

lemma d3d12_start_step: "\<exists>t. gpu_step (+) (d3d12_run [(1::nat, 2)]) gpu_start t"
  by (rule d3d12.first_step) (simp add: d3d12_progs_def d3d12_stream_def d3d12_block_def)

text \<open>C4: no interleaving of the two streams deadlocks or runs for ever: from every reachable state
  either both streams have drained or some command can execute, and at most sixteen commands per
  collective are executed.\<close>

theorem d3d12_no_deadlock:
  assumes "d3d12_reach add calls s"
  shows "(gpu_done (d3d12_run calls) [0, 1] s \<or> (\<exists>t. gpu_step add (d3d12_run calls) s t)) \<and>
         (\<forall>n t. run_len (gpu_step add (d3d12_run calls)) n s t \<longrightarrow> n \<le> 16 * length calls)"
  using d3d12.no_deadlock [OF assms] d3d12.runs_bounded [OF assms]
  by (fastforce simp: d3d12_progs_def)

lemma d3d12_no_deadlock_witness:
  "\<exists>t. gpu_step (+) (d3d12_run [(1::nat, 2)]) gpu_start t"
  using d3d12_no_deadlock [OF gpu_reach_start, where add = "(+)" and calls = "[(1::nat, 2)]"]
    d3d12_start_step by blast

text \<open>The timeline fences only move forward, one value at a time: each executed command leaves
  every fence unchanged or raises it by exactly one, and no fence exceeds twice the number of
  collectives.\<close>

lemma d3d12_fences_monotone:
  assumes "d3d12_reach add calls s" and "gpu_step add (d3d12_run calls) s t" and "r \<in> {0, 1}"
  shows "(sem t r = sem s r \<or> sem t r = Suc (sem s r)) \<and> sem t r \<le> 2 * length calls"
proof -
  have inv: "d3d12_inv add (map fst calls) (map snd calls) s"
    using assms(1) by (rule d3d12.reach_inv)
  have inv': "d3d12_inv add (map fst calls) (map snd calls) t"
    using inv assms(2) by (rule d3d12.step_inv)
  from assms(2) show ?thesis
  proof (cases rule: gpu_step.cases)
    case (gpu_step_exec q u)
    have sem: "sem s' r = passed 8 3 (pc s' r) + passed 8 7 (pc s' (1 - r))"
      and le: "pc s' r \<le> 8 * length calls" "pc s' (1 - r) \<le> 8 * length calls"
      if "d3d12_inv add (map fst calls) (map snd calls) s'" for s'
      using that assms(3) by (auto simp: d3d12_inv_def d3d12_half_def)
    have one: "passed 8 3 (Suc p) = passed 8 3 p \<and> passed 8 7 (Suc p) = passed 8 7 p \<or>
        passed 8 3 (Suc p) = Suc (passed 8 3 p) \<and> passed 8 7 (Suc p) = passed 8 7 p \<or>
        passed 8 3 (Suc p) = passed 8 3 p \<and> passed 8 7 (Suc p) = Suc (passed 8 7 p)" for p
    proof -
      obtain e k where "p = at_pos 8 e k" "k < 8" by (rule at_cases [of 8]) auto
      then show ?thesis using less_8_cases [OF \<open>k < 8\<close>] by (elim disjE) (simp_all add: passed_def)
    qed
    have top: "passed 8 k p \<le> n" if "p \<le> 8 * n" "0 < k" for p n k
      using passed_mono [OF that(1), of 8 k] that(2) by (simp add: passed_def epoch_of_def phase_of_def)
    have "sem t r = sem s r \<or> sem t r = Suc (sem s r)"
      using one [of "pc s q"] sem [OF inv] sem [OF inv'] gpu_step_exec(1) assms(3)
      by (cases "q = r"; cases "q = 1 - r") auto
    moreover have "sem t r \<le> 2 * length calls"
      using top [OF le(1) [OF inv'], of 3] top [OF le(2) [OF inv'], of 7] sem [OF inv'] by simp
    ultimately show ?thesis by simp
  qed
qed

lemma d3d12_fences_monotone_witness:
  "\<exists>t. gpu_step (+) (d3d12_run [(1::nat, 2)]) gpu_start t \<and> sem t 0 \<le> 2"
proof -
  obtain t where "gpu_step (+) (d3d12_run [(1::nat, 2)]) gpu_start t"
    using d3d12_start_step by blast
  with d3d12_fences_monotone [OF gpu_reach_start this, of 0] show ?thesis by auto
qed

end
