(* ===== verification/Bridge_Protocol.thy ===== *)
theory Bridge_Protocol
  imports D3d12_Protocol
begin

text \<open>
  The single-process tensor bridge as its two streams see it (\<open>d3d12_transfer.py\<close>, lines 91-119).
  Stream 0 belongs to the source GPU, stream 1 to the destination GPU; both sides of the bridge map
  the same heap (slot 0) and the same timeline fence (semaphore 0).
\<close>

definition source_block :: "nat \<Rightarrow> 'a \<Rightarrow> 'a cmd list" where
  "source_block epoch x =
     [StoreBegin 0, StoreEnd 0 x, Signal 0 (ready_value epoch), WaitGe 0 (consumed_value epoch)]"

definition destination_block :: "nat \<Rightarrow> 'a cmd list" where
  "destination_block epoch =
     [WaitGe 0 (ready_value epoch), ReadBegin 0, LoadEnd, Signal 0 (consumed_value epoch)]"

definition bridge_progs :: "'a list \<Rightarrow> nat \<Rightarrow> 'a cmd list" where
  "bridge_progs xs r =
     (if r = 0 then concat (map (\<lambda>i. source_block (Suc i) (xs ! i)) [0..<length xs])
      else if r = 1 then concat (map (\<lambda>i. destination_block (Suc i)) [0..<length xs])
      else [])"

lemma length_bridge_progs: "r = 0 \<or> r = 1 \<Longrightarrow> length (bridge_progs xs r) = 4 * length xs"
  by (auto simp: bridge_progs_def concat_blocks_length source_block_def destination_block_def)

lemma bridge_source_at:
  "e < length xs \<Longrightarrow> k < 4 \<Longrightarrow> bridge_progs xs 0 ! at_pos 4 e k = source_block (Suc e) (xs ! e) ! k"
  by (simp add: bridge_progs_def)
     (subst concat_blocks_nth [where k = 4]; simp add: at_pos_div at_pos_mod source_block_def)

lemma bridge_destination_at:
  "e < length xs \<Longrightarrow> k < 4 \<Longrightarrow> bridge_progs xs (Suc 0) ! at_pos 4 e k = destination_block (Suc e) ! k"
  by (simp add: bridge_progs_def)
     (subst concat_blocks_nth [where k = 4]; simp add: at_pos_div at_pos_mod destination_block_def)

lemma less_4_cases: "(k::nat) < 4 \<Longrightarrow> k = 0 \<or> k = 1 \<or> k = 2 \<or> k = 3"
  by arith

definition bridge_inv :: "'a list \<Rightarrow> 'a gpu \<Rightarrow> bool" where
  "bridge_inv xs s \<longleftrightarrow>
     pc s 0 \<le> 4 * length xs \<and> pc s 1 \<le> 4 * length xs \<and>
     epoch_of 4 (pc s 0) \<le> epoch_of 4 (pc s 1) \<and> passed 4 1 (pc s 1) \<le> passed 4 3 (pc s 0) \<and>
     sem s 0 = passed 4 3 (pc s 0) + epoch_of 4 (pc s 1) \<and>
     (phase_of 4 (pc s 0) \<noteq> 1 \<and> passed 4 2 (pc s 0) \<noteq> 0 \<longrightarrow>
        mem s 0 = Some (xs ! (passed 4 2 (pc s 0) - 1))) \<and>
     (phase_of 4 (pc s 1) = 2 \<longrightarrow> reading s 1 = Some (0, Some (xs ! epoch_of 4 (pc s 1)))) \<and>
     outs s 1 = map (\<lambda>i. Some (xs ! i)) [0..<passed 4 3 (pc s 1)]"

lemma bridge_inv_init: "gpu_init s \<Longrightarrow> bridge_inv xs s"
  by (simp add: gpu_init_def bridge_inv_def passed_def epoch_of_def phase_of_def)

lemma bridge_chain:
  "epoch_of 4 q \<le> passed 4 3 q" "passed 4 3 q \<le> passed 4 2 q" "passed 4 2 q \<le> passed 4 1 q"
  "passed 4 1 q \<le> Suc (epoch_of 4 q)"
  "phase_of 4 q = 2 \<Longrightarrow> passed 4 1 q = Suc (epoch_of 4 q)"
  "phase_of 4 q = 1 \<Longrightarrow> passed 4 3 q = epoch_of 4 q"
  by (simp_all add: passed_def)

lemma bridge_source_step:
  assumes inv: "bridge_inv xs s" and lt: "pc s 0 < 4 * length xs"
    and ex: "exec add 0 (bridge_progs xs 0 ! pc s 0) s = Some u"
  shows "bridge_inv xs (u\<lparr>pc := (pc s)(0 := Suc (pc s 0))\<rparr>)"
proof -
  obtain e k where p: "pc s 0 = at_pos 4 e k" "k < 4" by (rule at_cases [of 4]) auto
  from lt p have e: "e < length xs" by simp
  note c = bridge_chain [of "pc s 1"]
  have zero: "k = 0 \<longrightarrow> phase_of 4 (pc s 1) \<noteq> 2"
    using c(5) inv p by (auto simp: bridge_inv_def)
  have ex': "exec add 0 (source_block (Suc e) (xs ! e) ! k) s = Some u"
    using ex p e by (simp add: bridge_source_at)
  show ?thesis using less_4_cases [OF p(2)]
    by (elim disjE; use inv p(1) e ex' zero c(1-4) in
        \<open>clarsimp simp: source_block_def bridge_inv_def ready_value_def consumed_value_def
          split: if_split_asm\<close>)
qed

lemma bridge_destination_step:
  assumes inv: "bridge_inv xs s" and lt: "pc s 1 < 4 * length xs"
    and ex: "exec add 1 (bridge_progs xs 1 ! pc s 1) s = Some u"
  shows "bridge_inv xs (u\<lparr>pc := (pc s)(1 := Suc (pc s 1))\<rparr>)"
proof -
  obtain f j where p: "pc s 1 = at_pos 4 f j" "j < 4" by (rule at_cases [of 4]) auto
  from lt p have f: "f < length xs" by simp
  note c = bridge_chain [of "pc s 0"]
  have "mem s 0 = Some (xs ! f)" if "j = 1"
  proof -
    have "phase_of 4 (pc s 0) \<noteq> 1" and "passed 4 2 (pc s 0) = Suc f"
      using that c inv p by (auto simp: bridge_inv_def)
    with inv show ?thesis by (simp add: bridge_inv_def)
  qed
  then have one: "j = 1 \<longrightarrow> mem s 0 = Some (xs ! f)" by blast
  have ex': "exec add 1 (destination_block (Suc f) ! j) s = Some u"
    using ex p f by (simp add: bridge_destination_at)
  show ?thesis using less_4_cases [OF p(2)]
    by (elim disjE; use inv p(1) f ex' one c(1-4) in
        \<open>clarsimp simp: destination_block_def bridge_inv_def ready_value_def consumed_value_def
          split: if_split_asm\<close>)
qed

lemma bridge_inv_step:
  assumes "bridge_inv xs s" and "gpu_step add (bridge_progs xs) s t"
  shows "bridge_inv xs t"
  using assms(2)
proof (cases rule: gpu_step.cases)
  case (gpu_step_exec r u)
  then have "r = 0 \<or> r = 1" by (auto simp: bridge_progs_def split: if_splits)
  then show ?thesis
  proof
    assume r: "r = 0"
    with gpu_step_exec have "pc s 0 < 4 * length xs" by (simp add: length_bridge_progs)
    from bridge_source_step [OF assms(1) this] gpu_step_exec r show ?thesis by simp
  next
    assume r: "r = 1"
    with gpu_step_exec have "pc s 1 < 4 * length xs" by (simp add: length_bridge_progs)
    from bridge_destination_step [OF assms(1) this] gpu_step_exec r show ?thesis by simp
  qed
qed

text \<open>Either the source can move, or it waits for the destination, which then can.\<close>

lemma bridge_destination_moves:
  assumes inv: "bridge_inv xs s" and lt: "pc s 1 < 4 * length xs"
    and ahead: "epoch_of 4 (pc s 1) < passed 4 3 (pc s 0)"
  shows "exec add 1 (bridge_progs xs 1 ! pc s 1) s \<noteq> None"
proof -
  obtain f j where p: "pc s (Suc 0) = at_pos 4 f j" "j < 4" by (rule at_cases [of 4]) auto
  from lt p have f: "f < length xs" by simp
  have sem: "sem s 0 = passed 4 3 (pc s 0) + f" using inv p by (simp add: bridge_inv_def)
  have ahead': "Suc f \<le> passed 4 3 (pc s 0)" using ahead p by simp
  show ?thesis using less_4_cases [OF p(2)]
    by (elim disjE; use ahead' in \<open>simp add: p(1) f sem bridge_destination_at [of f xs]
        destination_block_def ready_value_def consumed_value_def\<close>)
qed

lemma bridge_progress:
  assumes inv: "bridge_inv xs s" and nd: "\<not> gpu_done (bridge_progs xs) [0, 1] s"
  shows "\<exists>t. gpu_step add (bridge_progs xs) s t"
proof -
  obtain e k where p: "pc s 0 = at_pos 4 e k" "k < 4" by (rule at_cases [of 4]) auto
  obtain f j where q: "pc s 1 = at_pos 4 f j" "j < 4" by (rule at_cases [of 4]) auto
  have ef: "e \<le> f" and sem: "sem s 0 = passed 4 3 (pc s 0) + f"
    and le: "pc s 0 \<le> 4 * length xs" "pc s 1 \<le> 4 * length xs"
    using inv p q by (simp_all add: bridge_inv_def)
  show ?thesis
  proof (cases "pc s 0 < 4 * length xs \<and> (k = 3 \<longrightarrow> e < f)")
    case True
    with p have e: "e < length xs" by simp
    from True less_4_cases [OF p(2)] have "exec add 0 (bridge_progs xs 0 ! pc s 0) s \<noteq> None"
      by (elim disjE)
         (simp_all add: p e sem bridge_source_at source_block_def ready_value_def consumed_value_def)
    with True show ?thesis by (intro gpu_can_step [of s 0]) (simp_all add: length_bridge_progs)
  next
    case False
    have "pc s 1 < 4 * length xs \<and> epoch_of 4 (pc s 1) < passed 4 3 (pc s 0)"
    proof (cases "pc s 0 < 4 * length xs")
      case True
      with False p q ef show ?thesis by auto
    next
      case fin: False
      with le p have "e = length xs" "k = 0" by auto
      with ef q le have "pc s 1 = 4 * length xs" by simp
      with fin le nd show ?thesis by (simp add: gpu_done_def length_bridge_progs)
    qed
    with bridge_destination_moves [OF inv, of add] show ?thesis
      by (intro gpu_can_step [of s 1]) (simp_all add: length_bridge_progs)
  qed
qed

interpretation bridge: two_stream_protocol add "bridge_progs xs" "bridge_inv xs"
  for add :: "'a \<Rightarrow> 'a \<Rightarrow> 'a" and xs :: "'a list"
proof unfold_locales
  fix s t :: "'a gpu" and r
  show "gpu_init s \<Longrightarrow> bridge_inv xs s" by (rule bridge_inv_init)
  show "bridge_inv xs s \<Longrightarrow> gpu_step add (bridge_progs xs) s t \<Longrightarrow> bridge_inv xs t"
    by (rule bridge_inv_step)
  show "bridge_inv xs s \<Longrightarrow> \<not> gpu_done (bridge_progs xs) [0, 1] s \<Longrightarrow>
      \<exists>t. gpu_step add (bridge_progs xs) s t"
    by (rule bridge_progress)
  show "bridge_progs xs r \<noteq> [] \<Longrightarrow> r = 0 \<or> r = Suc 0"
    by (simp add: bridge_progs_def split: if_splits)
qed

lemma bridge_results:
  assumes "reach gpu_init (gpu_step add (bridge_progs xs)) s"
  shows "gpu_done (bridge_progs xs) [0, 1] s \<longrightarrow> outs s 1 = map Some xs"
proof -
  have "bridge_inv xs s" using assms by (rule bridge.reach_inv)
  then have "outs s 1 = map (\<lambda>i. Some (xs ! i)) [0..<passed 4 3 (pc s 1)]"
    by (simp add: bridge_inv_def)
  moreover have "passed 4 3 (4 * length xs) = length xs"
    by (simp add: passed_def epoch_of_def phase_of_def)
  moreover have "map (\<lambda>i. Some (xs ! i)) [0..<length xs] = map Some xs"
    by (rule nth_equalityI) simp_all
  ultimately show ?thesis
    by (metis gpu_done_def length_bridge_progs list.set_intros(1) list.set_intros(2))
qed

text \<open>C3: the tensor bridge delivers, for every schedule of the source and the destination stream and in
  the order of the calls, exactly the tensors that were sent, each complete; it never deadlocks and
  executes at most eight commands per transfer.\<close>

theorem bridge_delivers:
  assumes "reach gpu_init (gpu_step add (bridge_progs xs)) s"
  shows "(gpu_done (bridge_progs xs) [0, 1] s \<longrightarrow> outs s 1 = map Some xs) \<and>
         (gpu_done (bridge_progs xs) [0, 1] s \<or> (\<exists>t. gpu_step add (bridge_progs xs) s t)) \<and>
         (\<forall>n t. run_len (gpu_step add (bridge_progs xs)) n s t \<longrightarrow> n \<le> 8 * length xs)"
proof (intro conjI)
  show "gpu_done (bridge_progs xs) [0, 1] s \<longrightarrow> outs s 1 = map Some xs"
    using assms by (rule bridge_results)
  show "gpu_done (bridge_progs xs) [0, 1] s \<or> (\<exists>t. gpu_step add (bridge_progs xs) s t)"
    using assms by (rule bridge.no_deadlock)
  show "\<forall>n t. run_len (gpu_step add (bridge_progs xs)) n s t \<longrightarrow> n \<le> 8 * length xs"
    using bridge.runs_bounded [OF assms] by (fastforce simp: length_bridge_progs)
qed

lemma bridge_delivers_witness:
  "\<exists>s. gpu_done (bridge_progs [5::nat, 6]) [0, 1] s \<and> outs s 1 = [Some 5, Some 6]"
  using bridge.completes [of "(+)" "[5::nat, 6]"] bridge_delivers [of "(+)" "[5::nat, 6]"]
  by fastforce

end
