(* ===== verification/Byte_Order.thy ===== *)
theory Byte_Order
  imports Main
begin

text \<open>
  Little-endian integers as \<open>struct\<close> packs and unpacks them: a list of bytes, the least significant one first.
\<close>

fun le_value :: "nat list \<Rightarrow> nat" where
  "le_value [] = 0"
| "le_value (b # bs) = b + 256 * le_value bs"

fun le_bytes :: "nat \<Rightarrow> nat \<Rightarrow> nat list" where
  "le_bytes 0 n = []"
| "le_bytes (Suc k) n = (n mod 256) # le_bytes k (n div 256)"

lemma le_bytes_length [simp]: "length (le_bytes k n) = k"
  by (induction k arbitrary: n) simp_all

lemma le_value_bytes: "n < 256 ^ k \<Longrightarrow> le_value (le_bytes k n) = n"
  by (induction k arbitrary: n) (simp_all add: less_mult_imp_div_less mult.commute)

lemma le_value_append: "le_value (bs @ cs) = le_value bs + 256 ^ length bs * le_value cs"
  by (induction bs) (simp_all add: algebra_simps)

end
