(* ===== verification/Py_Text.thy ===== *)
theory Py_Text
  imports Prelude "HOL-Library.Char_ord"
begin

text \<open>
  The part of Python's text handling the sources use: \<open>str\<close> of an integer in f-strings, \<open>int\<close> of
  an environment value, \<open>lower\<close>, \<open>strip\<close>, and membership in the set of truthy words that switches
  every optional transport on. Strings are lists of bytes; \<open>lower\<close> and \<open>strip\<close> act on ASCII.
\<close>

section \<open>Integers as text\<close>

definition digit_char :: "nat \<Rightarrow> char" where
  "digit_char d = char_of (48 + d)"

fun py_str_nat :: "nat \<Rightarrow> string" where
  "py_str_nat n = (if n < 10 then [digit_char n] else py_str_nat (n div 10) @ [digit_char (n mod 10)])"

declare py_str_nat.simps [simp del]

definition py_str :: "int \<Rightarrow> string" where
  "py_str i = (if i < 0 then CHR ''-'' # py_str_nat (nat (- i)) else py_str_nat (nat i))"

text \<open>\<open>int(text)\<close>: surrounding blanks, one sign, digits with single underscores between them.\<close>

definition is_space :: "char \<Rightarrow> bool" where
  "is_space c \<longleftrightarrow> c = CHR '' '' \<or> (9 \<le> (of_char c :: nat) \<and> (of_char c :: nat) \<le> 13)
     \<or> (28 \<le> (of_char c :: nat) \<and> (of_char c :: nat) \<le> 31)"

definition py_strip :: "string \<Rightarrow> string" where
  "py_strip s = rev (dropWhile is_space (rev (dropWhile is_space s)))"

definition digit_value :: "char \<Rightarrow> nat option" where
  "digit_value c = (if 48 \<le> (of_char c :: nat) \<and> (of_char c :: nat) \<le> 57
     then Some (of_char c - 48) else None)"

fun py_digits :: "nat \<Rightarrow> string \<Rightarrow> nat option" where
  "py_digits acc [] = Some acc"
| "py_digits acc (c # cs) =
     (case digit_value c of
        Some d \<Rightarrow> py_digits (10 * acc + d) cs
      | None \<Rightarrow> if c = CHR ''_'' then
            (case cs of [] \<Rightarrow> None
             | d # ds \<Rightarrow> (case digit_value d of None \<Rightarrow> None | Some v \<Rightarrow> py_digits (10 * acc + v) ds))
          else None)"

definition py_nat :: "string \<Rightarrow> nat option" where
  "py_nat s = (case s of [] \<Rightarrow> None
     | c # cs \<Rightarrow> (case digit_value c of None \<Rightarrow> None | Some d \<Rightarrow> py_digits d cs))"

definition py_int :: "string \<Rightarrow> int option" where
  "py_int text = (case py_strip text of
     [] \<Rightarrow> None
   | c # cs \<Rightarrow> if c = CHR ''-'' then map_option (\<lambda>n. - int n) (py_nat cs)
               else if c = CHR ''+'' then map_option int (py_nat cs)
               else map_option int (py_nat (c # cs)))"

lemma digit_value_digit [simp]: "d < 10 \<Longrightarrow> digit_value (digit_char d) = Some d"
  by (simp add: digit_value_def digit_char_def)

lemma digit_not_special [simp]:
  "d < 10 \<Longrightarrow> digit_char d \<noteq> CHR ''-''" "d < 10 \<Longrightarrow> digit_char d \<noteq> CHR ''+''"
  "d < 10 \<Longrightarrow> \<not> is_space (digit_char d)"
proof -
  assume d: "d < 10"
  have v: "(of_char (digit_char d) :: nat) = 48 + d"
    using d by (simp add: digit_char_def)
  show "digit_char d \<noteq> CHR ''-''"
  proof
    assume "digit_char d = CHR ''-''"
    with v show False by simp
  qed
  show "digit_char d \<noteq> CHR ''+''"
  proof
    assume "digit_char d = CHR ''+''"
    with v show False by simp
  qed
  show "\<not> is_space (digit_char d)"
  proof
    assume "is_space (digit_char d)"
    with v d show False by (auto simp: is_space_def)
  qed
qed

lemma py_str_nat_all_digits: "c \<in> set (py_str_nat n) \<Longrightarrow> \<exists>d<10. c = digit_char d"
proof (induction n rule: py_str_nat.induct)
  case (1 n)
  then show ?case
    by (subst (asm) (2) py_str_nat.simps) (auto split: if_splits intro: exI [of _ "n mod 10"])
qed

lemma py_str_nat_nonempty [simp]: "py_str_nat n \<noteq> []"
  by (subst py_str_nat.simps) simp

lemma py_digits_append:
  "list_all (\<lambda>c. digit_value c \<noteq> None) xs \<Longrightarrow>
     py_digits acc (xs @ [digit_char d]) =
       (if d < 10 then map_option (\<lambda>n. 10 * n + d) (py_digits acc xs) else py_digits acc (xs @ [digit_char d]))"
  by (induction xs arbitrary: acc) auto

lemma py_nat_snoc:
  assumes "list_all (\<lambda>c. digit_value c \<noteq> None) xs" and "xs \<noteq> []" and "d < 10"
  shows "py_nat (xs @ [digit_char d]) = map_option (\<lambda>n. 10 * n + d) (py_nat xs)"
  using assms by (cases xs) (auto simp: py_nat_def py_digits_append)

lemma py_nat_str: "py_nat (py_str_nat n) = Some n"
proof (induction n rule: py_str_nat.induct)
  case (1 n)
  have all: "list_all (\<lambda>c. digit_value c \<noteq> None) (py_str_nat (n div 10))"
    using py_str_nat_all_digits by (fastforce simp: list_all_iff)
  show ?case
  proof (cases "n < 10")
    case True
    then show ?thesis by (subst py_str_nat.simps) (simp add: py_nat_def)
  next
    case False
    with 1 have "py_nat (py_str_nat (n div 10)) = Some (n div 10)" by simp
    with False show ?thesis
      by (subst py_str_nat.simps) (simp add: py_nat_snoc [OF all])
  qed
qed

lemma dropWhile_id: "xs \<noteq> [] \<Longrightarrow> \<not> P (hd xs) \<Longrightarrow> dropWhile P xs = xs"
  by (cases xs) auto

lemma py_strip_id: "s \<noteq> [] \<Longrightarrow> \<not> is_space (hd s) \<Longrightarrow> \<not> is_space (last s) \<Longrightarrow> py_strip s = s"
  by (simp add: py_strip_def dropWhile_id hd_rev)

text \<open>An integer written into the environment as Python prints it is read back unchanged.\<close>

lemma py_int_str: "py_int (py_str i) = Some i"
proof -
  have sp: "\<not> is_space c" if "c \<in> set (py_str_nat n)" for c n
    using py_str_nat_all_digits [OF that] by auto
  show ?thesis
  proof (cases "i < 0")
    case True
    have "\<not> is_space (CHR ''-'')" by (simp add: is_space_def)
    then have "py_strip (CHR ''-'' # py_str_nat (nat (- i))) = CHR ''-'' # py_str_nat (nat (- i))"
      using sp [OF last_in_set [OF py_str_nat_nonempty]] by (intro py_strip_id) simp_all
    with True show ?thesis by (simp add: py_int_def py_str_def py_nat_str)
  next
    case False
    obtain c cs where c: "py_str_nat (nat i) = c # cs" by (cases "py_str_nat (nat i)") auto
    then obtain d where "d < 10" "c = digit_char d"
      using py_str_nat_all_digits [of c "nat i"] by auto
    with False c sp [of _ "nat i"] py_nat_str [of "nat i"] show ?thesis
      by (simp add: py_int_def py_str_def py_strip_id)
  qed
qed

section \<open>Switches\<close>

definition lower_char :: "char \<Rightarrow> char" where
  "lower_char c = (if 65 \<le> (of_char c :: nat) \<and> (of_char c :: nat) \<le> 90
     then char_of (of_char c + 32 :: nat) else c)"

definition py_lower :: "string \<Rightarrow> string" where
  "py_lower s = map lower_char s"

definition truthy_words :: "string list" where
  "truthy_words = [''1'', ''true'', ''yes'', ''on'']"

definition truthy :: "string \<Rightarrow> bool" where
  "truthy s \<longleftrightarrow> py_lower s \<in> set truthy_words"

text \<open>\<open>needle in text\<close> for two strings.\<close>

fun py_contains :: "string \<Rightarrow> string \<Rightarrow> bool" where
  "py_contains needle [] \<longleftrightarrow> needle = []"
| "py_contains needle (c # cs) \<longleftrightarrow>
     take (length needle) (c # cs) = needle \<or> py_contains needle cs"

end
