(* ===== verification/Ctypes_Ffi.thy ===== *)
theory Ctypes_Ffi
  imports Py_Text
begin

text \<open>
  The boundary between the Python code and everything it calls: native libraries through ctypes,
  the \<open>torch\<close> runtime, \<open>torch.distributed\<close>, and the loader (\<open>os.add_dll_directory\<close>, \<open>WinDLL\<close>). What those do is a parameter, the environment: a function
  of the call and of a world that is never inspected. Every call is also recorded in a log, so that
  properties can say which calls a method makes and in which order.

  The ctypes rules are the standard library's: a call with \<open>argtypes\<close> checks the number of
  arguments, converts each one (integers are cut to the width of the C type without any check), and
  raises \<open>ArgumentError\<close> for a value of the wrong kind.
\<close>

section \<open>Argument types and values\<close>

datatype ctype =
    T_void_p | T_int | T_uint | T_uint32 | T_uint64 | T_size_t | T_wchar_p
  | T_pointer ctype | T_struct string nat

text \<open>What Python code passes: plain integers and strings, ctypes instances, references, bytes.\<close>

datatype pyarg =
    PyInt int | PyStr string | PyVoidP int | PyU32 int | PyU64 int
  | PyByref ctype | PyStruct string "nat list"

text \<open>What the native side receives.\<close>

datatype cval =
    VPtr u64 | VI32 u32 | VU32 u32 | VU64 u64 | VStr string | VRef ctype | VBlob "nat list"

primrec int_of_arg :: "pyarg \<Rightarrow> int option" where
  "int_of_arg (PyInt n) = Some n"
| "int_of_arg (PyStr s) = None"
| "int_of_arg (PyVoidP n) = None"
| "int_of_arg (PyU32 n) = None"
| "int_of_arg (PyU64 n) = None"
| "int_of_arg (PyByref t) = None"
| "int_of_arg (PyStruct name bs) = None"

definition marshal :: "ctype \<Rightarrow> pyarg \<Rightarrow> cval option" where
  "marshal t a =
     (case t of
        T_void_p \<Rightarrow> (case a of PyInt n \<Rightarrow> Some (VPtr (word_of_int n))
                     | PyVoidP n \<Rightarrow> Some (VPtr (word_of_int n))
                     | PyStr s \<Rightarrow> Some (VStr s) | PyByref t' \<Rightarrow> Some (VRef t') | _ \<Rightarrow> None)
      | T_int \<Rightarrow> map_option (\<lambda>n. VI32 (word_of_int n)) (int_of_arg a)
      | T_uint \<Rightarrow> (case a of PyU32 n \<Rightarrow> Some (VU32 (word_of_int n))
                   | _ \<Rightarrow> map_option (\<lambda>n. VU32 (word_of_int n)) (int_of_arg a))
      | T_uint32 \<Rightarrow> (case a of PyU32 n \<Rightarrow> Some (VU32 (word_of_int n))
                     | _ \<Rightarrow> map_option (\<lambda>n. VU32 (word_of_int n)) (int_of_arg a))
      | T_uint64 \<Rightarrow> (case a of PyU64 n \<Rightarrow> Some (VU64 (word_of_int n))
                     | _ \<Rightarrow> map_option (\<lambda>n. VU64 (word_of_int n)) (int_of_arg a))
      | T_size_t \<Rightarrow> (case a of PyU64 n \<Rightarrow> Some (VU64 (word_of_int n))
                     | _ \<Rightarrow> map_option (\<lambda>n. VU64 (word_of_int n)) (int_of_arg a))
      | T_wchar_p \<Rightarrow> (case a of PyStr s \<Rightarrow> Some (VStr s) | _ \<Rightarrow> None)
      | T_pointer t1 \<Rightarrow> (case a of PyByref t2 \<Rightarrow> (if t1 = t2 then Some (VRef t1) else None) | _ \<Rightarrow> None)
      | T_struct name n \<Rightarrow>
          (case a of PyStruct name' bs \<Rightarrow>
               (if name = name' \<and> length bs = n then Some (VBlob bs) else None)
           | _ \<Rightarrow> None))"

fun marshal_all :: "ctype list \<Rightarrow> pyarg list \<Rightarrow> cval list option" where
  "marshal_all [] [] = Some []"
| "marshal_all (t # ts) (a # as) =
     (case marshal t a of None \<Rightarrow> None | Some v \<Rightarrow> map_option ((#) v) (marshal_all ts as))"
| "marshal_all _ _ = None"

section \<open>External calls\<close>

datatype ecall =
    Native string "cval list"
  | Torch string "pyarg list"
  | Dist string "pyarg list"
  | Os string "string list"

type_synonym answer = "int \<times> cval list"
type_synonym 'w extern = "ecall \<Rightarrow> 'w \<Rightarrow> (exn + answer) \<times> 'w"
type_synonym signatures = "string \<Rightarrow> ctype list option"

record 'w world =
  wext :: 'w
  wlog :: "ecall list"

definition call_ext :: "'w extern \<Rightarrow> ecall \<Rightarrow> ('w world, answer) io" where
  "call_ext env c = (\<lambda>w. case env c (wext w) of
     (r, x) \<Rightarrow> (r, \<lparr>wext = x, wlog = wlog w @ [c]\<rparr>))"

text \<open>A call through ctypes. A function the signature table lacks is a missing attribute.\<close>

definition call_native :: "'w extern \<Rightarrow> signatures \<Rightarrow> string \<Rightarrow> pyarg list \<Rightarrow> ('w world, answer) io" where
  "call_native env sigs fn args =
     (case sigs fn of
        None \<Rightarrow> io_raise AttributeError fn
      | Some ts \<Rightarrow>
          if length args \<noteq> length ts then io_raise TypeError fn
          else (case marshal_all ts args of
                  None \<Rightarrow> io_raise ArgumentError fn
                | Some vs \<Rightarrow> call_ext env (Native fn vs)))"

text \<open>Out parameters: a fresh \<open>c_int()\<close> is 0 and a fresh \<open>c_void_p()\<close> is null (\<open>value is None\<close>).\<close>

definition out_int :: "cval list \<Rightarrow> int" where
  "out_int vs = (case vs of VI32 w # _ \<Rightarrow> sint w | _ \<Rightarrow> 0)"

definition out_ptr :: "cval list \<Rightarrow> int option" where
  "out_ptr vs = (case vs of VPtr p # _ \<Rightarrow> (if p = 0 then None else Some (uint p)) | _ \<Rightarrow> None)"

definition out_str :: "cval list \<Rightarrow> string option" where
  "out_str vs = (case vs of VStr s # _ \<Rightarrow> Some s | _ \<Rightarrow> None)"

definition out_blob :: "nat \<Rightarrow> cval list \<Rightarrow> nat list" where
  "out_blob n vs = (case vs of VBlob bs # _ \<Rightarrow> bs | _ \<Rightarrow> replicate n 0)"

section \<open>Facts\<close>

text \<open>A call type checks when the table knows the function and every argument converts.\<close>

definition typed_call :: "signatures \<Rightarrow> string \<Rightarrow> pyarg list \<Rightarrow> bool" where
  "typed_call sigs fn args \<longleftrightarrow>
     (case sigs fn of None \<Rightarrow> False | Some ts \<Rightarrow> marshal_all ts args \<noteq> None)"

text \<open>The conversions the bindings rely on.\<close>

lemma marshal_simps [simp]:
  "marshal T_void_p (PyInt n) = Some (VPtr (word_of_int n))"
  "marshal T_void_p (PyVoidP n) = Some (VPtr (word_of_int n))"
  "marshal T_int (PyInt n) = Some (VI32 (word_of_int n))"
  "marshal T_uint (PyInt n) = Some (VU32 (word_of_int n))"
  "marshal T_uint32 (PyInt n) = Some (VU32 (word_of_int n))"
  "marshal T_uint32 (PyU32 n) = Some (VU32 (word_of_int n))"
  "marshal T_uint64 (PyU64 n) = Some (VU64 (word_of_int n))"
  "marshal T_size_t (PyInt n) = Some (VU64 (word_of_int n))"
  "marshal T_wchar_p (PyStr s) = Some (VStr s)"
  "marshal (T_pointer t) (PyByref t) = Some (VRef t)"
  "length bs = k \<Longrightarrow> marshal (T_struct name k) (PyStruct name bs) = Some (VBlob bs)"
  by (simp_all add: marshal_def)

lemma marshal_all_length: "marshal_all ts args = Some vs \<Longrightarrow> length args = length ts"
  by (induction ts args arbitrary: vs rule: marshal_all.induct) (auto split: option.splits)

lemma call_native_typed:
  assumes "sigs fn = Some ts" and "marshal_all ts args = Some vs"
  shows "call_native env sigs fn args = call_ext env (Native fn vs)"
  using assms marshal_all_length [OF assms(2)] by (simp add: call_native_def)

lemma call_ext_log: "wlog (snd (call_ext env c w)) = wlog w @ [c]"
  by (simp add: call_ext_def split: prod.splits)

lemma call_ext_answer: "fst (call_ext env c w) = fst (env c (wext w))"
  by (simp add: call_ext_def split: prod.splits)

lemma io_post_call_ext:
  "(\<And>a x. Q a \<lparr>wext = x, wlog = wlog w @ [c]\<rparr>) \<Longrightarrow> (\<And>e x. E e \<lparr>wext = x, wlog = wlog w @ [c]\<rparr>) \<Longrightarrow>
     io_post (call_ext env c) Q E w"
  by (simp add: io_post_def call_ext_def split: prod.splits sum.splits)

lemma io_post_call_answer:
  "(\<And>a x. env c (wext w) = (Inr a, x) \<Longrightarrow> Q a \<lparr>wext = x, wlog = wlog w @ [c]\<rparr>) \<Longrightarrow>
   (\<And>e x. E e \<lparr>wext = x, wlog = wlog w @ [c]\<rparr>) \<Longrightarrow> io_post (call_ext env c) Q E w"
  by (simp add: io_post_def call_ext_def split: prod.splits sum.splits)

lemma call_ext_success_iff:
  "call_ext env c w = (Inr a, w') \<longleftrightarrow>
     (\<exists>x. env c (wext w) = (Inr a, x) \<and> w' = \<lparr>wext = x, wlog = wlog w @ [c]\<rparr>)"
  by (auto simp: call_ext_def split: prod.splits)

lemma call_native_success:
  assumes "call_native env sigs fn args w = (Inr a, w')"
  obtains ts vs where "sigs fn = Some ts" "marshal_all ts args = Some vs"
    "call_ext env (Native fn vs) w = (Inr a, w')"
  using assms by (auto simp: call_native_def io_raise_success_iff split: option.splits if_splits)

lemma out_ptr_positive: "out_ptr vs = Some p \<Longrightarrow> 0 < p \<and> p < 2 ^ 64"
proof -
  assume "out_ptr vs = Some p"
  then obtain w :: u64 where "w \<noteq> 0" "p = uint w"
    by (auto simp: out_ptr_def split: list.splits cval.splits if_splits)
  then have "p \<noteq> 0" "0 \<le> p" "p < 2 ^ 64"
    using uint_lt2p [of w] by (simp_all add: uint_0_iff)
  then show ?thesis by simp
qed

text \<open>An environment whose calls all return (with whatever code): no exception comes from outside.\<close>

definition answers :: "'w extern \<Rightarrow> bool" where
  "answers env \<longleftrightarrow> (\<forall>c w. \<exists>a x. env c w = (Inr a, x))"

lemma call_ext_answers:
  assumes "answers env"
  obtains a x where "env c (wext w) = (Inr a, x)"
    and "call_ext env c w = (Inr a, \<lparr>wext = x, wlog = wlog w @ [c]\<rparr>)"
  using assms by (auto simp: answers_def call_ext_def split: prod.splits) (metis)

text \<open>An environment in which every call succeeds with no out parameters.\<close>

definition quiet :: "nat extern" where
  "quiet = (\<lambda>c n. (Inr (0, []), Suc n))"

lemma quiet_answers: "answers quiet"
  by (simp add: answers_def quiet_def)

lemma answers_call:
  assumes "answers env" and "\<And>a x. env c (wext w) = (Inr a, x) \<Longrightarrow> Q a \<lparr>wext = x, wlog = wlog w @ [c]\<rparr>"
  shows "io_post (call_ext env c) Q E w"
proof -
  obtain a x where "env c (wext w) = (Inr a, x)"
    using assms(1) unfolding answers_def by blast
  with assms(2) show ?thesis by (simp add: io_post_def call_ext_def)
qed

text \<open>An environment whose calls all return, the native ones with code 0.\<close>

definition obliging :: "'w extern \<Rightarrow> bool" where
  "obliging env \<longleftrightarrow> (\<forall>c x. \<exists>n outs y. env c x = (Inr (n, outs), y) \<and>
     ((\<exists>fn vs. c = Native fn vs) \<longrightarrow> n = 0))"

lemma quiet_obliging: "obliging quiet"
  by (simp add: obliging_def quiet_def)

lemma obliging_native:
  assumes "obliging env" and "sigs fn = Some ts" and "marshal_all ts args = Some vs"
    and "\<And>outs x. Q (0, outs) \<lparr>wext = x, wlog = wlog w @ [Native fn vs]\<rparr>"
  shows "io_post (call_native env sigs fn args) Q E w"
proof -
  have eq: "call_native env sigs fn args = call_ext env (Native fn vs)"
    using assms(2,3) by (rule call_native_typed)
  from assms(1) obtain outs y where "env (Native fn vs) (wext w) = (Inr (0, outs), y)"
    unfolding obliging_def by (metis (no_types))
  with assms(4) show ?thesis by (simp add: eq io_post_def call_ext_def)
qed

lemma obliging_call:
  assumes "obliging env" and "\<And>n outs x. Q (n, outs) \<lparr>wext = x, wlog = wlog w @ [c]\<rparr>"
  shows "io_post (call_ext env c) Q E w"
proof -
  from assms(1) obtain n outs y where "env c (wext w) = (Inr (n, outs), y)"
    unfolding obliging_def by metis
  with assms(2) show ?thesis by (simp add: io_post_def call_ext_def)
qed

end
