(* ===== verification/Runtime_Paths.thy ===== *)
theory Runtime_Paths
  imports Ctypes_Ffi
begin

text \<open>
  \<open>runtime_paths.py\<close>, the locating of the native libraries in \<open>mapped_peer_kernel.py\<close>,
  \<open>d3d12_shared.py\<close> and \<open>rccl.py\<close>, and the loading of a DLL with its directories and symbols.
  The process environment and the file system are a record of functions: a path is the list of its
  parts, \<open>path_of\<close>, \<open>resolve\<close> and \<open>expanduser\<close> stand for the operating system's part of
  \<open>pathlib\<close>, and \<open>exports\<close> says which symbols a library has.
\<close>

type_synonym path = "string list"

record pyenv =
  getenv :: "string \<Rightarrow> string option"
  path_of :: "string \<Rightarrow> path"
  expanduser :: "path \<Rightarrow> path"
  resolve :: "path \<Rightarrow> path"
  is_file :: "path \<Rightarrow> bool"
  is_dir :: "path \<Rightarrow> bool"
  cwd :: path
  torch_file :: path
  package_file :: path
  exports :: "path \<Rightarrow> string \<Rightarrow> bool"

text \<open>\<open>path / name\<close>, \<open>path.parent\<close> (the parent of a root is the root) and \<open>path.parents[n]\<close>.\<close>

definition path_join :: "path \<Rightarrow> string list \<Rightarrow> path" where
  "path_join p names = p @ names"

definition path_parent :: "path \<Rightarrow> path" where
  "path_parent p = (if length p \<le> 1 then p else butlast p)"

definition path_parents :: "path \<Rightarrow> nat \<Rightarrow> exn + path" where
  "path_parents p n = (if Suc n < length p then Inr (take (length p - Suc n) p)
     else Inl (Exn IndexError ''parents''))"

text \<open>\<open>list(dict.fromkeys(xs))\<close>: the first occurrence of every element, in order.\<close>

fun dict_fromkeys :: "'a list \<Rightarrow> 'a list" where
  "dict_fromkeys [] = []"
| "dict_fromkeys (x # xs) = x # filter (\<lambda>y. y \<noteq> x) (dict_fromkeys xs)"

text \<open>\<open>os.environ.get(name)\<close> used as a condition: unset and empty are both false.\<close>

definition configured :: "pyenv \<Rightarrow> string \<Rightarrow> string option" where
  "configured pe name = (case getenv pe name of None \<Rightarrow> None
     | Some v \<Rightarrow> if v = [] then None else Some v)"

section \<open>The ROCm directories and the HIP runtime\<close>

definition rocm_candidates :: "pyenv \<Rightarrow> path list" where
  "rocm_candidates pe =
     (let site_packages = path_parent (path_parent (resolve pe (torch_file pe)))
      in (case configured pe ''WAVMG_ROCM_BIN'' of
            None \<Rightarrow> [] | Some v \<Rightarrow> [resolve pe (expanduser pe (path_of pe v))]) @
         [path_join site_packages [''_rocm_sdk_devel'', ''bin''],
          path_join site_packages [''_rocm_sdk_core'', ''bin''],
          path_join site_packages [''_rocm_sdk_libraries_custom'', ''bin''],
          path_join (path_parent (resolve pe (torch_file pe))) [''lib'']])"

definition rocm_bin_directories :: "pyenv \<Rightarrow> path list" where
  "rocm_bin_directories pe = dict_fromkeys (filter (is_dir pe) (rocm_candidates pe))"

fun first_file :: "pyenv \<Rightarrow> path list \<Rightarrow> path option" where
  "first_file pe [] = None"
| "first_file pe (c # cs) = (if is_file pe c then Some (resolve pe c) else first_file pe cs)"

definition find_hip_runtime :: "pyenv \<Rightarrow> exn + path" where
  "find_hip_runtime pe =
     (case configured pe ''WAVMG_HIP_RUNTIME_DLL'' of
        Some v \<Rightarrow>
          (let candidate = resolve pe (expanduser pe (path_of pe v))
           in if is_file pe candidate then Inr candidate
              else Inl (Exn FileNotFoundError ''WAVMG_HIP_RUNTIME_DLL does not exist''))
      | None \<Rightarrow>
          (case first_file pe
                  (map (\<lambda>d. path_join d [''amdhip64_7.dll'']) (rocm_bin_directories pe)) of
             Some p \<Rightarrow> Inr p
           | None \<Rightarrow> Inl (Exn FileNotFoundError ''amdhip64_7.dll was not found'')))"

section \<open>The other native libraries\<close>

definition find_rccl :: "pyenv \<Rightarrow> exn + path" where
  "find_rccl pe =
     (case configured pe ''WAVMG_RCCL_DLL'' of
        Some v \<Rightarrow>
          (let candidate = resolve pe (expanduser pe (path_of pe v))
           in if is_file pe candidate then Inr candidate
              else Inl (Exn FileNotFoundError ''WAVMG_RCCL_DLL does not exist''))
      | None \<Rightarrow>
          (case path_parents (resolve pe (package_file pe)) 2 of
             Inl e \<Rightarrow> Inl e
           | Inr root \<Rightarrow>
               (case first_file pe [path_join root [''build'', ''rccl-windows'', ''rccl.dll''],
                                    path_join (cwd pe) [''build'', ''rccl-windows'', ''rccl.dll'']] of
                  Some p \<Rightarrow> Inr p
                | None \<Rightarrow> Inl (Exn FileNotFoundError ''rccl.dll was not found''))))"

text \<open>
  \<open>MappedPeerKernel\<close> and \<open>D3D12SharedBuffer\<close> share this search: an explicit path, else the
  environment variable, else the build directory of the checkout.
\<close>

definition native_library :: "pyenv \<Rightarrow> string \<Rightarrow> string \<Rightarrow> path option \<Rightarrow> exn + path" where
  "native_library pe variable dll library_path =
     (case (case library_path of
              Some p \<Rightarrow> Inr p
            | None \<Rightarrow>
                (case configured pe variable of
                   Some v \<Rightarrow> Inr (path_of pe v)
                 | None \<Rightarrow>
                     (case path_parents (resolve pe (package_file pe)) 2 of
                        Inl e \<Rightarrow> Inl e
                      | Inr root \<Rightarrow> Inr (path_join root [''build'', ''native'', dll])))) of
        Inl e \<Rightarrow> Inl e
      | Inr p \<Rightarrow>
          (let q = resolve pe p
           in if is_file pe q then Inr q
              else Inl (Exn FileNotFoundError (dll @ '' was not found''))))"

section \<open>Loading\<close>

definition io_of_sum :: "exn + 'a \<Rightarrow> ('s, 'a) io" where
  "io_of_sum r = (\<lambda>s. (r, s))"

fun add_dll_directories :: "'w extern \<Rightarrow> path list \<Rightarrow> ('w world, unit) io" where
  "add_dll_directories env [] = io_return ()"
| "add_dll_directories env (d # ds) =
     io_bind (call_ext env (Os ''add_dll_directory'' d)) (\<lambda>_. add_dll_directories env ds)"

text \<open>Setting \<open>argtypes\<close> touches every symbol in turn; a missing one raises \<open>AttributeError\<close>.\<close>

fun bind_symbols :: "pyenv \<Rightarrow> path \<Rightarrow> string list \<Rightarrow> ('w world, unit) io" where
  "bind_symbols pe lib [] = io_return ()"
| "bind_symbols pe lib (f # fs) =
     (if exports pe lib f then bind_symbols pe lib fs else io_raise AttributeError f)"

definition load_library ::
  "'w extern \<Rightarrow> pyenv \<Rightarrow> path list \<Rightarrow> path \<Rightarrow> string list \<Rightarrow> ('w world, unit) io" where
  "load_library env pe dirs lib symbols =
     io_then (add_dll_directories env dirs)
     (io_bind (call_ext env (Os ''WinDLL'' lib)) (\<lambda>_.
      bind_symbols pe lib symbols))"

section \<open>Facts\<close>

lemma io_post_of_sum [wp]:
  "io_post (io_of_sum r) Q E = (case r of Inl e \<Rightarrow> E e | Inr y \<Rightarrow> Q y)"
  by (simp add: io_post_def io_of_sum_def fun_eq_iff split: sum.splits)

lemma set_dict_fromkeys [simp]: "set (dict_fromkeys xs) = set xs"
  by (induction xs) auto

lemma distinct_dict_fromkeys [simp]: "distinct (dict_fromkeys xs)"
  by (induction xs) auto

lemma dict_fromkeys_id: "distinct xs \<Longrightarrow> dict_fromkeys xs = xs"
  by (induction xs) (auto intro!: filter_True)

lemma hd_dict_fromkeys: "xs \<noteq> [] \<Longrightarrow> hd (dict_fromkeys xs) = hd xs"
  by (cases xs) auto

lemma first_file_Some:
  "first_file pe cs = Some p \<Longrightarrow> \<exists>c\<in>set cs. is_file pe c \<and> p = resolve pe c"
  by (induction cs) (auto split: if_splits)

lemma first_file_None: "first_file pe cs = None \<longleftrightarrow> (\<forall>c\<in>set cs. \<not> is_file pe c)"
  by (induction cs) auto

lemma first_file_append:
  "first_file pe (cs @ ds) = (case first_file pe cs of Some p \<Rightarrow> Some p | None \<Rightarrow> first_file pe ds)"
  by (induction cs) auto

text \<open>The HIP runtime is looked for in a fixed order of precedence: a configured DLL is the only
  candidate and its absence is an error, never a silent fallback; otherwise the answer comes from
  the first existing ROCm directory that holds the DLL (a configured directory before the packaged
  ones, \<open>_rocm_sdk_devel\<close> before \<open>_rocm_sdk_core\<close> before the rest), and the search fails exactly
  when no existing directory holds it.\<close>

lemma find_hip_runtime_precedence:
  "(\<forall>v. configured pe ''WAVMG_HIP_RUNTIME_DLL'' = Some v \<longrightarrow>
      find_hip_runtime pe =
        (let c = resolve pe (expanduser pe (path_of pe v)) in
         if is_file pe c then Inr c
         else Inl (Exn FileNotFoundError ''WAVMG_HIP_RUNTIME_DLL does not exist''))) \<and>
   (configured pe ''WAVMG_HIP_RUNTIME_DLL'' = None \<longrightarrow>
      (\<forall>ds d es. rocm_bin_directories pe = ds @ d # es \<and>
          (\<forall>c\<in>set ds. \<not> is_file pe (c @ [''amdhip64_7.dll''])) \<and> is_file pe (d @ [''amdhip64_7.dll'']) \<longrightarrow>
          find_hip_runtime pe = Inr (resolve pe (d @ [''amdhip64_7.dll'']))) \<and>
      ((\<exists>e. find_hip_runtime pe = Inl e) \<longleftrightarrow>
         (\<forall>d\<in>set (rocm_candidates pe). is_dir pe d \<longrightarrow> \<not> is_file pe (d @ [''amdhip64_7.dll'']))))"
proof (intro conjI allI impI)
  fix v
  assume "configured pe ''WAVMG_HIP_RUNTIME_DLL'' = Some v"
  then show "find_hip_runtime pe =
        (let c = resolve pe (expanduser pe (path_of pe v)) in
         if is_file pe c then Inr c
         else Inl (Exn FileNotFoundError ''WAVMG_HIP_RUNTIME_DLL does not exist''))"
    by (simp add: find_hip_runtime_def)
next
  fix ds d es
  assume none: "configured pe ''WAVMG_HIP_RUNTIME_DLL'' = None"
    and h: "rocm_bin_directories pe = ds @ d # es \<and>
      (\<forall>c\<in>set ds. \<not> is_file pe (c @ [''amdhip64_7.dll''])) \<and> is_file pe (d @ [''amdhip64_7.dll''])"
  then have "first_file pe (map (\<lambda>d. path_join d [''amdhip64_7.dll'']) ds) = None"
    by (simp add: first_file_None path_join_def)
  with none h show "find_hip_runtime pe = Inr (resolve pe (d @ [''amdhip64_7.dll'']))"
    by (simp add: find_hip_runtime_def first_file_append path_join_def)
next
  assume none: "configured pe ''WAVMG_HIP_RUNTIME_DLL'' = None"
  show "(\<exists>e. find_hip_runtime pe = Inl e) \<longleftrightarrow>
         (\<forall>d\<in>set (rocm_candidates pe). is_dir pe d \<longrightarrow> \<not> is_file pe (d @ [''amdhip64_7.dll'']))"
    using first_file_None [of pe "map (\<lambda>d. path_join d [''amdhip64_7.dll'']) (rocm_bin_directories pe)"]
    by (auto simp: none find_hip_runtime_def rocm_bin_directories_def path_join_def split: option.splits)
qed

text \<open>A machine with one packaged ROCm directory, used to exercise the statements.\<close>

definition sample_env :: pyenv where
  "sample_env =
     \<lparr>getenv = (\<lambda>_. None), path_of = (\<lambda>s. [s]), expanduser = (\<lambda>p. p), resolve = (\<lambda>p. p),
      is_file = (\<lambda>p. p \<in> {[''site'', ''_rocm_sdk_core'', ''bin'', ''amdhip64_7.dll''],
                        [''repo'', ''build'', ''native'', ''wavmg_hip_v1.dll''],
                        [''repo'', ''build'', ''native'', ''wavmg_d3d12_v1.dll'']}),
      is_dir = (\<lambda>p. p \<in> {[''site'', ''_rocm_sdk_core'', ''bin''], [''site'', ''torch'', ''lib''],
                        [''repo'', ''build'', ''native'']}),
      cwd = [''work''], torch_file = [''site'', ''torch'', ''__init__.py''],
      package_file = [''repo'', ''src'', ''windows_amd_vllm_multigpu'', ''module.py''],
      exports = (\<lambda>_ _. True)\<rparr>"

lemma sample_env_unconfigured [simp]: "configured sample_env v = None"
  by (simp add: configured_def sample_env_def)

lemma find_hip_runtime_precedence_witness:
  "find_hip_runtime sample_env = Inr [''site'', ''_rocm_sdk_core'', ''bin'', ''amdhip64_7.dll'']"
proof -
  have "rocm_bin_directories sample_env =
      [] @ [''site'', ''_rocm_sdk_core'', ''bin''] # [[''site'', ''torch'', ''lib'']]"
    by code_simp
  moreover have "is_file sample_env ([''site'', ''_rocm_sdk_core'', ''bin''] @ [''amdhip64_7.dll''])"
    by code_simp
  ultimately have "find_hip_runtime sample_env =
      Inr (resolve sample_env ([''site'', ''_rocm_sdk_core'', ''bin''] @ [''amdhip64_7.dll'']))"
    by (intro find_hip_runtime_precedence [of sample_env, THEN conjunct2, THEN mp, THEN conjunct1,
          rule_format, of "[]"]) simp_all
  then show ?thesis by (simp add: sample_env_def)
qed

end
