(* ===== verification/Tensors.thy ===== *)
theory Tensors
  imports Ctypes_Ffi
begin

text \<open>
  What the sources use of \<open>torch\<close>: a tensor is its metadata (shape, strides, data type, device,
  storage pointer), a device is a kind with an optional index. The library itself is a parameter:
  \<open>torch_api\<close> gives the size of an element, the contiguity test, the metadata of the tensors that
  \<open>contiguous()\<close>, \<open>empty_like\<close> and \<open>cat\<close> make on a storage pointer the environment hands out, and
  the view that \<open>movedim\<close> takes.
  \<open>torch_ok\<close> is the documented behaviour the sources rely on.

  The theory also holds the combinators: a method acts on the world and on its object.
\<close>

section \<open>Methods of objects\<close>

type_synonym ('w, 'o, 'a) meth = "('w world \<times> 'o, 'a) io"

text \<open>A call that leaves the object alone, and a method of a field of the object.\<close>

definition on_world :: "('w world, 'a) io \<Rightarrow> ('w, 'o, 'a) meth" where
  "on_world m = io_zoom fst (\<lambda>w (_, ob). (w, ob)) m"

definition on_field ::
  "('o \<Rightarrow> 'f) \<Rightarrow> ('f \<Rightarrow> 'o \<Rightarrow> 'o) \<Rightarrow> ('w, 'f, 'a) meth \<Rightarrow> ('w, 'o, 'a) meth" where
  "on_field get put m = io_zoom (\<lambda>(w, ob). (w, get ob)) (\<lambda>(w, f) (_, ob). (w, put f ob)) m"

definition self :: "('w, 'o, 'o) meth" where
  "self = (\<lambda>(w, ob). (Inr ob, (w, ob)))"

definition update_self :: "('o \<Rightarrow> 'o) \<Rightarrow> ('w, 'o, unit) meth" where
  "update_self f = (\<lambda>(w, ob). (Inr (), (w, f ob)))"

lemma self_apply [io_simps]: "self (w, ob) = (Inr ob, (w, ob))"
  by (simp add: self_def)

lemma update_self_apply [io_simps]: "update_self f (w, ob) = (Inr (), (w, f ob))"
  by (simp add: update_self_def)

lemma on_world_apply: "on_world m (w, ob) = (case m w of (r, w') \<Rightarrow> (r, (w', ob)))"
  by (simp add: on_world_def io_zoom_def split: prod.splits)

lemma on_field_apply:
  "on_field get put m (w, ob) = (case m (w, get ob) of (r, (w', f)) \<Rightarrow> (r, (w', put f ob)))"
  by (simp add: on_field_def io_zoom_def split: prod.splits)

lemma self_success_iff: "self s = (Inr y, u) \<longleftrightarrow> y = snd s \<and> u = s"
  by (auto simp: self_def split: prod.splits)

lemma update_self_success_iff: "update_self f s = (Inr y, u) \<longleftrightarrow> u = (fst s, f (snd s))"
  by (auto simp: update_self_def split: prod.splits)

lemma on_world_success_iff:
  "on_world m s = (Inr y, u) \<longleftrightarrow> m (fst s) = (Inr y, fst u) \<and> snd u = snd s"
  by (cases s; cases u) (auto simp: on_world_apply split: prod.splits)

lemma on_field_success_iff:
  "on_field get put m s = (Inr y, u) \<longleftrightarrow>
     (\<exists>f. m (fst s, get (snd s)) = (Inr y, (fst u, f)) \<and> snd u = put f (snd s))"
  by (cases s; cases u) (auto simp: on_field_apply split: prod.splits)

lemma io_post_self [wp]: "io_post self Q E = (\<lambda>s. Q (snd s) s)"
  by (simp add: io_post_def self_def fun_eq_iff split: prod.splits)

lemma io_post_update_self [wp]: "io_post (update_self f) Q E = (\<lambda>s. Q () (fst s, f (snd s)))"
  by (simp add: io_post_def update_self_def fun_eq_iff split: prod.splits)

lemma io_post_on_world [wp]:
  "io_post (on_world m) Q E =
     (\<lambda>s. io_post m (\<lambda>y w. Q y (w, snd s)) (\<lambda>e w. E e (w, snd s)) (fst s))"
  by (simp add: on_world_def io_post_zoom split_beta)

lemma io_post_on_field [wp]:
  "io_post (on_field get put m) Q E =
     (\<lambda>s. io_post m (\<lambda>y t. Q y (fst t, put (snd t) (snd s)))
                  (\<lambda>e t. E e (fst t, put (snd t) (snd s))) (fst s, get (snd s)))"
  by (simp add: on_field_def io_post_zoom split_beta)

lemmas method_success = io_success self_success_iff update_self_success_iff on_world_success_iff
  on_field_success_iff

section \<open>Data types, devices, tensors\<close>

datatype dtype =
    Float16 | BFloat16 | Float32 | Float64 | Int8 | UInt8 | Int16 | Int32 | Int64 | OtherDtype string

record device =
  dev_type :: string
  dev_index :: "int option"

record tensor =
  t_shape :: "nat list"
  t_stride :: "int list"
  t_dtype :: dtype
  t_device :: device
  t_ptr :: int

definition numel :: "tensor \<Rightarrow> nat" where
  "numel t = prod_list (t_shape t)"

record torch_api =
  element_size :: "dtype \<Rightarrow> nat"
  is_contiguous :: "tensor \<Rightarrow> bool"
  contiguous_on :: "tensor \<Rightarrow> int \<Rightarrow> tensor"
  like_on :: "tensor \<Rightarrow> int \<Rightarrow> tensor"
  parse_device :: "string \<Rightarrow> exn + device"
  cat_on :: "tensor list \<Rightarrow> int \<Rightarrow> int \<Rightarrow> tensor"
  movedim_view :: "tensor \<Rightarrow> int \<Rightarrow> int \<Rightarrow> exn + tensor"

definition size_bytes_of :: "torch_api \<Rightarrow> tensor \<Rightarrow> int" where
  "size_bytes_of T t = int (numel t) * int (element_size T (t_dtype t))"

definition same_kind :: "tensor \<Rightarrow> tensor \<Rightarrow> bool" where
  "same_kind t u \<longleftrightarrow> t_shape u = t_shape t \<and> t_dtype u = t_dtype t \<and> t_device u = t_device t"

definition torch_ok :: "torch_api \<Rightarrow> bool" where
  "torch_ok T \<longleftrightarrow>
     (\<forall>t p. same_kind t (contiguous_on T t p) \<and> t_ptr (contiguous_on T t p) = p \<and>
            is_contiguous T (contiguous_on T t p)) \<and>
     (\<forall>t p. same_kind t (like_on T t p) \<and> t_ptr (like_on T t p) = p \<and>
            (is_contiguous T t \<longrightarrow> is_contiguous T (like_on T t p))) \<and>
     (\<forall>d. 0 < element_size T d) \<and>
     (\<forall>t ts d p. t_dtype (cat_on T (t # ts) d p) = t_dtype t \<and> t_device (cat_on T (t # ts) d p) = t_device t \<and>
            t_ptr (cat_on T (t # ts) d p) = p) \<and>
     (\<forall>t a b u. movedim_view T t a b = Inr u \<longrightarrow>
            t_dtype u = t_dtype t \<and> t_device u = t_device t \<and> t_ptr u = t_ptr t \<and> numel u = numel t \<and>
            0 < length (t_shape u))"

text \<open>What \<open>torch.device(...)\<close> is applied to in the constructors.\<close>

datatype device_arg = DeviceIndex int | DeviceObject device | DeviceText string

definition as_device :: "torch_api \<Rightarrow> device_arg \<Rightarrow> exn + device" where
  "as_device T a = (case a of
     DeviceIndex i \<Rightarrow> Inr \<lparr>dev_type = ''cuda'', dev_index = Some i\<rparr>
   | DeviceObject d \<Rightarrow> Inr d
   | DeviceText t \<Rightarrow> parse_device T t)"

text \<open>How a device is passed to a \<open>torch\<close> call.\<close>

definition device_args :: "device \<Rightarrow> pyarg list" where
  "device_args d = PyStr (dev_type d) # (case dev_index d of None \<Rightarrow> [] | Some i \<Rightarrow> [PyInt i])"

section \<open>The calls\<close>

definition torch_do :: "'w extern \<Rightarrow> string \<Rightarrow> pyarg list \<Rightarrow> ('w world, unit) io" where
  "torch_do env fn args = io_bind (call_ext env (Torch fn args)) (\<lambda>_. io_return ())"

definition empty_like :: "'w extern \<Rightarrow> torch_api \<Rightarrow> tensor \<Rightarrow> ('w world, tensor) io" where
  "empty_like env T t = io_bind (call_ext env (Torch ''empty_like'' [PyInt (t_ptr t)]))
     (\<lambda>(p, _). io_return (like_on T t p))"

definition contiguous :: "'w extern \<Rightarrow> torch_api \<Rightarrow> tensor \<Rightarrow> ('w world, tensor) io" where
  "contiguous env T t = io_bind (call_ext env (Torch ''contiguous'' [PyInt (t_ptr t)]))
     (\<lambda>(p, _). io_return (contiguous_on T t p))"

text \<open>\<open>torch.cuda.current_stream(device).cuda_stream\<close>\<close>

definition current_stream :: "'w extern \<Rightarrow> device \<Rightarrow> ('w world, int) io" where
  "current_stream env d = io_bind (call_ext env (Torch ''current_stream'' (device_args d)))
     (\<lambda>(p, _). io_return p)"

text \<open>\<open>tensor if tensor.is_contiguous() else tensor.contiguous()\<close>\<close>

definition as_contiguous :: "'w extern \<Rightarrow> torch_api \<Rightarrow> tensor \<Rightarrow> ('w world, tensor) io" where
  "as_contiguous env T t = (if is_contiguous T t then io_return t else contiguous env T t)"

section \<open>Facts\<close>

lemma same_kind_refl [simp]: "same_kind t t"
  by (simp add: same_kind_def)

lemma same_kind_size: "same_kind t u \<Longrightarrow> numel u = numel t \<and> size_bytes_of T u = size_bytes_of T t"
  by (simp add: same_kind_def numel_def size_bytes_of_def)

lemma torch_ok_like:
  "torch_ok T \<Longrightarrow> same_kind t (like_on T t p)" "torch_ok T \<Longrightarrow> t_ptr (like_on T t p) = p"
  "torch_ok T \<Longrightarrow> is_contiguous T t \<Longrightarrow> is_contiguous T (like_on T t p)"
  by (simp_all add: torch_ok_def)

lemma torch_ok_contiguous:
  "torch_ok T \<Longrightarrow> same_kind t (contiguous_on T t p)" "torch_ok T \<Longrightarrow> t_ptr (contiguous_on T t p) = p"
  "torch_ok T \<Longrightarrow> is_contiguous T (contiguous_on T t p)"
  by (simp_all add: torch_ok_def)

lemma torch_ok_cat:
  "torch_ok T \<Longrightarrow> ts \<noteq> [] \<Longrightarrow> t_dtype (cat_on T ts d p) = t_dtype (hd ts) \<and>
     t_device (cat_on T ts d p) = t_device (hd ts) \<and> t_ptr (cat_on T ts d p) = p"
  by (cases ts) (auto simp: torch_ok_def)

lemma torch_ok_movedim:
  "torch_ok T \<Longrightarrow> movedim_view T t a b = Inr u \<Longrightarrow> t_dtype u = t_dtype t \<and> t_device u = t_device t \<and>
     t_ptr u = t_ptr t \<and> numel u = numel t \<and> 0 < length (t_shape u)"
  by (auto simp: torch_ok_def)

lemma torch_ok_element: "torch_ok T \<Longrightarrow> 0 < element_size T d"
  by (simp add: torch_ok_def)

lemma as_contiguous_success:
  assumes "torch_ok T" and "as_contiguous env T t w = (Inr u, w')"
  shows "same_kind t u \<and> is_contiguous T u \<and>
    (if is_contiguous T t then u = t \<and> w' = w
     else wlog w' = wlog w @ [Torch ''contiguous'' [PyInt (t_ptr t)]])"
  using assms
  by (auto simp: as_contiguous_def contiguous_def io_success call_ext_success_iff torch_ok_contiguous
      split: if_splits prod.splits)

lemma torch_do_success:
  "torch_do env fn args w = (Inr (), w') \<Longrightarrow> wlog w' = wlog w @ [Torch fn args]"
  by (auto simp: torch_do_def io_success call_ext_success_iff)

lemma current_stream_success:
  "current_stream env d w = (Inr p, w') \<Longrightarrow>
     wlog w' = wlog w @ [Torch ''current_stream'' (device_args d)]"
  by (auto simp: current_stream_def io_success call_ext_success_iff split: prod.splits)

lemma empty_like_success:
  "empty_like env T t w = (Inr u, w') \<Longrightarrow>
     (\<exists>p. u = like_on T t p) \<and> wlog w' = wlog w @ [Torch ''empty_like'' [PyInt (t_ptr t)]]"
  by (auto simp: empty_like_def io_success call_ext_success_iff split: prod.splits)

lemma torch_calls_return:
  "obliging env \<Longrightarrow> (\<And>w'. Q () w') \<Longrightarrow> io_post (torch_do env fn args) Q E w"
  "obliging env \<Longrightarrow> (\<And>p w'. R p w') \<Longrightarrow> io_post (current_stream env d) R E w"
  "obliging env \<Longrightarrow> (\<And>p w'. S (like_on T t p) w') \<Longrightarrow> io_post (empty_like env T t) S E w"
  "obliging env \<Longrightarrow> (\<And>p w'. S (contiguous_on T t p) w') \<Longrightarrow> io_post (contiguous env T t) S E w"
  by (simp_all add: torch_do_def current_stream_def empty_like_def contiguous_def wp obliging_call)

lemma as_contiguous_returns:
  assumes "torch_ok T" and "obliging env"
    and "\<And>u w'. same_kind t u \<Longrightarrow> is_contiguous T u \<Longrightarrow> Q u w'"
  shows "io_post (as_contiguous env T t) Q E w"
  using assms(2,3) torch_ok_contiguous [OF assms(1)]
  by (auto simp: as_contiguous_def wp intro!: torch_calls_return(4))

text \<open>A row-major \<open>torch\<close> with the usual element sizes, for the witnesses.\<close>

fun row_major :: "nat list \<Rightarrow> int list" where
  "row_major [] = []"
| "row_major (n # ns) = int (prod_list ns) # row_major ns"

definition sample_torch :: torch_api where
  "sample_torch =
     \<lparr>element_size = (\<lambda>d. case d of Float16 \<Rightarrow> 2 | BFloat16 \<Rightarrow> 2 | Float32 \<Rightarrow> 4 | Float64 \<Rightarrow> 8
         | Int8 \<Rightarrow> 1 | UInt8 \<Rightarrow> 1 | Int16 \<Rightarrow> 2 | Int32 \<Rightarrow> 4 | Int64 \<Rightarrow> 8 | OtherDtype _ \<Rightarrow> 1),
      is_contiguous = (\<lambda>t. t_stride t = row_major (t_shape t)),
      contiguous_on = (\<lambda>t p. t\<lparr>t_stride := row_major (t_shape t), t_ptr := p\<rparr>),
      like_on = (\<lambda>t p. t\<lparr>t_ptr := p\<rparr>),
      parse_device = (\<lambda>t. Inr \<lparr>dev_type = t, dev_index = None\<rparr>),
      cat_on = (\<lambda>ts d p. (hd ts)\<lparr>t_shape := [sum_list (map numel ts)], t_stride := [1], t_ptr := p\<rparr>),
      movedim_view = (\<lambda>t a b. if t_shape t = [] \<or> a \<noteq> 0 \<or> b \<noteq> 0 then Inl (Exn IndexError ''dim'') else Inr t)\<rparr>"

lemma sample_torch_ok: "torch_ok sample_torch"
  by (auto simp: torch_ok_def sample_torch_def same_kind_def split: dtype.splits if_splits)

definition sample_tensor :: "dtype \<Rightarrow> nat \<Rightarrow> int \<Rightarrow> tensor" where
  "sample_tensor d n p = \<lparr>t_shape = [n], t_stride = [1], t_dtype = d,
     t_device = \<lparr>dev_type = ''cuda'', dev_index = Some 0\<rparr>, t_ptr = p\<rparr>"

end
