(* ===== verification/Mapped_Peer_Kernel.thy ===== *)
theory Mapped_Peer_Kernel
  imports Runtime_Paths Tensors
begin

text \<open>
  \<open>mapped_peer_kernel.py\<close>: the loader of the native kernel and its four entry points. A kernel
  object is the resolved path of its library. Every entry point checks its tensors, asks for the
  current stream when none is given, makes one native call and turns a non-zero code into
  \<open>RuntimeError\<close>.
\<close>

definition kernel_argtypes :: "(string \<times> ctype list) list" where
  "kernel_argtypes =
    [(''wavmg_add_f32'', [T_void_p, T_void_p, T_void_p, T_size_t]),
     (''wavmg_add_f32_async'', [T_void_p, T_void_p, T_void_p, T_size_t, T_void_p]),
     (''wavmg_add_f16_async'', [T_void_p, T_void_p, T_void_p, T_size_t, T_void_p]),
     (''wavmg_add_bf16_async'', [T_void_p, T_void_p, T_void_p, T_size_t, T_void_p]),
     (''wavmg_copy_async'', [T_void_p, T_void_p, T_size_t, T_void_p]),
     (''wavmg_all_reduce_f32_async'', [T_void_p, T_void_p, T_void_p, T_void_p, T_size_t, T_void_p,
        T_void_p, T_void_p, T_void_p, T_uint32, T_void_p]),
     (''wavmg_all_reduce_f16_async'', [T_void_p, T_void_p, T_void_p, T_void_p, T_size_t, T_void_p,
        T_void_p, T_void_p, T_void_p, T_uint32, T_void_p]),
     (''wavmg_all_reduce_bf16_async'', [T_void_p, T_void_p, T_void_p, T_void_p, T_size_t, T_void_p,
        T_void_p, T_void_p, T_void_p, T_uint32, T_void_p])]"

definition kernel_sigs :: signatures where
  "kernel_sigs = map_of kernel_argtypes"

definition kernel_init :: "'w extern \<Rightarrow> pyenv \<Rightarrow> path option \<Rightarrow> ('w world, path) io" where
  "kernel_init env pe library_path =
     io_bind (io_of_sum (native_library pe ''WAVMG_HIP_DLL'' ''wavmg_hip_v1.dll'' library_path))
       (\<lambda>lib.
     io_then (load_library env pe (rocm_bin_directories pe @ [path_parent lib]) lib
                (map fst kernel_argtypes))
     (io_return lib))"

definition kernel_check :: "int \<Rightarrow> string \<Rightarrow> ('w world, unit) io" where
  "kernel_check code message =
     (if code \<noteq> 0 then io_raise RuntimeError (message @ '' failed with HIP error '' @ py_str code)
      else io_return ())"

definition kernel_call :: "'w extern \<Rightarrow> string \<Rightarrow> pyarg list \<Rightarrow> string \<Rightarrow> ('w world, unit) io" where
  "kernel_call env fn args message =
     io_bind (call_native env kernel_sigs fn args) (\<lambda>(code, _). kernel_check code message)"

section \<open>The guards\<close>

text \<open>\<open>is_contiguous\<close> is tested before the sizes, as in the source.\<close>

definition kernel_layout :: "torch_api \<Rightarrow> tensor \<Rightarrow> tensor \<Rightarrow> string \<Rightarrow> exn option" where
  "kernel_layout T local output what =
     (if \<not> is_contiguous T local \<or> \<not> is_contiguous T output
        then Some (Exn ValueError (what @ '' tensors must be contiguous''))
      else if numel local \<noteq> numel output
        then Some (Exn ValueError (what @ '' input/output sizes differ''))
      else None)"

definition add_float32 ::
  "'w extern \<Rightarrow> torch_api \<Rightarrow> tensor \<Rightarrow> int \<Rightarrow> tensor \<Rightarrow> ('w world, unit) io" where
  "add_float32 env T local peer_host_device_pointer output =
     (if t_dtype local \<noteq> Float32 \<or> t_dtype output \<noteq> Float32
        then io_raise TypeError ''the initial native kernel supports float32 only''
      else (case kernel_layout T local output ''native kernel'' of
        Some e \<Rightarrow> io_of_sum (Inl e)
      | None \<Rightarrow>
          kernel_call env ''wavmg_add_f32''
            [PyVoidP (t_ptr local), PyVoidP peer_host_device_pointer, PyVoidP (t_ptr output),
             PyInt (int (numel local))] ''wavmg_add_f32''))"

text \<open>\<open>stream if stream is not None else torch.cuda.current_stream(device)\<close>\<close>

definition stream_or_current :: "'w extern \<Rightarrow> device \<Rightarrow> int option \<Rightarrow> ('w world, int) io" where
  "stream_or_current env d stream = (case stream of None \<Rightarrow> current_stream env d | Some s \<Rightarrow> io_return s)"

definition add_function :: "dtype \<Rightarrow> string option" where
  "add_function d = (case d of Float32 \<Rightarrow> Some ''wavmg_add_f32_async''
     | Float16 \<Rightarrow> Some ''wavmg_add_f16_async'' | BFloat16 \<Rightarrow> Some ''wavmg_add_bf16_async''
     | _ \<Rightarrow> None)"

definition add_async ::
  "'w extern \<Rightarrow> torch_api \<Rightarrow> tensor \<Rightarrow> int \<Rightarrow> tensor \<Rightarrow> int option \<Rightarrow> ('w world, unit) io" where
  "add_async env T local peer_host_device_pointer output stream =
     (if t_dtype local \<noteq> t_dtype output
        then io_raise TypeError ''native kernel input/output dtypes differ''
      else (case add_function (t_dtype local) of
        None \<Rightarrow> io_raise TypeError ''native kernel does not support the dtype''
      | Some fn \<Rightarrow>
          (case kernel_layout T local output ''native kernel'' of
             Some e \<Rightarrow> io_of_sum (Inl e)
           | None \<Rightarrow>
               io_bind (stream_or_current env (t_device local) stream) (\<lambda>s.
               kernel_call env fn
                 [PyVoidP (t_ptr local), PyVoidP peer_host_device_pointer, PyVoidP (t_ptr output),
                  PyInt (int (numel local)), PyVoidP s] ''mapped-peer add''))))"

definition copy_async ::
  "'w extern \<Rightarrow> torch_api \<Rightarrow> tensor \<Rightarrow> int \<Rightarrow> int option \<Rightarrow> ('w world, unit) io" where
  "copy_async env T source destination_pointer stream =
     (if \<not> is_contiguous T source
        then io_raise ValueError ''native copy source must be contiguous''
      else
        io_bind (stream_or_current env (t_device source) stream) (\<lambda>s.
        kernel_call env ''wavmg_copy_async''
          [PyVoidP (t_ptr source), PyVoidP destination_pointer, PyInt (size_bytes_of T source),
           PyVoidP s] ''mapped-peer copy''))"

definition all_reduce_function :: "dtype \<Rightarrow> string option" where
  "all_reduce_function d = (case d of Float32 \<Rightarrow> Some ''wavmg_all_reduce_f32_async''
     | Float16 \<Rightarrow> Some ''wavmg_all_reduce_f16_async''
     | BFloat16 \<Rightarrow> Some ''wavmg_all_reduce_bf16_async'' | _ \<Rightarrow> None)"

definition all_reduce_async ::
  "'w extern \<Rightarrow> torch_api \<Rightarrow> tensor \<Rightarrow> int \<Rightarrow> int \<Rightarrow> tensor \<Rightarrow> int \<Rightarrow> int \<Rightarrow> int \<Rightarrow> int \<Rightarrow> int \<Rightarrow>
     int option \<Rightarrow> ('w world, unit) io" where
  "all_reduce_async env T local local_host_pointer peer_host_device_pointer output
       own_ready_device_pointer peer_ready_device_pointer own_consumed_device_pointer
       peer_consumed_device_pointer epoch stream =
     (if t_dtype local \<noteq> t_dtype output
        then io_raise TypeError ''native collective input/output dtypes differ''
      else (case all_reduce_function (t_dtype local) of
        None \<Rightarrow> io_raise TypeError ''native collective does not support the dtype''
      | Some fn \<Rightarrow>
          (case kernel_layout T local output ''native collective'' of
             Some e \<Rightarrow> io_of_sum (Inl e)
           | None \<Rightarrow>
               io_bind (stream_or_current env (t_device local) stream) (\<lambda>s.
               kernel_call env fn
                 [PyVoidP (t_ptr local), PyVoidP local_host_pointer,
                  PyVoidP peer_host_device_pointer, PyVoidP (t_ptr output),
                  PyInt (int (numel local)), PyVoidP own_ready_device_pointer,
                  PyVoidP peer_ready_device_pointer, PyVoidP own_consumed_device_pointer,
                  PyVoidP peer_consumed_device_pointer, PyU32 epoch, PyVoidP s]
                 ''native all-reduce enqueue''))))"

section \<open>What the entry points do\<close>

lemma io_of_sum_success [simp]: "io_of_sum r w = (Inr y, w') \<longleftrightarrow> r = Inr y \<and> w' = w"
  by (auto simp: io_of_sum_def)

lemma kernel_call_success:
  assumes "kernel_sigs fn = Some ts" and "marshal_all ts args = Some vs"
    and "kernel_call env fn args msg w = (Inr (), w')"
  shows "wlog w' = wlog w @ [Native fn vs]"
proof -
  have "call_native env kernel_sigs fn args = call_ext env (Native fn vs)"
    using assms(1,2) by (rule call_native_typed)
  with assms(3) show ?thesis
    by (auto simp: kernel_call_def kernel_check_def io_success call_ext_success_iff split: if_splits)
qed

lemma kernel_layout_None:
  "kernel_layout T l t what = None \<longleftrightarrow>
     is_contiguous T l \<and> is_contiguous T t \<and> numel l = numel t"
  by (auto simp: kernel_layout_def)

lemma kernel_layout_raises:
  "kernel_layout T l t what \<noteq> None \<Longrightarrow> \<exists>m. kernel_layout T l t what = Some (Exn ValueError m)"
  by (auto simp: kernel_layout_def)

lemma unsupported_function:
  "d \<notin> {Float16, BFloat16, Float32} \<Longrightarrow> add_function d = None \<and> all_reduce_function d = None"
  by (cases d) (simp_all add: add_function_def all_reduce_function_def)

lemma add_async_success:
  assumes "add_async env T local peer output (Some s) w = (Inr (), w')"
  shows "\<exists>fn. add_function (t_dtype local) = Some fn \<and> t_dtype local = t_dtype output \<and>
     numel local = numel output \<and> wlog w' = wlog w @
       [Native fn [VPtr (word_of_int (t_ptr local)), VPtr (word_of_int peer),
          VPtr (word_of_int (t_ptr output)), VU64 (word_of_nat (numel local)), VPtr (word_of_int s)]]"
proof -
  have sig: "add_function d = Some fn \<Longrightarrow>
      kernel_sigs fn = Some [T_void_p, T_void_p, T_void_p, T_size_t, T_void_p]" for d fn
    by (cases d) (auto simp: add_function_def kernel_sigs_def kernel_argtypes_def)
  from assms obtain fn where fn: "add_function (t_dtype local) = Some fn"
    and eq: "t_dtype local = t_dtype output" and n: "numel local = numel output"
    and run: "kernel_call env fn [PyVoidP (t_ptr local), PyVoidP peer, PyVoidP (t_ptr output),
       PyInt (int (numel local)), PyVoidP s] ''mapped-peer add'' w = (Inr (), w')"
    by (auto simp: add_async_def io_success stream_or_current_def kernel_layout_None
        split: if_splits option.splits)
  from kernel_call_success [OF sig [OF fn] _ run] fn eq n show ?thesis by simp
qed

lemma copy_async_success:
  assumes "copy_async env T source dest (Some s) w = (Inr (), w')"
  shows "is_contiguous T source \<and> wlog w' = wlog w @
    [Native ''wavmg_copy_async'' [VPtr (word_of_int (t_ptr source)), VPtr (word_of_int dest),
       VU64 (word_of_int (size_bytes_of T source)), VPtr (word_of_int s)]]"
proof -
  have sig: "kernel_sigs ''wavmg_copy_async'' = Some [T_void_p, T_void_p, T_size_t, T_void_p]"
    by (simp add: kernel_sigs_def kernel_argtypes_def)
  from assms have "is_contiguous T source" and
    run: "kernel_call env ''wavmg_copy_async'' [PyVoidP (t_ptr source), PyVoidP dest,
      PyInt (size_bytes_of T source), PyVoidP s] ''mapped-peer copy'' w = (Inr (), w')"
    by (auto simp: copy_async_def io_success stream_or_current_def split: if_splits)
  with kernel_call_success [OF sig _ run] show ?thesis by simp
qed

lemma all_reduce_async_success:
  assumes "all_reduce_async env T local h p output r1 r2 c1 c2 e (Some s) w = (Inr (), w')"
  shows "\<exists>fn. all_reduce_function (t_dtype local) = Some fn \<and> numel local = numel output \<and>
     wlog w' = wlog w @
       [Native fn [VPtr (word_of_int (t_ptr local)), VPtr (word_of_int h), VPtr (word_of_int p),
          VPtr (word_of_int (t_ptr output)), VU64 (word_of_nat (numel local)),
          VPtr (word_of_int r1), VPtr (word_of_int r2), VPtr (word_of_int c1),
          VPtr (word_of_int c2), VU32 (word_of_int e), VPtr (word_of_int s)]]"
proof -
  have sig: "all_reduce_function d = Some fn \<Longrightarrow> kernel_sigs fn =
      Some [T_void_p, T_void_p, T_void_p, T_void_p, T_size_t, T_void_p, T_void_p, T_void_p, T_void_p,
        T_uint32, T_void_p]" for d fn
    by (cases d) (auto simp: all_reduce_function_def kernel_sigs_def kernel_argtypes_def)
  from assms obtain fn where fn: "all_reduce_function (t_dtype local) = Some fn"
    and n: "numel local = numel output"
    and run: "kernel_call env fn [PyVoidP (t_ptr local), PyVoidP h, PyVoidP p, PyVoidP (t_ptr output),
       PyInt (int (numel local)), PyVoidP r1, PyVoidP r2, PyVoidP c1, PyVoidP c2, PyU32 e, PyVoidP s]
       ''native all-reduce enqueue'' w = (Inr (), w')"
    by (auto simp: all_reduce_async_def io_success stream_or_current_def kernel_layout_None
        split: if_splits option.splits)
  from kernel_call_success [OF sig [OF fn] _ run] fn n show ?thesis by simp
qed

text \<open>The size an add kernel reads from the peer's slot is the size of the copied payload.\<close>

definition tensors_fit :: "torch_api \<Rightarrow> tensor \<Rightarrow> tensor \<Rightarrow> bool" where
  "tensors_fit T local output \<longleftrightarrow> t_dtype local = t_dtype output \<and> is_contiguous T local \<and>
     is_contiguous T output \<and> numel local = numel output"

text \<open>When every native call reports success, the entry points return.\<close>

lemma kernel_call_returns:
  assumes "obliging env" and "kernel_sigs fn = Some ts" and "marshal_all ts args = Some vs"
    and "\<And>w'. Q () w'"
  shows "io_post (kernel_call env fn args msg) Q E w"
proof -
  have "io_post (call_native env kernel_sigs fn args) (\<lambda>x. io_post (kernel_check (fst x) msg) Q E) E w"
    using assms(1,2,3) by (rule obliging_native) (simp add: kernel_check_def wp assms(4))
  then show ?thesis by (simp add: kernel_call_def wp)
qed

lemma copy_async_returns:
  assumes "obliging env" and "is_contiguous T source" and "\<And>w'. Q () w'"
  shows "io_post (copy_async env T source p (Some s)) Q E w"
  using assms
  by (simp add: copy_async_def wp stream_or_current_def
      kernel_call_returns [where ts = "[T_void_p, T_void_p, T_size_t, T_void_p]"] kernel_sigs_def
      kernel_argtypes_def)

lemma add_async_returns:
  assumes "obliging env" and "tensors_fit T local output" and "add_function (t_dtype local) = Some fn"
    and "\<And>w'. Q () w'"
  shows "io_post (add_async env T local p output (Some s)) Q E w"
proof -
  have sig: "kernel_sigs fn = Some [T_void_p, T_void_p, T_void_p, T_size_t, T_void_p]"
    using assms(3) by (cases "t_dtype local") (auto simp: add_function_def kernel_sigs_def kernel_argtypes_def)
  have layout: "kernel_layout T local output ''native kernel'' = None"
    using assms(2) by (simp add: tensors_fit_def kernel_layout_None)
  from assms layout show ?thesis
    by (auto simp: add_async_def wp stream_or_current_def tensors_fit_def
        intro!: kernel_call_returns [OF _ sig])
qed

text \<open>An invalid call of a kernel entry point touches nothing outside Python: when the data types
  differ or are unsupported, a tensor is not contiguous or the element counts differ, \<open>add_async\<close>
  and \<open>all_reduce_async\<close> raise (\<open>TypeError\<close> for a data type, \<open>ValueError\<close> for the layout) and make
  no call at all, neither to the native library nor for the stream.\<close>

lemma kernel_guards:
  assumes "t_dtype local \<noteq> t_dtype output \<or> t_dtype local \<notin> {Float16, BFloat16, Float32} \<or>
    \<not> tensors_fit T local output"
  shows "(\<exists>k m. add_async env T local p output stream w = (Inl (Exn k m), w) \<and>
            k = (if t_dtype local \<noteq> t_dtype output \<or> t_dtype local \<notin> {Float16, BFloat16, Float32}
                 then TypeError else ValueError)) \<and>
         (\<exists>k m. all_reduce_async env T local h p output r1 r2 c1 c2 e stream w = (Inl (Exn k m), w) \<and>
            k = (if t_dtype local \<noteq> t_dtype output \<or> t_dtype local \<notin> {Float16, BFloat16, Float32}
                 then TypeError else ValueError))"
proof (cases "t_dtype local \<noteq> t_dtype output \<or> t_dtype local \<notin> {Float16, BFloat16, Float32}")
  case True
  then show ?thesis
    using unsupported_function [of "t_dtype local"]
    by (cases "t_dtype local \<noteq> t_dtype output")
       (simp_all add: add_async_def all_reduce_async_def io_raise_def)
next
  case False
  then obtain f g where "add_function (t_dtype local) = Some f"
    "all_reduce_function (t_dtype local) = Some g"
    by (auto simp: add_function_def all_reduce_function_def)
  moreover obtain m1 m2 where "kernel_layout T local output ''native kernel'' = Some (Exn ValueError m1)"
    "kernel_layout T local output ''native collective'' = Some (Exn ValueError m2)"
  proof -
    have "\<not> (is_contiguous T local \<and> is_contiguous T output \<and> numel local = numel output)"
      using assms False unfolding tensors_fit_def by blast
    then show ?thesis
      using that kernel_layout_None kernel_layout_raises by metis
  qed
  ultimately show ?thesis
    using False by (auto simp: add_async_def all_reduce_async_def io_of_sum_def)
qed

lemma kernel_guards_witness:
  "\<exists>m. add_async quiet sample_torch (sample_tensor Int64 4 16) 32 (sample_tensor Int64 4 64) None
     \<lparr>wext = 0, wlog = []\<rparr> = (Inl (Exn TypeError m), \<lparr>wext = 0, wlog = []\<rparr>)"
  using kernel_guards [of "sample_tensor Int64 4 16" "sample_tensor Int64 4 64" sample_torch quiet 32 None
      "\<lparr>wext = 0, wlog = []\<rparr>"]
  by (auto simp: sample_tensor_def)

end
