(* ===== verification/D3d12_Shared.thy ===== *)
theory D3d12_Shared
  imports Mapped_Peer_Kernel
begin

text \<open>
  \<open>d3d12_shared.py\<close>: a named cross-adapter heap with its timeline fence. The object keeps the native
  context (\<open>None\<close> for a null \<open>c_void_p\<close> and for an attribute that was never set) and the device
  pointer. \<open>close\<close> clears the context before it makes the native call. When the garbage collector
  runs \<open>__del__\<close> is not modelled; what it does is.
\<close>

definition d3d12_argtypes :: "(string \<times> ctype list) list" where
  "d3d12_argtypes =
    [(''wavmg_d3d12_create'', [T_int, T_wchar_p, T_size_t, T_pointer T_void_p, T_pointer T_void_p]),
     (''wavmg_d3d12_open'', [T_int, T_wchar_p, T_size_t, T_pointer T_void_p, T_pointer T_void_p]),
     (''wavmg_d3d12_signal'', [T_void_p, T_uint64, T_void_p]),
     (''wavmg_d3d12_wait'', [T_void_p, T_uint64, T_void_p]),
     (''wavmg_d3d12_close'', [T_void_p]),
     (''wavmg_d3d12_last_error'', [])]"

definition d3d12_sigs :: signatures where
  "d3d12_sigs = map_of d3d12_argtypes"

record d3d12_buffer =
  buf_name :: string
  buf_size :: int
  buf_device :: int
  buf_context :: "int option"
  buf_pointer :: int

definition blank_buffer :: d3d12_buffer where
  "blank_buffer = \<lparr>buf_name = [], buf_size = 0, buf_device = 0, buf_context = None, buf_pointer = 0\<rparr>"

definition context_arg :: "int option \<Rightarrow> pyarg" where
  "context_arg c = PyVoidP (case c of None \<Rightarrow> 0 | Some p \<Rightarrow> p)"

definition shared_check :: "'w extern \<Rightarrow> int \<Rightarrow> string \<Rightarrow> ('w world, unit) io" where
  "shared_check env code operation =
     (if code \<noteq> 0 then
        io_bind (call_native env d3d12_sigs ''wavmg_d3d12_last_error'' []) (\<lambda>(_, outs).
          io_raise RuntimeError (''D3D12 transport '' @ operation @ '' failed: '' @
            (case out_str outs of
               None \<Rightarrow> ''unknown error'' | Some m \<Rightarrow> (if m = [] then ''unknown error'' else m))))
      else io_return ())"

definition shared_signal :: "'w extern \<Rightarrow> int \<Rightarrow> int \<Rightarrow> ('w, d3d12_buffer, unit) meth" where
  "shared_signal env v stream =
     io_bind self (\<lambda>b.
     on_world (io_bind
       (call_native env d3d12_sigs ''wavmg_d3d12_signal''
          [context_arg (buf_context b), PyU64 v, PyVoidP stream])
       (\<lambda>(code, _). shared_check env code ''signal'')))"

definition shared_wait :: "'w extern \<Rightarrow> int \<Rightarrow> int \<Rightarrow> ('w, d3d12_buffer, unit) meth" where
  "shared_wait env v stream =
     io_bind self (\<lambda>b.
     on_world (io_bind
       (call_native env d3d12_sigs ''wavmg_d3d12_wait''
          [context_arg (buf_context b), PyU64 v, PyVoidP stream])
       (\<lambda>(code, _). shared_check env code ''wait'')))"

definition shared_close :: "'w extern \<Rightarrow> ('w, d3d12_buffer, unit) meth" where
  "shared_close env =
     io_bind self (\<lambda>b. case buf_context b of
        None \<Rightarrow> io_return ()
      | Some context \<Rightarrow>
          io_then (update_self (\<lambda>b. b\<lparr>buf_context := None\<rparr>))
          (on_world (io_bind (call_native env d3d12_sigs ''wavmg_d3d12_close'' [PyVoidP context])
             (\<lambda>(code, _). shared_check env code ''close''))))"

definition shared_del :: "'w extern \<Rightarrow> ('w, d3d12_buffer, unit) meth" where
  "shared_del env = io_catch (shared_close env) (\<lambda>_. io_return ())"

text \<open>
  \<open>__init__\<close> once the library is loaded (lines 68-89): the native call writes the context and the
  pointer.
\<close>

definition shared_attach ::
  "'w extern \<Rightarrow> string \<Rightarrow> int \<Rightarrow> int \<Rightarrow> bool \<Rightarrow> ('w, d3d12_buffer, unit) meth" where
  "shared_attach env name nbytes device create =
     io_then (update_self (\<lambda>b. b\<lparr>buf_name := name, buf_size := nbytes, buf_device := device,
                                  buf_context := None\<rparr>))
     (io_bind (on_world (call_native env d3d12_sigs
         (if create then ''wavmg_d3d12_create'' else ''wavmg_d3d12_open'')
         [PyInt device, PyStr name, PyInt nbytes, PyByref T_void_p, PyByref T_void_p]))
       (\<lambda>(code, outs).
      io_then (update_self (\<lambda>b. b\<lparr>buf_context := out_ptr outs\<rparr>))
      (io_then (on_world (shared_check env code (if create then ''create'' else ''open'')))
      (case out_ptr (drop 1 outs) of
         None \<Rightarrow> io_then (shared_close env)
                  (io_raise RuntimeError ''D3D12 transport returned a null HIP pointer'')
       | Some p \<Rightarrow> update_self (\<lambda>b. b\<lparr>buf_pointer := p\<rparr>)))))"

definition shared_init ::
  "'w extern \<Rightarrow> pyenv \<Rightarrow> string \<Rightarrow> int \<Rightarrow> int \<Rightarrow> bool \<Rightarrow> path option \<Rightarrow> ('w, d3d12_buffer, unit) meth" where
  "shared_init env pe name nbytes device create library_path =
     (if nbytes \<le> 0 then io_raise ValueError ''size must be positive''
      else
        io_bind (io_of_sum (native_library pe ''WAVMG_D3D12_DLL'' ''wavmg_d3d12_v1.dll'' library_path))
          (\<lambda>lib.
        io_then (on_world (load_library env pe (rocm_bin_directories pe @ [path_parent lib]) lib
                   (map fst d3d12_argtypes)))
        (shared_attach env name nbytes device create)))"

text \<open>\<open>D3D12SharedBuffer(...)\<close> as an expression: a fresh object, kept when the constructor returns.\<close>

definition shared_new ::
  "'w extern \<Rightarrow> pyenv \<Rightarrow> string \<Rightarrow> int \<Rightarrow> int \<Rightarrow> bool \<Rightarrow> path option \<Rightarrow> ('w world, d3d12_buffer) io" where
  "shared_new env pe name nbytes device create library_path =
     (\<lambda>w. case shared_init env pe name nbytes device create library_path (w, blank_buffer) of
        (Inl e, (w', _)) \<Rightarrow> (Inl e, w') | (Inr _, (w', b)) \<Rightarrow> (Inr b, w'))"

section \<open>Facts\<close>

lemma d3d12_typed:
  "call_native env d3d12_sigs ''wavmg_d3d12_signal'' [PyVoidP c, PyU64 v, PyVoidP s] =
     call_ext env (Native ''wavmg_d3d12_signal'' [VPtr (word_of_int c), VU64 (word_of_int v), VPtr (word_of_int s)])"
  "call_native env d3d12_sigs ''wavmg_d3d12_wait'' [PyVoidP c, PyU64 v, PyVoidP s] =
     call_ext env (Native ''wavmg_d3d12_wait'' [VPtr (word_of_int c), VU64 (word_of_int v), VPtr (word_of_int s)])"
  "call_native env d3d12_sigs ''wavmg_d3d12_close'' [PyVoidP c] =
     call_ext env (Native ''wavmg_d3d12_close'' [VPtr (word_of_int c)])"
  "call_native env d3d12_sigs ''wavmg_d3d12_last_error'' [] =
     call_ext env (Native ''wavmg_d3d12_last_error'' [])"
  "call_native env d3d12_sigs ''wavmg_d3d12_create'' [PyInt d, PyStr n, PyInt z, PyByref T_void_p, PyByref T_void_p] =
     call_ext env (Native ''wavmg_d3d12_create'' [VI32 (word_of_int d), VStr n, VU64 (word_of_int z),
       VRef T_void_p, VRef T_void_p])"
  "call_native env d3d12_sigs ''wavmg_d3d12_open'' [PyInt d, PyStr n, PyInt z, PyByref T_void_p, PyByref T_void_p] =
     call_ext env (Native ''wavmg_d3d12_open'' [VI32 (word_of_int d), VStr n, VU64 (word_of_int z),
       VRef T_void_p, VRef T_void_p])"
  by (simp_all add: call_native_def d3d12_sigs_def d3d12_argtypes_def)

definition context_word :: "int option \<Rightarrow> u64" where
  "context_word c = (case c of None \<Rightarrow> 0 | Some p \<Rightarrow> word_of_int p)"

lemma context_arg_word: "context_arg c = PyVoidP (case c of None \<Rightarrow> 0 | Some p \<Rightarrow> p)"
  by (simp add: context_arg_def)

lemma shared_check_success: "shared_check env code oper w = (Inr y, w') \<longleftrightarrow> code = 0 \<and> w' = w"
  by (auto simp: shared_check_def io_success split: prod.splits)

lemma shared_signal_success:
  assumes "shared_signal env v st (w, b) = (Inr (), (w', b'))"
  shows "b' = b \<and> wlog w' = wlog w @ [Native ''wavmg_d3d12_signal''
           [VPtr (context_word (buf_context b)), VU64 (word_of_int v), VPtr (word_of_int st)]]"
  using assms
  by (auto simp: shared_signal_def method_success call_ext_success_iff shared_check_success
      context_arg_def context_word_def d3d12_typed split: option.splits)

lemma shared_wait_success:
  assumes "shared_wait env v st (w, b) = (Inr (), (w', b'))"
  shows "b' = b \<and> wlog w' = wlog w @ [Native ''wavmg_d3d12_wait''
           [VPtr (context_word (buf_context b)), VU64 (word_of_int v), VPtr (word_of_int st)]]"
  using assms
  by (auto simp: shared_wait_def method_success call_ext_success_iff shared_check_success
      context_arg_def context_word_def d3d12_typed split: option.splits)

lemma shared_signal_returns:
  assumes "obliging env" and "\<And>w'. Q () (w', b)"
  shows "io_post (shared_signal env v st) Q E (w, b)"
  using assms
  by (simp add: shared_signal_def wp context_arg_def shared_check_def d3d12_sigs_def d3d12_argtypes_def
      obliging_native [where ts = "[T_void_p, T_uint64, T_void_p]"])

lemma shared_wait_returns:
  assumes "obliging env" and "\<And>w'. Q () (w', b)"
  shows "io_post (shared_wait env v st) Q E (w, b)"
  using assms
  by (simp add: shared_wait_def wp context_arg_def shared_check_def d3d12_sigs_def d3d12_argtypes_def
      obliging_native [where ts = "[T_void_p, T_uint64, T_void_p]"])

text \<open>The log a checked native call leaves.\<close>

definition error_query :: ecall where
  "error_query = Native ''wavmg_d3d12_last_error'' []"

lemma shared_check_log:
  "wlog (snd (shared_check env code oper w)) = wlog w @ (if code = 0 then [] else [error_query])"
  by (auto simp: shared_check_def io_bind_def io_return_def io_raise_def d3d12_typed call_ext_def
      error_query_def split: prod.splits sum.splits)

lemma shared_close_outcome:
  "\<exists>r w'. shared_close env (w, b) = (r, (w', b\<lparr>buf_context := None\<rparr>)) \<and>
     (\<exists>es. wlog w' = wlog w @ es \<and>
       (case buf_context b of None \<Rightarrow> r = Inr () \<and> w' = w
        | Some c \<Rightarrow> es = [Native ''wavmg_d3d12_close'' [VPtr (word_of_int c)]] \<or>
             es = [Native ''wavmg_d3d12_close'' [VPtr (word_of_int c)], error_query]))"
proof (cases "buf_context b")
  case None
  then show ?thesis
    by (simp add: shared_close_def io_bind_def self_def io_return_def)
next
  case (Some c)
  let ?m = "io_bind (call_native env d3d12_sigs ''wavmg_d3d12_close'' [PyVoidP c])
             (\<lambda>(code, _). shared_check env code ''close'')"
  have run: "shared_close env (w, b) =
      (fst (?m w), (snd (?m w), b\<lparr>buf_context := None\<rparr>))"
    by (simp add: shared_close_def io_bind_def self_def io_then_def update_self_def on_world_apply Some
        split: prod.splits)
  have "wlog (snd (?m w)) = wlog w @ [Native ''wavmg_d3d12_close'' [VPtr (word_of_int c)]] \<or>
        wlog (snd (?m w)) = wlog w @ [Native ''wavmg_d3d12_close'' [VPtr (word_of_int c)], error_query]"
    by (auto simp: io_bind_def d3d12_typed call_ext_def shared_check_log split: prod.splits sum.splits)
  with run Some show ?thesis by auto
qed

text \<open>C9: closing a buffer is idempotent and the native context is released at most once, also when the
  native call fails: whatever the first \<open>close\<close> returned, the context is gone afterwards, exactly one
  native close was made if there was a context and none otherwise, and every later \<open>close\<close> (or
  \<open>__del__\<close>) returns without any call.\<close>

theorem shared_close_once:
  "\<exists>r w' b'. shared_close env (w, b) = (r, (w', b')) \<and> buf_context b' = None \<and>
     length (filter (\<lambda>c. \<exists>vs. c = Native ''wavmg_d3d12_close'' vs) (wlog w')) =
       length (filter (\<lambda>c. \<exists>vs. c = Native ''wavmg_d3d12_close'' vs) (wlog w)) +
         (if buf_context b = None then 0 else 1) \<and>
     shared_close env (w', b') = (Inr (), (w', b')) \<and> shared_del env (w', b') = (Inr (), (w', b'))"
proof -
  obtain r w' es where run: "shared_close env (w, b) = (r, (w', b\<lparr>buf_context := None\<rparr>))"
    and log: "wlog w' = wlog w @ es" and cs: "case buf_context b of None \<Rightarrow> r = Inr () \<and> w' = w
        | Some c \<Rightarrow> es = [Native ''wavmg_d3d12_close'' [VPtr (word_of_int c)]] \<or>
             es = [Native ''wavmg_d3d12_close'' [VPtr (word_of_int c)], error_query]"
    using shared_close_outcome by blast
  have again: "shared_close env (w', b\<lparr>buf_context := None\<rparr>) = (Inr (), (w', b\<lparr>buf_context := None\<rparr>))"
    by (simp add: shared_close_def io_bind_def self_def io_return_def)
  then have "shared_del env (w', b\<lparr>buf_context := None\<rparr>) = (Inr (), (w', b\<lparr>buf_context := None\<rparr>))"
    by (simp add: shared_del_def io_catch_def)
  with run log cs again show ?thesis
    by (intro exI [of _ r] exI [of _ w'] exI [of _ "b\<lparr>buf_context := None\<rparr>"])
       (auto simp: error_query_def split: option.splits)
qed

lemma update_then: "io_then (update_self f) m (w, b) = m (w, f b)"
  by (simp add: io_then_def io_bind_def update_self_def)

lemma shared_attach_typed:
  "call_native env d3d12_sigs (if create then ''wavmg_d3d12_create'' else ''wavmg_d3d12_open'')
     [PyInt d, PyStr n, PyInt z, PyByref T_void_p, PyByref T_void_p] =
   call_ext env (Native (if create then ''wavmg_d3d12_create'' else ''wavmg_d3d12_open'')
     [VI32 (word_of_int d), VStr n, VU64 (word_of_int z), VRef T_void_p, VRef T_void_p])"
  by (simp add: d3d12_typed)

lemma shared_attach_success:
  assumes "shared_attach env name n d create (w, b) = (Inr (), (w', b'))"
  shows "\<exists>outs x. env (Native (if create then ''wavmg_d3d12_create'' else ''wavmg_d3d12_open'')
             [VI32 (word_of_int d), VStr name, VU64 (word_of_int n), VRef T_void_p, VRef T_void_p]) (wext w) =
             (Inr (0, outs), x) \<and> buf_context b' = out_ptr outs \<and>
           out_ptr (drop 1 outs) = Some (buf_pointer b') \<and> buf_size b' = n \<and> buf_name b' = name \<and>
           buf_device b' = d"
  using assms
  by (auto simp: shared_attach_def method_success call_ext_success_iff shared_check_success
      shared_attach_typed split: option.splits)

lemma shared_new_success:
  assumes "shared_new env pe name n d create lib w = (Inr b, w')"
  shows "0 < n \<and> buf_size b = n \<and> buf_name b = name \<and> buf_device b = d \<and>
    0 < buf_pointer b \<and> buf_pointer b < 2 ^ 64"
proof -
  from assms have init: "shared_init env pe name n d create lib (w, blank_buffer) = (Inr (), (w', b))"
    by (auto simp: shared_new_def split: prod.splits sum.splits)
  then have n: "0 < n"
    by (auto simp: shared_init_def io_success split: if_splits)
  with init obtain v where "shared_attach env name n d create (v, blank_buffer) = (Inr (), (w', b))"
    by (auto simp: shared_init_def method_success)
  from shared_attach_success [OF this] n show ?thesis
    by (auto simp del: power.simps dest!: out_ptr_positive)
qed

lemma shared_new_post:
  "(\<And>b w'. 0 < n \<Longrightarrow> buf_size b = n \<Longrightarrow> buf_name b = name \<Longrightarrow> 0 < buf_pointer b \<Longrightarrow> Q b w') \<Longrightarrow>
     (\<And>e w'. E e w') \<Longrightarrow> io_post (shared_new env pe name n d create lib) Q E w"
  by (auto simp: io_post_def dest: shared_new_success split: prod.splits sum.splits)

text \<open>A constructed buffer is usable: it has the requested size and name, its device pointer is a
  non-null 64-bit address, and the constructor never returns when the native side reports an error or
  leaves the pointer null. A non-positive size is refused before anything is loaded or called.\<close>

lemma shared_new_usable:
  "(shared_new env pe name n d create lib w = (Inr b, w') \<longrightarrow>
      0 < n \<and> buf_size b = n \<and> buf_name b = name \<and> buf_device b = d \<and>
      0 < buf_pointer b \<and> buf_pointer b < 2 ^ 64) \<and>
   (n \<le> 0 \<longrightarrow> (\<exists>m. shared_new env pe name n d create lib w = (Inl (Exn ValueError m), w)))"
proof (intro conjI impI)
  assume "shared_new env pe name n d create lib w = (Inr b, w')"
  from shared_new_success [OF this] show "0 < n" "buf_size b = n" "buf_name b = name" "buf_device b = d"
    "0 < buf_pointer b" "buf_pointer b < 2 ^ 64" by simp_all
next
  assume "n \<le> 0"
  then show "\<exists>m. shared_new env pe name n d create lib w = (Inl (Exn ValueError m), w)"
    by (simp add: shared_new_def shared_init_def io_raise_def)
qed

text \<open>An environment that opens every heap with context 7 at address 4096.\<close>

definition heap_env :: "nat extern" where
  "heap_env = (\<lambda>c n. (Inr (0, [VPtr 7, VPtr 4096]), Suc n))"

lemma shared_new_usable_witness:
  "\<exists>b w'. shared_new heap_env sample_env ''heap'' 4096 0 True None \<lparr>wext = 0, wlog = []\<rparr> = (Inr b, w') \<and>
     buf_size b = 4096 \<and> 0 < buf_pointer b"
proof -
  have "case shared_new heap_env sample_env ''heap'' 4096 0 True None \<lparr>wext = 0, wlog = []\<rparr> of
      (Inl e, w') \<Rightarrow> False | (Inr b, w') \<Rightarrow> True"
    by code_simp
  then have "\<exists>b w'. shared_new heap_env sample_env ''heap'' 4096 0 True None \<lparr>wext = 0, wlog = []\<rparr> = (Inr b, w')"
    by (auto split: prod.splits sum.splits)
  then show ?thesis using shared_new_usable by blast
qed

end
