(* ===== verification/Hip_Runtime.thy ===== *)
theory Hip_Runtime
  imports Runtime_Paths
begin

text \<open>
  \<open>hip_runtime.py\<close>: the ctypes binding of the HIP runtime. The signature table is that of lines
  59-170, a request names one method with its Python arguments, and \<open>hip_request\<close> gives the native
  function, the arguments built for it and the label used in error messages. \<open>hip_run\<close> is the
  common shape of the methods (call, then \<open>check\<close>); the methods that read an out parameter are
  defined from it.
\<close>

definition HIP_MEMCPY_HOST_TO_DEVICE :: int where "HIP_MEMCPY_HOST_TO_DEVICE = 1"
definition HIP_MEMCPY_DEVICE_TO_HOST :: int where "HIP_MEMCPY_DEVICE_TO_HOST = 2"
definition HIP_MEMCPY_DEFAULT :: int where "HIP_MEMCPY_DEFAULT = 4"
definition HIP_HOST_REGISTER_MAPPED :: int where "HIP_HOST_REGISTER_MAPPED = 2"
definition HIP_STREAM_WAIT_VALUE_GTE :: int where "HIP_STREAM_WAIT_VALUE_GTE = 0"
definition HIP_FULL_MASK :: int where "HIP_FULL_MASK = 0xFFFFFFFF"
definition HIP_DEVICE_ATTRIBUTE_CAN_USE_STREAM_WAIT_VALUE :: int where
  "HIP_DEVICE_ATTRIBUTE_CAN_USE_STREAM_WAIT_VALUE = 10013"
definition HIP_IPC_MEM_LAZY_ENABLE_PEER_ACCESS :: int where
  "HIP_IPC_MEM_LAZY_ENABLE_PEER_ACCESS = 1"

lemmas hip_constants = HIP_MEMCPY_HOST_TO_DEVICE_def HIP_MEMCPY_DEVICE_TO_HOST_def
  HIP_MEMCPY_DEFAULT_def HIP_HOST_REGISTER_MAPPED_def HIP_STREAM_WAIT_VALUE_GTE_def
  HIP_FULL_MASK_def HIP_DEVICE_ATTRIBUTE_CAN_USE_STREAM_WAIT_VALUE_def
  HIP_IPC_MEM_LAZY_ENABLE_PEER_ACCESS_def

definition hip_ipc_handle_bytes :: nat where
  "hip_ipc_handle_bytes = 64"

definition T_ipc_handle :: ctype where
  "T_ipc_handle = T_struct ''hipIpcMemHandle_t'' hip_ipc_handle_bytes"

section \<open>The declared signatures\<close>

definition hip_argtypes :: "(string \<times> ctype list) list" where
  "hip_argtypes =
    [(''hipHostRegister'', [T_void_p, T_size_t, T_uint]),
     (''hipHostUnregister'', [T_void_p]),
     (''hipHostGetDevicePointer'', [T_pointer T_void_p, T_void_p, T_uint]),
     (''hipMemcpy'', [T_void_p, T_void_p, T_size_t, T_int]),
     (''hipMemcpyAsync'', [T_void_p, T_void_p, T_size_t, T_int, T_void_p]),
     (''hipStreamWriteValue32'', [T_void_p, T_void_p, T_uint32, T_uint]),
     (''hipStreamWaitValue32'', [T_void_p, T_void_p, T_uint32, T_uint, T_uint32]),
     (''hipStreamSynchronize'', [T_void_p]),
     (''hipDeviceSynchronize'', []),
     (''hipDeviceGetAttribute'', [T_pointer T_int, T_int, T_int]),
     (''hipGetDeviceCount'', [T_pointer T_int]),
     (''hipDeviceCanAccessPeer'', [T_pointer T_int, T_int, T_int]),
     (''hipDeviceEnablePeerAccess'', [T_int, T_uint]),
     (''hipDeviceDisablePeerAccess'', [T_int]),
     (''hipSetDevice'', [T_int]),
     (''hipMalloc'', [T_pointer T_void_p, T_size_t]),
     (''hipFree'', [T_void_p]),
     (''hipMemcpyPeer'', [T_void_p, T_int, T_void_p, T_int, T_size_t]),
     (''hipMemcpyPeerAsync'', [T_void_p, T_int, T_void_p, T_int, T_size_t, T_void_p]),
     (''hipIpcGetMemHandle'', [T_pointer T_ipc_handle, T_void_p]),
     (''hipIpcOpenMemHandle'', [T_pointer T_void_p, T_ipc_handle, T_uint]),
     (''hipIpcCloseMemHandle'', [T_void_p]),
     (''hipGetErrorString'', [T_int]),
     (''hipRuntimeGetVersion'', [T_pointer T_int])]"

definition hip_sigs :: signatures where
  "hip_sigs = map_of hip_argtypes"

section \<open>The requests\<close>

datatype hip_method =
    RuntimeVersion
  | HostRegister int int int
  | HostGetDevicePointer int
  | HostUnregister int
  | Memcpy int int int int
  | MemcpyAsync int int int int int
  | StreamWriteValue32 int int int
  | StreamWaitValue32 int int int
  | StreamSynchronize int
  | DeviceSynchronize
  | CanUseStreamWaitValue int
  | GetDeviceCount
  | DeviceCanAccessPeer int int
  | DeviceEnablePeerAccess int
  | DeviceDisablePeerAccess int
  | SetDevice int
  | Malloc int
  | Free int
  | MemcpyPeer int int int int int
  | MemcpyPeerAsync int int int int int int
  | IpcGetMemHandle int
  | IpcOpenMemHandle "nat list"
  | IpcCloseMemHandle int

fun hip_request :: "hip_method \<Rightarrow> string \<times> pyarg list" where
  "hip_request RuntimeVersion = (''hipRuntimeGetVersion'', [PyByref T_int])"
| "hip_request (HostRegister pointer nbytes flags) =
     (''hipHostRegister'', [PyVoidP pointer, PyInt nbytes, PyInt flags])"
| "hip_request (HostGetDevicePointer host_pointer) =
     (''hipHostGetDevicePointer'', [PyByref T_void_p, PyVoidP host_pointer, PyInt 0])"
| "hip_request (HostUnregister pointer) = (''hipHostUnregister'', [PyVoidP pointer])"
| "hip_request (Memcpy destination source nbytes kind) =
     (''hipMemcpy'', [PyVoidP destination, PyVoidP source, PyInt nbytes, PyInt kind])"
| "hip_request (MemcpyAsync destination source nbytes kind stream) =
     (''hipMemcpyAsync'',
      [PyVoidP destination, PyVoidP source, PyInt nbytes, PyInt kind, PyVoidP stream])"
| "hip_request (StreamWriteValue32 stream device_pointer value) =
     (''hipStreamWriteValue32'', [PyVoidP stream, PyVoidP device_pointer, PyU32 value, PyInt 0])"
| "hip_request (StreamWaitValue32 stream device_pointer value) =
     (''hipStreamWaitValue32'',
      [PyVoidP stream, PyVoidP device_pointer, PyU32 value, PyInt HIP_STREAM_WAIT_VALUE_GTE,
       PyInt HIP_FULL_MASK])"
| "hip_request (StreamSynchronize stream) = (''hipStreamSynchronize'', [PyVoidP stream])"
| "hip_request DeviceSynchronize = (''hipDeviceSynchronize'', [])"
| "hip_request (CanUseStreamWaitValue device) =
     (''hipDeviceGetAttribute'',
      [PyByref T_int, PyInt HIP_DEVICE_ATTRIBUTE_CAN_USE_STREAM_WAIT_VALUE, PyInt device])"
| "hip_request GetDeviceCount = (''hipGetDeviceCount'', [PyByref T_int])"
| "hip_request (DeviceCanAccessPeer device peer_device) =
     (''hipDeviceCanAccessPeer'', [PyByref T_int, PyInt device, PyInt peer_device])"
| "hip_request (DeviceEnablePeerAccess peer_device) =
     (''hipDeviceEnablePeerAccess'', [PyInt peer_device, PyInt 0])"
| "hip_request (DeviceDisablePeerAccess peer_device) =
     (''hipDeviceDisablePeerAccess'', [PyInt peer_device])"
| "hip_request (SetDevice device) = (''hipSetDevice'', [PyInt device])"
| "hip_request (Malloc nbytes) = (''hipMalloc'', [PyByref T_void_p, PyInt nbytes])"
| "hip_request (Free pointer) = (''hipFree'', [PyVoidP pointer])"
| "hip_request (MemcpyPeer destination destination_device source source_device nbytes) =
     (''hipMemcpyPeer'',
      [PyVoidP destination, PyInt destination_device, PyVoidP source, PyInt source_device,
       PyInt nbytes])"
| "hip_request (MemcpyPeerAsync destination destination_device source source_device nbytes stream) =
     (''hipMemcpyPeerAsync'',
      [PyVoidP destination, PyInt destination_device, PyVoidP source, PyInt source_device,
       PyInt nbytes, PyVoidP stream])"
| "hip_request (IpcGetMemHandle device_pointer) =
     (''hipIpcGetMemHandle'', [PyByref T_ipc_handle, PyVoidP device_pointer])"
| "hip_request (IpcOpenMemHandle handle_bytes) =
     (''hipIpcOpenMemHandle'',
      [PyByref T_void_p, PyStruct ''hipIpcMemHandle_t'' handle_bytes,
       PyInt HIP_IPC_MEM_LAZY_ENABLE_PEER_ACCESS])"
| "hip_request (IpcCloseMemHandle device_pointer) =
     (''hipIpcCloseMemHandle'', [PyVoidP device_pointer])"

text \<open>The label given to \<open>check\<close> is the function's name, but for the attribute query.\<close>

definition hip_label :: "hip_method \<Rightarrow> string" where
  "hip_label m = (case m of
     CanUseStreamWaitValue _ \<Rightarrow> ''hipDeviceGetAttribute(CanUseStreamWaitValue)''
   | _ \<Rightarrow> fst (hip_request m))"

section \<open>The methods\<close>

definition error_string :: "'w extern \<Rightarrow> int \<Rightarrow> ('w world, string) io" where
  "error_string env code =
     io_bind (call_native env hip_sigs ''hipGetErrorString'' [PyInt code]) (\<lambda>(_, outs).
       io_return (case out_str outs of
           None \<Rightarrow> ''unknown'' | Some m \<Rightarrow> (if m = [] then ''unknown'' else m)))"

definition hip_check :: "'w extern \<Rightarrow> int \<Rightarrow> string \<Rightarrow> ('w world, unit) io" where
  "hip_check env code operation =
     (if code \<noteq> 0 then
        io_bind (error_string env code) (\<lambda>message.
          io_raise RuntimeError
            (operation @ '' failed: HIP '' @ py_str code @ '' ('' @ message @ '')''))
      else io_return ())"

definition hip_run :: "'w extern \<Rightarrow> hip_method \<Rightarrow> ('w world, cval list) io" where
  "hip_run env m =
     io_bind (call_native env hip_sigs (fst (hip_request m)) (snd (hip_request m))) (\<lambda>(code, outs).
     io_then (hip_check env code (hip_label m))
     (io_return outs))"

definition hip_do :: "'w extern \<Rightarrow> hip_method \<Rightarrow> ('w world, unit) io" where
  "hip_do env m = io_bind (hip_run env m) (\<lambda>_. io_return ())"

definition non_null :: "string \<Rightarrow> cval list \<Rightarrow> ('w world, int) io" where
  "non_null fn outs = (case out_ptr outs of
     None \<Rightarrow> io_raise RuntimeError (fn @ '' returned a null pointer'')
   | Some p \<Rightarrow> io_return p)"

definition runtime_version :: "'w extern \<Rightarrow> ('w world, int) io" where
  "runtime_version env = io_bind (hip_run env RuntimeVersion) (\<lambda>outs. io_return (out_int outs))"

definition host_register :: "'w extern \<Rightarrow> int \<Rightarrow> int \<Rightarrow> int \<Rightarrow> ('w world, unit) io" where
  "host_register env pointer nbytes flags = hip_do env (HostRegister pointer nbytes flags)"

definition host_get_device_pointer :: "'w extern \<Rightarrow> int \<Rightarrow> ('w world, int) io" where
  "host_get_device_pointer env host_pointer =
     io_bind (hip_run env (HostGetDevicePointer host_pointer)) (non_null ''hipHostGetDevicePointer'')"

definition host_unregister :: "'w extern \<Rightarrow> int \<Rightarrow> ('w world, unit) io" where
  "host_unregister env pointer = hip_do env (HostUnregister pointer)"

definition memcpy :: "'w extern \<Rightarrow> int \<Rightarrow> int \<Rightarrow> int \<Rightarrow> int \<Rightarrow> ('w world, unit) io" where
  "memcpy env destination source nbytes kind = hip_do env (Memcpy destination source nbytes kind)"

definition memcpy_async ::
  "'w extern \<Rightarrow> int \<Rightarrow> int \<Rightarrow> int \<Rightarrow> int \<Rightarrow> int \<Rightarrow> ('w world, unit) io" where
  "memcpy_async env destination source nbytes kind stream =
     hip_do env (MemcpyAsync destination source nbytes kind stream)"

definition stream_write_value32 :: "'w extern \<Rightarrow> int \<Rightarrow> int \<Rightarrow> int \<Rightarrow> ('w world, unit) io" where
  "stream_write_value32 env stream device_pointer value =
     hip_do env (StreamWriteValue32 stream device_pointer value)"

definition stream_wait_value32 :: "'w extern \<Rightarrow> int \<Rightarrow> int \<Rightarrow> int \<Rightarrow> ('w world, unit) io" where
  "stream_wait_value32 env stream device_pointer value =
     hip_do env (StreamWaitValue32 stream device_pointer value)"

definition stream_synchronize :: "'w extern \<Rightarrow> int \<Rightarrow> ('w world, unit) io" where
  "stream_synchronize env stream = hip_do env (StreamSynchronize stream)"

definition device_synchronize :: "'w extern \<Rightarrow> ('w world, unit) io" where
  "device_synchronize env = hip_do env DeviceSynchronize"

definition can_use_stream_wait_value :: "'w extern \<Rightarrow> int \<Rightarrow> ('w world, bool) io" where
  "can_use_stream_wait_value env device =
     io_bind (hip_run env (CanUseStreamWaitValue device)) (\<lambda>outs. io_return (out_int outs \<noteq> 0))"

definition get_device_count :: "'w extern \<Rightarrow> ('w world, int) io" where
  "get_device_count env = io_bind (hip_run env GetDeviceCount) (\<lambda>outs. io_return (out_int outs))"

definition device_can_access_peer :: "'w extern \<Rightarrow> int \<Rightarrow> int \<Rightarrow> ('w world, bool) io" where
  "device_can_access_peer env device peer_device =
     io_bind (hip_run env (DeviceCanAccessPeer device peer_device))
       (\<lambda>outs. io_return (out_int outs \<noteq> 0))"

definition device_enable_peer_access :: "'w extern \<Rightarrow> int \<Rightarrow> ('w world, unit) io" where
  "device_enable_peer_access env peer_device = hip_do env (DeviceEnablePeerAccess peer_device)"

definition device_disable_peer_access :: "'w extern \<Rightarrow> int \<Rightarrow> ('w world, unit) io" where
  "device_disable_peer_access env peer_device = hip_do env (DeviceDisablePeerAccess peer_device)"

definition set_device :: "'w extern \<Rightarrow> int \<Rightarrow> ('w world, unit) io" where
  "set_device env device = hip_do env (SetDevice device)"

definition malloc :: "'w extern \<Rightarrow> int \<Rightarrow> ('w world, int) io" where
  "malloc env nbytes = io_bind (hip_run env (Malloc nbytes)) (non_null ''hipMalloc'')"

definition free :: "'w extern \<Rightarrow> int \<Rightarrow> ('w world, unit) io" where
  "free env pointer = hip_do env (Free pointer)"

definition memcpy_peer ::
  "'w extern \<Rightarrow> int \<Rightarrow> int \<Rightarrow> int \<Rightarrow> int \<Rightarrow> int \<Rightarrow> ('w world, unit) io" where
  "memcpy_peer env destination destination_device source source_device nbytes =
     hip_do env (MemcpyPeer destination destination_device source source_device nbytes)"

definition memcpy_peer_async ::
  "'w extern \<Rightarrow> int \<Rightarrow> int \<Rightarrow> int \<Rightarrow> int \<Rightarrow> int \<Rightarrow> int \<Rightarrow> ('w world, unit) io" where
  "memcpy_peer_async env destination destination_device source source_device nbytes stream =
     hip_do env (MemcpyPeerAsync destination destination_device source source_device nbytes stream)"

definition ipc_get_mem_handle :: "'w extern \<Rightarrow> int \<Rightarrow> ('w world, nat list) io" where
  "ipc_get_mem_handle env device_pointer =
     io_bind (hip_run env (IpcGetMemHandle device_pointer))
       (\<lambda>outs. io_return (out_blob hip_ipc_handle_bytes outs))"

definition ipc_open_mem_handle :: "'w extern \<Rightarrow> nat list \<Rightarrow> ('w world, int) io" where
  "ipc_open_mem_handle env handle_bytes =
     (if length handle_bytes \<noteq> hip_ipc_handle_bytes
      then io_raise ValueError ''HIP IPC handle must be 64 bytes''
      else io_bind (hip_run env (IpcOpenMemHandle handle_bytes)) (non_null ''hipIpcOpenMemHandle''))"

definition ipc_close_mem_handle :: "'w extern \<Rightarrow> int \<Rightarrow> ('w world, unit) io" where
  "ipc_close_mem_handle env device_pointer = hip_do env (IpcCloseMemHandle device_pointer)"

section \<open>Loading the runtime\<close>

text \<open>The loop checks and adds one directory at a time.\<close>

fun add_checked_directories :: "'w extern \<Rightarrow> pyenv \<Rightarrow> path list \<Rightarrow> ('w world, unit) io" where
  "add_checked_directories env pe [] = io_return ()"
| "add_checked_directories env pe (d # ds) =
     (if \<not> is_dir pe d then io_raise FileNotFoundError ''DLL dependency directory was not found''
      else io_bind (call_ext env (Os ''add_dll_directory'' d))
             (\<lambda>_. add_checked_directories env pe ds))"

definition hip_init :: "'w extern \<Rightarrow> pyenv \<Rightarrow> path option \<Rightarrow> path list \<Rightarrow> ('w world, path) io" where
  "hip_init env pe runtime_path dependency_dirs =
     io_bind (io_of_sum (case runtime_path of
         None \<Rightarrow> find_hip_runtime pe
       | Some p \<Rightarrow> Inr (resolve pe (expanduser pe p)))) (\<lambda>resolved.
     if \<not> is_file pe resolved then io_raise FileNotFoundError ''HIP runtime was not found''
     else
       io_then (add_checked_directories env pe (dict_fromkeys
         (path_parent resolved # map (\<lambda>d. resolve pe (expanduser pe d)) dependency_dirs)))
       (io_bind (call_ext env (Os ''WinDLL'' resolved)) (\<lambda>_.
        io_then (bind_symbols pe resolved (map fst hip_argtypes))
        (io_return resolved))))"

section \<open>Every request type checks\<close>

definition handle_ok :: "hip_method \<Rightarrow> bool" where
  "handle_ok m = (case m of IpcOpenMemHandle bs \<Rightarrow> length bs = hip_ipc_handle_bytes | _ \<Rightarrow> True)"

lemma hip_marshal:
  assumes "handle_ok m"
  shows "\<exists>ts vs. hip_sigs (fst (hip_request m)) = Some ts \<and> marshal_all ts (snd (hip_request m)) = Some vs"
  using assms
  by (cases m) (simp_all add: hip_sigs_def hip_argtypes_def T_ipc_handle_def handle_ok_def)

text \<open>C10: every HIP method passes its native function exactly the argument list its declared
  \<open>argtypes\<close> require: the function is in the table and every argument converts, so no method can
  fail inside ctypes. (For an IPC handle this needs the length that \<open>ipc_open_mem_handle\<close> checks.)\<close>

theorem hip_requests_typed:
  assumes "handle_ok m"
  shows "typed_call hip_sigs (fst (hip_request m)) (snd (hip_request m))"
  using hip_marshal [OF assms] by (auto simp: typed_call_def)

lemma hip_requests_typed_witness:
  "typed_call hip_sigs ''hipStreamWaitValue32'' [PyVoidP 1, PyVoidP 2, PyU32 3, PyInt 0, PyInt 0xFFFFFFFF]"
  using hip_requests_typed [of "StreamWaitValue32 1 2 3"]
  by (simp add: handle_ok_def HIP_STREAM_WAIT_VALUE_GTE_def HIP_FULL_MASK_def)

text \<open>The same fact in the form the method proofs use.\<close>

lemma hip_request_native:
  assumes "handle_ok m"
  obtains vs where "\<And>env :: 'w extern.
    call_native env hip_sigs (fst (hip_request m)) (snd (hip_request m)) =
      call_ext env (Native (fst (hip_request m)) vs)"
  using hip_marshal [OF assms] call_native_typed by blast

lemma error_string_native:
  "call_native env hip_sigs ''hipGetErrorString'' [PyInt code] =
     call_ext env (Native ''hipGetErrorString'' [VI32 (word_of_int code)])"
  by (simp add: call_native_def hip_sigs_def hip_argtypes_def)

section \<open>The common shape of the methods\<close>

lemma hip_run_success:
  assumes "handle_ok m" and "hip_run env m w = (Inr outs, w')"
  shows "\<exists>vs x. env (Native (fst (hip_request m)) vs) (wext w) = (Inr (0, outs), x) \<and>
           w' = \<lparr>wext = x, wlog = wlog w @ [Native (fst (hip_request m)) vs]\<rparr>"
proof -
  obtain vs where vs: "\<And>env :: 'a extern. call_native env hip_sigs (fst (hip_request m)) (snd (hip_request m)) =
      call_ext env (Native (fst (hip_request m)) vs)"
    using assms(1) by (rule hip_request_native) blast
  from assms(2) show ?thesis
    by (auto simp: hip_run_def vs io_success call_ext_success_iff hip_check_def
        split: prod.splits if_splits)
qed

text \<open>A HIP method returns exactly when the runtime reports code 0, having made that one native
  call; for any other code it makes one more call, for the error text of that code, and raises
  \<open>RuntimeError\<close>.\<close>

lemma hip_run_outcome:
  assumes "answers env" and "handle_ok m"
  shows "\<exists>vs code outs x. env (Native (fst (hip_request m)) vs) (wext w) = (Inr (code, outs), x) \<and>
     (if code = 0
      then hip_run env m w = (Inr outs, \<lparr>wext = x, wlog = wlog w @ [Native (fst (hip_request m)) vs]\<rparr>)
      else \<exists>msg w'. hip_run env m w = (Inl (Exn RuntimeError msg), w') \<and>
             wlog w' = wlog w @ [Native (fst (hip_request m)) vs,
                                 Native ''hipGetErrorString'' [VI32 (word_of_int code)]])"
proof -
  obtain vs where vs: "\<And>env :: 'a extern. call_native env hip_sigs (fst (hip_request m)) (snd (hip_request m)) =
      call_ext env (Native (fst (hip_request m)) vs)"
    using assms(2) by (rule hip_request_native) blast
  obtain a x where a: "env (Native (fst (hip_request m)) vs) (wext w) = (Inr a, x)"
    and run: "call_ext env (Native (fst (hip_request m)) vs) w =
      (Inr a, \<lparr>wext = x, wlog = wlog w @ [Native (fst (hip_request m)) vs]\<rparr>)"
    using assms(1) by (rule call_ext_answers)
  obtain code outs where co: "a = (code, outs)" by (cases a)
  let ?w = "\<lparr>wext = x, wlog = wlog w @ [Native (fst (hip_request m)) vs]\<rparr>"
  obtain b y where err: "call_ext env (Native ''hipGetErrorString'' [VI32 (word_of_int code)]) ?w =
      (Inr b, \<lparr>wext = y, wlog = wlog ?w @ [Native ''hipGetErrorString'' [VI32 (word_of_int code)]]\<rparr>)"
    using assms(1) by (rule call_ext_answers)
  show ?thesis
  proof (cases "code = 0")
    case True
    with a co run show ?thesis
      by (intro exI [of _ vs] exI [of _ code] exI [of _ outs] exI [of _ x])
         (simp add: hip_run_def vs io_bind_def io_then_def io_return_def hip_check_def)
  next
    case False
    with a co run err show ?thesis
      by (intro exI [of _ vs] exI [of _ code] exI [of _ outs] exI [of _ x])
         (simp add: hip_run_def vs io_bind_def io_then_def io_return_def hip_check_def error_string_def
            error_string_native io_raise_def split: prod.splits)
  qed
qed

lemma hip_run_outcome_witness:
  "\<exists>vs. hip_run quiet (SetDevice 1) \<lparr>wext = 0, wlog = []\<rparr> =
     (Inr [], \<lparr>wext = 1, wlog = [Native ''hipSetDevice'' vs]\<rparr>)"
  using hip_run_outcome [OF quiet_answers, of "SetDevice 1" "\<lparr>wext = 0, wlog = []\<rparr>"]
  by (auto simp: handle_ok_def quiet_def)

lemma non_null_success:
  "non_null fn outs w = (Inr p, w') \<longleftrightarrow> out_ptr outs = Some p \<and> w' = w"
  by (auto simp: non_null_def io_success split: option.splits)

text \<open>No method that yields a pointer ever returns a null one: what \<open>malloc\<close>,
  \<open>host_get_device_pointer\<close> and \<open>ipc_open_mem_handle\<close> return lies strictly between 0 and \<open>2^64\<close>,
  whatever the runtime wrote.\<close>

lemma hip_pointers_not_null:
  assumes "malloc env n w = (Inr p, w') \<or> host_get_device_pointer env h w = (Inr p, w') \<or>
           ipc_open_mem_handle env bs w = (Inr p, w')"
  shows "0 < p \<and> p < 2 ^ 64"
  using assms
  by (auto simp: malloc_def host_get_device_pointer_def ipc_open_mem_handle_def io_success
      non_null_success simp del: power.simps dest!: out_ptr_positive split: if_splits)

definition one_pointer :: "nat extern" where
  "one_pointer = (\<lambda>c n. (Inr (0, [VPtr 4096]), Suc n))"

lemma hip_pointers_not_null_witness: "(0::int) < 4096 \<and> (4096::int) < 2 ^ 64"
proof -
  have "malloc one_pointer 16 \<lparr>wext = 0, wlog = []\<rparr> =
      (Inr 4096, \<lparr>wext = 1, wlog = [Native ''hipMalloc'' [VRef T_void_p, VU64 16]]\<rparr>)"
    by (simp add: malloc_def hip_run_def io_bind_def io_then_def io_return_def call_native_def hip_sigs_def
        hip_argtypes_def call_ext_def one_pointer_def hip_check_def non_null_def out_ptr_def)
  then show ?thesis using hip_pointers_not_null by blast
qed

lemma set_device_success:
  assumes "set_device env d w = (Inr (), w')"
  shows "wlog w' = wlog w @ [Native ''hipSetDevice'' [VI32 (word_of_int d)]]"
proof -
  have "call_native env hip_sigs ''hipSetDevice'' [PyInt d] = call_ext env (Native ''hipSetDevice'' [VI32 (word_of_int d)])"
    by (simp add: call_native_def hip_sigs_def hip_argtypes_def)
  with assms show ?thesis
    by (auto simp: set_device_def hip_do_def hip_run_def hip_check_def io_success call_ext_success_iff
        split: if_splits)
qed

text \<open>When every native call reports success, every unchecked HIP request returns.\<close>

lemma hip_do_returns:
  assumes "obliging env" and "handle_ok m" and "\<And>w'. Q () w'"
  shows "io_post (hip_do env m) Q E w"
proof -
  obtain ts vs where "hip_sigs (fst (hip_request m)) = Some ts"
    "marshal_all ts (snd (hip_request m)) = Some vs"
    using hip_marshal [OF assms(2)] by blast
  with assms(1) have "io_post (call_native env hip_sigs (fst (hip_request m)) (snd (hip_request m)))
      (\<lambda>(code, outs). io_post (hip_check env code (hip_label m)) (\<lambda>_. Q ()) E) E w"
    by (rule obliging_native) (simp add: hip_check_def wp assms(3))
  then show ?thesis
    by (simp add: hip_do_def hip_run_def wp)
qed

lemma host_unregister_post:
  assumes "\<forall>vs x. \<exists>outs y. env (Native ''hipHostUnregister'' vs) x = (Inr (0, outs), y)" and "\<And>w'. Q () w'"
  shows "io_post (host_unregister env p) Q E w"
proof -
  have eq: "call_native env hip_sigs ''hipHostUnregister'' [PyVoidP p] =
      call_ext env (Native ''hipHostUnregister'' [VPtr (word_of_int p)])"
    by (simp add: call_native_def hip_sigs_def hip_argtypes_def)
  obtain outs y where "env (Native ''hipHostUnregister'' [VPtr (word_of_int p)]) (wext w) = (Inr (0, outs), y)"
    using assms(1) by blast
  then show ?thesis
    by (simp add: host_unregister_def hip_do_def hip_run_def eq hip_check_def wp assms(2))
       (simp add: io_post_def call_ext_def io_return_def assms(2))
qed

end
