(* ===== verification/Dist_Calls.thy ===== *)
theory Dist_Calls
  imports Runtime_Paths Tensors
begin

text \<open>
  The calls of \<open>torch.distributed\<close> the communicators make, with the process group as an argument, and
  the integer settings they read from the environment. What a collective answers is the environment's;
  \<open>min_ok\<close> is the documented behaviour of a \<open>MIN\<close> reduction over flags.
\<close>

section \<open>Integer settings\<close>

text \<open>\<open>int(os.environ.get(name, str(default)))\<close>\<close>

definition env_int :: "pyenv \<Rightarrow> string \<Rightarrow> int \<Rightarrow> exn + int" where
  "env_int pe name dflt =
     (case py_int (case getenv pe name of None \<Rightarrow> py_str dflt | Some v \<Rightarrow> v) of
        None \<Rightarrow> Inl (Exn ValueError ''invalid literal for int() with base 10'')
      | Some i \<Rightarrow> Inr i)"

text \<open>\<open>int(os.environ.get(name, default))\<close> with an integer default\<close>

definition env_int_or :: "pyenv \<Rightarrow> string \<Rightarrow> int \<Rightarrow> exn + int" where
  "env_int_or pe name dflt =
     (case getenv pe name of None \<Rightarrow> Inr dflt
      | Some v \<Rightarrow> (case py_int v of
          None \<Rightarrow> Inl (Exn ValueError ''invalid literal for int() with base 10'') | Some i \<Rightarrow> Inr i))"

lemma env_int_agrees: "env_int pe name d = env_int_or pe name d"
  by (simp add: env_int_def env_int_or_def py_int_str split: option.splits)

section \<open>torch.distributed\<close>

text \<open>A process group is \<open>None\<close> or a name; it is passed to every call.\<close>

type_synonym pgroup = "string option"

definition group_args :: "pgroup \<Rightarrow> pyarg list" where
  "group_args g = (case g of None \<Rightarrow> [] | Some n \<Rightarrow> [PyStr n])"

definition dist_int :: "'w extern \<Rightarrow> string \<Rightarrow> pyarg list \<Rightarrow> ('w world, int) io" where
  "dist_int env fn args = io_bind (call_ext env (Dist fn args)) (\<lambda>(n, _). io_return n)"

definition get_global_rank :: "'w extern \<Rightarrow> pgroup \<Rightarrow> int \<Rightarrow> ('w world, int) io" where
  "get_global_rank env g r = (case g of None \<Rightarrow> io_return r
     | Some n \<Rightarrow> dist_int env ''get_global_rank'' [PyStr n, PyInt r])"

text \<open>\<open>broadcast_object_list\<close> of a one-element list holding \<open>None\<close> or a text.\<close>

definition broadcast_text ::
  "'w extern \<Rightarrow> pgroup \<Rightarrow> int \<Rightarrow> string option \<Rightarrow> ('w world, string option) io" where
  "broadcast_text env g src v =
     io_bind (call_ext env (Dist ''broadcast_object_list''
        ((case v of None \<Rightarrow> [] | Some t \<Rightarrow> [PyStr t]) @ PyInt src # group_args g)))
       (\<lambda>(_, outs). io_return (out_str outs))"

text \<open>\<open>all_reduce\<close> with \<open>ReduceOp.MIN\<close> of one int32.\<close>

definition min_flag :: "'w extern \<Rightarrow> pgroup \<Rightarrow> int \<Rightarrow> ('w world, int) io" where
  "min_flag env g n = dist_int env ''all_reduce'' (PyInt n # PyStr ''MIN'' # group_args g)"

section \<open>Facts\<close>

text \<open>Nothing is assumed of what the environment answers.\<close>

lemma any_world:
  "(\<And>y t. Q y t) \<Longrightarrow> (\<And>e t. E e t) \<Longrightarrow> io_post (m :: ('w world, 'a) io) Q E w"
  by (rule io_post_any)

text \<open>\<open>MIN\<close> over flags: the answer is a flag and not above the own contribution.\<close>

definition min_ok :: "'w extern \<Rightarrow> bool" where
  "min_ok env \<longleftrightarrow> (\<forall>g n w m outs x. n \<in> {0, 1} \<and>
     env (Dist ''all_reduce'' (PyInt n # PyStr ''MIN'' # group_args g)) w = (Inr (m, outs), x) \<longrightarrow>
     0 \<le> m \<and> m \<le> n)"

lemma min_flag_post:
  assumes "min_ok env" and "n \<in> {0, 1}" and "\<And>m w'. 0 \<le> m \<Longrightarrow> m \<le> n \<Longrightarrow> Q m w'" and "\<And>e w'. E e w'"
  shows "io_post (min_flag env g n) Q E w"
  unfolding min_flag_def dist_int_def wp
proof (rule io_post_call_answer, goal_cases)
  case (1 a x)
  then have "0 \<le> fst a \<and> fst a \<le> n"
    using assms(1,2) unfolding min_ok_def by (metis prod.collapse)
  then show ?case using assms(3) by blast
qed (rule assms(4))

end
