(* ===== verification/D3d12_All_Reduce.thy ===== *)
theory D3d12_All_Reduce
  imports D3d12_Shared Hip_Runtime Dist_Calls
begin

text \<open>
  \<open>d3d12_all_reduce.py\<close>: the host side of the D3D12 collective. The communicator holds its rank, its
  device, the payload range, the two buffers and the epoch counter; \<open>torch.distributed\<close> and the
  native libraries are the environment. \<open>D3d12_Link\<close> relates the native calls of one
  \<open>all_reduce\<close> to the stream commands of \<open>D3d12_Protocol\<close>.
\<close>

definition d3d12_requested :: "pyenv \<Rightarrow> bool" where
  "d3d12_requested pe =
     truthy (case getenv pe ''WAVMG_USE_D3D12'' of None \<Rightarrow> [] | Some v \<Rightarrow> v)"

section \<open>The communicator\<close>

record d3d12_ar =
  ar_group :: pgroup
  ar_rank :: int
  ar_world :: int
  ar_device :: device
  ar_max :: int
  ar_min :: int
  ar_base :: string
  ar_own :: "d3d12_buffer option"
  ar_peer :: "d3d12_buffer option"
  ar_epoch :: int

definition blank_ar :: d3d12_ar where
  "blank_ar = \<lparr>ar_group = None, ar_rank = 0, ar_world = 0,
     ar_device = \<lparr>dev_type = [], dev_index = None\<rparr>, ar_max = 0, ar_min = 0, ar_base = [],
     ar_own = None, ar_peer = None, ar_epoch = 0\<rparr>"

text \<open>A method of one of the two buffers, which is present.\<close>

definition on_own :: "d3d12_buffer \<Rightarrow> ('w, d3d12_buffer, 'a) meth \<Rightarrow> ('w, d3d12_ar, 'a) meth" where
  "on_own b m = on_field (\<lambda>_. b) (\<lambda>b s. s\<lparr>ar_own := Some b\<rparr>) m"

definition on_peer :: "d3d12_buffer \<Rightarrow> ('w, d3d12_buffer, 'a) meth \<Rightarrow> ('w, d3d12_ar, 'a) meth" where
  "on_peer b m = on_field (\<lambda>_. b) (\<lambda>b s. s\<lparr>ar_peer := Some b\<rparr>) m"

definition close_peer :: "'w extern \<Rightarrow> ('w, d3d12_ar, unit) meth" where
  "close_peer env = io_bind self (\<lambda>s. case ar_peer s of None \<Rightarrow> io_return ()
     | Some b \<Rightarrow> io_then (on_peer b (shared_close env)) (update_self (\<lambda>s. s\<lparr>ar_peer := None\<rparr>)))"

definition close_own :: "'w extern \<Rightarrow> ('w, d3d12_ar, unit) meth" where
  "close_own env = io_bind self (\<lambda>s. case ar_own s of None \<Rightarrow> io_return ()
     | Some b \<Rightarrow> io_then (on_own b (shared_close env)) (update_self (\<lambda>s. s\<lparr>ar_own := None\<rparr>)))"

definition close_buffers :: "'w extern \<Rightarrow> ('w, d3d12_ar, unit) meth" where
  "close_buffers env = io_then (close_peer env) (close_own env)"

definition agree_or_raise :: "'w extern \<Rightarrow> exn option \<Rightarrow> string \<Rightarrow> ('w, d3d12_ar, unit) meth" where
  "agree_or_raise env local_error operation =
     io_bind self (\<lambda>s.
     io_bind (on_world (min_flag env (ar_group s) (if local_error = None then 1 else 0))) (\<lambda>available.
     if available \<noteq> 0 then io_return ()
     else io_then (close_buffers env)
       (io_raise RuntimeError (''failed to '' @ operation @
          (case local_error of Some (Exn k m) \<Rightarrow> '': '' @ m | None \<Rightarrow> '' on peer rank'')))))"

text \<open>The buffer constructors of \<open>__init__\<close>: an exception becomes the local error.\<close>

definition buffer_device :: "d3d12_ar \<Rightarrow> int" where
  "buffer_device s = (case dev_index (ar_device s) of Some i \<Rightarrow> i | None \<Rightarrow> ar_rank s)"

definition create_own :: "'w extern \<Rightarrow> pyenv \<Rightarrow> ('w, d3d12_ar, exn option) meth" where
  "create_own env pe = io_bind self (\<lambda>s.
     io_catch
       (io_bind (on_world (shared_new env pe (ar_base s @ ''.rank'' @ py_str (ar_rank s)) (ar_max s)
                   (buffer_device s) True None)) (\<lambda>b.
        io_then (update_self (\<lambda>s. s\<lparr>ar_own := Some b\<rparr>)) (io_return None)))
       (\<lambda>e. io_return (Some e)))"

definition open_peer :: "'w extern \<Rightarrow> pyenv \<Rightarrow> ('w, d3d12_ar, exn option) meth" where
  "open_peer env pe = io_bind self (\<lambda>s.
     io_catch
       (io_bind (on_world (shared_new env pe (ar_base s @ ''.rank'' @ py_str (1 - ar_rank s)) (ar_max s)
                   (buffer_device s) False None)) (\<lambda>b.
        io_then (update_self (\<lambda>s. s\<lparr>ar_peer := Some b\<rparr>)) (io_return None)))
       (\<lambda>e. io_return (Some e)))"

text \<open>The checks of lines 35-66, in their order.\<close>

definition ar_configure ::
  "'w extern \<Rightarrow> torch_api \<Rightarrow> pyenv \<Rightarrow> pgroup \<Rightarrow> device_arg \<Rightarrow> int option \<Rightarrow> int option \<Rightarrow>
     ('w, d3d12_ar, unit) meth" where
  "ar_configure env T pe pg device max_size_bytes min_size_bytes =
     io_bind (on_world (dist_int env ''is_initialized'' [])) (\<lambda>initialized.
     if initialized = 0 then io_raise RuntimeError ''torch.distributed must be initialized first'' else
     io_bind (on_world (dist_int env ''get_rank'' (group_args pg))) (\<lambda>rank.
     io_bind (on_world (dist_int env ''get_world_size'' (group_args pg))) (\<lambda>size.
     if size \<noteq> 2 then io_raise ValueError ''D3D12AllReduce currently requires world size 2'' else
     io_bind (io_of_sum (as_device T device)) (\<lambda>d.
     if dev_type d \<noteq> ''cuda'' then io_raise ValueError ''expected a HIP/CUDA-like device'' else
     io_bind (io_of_sum (env_int pe ''WAVMG_D3D12_MAX_BYTES'' (64 * 1024 * 1024))) (\<lambda>configured_size.
     let max_bytes = (case max_size_bytes of None \<Rightarrow> configured_size | Some n \<Rightarrow> n) in
     if max_bytes \<le> 0 then io_raise ValueError ''D3D12 maximum payload must be positive'' else
     io_bind (io_of_sum (env_int pe ''WAVMG_D3D12_MIN_BYTES'' (32 * 1024))) (\<lambda>configured_min.
     let min_bytes = (case min_size_bytes of None \<Rightarrow> configured_min | Some n \<Rightarrow> n) in
     if min_bytes < 0 then io_raise ValueError ''D3D12 minimum payload cannot be negative'' else
     if max_bytes < min_bytes
       then io_raise ValueError ''D3D12 minimum payload cannot exceed its maximum payload'' else
     update_self (\<lambda>s. s\<lparr>ar_group := pg, ar_rank := rank, ar_world := size, ar_device := d,
        ar_max := max_bytes, ar_min := min_bytes\<rparr>)))))))"

text \<open>Lines 68-105: the name is agreed on, then the heaps.\<close>

definition ar_connect :: "'w extern \<Rightarrow> pyenv \<Rightarrow> ('w, d3d12_ar, unit) meth" where
  "ar_connect env pe =
     io_bind self (\<lambda>s.
     io_then (on_world (torch_do env ''set_device'' (device_args (ar_device s))))
     (io_bind (if ar_rank s = 0
               then on_world (io_bind (call_ext env (Os ''uuid4'' [])) (\<lambda>(_, outs).
                  io_return (Some (''Local'' @ [char_of (92::nat)] @ ''wavmg-d3d12-'' @
                     (case out_str outs of None \<Rightarrow> [] | Some h \<Rightarrow> h)))))
               else io_return None) (\<lambda>descriptor.
      io_bind (on_world (get_global_rank env (ar_group s) 0)) (\<lambda>global_source.
      io_bind (on_world (broadcast_text env (ar_group s) global_source descriptor)) (\<lambda>answer.
      case answer of
        None \<Rightarrow> io_raise RuntimeError ''rank 0 did not broadcast a D3D12 object name''
      | Some base \<Rightarrow>
          io_then (update_self (\<lambda>s. s\<lparr>ar_base := base\<rparr>))
          (io_bind (on_world (hip_init env pe None [])) (\<lambda>_.
           io_bind (on_world (kernel_init env pe None)) (\<lambda>_.
           io_then (update_self (\<lambda>s. s\<lparr>ar_own := None, ar_peer := None, ar_epoch := 0\<rparr>))
           (io_bind (create_own env pe) (\<lambda>local_error.
            io_then (agree_or_raise env local_error ''create D3D12 cross-adapter heap'')
            (io_bind (open_peer env pe) (\<lambda>local_error.
             agree_or_raise env local_error ''open peer D3D12 cross-adapter heap''))))))))))))"

definition ar_init ::
  "'w extern \<Rightarrow> torch_api \<Rightarrow> pyenv \<Rightarrow> pgroup \<Rightarrow> device_arg \<Rightarrow> int option \<Rightarrow> int option \<Rightarrow>
     ('w, d3d12_ar, unit) meth" where
  "ar_init env T pe pg device max_size_bytes min_size_bytes =
     io_then (ar_configure env T pe pg device max_size_bytes min_size_bytes) (ar_connect env pe)"

section \<open>The collective\<close>

definition supported_dtypes :: "dtype set" where
  "supported_dtypes = {Float16, Float32, BFloat16}"

text \<open>Lines 137-159: everything after the guards.\<close>

definition ar_enqueue ::
  "'w extern \<Rightarrow> torch_api \<Rightarrow> d3d12_buffer \<Rightarrow> d3d12_buffer \<Rightarrow> tensor \<Rightarrow> ('w, d3d12_ar, tensor) meth" where
  "ar_enqueue env T own peer source =
     io_then (update_self (\<lambda>s. s\<lparr>ar_epoch := ar_epoch s + 1\<rparr>))
     (io_bind self (\<lambda>s.
      let ready = ar_epoch s * 2 - 1; consumed = ready + 1 in
      io_then (on_world (torch_do env ''set_device'' (device_args (ar_device s))))
      (case dev_index (ar_device s) of
         None \<Rightarrow> io_raise RuntimeError ''D3D12 communicator device must have an index''
       | Some device_index \<Rightarrow>
          io_then (on_world (set_device env device_index))
          (io_bind (on_world (current_stream env (ar_device s))) (\<lambda>stream.
           io_bind (on_world (empty_like env T source)) (\<lambda>output.
           io_then (on_world (copy_async env T source (buf_pointer own) (Some stream)))
           (io_then (on_own own (shared_signal env ready stream))
           (io_then (on_peer peer (shared_wait env ready stream))
           (io_then (on_world (add_async env T source (buf_pointer peer) output (Some stream)))
           (io_then (on_peer peer (shared_signal env consumed stream))
           (io_then (on_own own (shared_wait env consumed stream))
           (io_return output)))))))))))) "

definition ar_all_reduce ::
  "'w extern \<Rightarrow> torch_api \<Rightarrow> tensor \<Rightarrow> ('w, d3d12_ar, tensor) meth" where
  "ar_all_reduce env T t =
     io_bind self (\<lambda>s.
     (case (ar_own s, ar_peer s) of
        (Some own, Some peer) \<Rightarrow>
          if t_device t \<noteq> ar_device s
            then io_raise ValueError ''tensor is on another device'' else
          io_bind (on_world (as_contiguous env T t)) (\<lambda>source.
          if t_dtype source \<notin> supported_dtypes
            then io_raise TypeError ''D3D12 all-reduce does not support the dtype'' else
          if size_bytes_of T source = 0 then on_world (empty_like env T source) else
          if ar_max s < size_bytes_of T source
            then io_raise ValueError ''collective payload exceeds WAVMG_D3D12_MAX_BYTES'' else
          ar_enqueue env T own peer source)
      | _ \<Rightarrow> io_raise RuntimeError ''D3D12 all-reduce is closed''))"

definition can_handle :: "torch_api \<Rightarrow> d3d12_ar \<Rightarrow> tensor \<Rightarrow> bool" where
  "can_handle T s t =
     (t_dtype t \<in> supported_dtypes \<and> 0 < size_bytes_of T t \<and>
      ar_min s \<le> size_bytes_of T t \<and> size_bytes_of T t \<le> ar_max s)"

definition ar_destroy :: "'w extern \<Rightarrow> ('w, d3d12_ar, unit) meth" where
  "ar_destroy env =
     io_bind self (\<lambda>s.
     if ar_own s = None \<and> ar_peer s = None then io_return () else
     io_then (on_world (torch_do env ''synchronize'' (device_args (ar_device s))))
     (io_then (on_world (io_bind (dist_int env ''barrier'' (group_args (ar_group s))) (\<lambda>_. io_return ())))
     (close_buffers env)))"

section \<open>The calls of one collective\<close>

lemma ar_enqueue_success:
  assumes "ar_enqueue env T own peer source (w, s) = (Inr out, (w', s'))"
  obtains st fn d q where "add_function (t_dtype source) = Some fn" "dev_index (ar_device s) = Some d"
    "is_contiguous T source" "out = like_on T source q"
    "s' = s\<lparr>ar_epoch := ar_epoch s + 1, ar_own := Some own, ar_peer := Some peer\<rparr>"
    "wlog w' = wlog w @
       [Torch ''set_device'' (device_args (ar_device s)),
        Native ''hipSetDevice'' [VI32 (word_of_int d)],
        Torch ''current_stream'' (device_args (ar_device s)),
        Torch ''empty_like'' [PyInt (t_ptr source)],
        Native ''wavmg_copy_async'' [VPtr (word_of_int (t_ptr source)), VPtr (word_of_int (buf_pointer own)),
          VU64 (word_of_int (size_bytes_of T source)), VPtr st],
        Native ''wavmg_d3d12_signal'' [VPtr (context_word (buf_context own)),
          VU64 (word_of_int ((ar_epoch s + 1) * 2 - 1)), VPtr st],
        Native ''wavmg_d3d12_wait'' [VPtr (context_word (buf_context peer)),
          VU64 (word_of_int ((ar_epoch s + 1) * 2 - 1)), VPtr st],
        Native fn [VPtr (word_of_int (t_ptr source)), VPtr (word_of_int (buf_pointer peer)),
          VPtr (word_of_int (t_ptr out)), VU64 (word_of_nat (numel source)), VPtr st],
        Native ''wavmg_d3d12_signal'' [VPtr (context_word (buf_context peer)),
          VU64 (word_of_int ((ar_epoch s + 1) * 2)), VPtr st],
        Native ''wavmg_d3d12_wait'' [VPtr (context_word (buf_context own)),
          VU64 (word_of_int ((ar_epoch s + 1) * 2)), VPtr st]]"
proof -
  from assms show ?thesis
    apply (clarsimp simp: ar_enqueue_def method_success on_own_def on_peer_def Let_def split: option.split_asm)
    apply (drule torch_do_success set_device_success current_stream_success empty_like_success copy_async_success
      shared_signal_success shared_wait_success add_async_success)+
    apply clarsimp
    apply (rule that)
    apply (assumption | rule refl | simp add: algebra_simps)+
    done
qed

section \<open>What a call leaves behind\<close>

text \<open>The guards on a tensor.\<close>

definition acceptable :: "torch_api \<Rightarrow> d3d12_ar \<Rightarrow> tensor \<Rightarrow> bool" where
  "acceptable T s t \<longleftrightarrow> ar_own s \<noteq> None \<and> ar_peer s \<noteq> None \<and> t_device t = ar_device s \<and>
     t_dtype t \<in> supported_dtypes \<and> size_bytes_of T t \<le> ar_max s"

text \<open>A rejected collective leaves no trace on the transport: when the communicator is closed, or the
  tensor is on another device, of an unsupported type or larger than the buffers, \<open>all_reduce\<close>
  raises, the communicator is unchanged (the epoch included, so the two ranks stay in step) and no
  native function has been called; at most the contiguous copy was made.\<close>

lemma ar_rejects_cleanly:
  assumes "torch_ok T" and "\<not> acceptable T s t" and "0 < size_bytes_of T t"
  shows "\<exists>e w'. ar_all_reduce env T t (w, s) = (Inl e, (w', s)) \<and>
     (wlog w' = wlog w \<or> wlog w' = wlog w @ [Torch ''contiguous'' [PyInt (t_ptr t)]])"
proof -
  have post: "io_post (as_contiguous env T t)
      (\<lambda>u v. same_kind t u \<and> (wlog v = wlog w \<or> wlog v = wlog w @ [Torch ''contiguous'' [PyInt (t_ptr t)]]))
      (\<lambda>e v. wlog v = wlog w \<or> wlog v = wlog w @ [Torch ''contiguous'' [PyInt (t_ptr t)]]) w"
    by (simp add: as_contiguous_def contiguous_def wp torch_ok_contiguous [OF assms(1)] io_post_call_ext)
  have kind: "t_dtype u = t_dtype t \<and> size_bytes_of T u = size_bytes_of T t" if "same_kind t u" for u
    using that same_kind_size [OF that, of T] by (simp add: same_kind_def)
  let ?E = "\<lambda>e (v, s'). s' = s \<and> (wlog v = wlog w \<or> wlog v = wlog w @ [Torch ''contiguous'' [PyInt (t_ptr t)]])"
  have "io_post (ar_all_reduce env T t) (\<lambda>_ _. False) ?E (w, s)"
  proof (cases "ar_own s = None \<or> ar_peer s = None \<or> t_device t \<noteq> ar_device s")
    case True
    then show ?thesis by (auto simp: ar_all_reduce_def wp split: option.splits)
  next
    case False
    then obtain own peer where "ar_own s = Some own" "ar_peer s = Some peer" "t_device t = ar_device s"
      by auto
    moreover have "t_dtype t \<notin> supported_dtypes \<or> ar_max s < size_bytes_of T t"
      using False assms(2) by (auto simp: acceptable_def)
    ultimately show ?thesis
      using assms(3)
      by (simp add: ar_all_reduce_def wp) (rule io_post_mono [OF post]; (elim conjE, frule kind)?; auto simp: wp)
  qed
  then show ?thesis by (auto simp: io_post_raises)
qed

text \<open>A connected communicator, for the witnesses.\<close>

definition sample_buffer :: "int \<Rightarrow> int \<Rightarrow> d3d12_buffer" where
  "sample_buffer c p = \<lparr>buf_name = ''heap'', buf_size = 4096, buf_device = 0, buf_context = Some c, buf_pointer = p\<rparr>"

definition sample_ar :: d3d12_ar where
  "sample_ar = \<lparr>ar_group = None, ar_rank = 0, ar_world = 2,
     ar_device = \<lparr>dev_type = ''cuda'', dev_index = Some 0\<rparr>, ar_max = 4096, ar_min = 4, ar_base = ''heap'',
     ar_own = Some (sample_buffer 7 4096), ar_peer = Some (sample_buffer 8 8192), ar_epoch = 0\<rparr>"

lemma ar_rejects_cleanly_witness:
  "\<exists>e w'. ar_all_reduce quiet sample_torch (sample_tensor Float32 2000 16) (\<lparr>wext = 0, wlog = []\<rparr>, sample_ar) =
     (Inl e, (w', sample_ar))"
proof -
  have "\<not> acceptable sample_torch sample_ar (sample_tensor Float32 2000 16)"
    and "0 < size_bytes_of sample_torch (sample_tensor Float32 2000 16)"
    by (simp_all add: acceptable_def sample_ar_def sample_tensor_def size_bytes_of_def numel_def sample_torch_def)
  from ar_rejects_cleanly [OF sample_torch_ok this, of quiet "\<lparr>wext = 0, wlog = []\<rparr>"] show ?thesis
    by blast
qed

lemma handled_tensor_reduces:
  assumes "torch_ok T" and "obliging env" and "can_handle T s t"
    and "ar_own s = Some own" and "ar_peer s = Some peer"
    and "t_device t = ar_device s" and "dev_index (ar_device s) = Some d"
  shows "\<exists>out w'. ar_all_reduce env T t (w, s) =
     (Inr out, (w', s\<lparr>ar_epoch := ar_epoch s + 1\<rparr>)) \<and> same_kind t out"
proof -
  have s: "s\<lparr>ar_own := Some own, ar_peer := Some peer\<rparr> = s"
    using assms(4,5) by (cases s) simp
  have sz: "0 < size_bytes_of T t" "size_bytes_of T t \<le> ar_max s" "t_dtype t \<in> supported_dtypes"
    using assms(3) by (simp_all add: can_handle_def)
  obtain fn where fn: "add_function (t_dtype t) = Some fn"
    using sz(3) by (auto simp: supported_dtypes_def add_function_def)
  let ?Q = "\<lambda>out (w', s'). s' = s\<lparr>ar_epoch := ar_epoch s + 1\<rparr> \<and> same_kind t out"
  have enqueue: "io_post (ar_enqueue env T own peer u) ?Q (\<lambda>_ _. False) (v, s)"
    if u: "same_kind t u" "is_contiguous T u" for u v
  proof -
    have out: "is_contiguous T (like_on T u p)" "same_kind u (like_on T u p)" for p
      using torch_ok_like [OF assms(1)] u(2) by simp_all
    have add: "add_function (t_dtype u) = Some fn" and fit: "tensors_fit T u (like_on T u p)" for p
      using fn u out [of p] same_kind_size [OF out(2) [of p]]
      by (auto simp: same_kind_def tensors_fit_def)
    have tr: "same_kind t (like_on T u p)" for p
      using u(1) out(2) [of p] by (simp add: same_kind_def)
    show ?thesis
      using assms(2,4,5,7) u(2) tr
      by (auto simp: ar_enqueue_def Let_def wp on_own_def on_peer_def set_device_def handle_ok_def
          intro!: torch_calls_return hip_do_returns copy_async_returns shared_signal_returns
            shared_wait_returns add_async_returns [OF _ fit add])
  qed
  have "io_post (ar_all_reduce env T t) ?Q (\<lambda>_ _. False) (w, s)"
  proof -
    have kind: "t_dtype u = t_dtype t \<and> size_bytes_of T u = size_bytes_of T t" if "same_kind t u" for u
      using that same_kind_size [OF that, of T] by (simp add: same_kind_def)
    from assms(4-6) sz show ?thesis
      by (simp add: ar_all_reduce_def wp)
         (rule as_contiguous_returns [OF assms(1,2)]; frule kind; use enqueue in \<open>simp add: wp\<close>)
  qed
  then show ?thesis by (auto simp: io_post_returns)
qed



section \<open>Construction and destruction\<close>

text \<open>What a successful constructor establishes.\<close>

definition ar_range :: "d3d12_ar \<Rightarrow> bool" where
  "ar_range s \<longleftrightarrow> ar_world s = 2 \<and> dev_type (ar_device s) = ''cuda'' \<and> 0 < ar_max s \<and>
     0 \<le> ar_min s \<and> ar_min s \<le> ar_max s"

definition ar_connected :: "d3d12_ar \<Rightarrow> bool" where
  "ar_connected s \<longleftrightarrow> ar_range s \<and> ar_epoch s = 0 \<and>
     (\<exists>own peer. ar_own s = Some own \<and> ar_peer s = Some peer \<and>
        buf_name own = ar_base s @ ''.rank'' @ py_str (ar_rank s) \<and>
        buf_name peer = ar_base s @ ''.rank'' @ py_str (1 - ar_rank s) \<and>
        buf_size own = ar_max s \<and> buf_size peer = ar_max s)"

lemma ar_configure_post:
  "io_post (ar_configure env T pe pg device mx mn) (\<lambda>_ u. ar_range (snd u)) (\<lambda>_ _. True) ws"
  by (auto simp: ar_configure_def wp Let_def ar_range_def intro!: any_world split: sum.splits)

lemma agree_post:
  assumes "min_ok env" and "\<And>v. err = None \<Longrightarrow> Q () (v, s)" and "\<And>e t. E e t"
  shows "io_post (agree_or_raise env err operation) Q E (w', s)"
  unfolding agree_or_raise_def wp fst_conv snd_conv
proof (rule min_flag_post [OF assms(1)], goal_cases)
  case (2 m v)
  have "err = None" if "m \<noteq> 0" using that 2 by (auto split: if_splits)
  moreover have "io_post (io_then (close_buffers env) (io_raise k t)) Q E (v, s)" for k t
    unfolding wp by (rule io_post_any) (rule assms(3))+
  ultimately show ?case using assms(2) by (simp add: wp)
qed (simp_all add: assms(3))

lemma create_own_post:
  assumes "\<And>e w'. Q (Some e) (w', s)" and "\<And>b w'. 0 < ar_max s \<Longrightarrow> buf_size b = ar_max s \<Longrightarrow> 
    buf_name b = ar_base s @ ''.rank'' @ py_str (ar_rank s) \<Longrightarrow> Q None (w', s\<lparr>ar_own := Some b\<rparr>)"
  shows "io_post (create_own env pe) Q E (w, s)"
  using assms by (simp add: create_own_def wp shared_new_post)
lemma open_peer_post:
  assumes "\<And>e w'. Q (Some e) (w', s)" and "\<And>b w'. 0 < ar_max s \<Longrightarrow> buf_size b = ar_max s \<Longrightarrow> 
    buf_name b = ar_base s @ ''.rank'' @ py_str (1 - ar_rank s) \<Longrightarrow> Q None (w', s\<lparr>ar_peer := Some b\<rparr>)"
  shows "io_post (open_peer env pe) Q E (w, s)"
  using assms by (simp add: open_peer_def wp shared_new_post)

lemma ar_connect_post:
  assumes "min_ok env" and "ar_range s"
  shows "io_post (ar_connect env pe) (\<lambda>_ u. ar_connected (snd u)) (\<lambda>_ _. True) (w, s)"
proof -
  let ?Q = "\<lambda>_ u. ar_connected (snd u)" and ?E = "\<lambda>_ _. True"
  have tail: "io_post (io_bind (create_own env pe) (\<lambda>local_error.
       io_then (agree_or_raise env local_error a)
         (io_bind (open_peer env pe) (\<lambda>local_error. agree_or_raise env local_error b)))) ?Q ?E (v, t)"
    if "ar_range t" "ar_epoch t = 0" for v t a b
    using that unfolding wp
    by (intro create_own_post agree_post [OF assms(1)] open_peer_post)
       (auto simp: ar_connected_def ar_range_def)
  show ?thesis
    using assms(2)
    by (auto simp: ar_connect_def wp ar_range_def intro!: any_world
       tail [unfolded wp] split: option.splits)
qed

lemma ar_init_post:
  assumes "min_ok env"
  shows "io_post (ar_init env T pe pg device mx mn) (\<lambda>_ u. ar_connected (snd u)) (\<lambda>_ _. True) ws"
  unfolding ar_init_def wp
  by (rule io_post_mono [OF ar_configure_post])
     (use ar_connect_post [OF assms] in \<open>auto simp: split_paired_all\<close>)

text \<open>C6: a constructed communicator is connected: there are two ranks, the device is a GPU, the payload
  range is non-empty (\<open>0 <= min <= max\<close>, \<open>0 < max\<close>), the epoch is 0, both buffers are open with the
  maximum size, the own heap carries the own rank's name and the peer heap the other rank's. It relies
  only on \<open>MIN\<close> over flags never exceeding the own flag.\<close>

theorem ar_init_connected:
  assumes "min_ok env" and "ar_init env T pe pg device mx mn (w, s) = (Inr (), (w', s'))"
  shows "ar_connected s'"
  using ar_init_post [OF assms(1), of T pe pg device mx mn "(w, s)"] assms(2) by (simp add: io_post_def)

text \<open>An environment with two ranks, in which this process is rank 0.\<close>

definition rank0_env :: "nat extern" where
  "rank0_env = (\<lambda>c n. (Inr (case c of
       Dist fn args \<Rightarrow>
         (if fn = ''is_initialized'' then (1, [])
          else if fn = ''get_world_size'' then (2, [])
          else if fn = ''broadcast_object_list'' then (0, [VStr ''heap''])
          else if fn = ''all_reduce'' then (case args of PyInt k # _ \<Rightarrow> (k, []) | _ \<Rightarrow> (0, []))
          else (0, []))
     | Native fn vs \<Rightarrow> (0, [VPtr 7, VPtr 4096])
     | _ \<Rightarrow> (0, [VStr ''c0ffee''])), Suc n))"

lemma rank0_min_ok: "min_ok rank0_env"
  by (simp add: min_ok_def rank0_env_def)

lemma ar_init_connected_witness:
  "\<exists>w' s'. ar_init rank0_env sample_torch sample_env None (DeviceIndex 0) None None
      (\<lparr>wext = 0, wlog = []\<rparr>, blank_ar) = (Inr (), (w', s')) \<and> ar_connected s'"
proof -
  let ?w = "\<lparr>wext = 3, wlog = [Dist ''is_initialized'' [], Dist ''get_rank'' [], Dist ''get_world_size'' []]\<rparr>"
    and ?s = "blank_ar\<lparr>ar_world := 2, ar_device := \<lparr>dev_type = ''cuda'', dev_index = Some 0\<rparr>,
        ar_max := 67108864, ar_min := 32768\<rparr>"
  have "ar_configure rank0_env sample_torch sample_env None (DeviceIndex 0) None None
      (\<lparr>wext = 0, wlog = []\<rparr>, blank_ar) = (Inr (), (?w, ?s))"
    by (simp add: ar_configure_def io_bind_def on_world_apply dist_int_def call_ext_def rank0_env_def
        io_return_def group_args_def as_device_def io_of_sum_def env_int_def py_int_str sample_env_def
        update_self_def blank_ar_def)
  moreover have "case ar_connect rank0_env sample_env (?w, ?s) of (Inl e, u) \<Rightarrow> False | (Inr y, u) \<Rightarrow> True"
    by code_simp
  ultimately have "case ar_init rank0_env sample_torch sample_env None (DeviceIndex 0) None None
      (\<lparr>wext = 0, wlog = []\<rparr>, blank_ar) of (Inl e, u) \<Rightarrow> False | (Inr y, u) \<Rightarrow> True"
    by (simp add: ar_init_def io_then_def io_bind_def)
  then obtain w' s' where "ar_init rank0_env sample_torch sample_env None (DeviceIndex 0) None None
      (\<lparr>wext = 0, wlog = []\<rparr>, blank_ar) = (Inr (), (w', s'))"
    by (auto split: prod.splits sum.splits)
  then show ?thesis using ar_init_connected [OF rank0_min_ok] by blast
qed

text \<open>C7: the two ranks never disagree on whether a step of the construction succeeded: when the
  reduction gives both the minimum of their flags, either both had no error and both go on, or at
  least one had and both raise.\<close>

theorem agree_unanimous:
  assumes "env0 (Dist ''all_reduce'' (PyInt (if err0 = None then 1 else 0) # PyStr ''MIN'' #
               group_args (ar_group s0))) (wext w0) =
             (Inr (min (if err0 = None then 1 else 0) (if err1 = None then 1 else 0), []), x0)"
    and "env1 (Dist ''all_reduce'' (PyInt (if err1 = None then 1 else 0) # PyStr ''MIN'' #
               group_args (ar_group s1))) (wext w1) =
             (Inr (min (if err0 = None then 1 else 0) (if err1 = None then 1 else 0), []), x1)"
  shows "(err0 = None \<and> err1 = None \<and>
            (\<exists>v0 v1. agree_or_raise env0 err0 what (w0, s0) = (Inr (), (v0, s0)) \<and>
                     agree_or_raise env1 err1 what (w1, s1) = (Inr (), (v1, s1)))) \<or>
         ((err0 \<noteq> None \<or> err1 \<noteq> None) \<and>
            (\<exists>e0 u0 e1 u1. agree_or_raise env0 err0 what (w0, s0) = (Inl e0, u0) \<and>
                           agree_or_raise env1 err1 what (w1, s1) = (Inl e1, u1)))"
proof -
  have go: "\<exists>v. agree_or_raise env None what (w, s) = (Inr (), (v, s))"
    if "env (Dist ''all_reduce'' (PyInt 1 # PyStr ''MIN'' # group_args (ar_group s))) (wext w) = (Inr (1, []), x)"
    for env :: "'w extern" and w s x
    using that
    by (simp add: agree_or_raise_def io_bind_def self_def on_world_apply min_flag_def dist_int_def
        call_ext_def io_return_def)
  have stop: "\<exists>e u. agree_or_raise env err what (w, s) = (Inl e, u)"
    if "env (Dist ''all_reduce'' (PyInt (if err = None then 1 else 0) # PyStr ''MIN'' # group_args (ar_group s)))
         (wext w) = (Inr (0, []), x)" for env :: "'w extern" and err w s x
  proof -
    have "io_post (agree_or_raise env err what) (\<lambda>_ _. False) (\<lambda>_ _. True) (w, s)"
      unfolding agree_or_raise_def wp fst_conv snd_conv min_flag_def dist_int_def
      by (rule io_post_call_answer) (simp_all add: that wp io_post_any)
    then show ?thesis by (auto simp: io_post_raises)
  qed
  show ?thesis
  proof (cases "err0 = None \<and> err1 = None")
    case True
    with assms go [of env0 s0 w0 x0] go [of env1 s1 w1 x1] show ?thesis by simp
  next
    case False
    then have "min (if err0 = None then 1 else 0) (if err1 = None then 1 else 0) = (0 :: int)" by auto
    with assms stop [of env0 err0 s0 w0 x0] stop [of env1 err1 s1 w1 x1] False show ?thesis by auto
  qed
qed

lemma agree_unanimous_witness:
  "\<exists>e u. agree_or_raise quiet None ''create'' (\<lparr>wext = 0, wlog = []\<rparr>, sample_ar) = (Inl e, u)"
  using agree_unanimous [of quiet None sample_ar "\<lparr>wext = 0, wlog = []\<rparr>" "Some (Exn OSError ''x'')" 1 quiet
      "sample_ar\<lparr>ar_rank := 1\<rparr>" "\<lparr>wext = 0, wlog = []\<rparr>" 1 "''create''"]
  by (auto simp: quiet_def)

lemma close_buffers_success:
  assumes "close_buffers env (w, s) = (Inr (), (w', s'))"
  shows "s' = s\<lparr>ar_own := None, ar_peer := None\<rparr>"
proof -
  from assms obtain v t where p: "close_peer env (w, s) = (Inr (), (v, t))"
    and o: "close_own env (v, t) = (Inr (), (w', s'))"
    by (auto simp: close_buffers_def method_success)
  from p have "t = s\<lparr>ar_peer := None\<rparr>"
    by (cases "ar_peer s") (auto simp: close_peer_def method_success on_peer_def)
  moreover from o have "s' = t\<lparr>ar_own := None\<rparr>"
    by (cases "ar_own t") (auto simp: close_own_def method_success on_own_def)
  ultimately show ?thesis by simp
qed

text \<open>After a \<open>destroy\<close> that returns the communicator is closed for good: both buffers are gone, a
  second \<open>destroy\<close> makes no call and returns, and every later \<open>all_reduce\<close> raises without any call.\<close>

lemma ar_destroy_final:
  assumes "ar_destroy env (w, s) = (Inr (), (w', s'))"
  shows "ar_own s' = None \<and> ar_peer s' = None \<and> ar_destroy env (v, s') = (Inr (), (v, s')) \<and>
    (\<exists>m. ar_all_reduce env T t (v, s') = (Inl (Exn RuntimeError m), (v, s')))"
proof -
  have closed: "ar_own s' = None \<and> ar_peer s' = None"
  proof (cases "ar_own s = None \<and> ar_peer s = None")
    case True
    with assms show ?thesis by (auto simp: ar_destroy_def method_success)
  next
    case False
    with assms obtain u where "close_buffers env (u, s) = (Inr (), (w', s'))"
      by (auto simp: ar_destroy_def method_success split: if_splits)
    from close_buffers_success [OF this] show ?thesis by simp
  qed
  then show ?thesis
    by (simp add: ar_destroy_def ar_all_reduce_def io_bind_def self_def io_return_def io_raise_def)
qed

lemma ar_destroy_final_witness:
  "\<exists>w' s'. ar_destroy quiet (\<lparr>wext = 0, wlog = []\<rparr>, sample_ar) = (Inr (), (w', s')) \<and> ar_own s' = None"
proof -
  have "case ar_destroy quiet (\<lparr>wext = 0, wlog = []\<rparr>, sample_ar) of (Inl e, u) \<Rightarrow> False | (Inr y, u) \<Rightarrow> True"
    by code_simp
  then obtain w' s' where "ar_destroy quiet (\<lparr>wext = 0, wlog = []\<rparr>, sample_ar) = (Inr (), (w', s'))"
    by (auto split: prod.splits sum.splits)
  then show ?thesis using ar_destroy_final by blast
qed

end
