(* ===== verification/Win32_Barrier.thy ===== *)
theory Win32_Barrier
  imports Runtime_Paths Tensors
begin

text \<open>
  \<open>win32_barrier.py\<close>: the two-rank barrier over named auto-reset events, as one rank's object. The
  object keeps the open event handles, in the order of the ranks. How the two ranks' calls interleave
  is the subject of \<open>Host_Path_Protocol\<close>.
\<close>

definition WAIT_OBJECT_0 :: int where "WAIT_OBJECT_0 = 0"
definition WAIT_TIMEOUT :: int where "WAIT_TIMEOUT = 258"

definition kernel32_argtypes :: "(string \<times> ctype list) list" where
  "kernel32_argtypes =
    [(''CreateEventW'', [T_void_p, T_int, T_int, T_wchar_p]),
     (''SetEvent'', [T_void_p]),
     (''WaitForSingleObject'', [T_void_p, T_uint]),
     (''CloseHandle'', [T_void_p])]"

definition kernel32_sigs :: signatures where
  "kernel32_sigs = map_of kernel32_argtypes"

record barrier =
  bar_rank :: int
  bar_timeout :: int
  bar_handles :: "int list"

text \<open>\<open>ctypes.WinError(ctypes.get_last_error())\<close>\<close>

definition win_error :: "('s, 'a) io" where
  "win_error = io_raise OSError ''WinError''"

definition event_name :: "string \<Rightarrow> nat \<Rightarrow> string" where
  "event_name prefix r = ''Local'' @ [char_of (92::nat)] @ prefix @ ''_rank'' @ py_str (int r)"

fun create_events :: "'w extern \<Rightarrow> string \<Rightarrow> nat list \<Rightarrow> ('w, barrier, unit) meth" where
  "create_events env prefix [] = io_return ()"
| "create_events env prefix (r # rs) =
     io_bind (on_world (call_native env kernel32_sigs ''CreateEventW''
         [PyVoidP 0, PyInt 0, PyInt 0, PyStr (event_name prefix r)])) (\<lambda>(handle, _).
     if handle = 0 then win_error
     else io_then (update_self (\<lambda>b. b\<lparr>bar_handles := bar_handles b @ [handle]\<rparr>))
            (create_events env prefix rs))"

definition barrier_init :: "'w extern \<Rightarrow> string \<Rightarrow> int \<Rightarrow> int \<Rightarrow> ('w, barrier, unit) meth" where
  "barrier_init env prefix rank timeout_ms =
     (if rank \<notin> {0, 1} then io_raise ValueError ''Win32PairBarrier supports ranks 0 and 1 only''
      else
        io_then (update_self (\<lambda>b. b\<lparr>bar_rank := rank, bar_timeout := timeout_ms\<rparr>))
        (io_bind (on_world (call_ext env (Os ''WinDLL'' [''kernel32'']))) (\<lambda>_.
         io_then (update_self (\<lambda>b. b\<lparr>bar_handles := []\<rparr>))
         (create_events env prefix [0, 1]))))"

text \<open>\<open>self._handles[i]\<close> for an index that is not negative.\<close>

definition handle_at :: "barrier \<Rightarrow> int \<Rightarrow> exn + int" where
  "handle_at b i = (if nat i < length (bar_handles b) then Inr (bar_handles b ! nat i)
     else Inl (Exn IndexError ''list index out of range''))"

definition barrier_wait :: "'w extern \<Rightarrow> ('w, barrier, unit) meth" where
  "barrier_wait env =
     io_bind self (\<lambda>b.
     io_bind (io_of_sum (handle_at b (bar_rank b))) (\<lambda>own.
     io_bind (io_of_sum (handle_at b (1 - bar_rank b))) (\<lambda>peer.
     io_bind (on_world (call_native env kernel32_sigs ''SetEvent'' [PyInt own])) (\<lambda>(ok, _).
     if ok = 0 then win_error else
     io_bind (on_world (call_native env kernel32_sigs ''WaitForSingleObject''
                [PyInt peer, PyInt (bar_timeout b)])) (\<lambda>(result, _).
     if result = WAIT_TIMEOUT
       then io_raise TimeoutError ''the peer did not reach the Windows event barrier''
     else if result \<noteq> WAIT_OBJECT_0 then win_error
     else io_return ())))))"

text \<open>\<open>while self._handles: CloseHandle(self._handles.pop())\<close>; the count bounds the loop.\<close>

fun close_handles :: "'w extern \<Rightarrow> nat \<Rightarrow> ('w, barrier, unit) meth" where
  "close_handles env 0 = io_return ()"
| "close_handles env (Suc n) =
     io_bind self (\<lambda>b.
     if bar_handles b = [] then io_return ()
     else
       io_then (update_self (\<lambda>b. b\<lparr>bar_handles := butlast (bar_handles b)\<rparr>))
       (io_bind (on_world (call_native env kernel32_sigs ''CloseHandle''
                  [PyInt (last (bar_handles b))])) (\<lambda>_.
        close_handles env n)))"

definition barrier_close :: "'w extern \<Rightarrow> ('w, barrier, unit) meth" where
  "barrier_close env = io_bind self (\<lambda>b. close_handles env (length (bar_handles b)))"

definition blank_barrier :: barrier where
  "blank_barrier = \<lparr>bar_rank = 0, bar_timeout = 0, bar_handles = []\<rparr>"

section \<open>Facts\<close>

lemma kernel32_typed:
  "call_native env kernel32_sigs ''SetEvent'' [PyInt h] = call_ext env (Native ''SetEvent'' [VPtr (word_of_int h)])"
  "call_native env kernel32_sigs ''WaitForSingleObject'' [PyInt h, PyInt t] =
     call_ext env (Native ''WaitForSingleObject'' [VPtr (word_of_int h), VU32 (word_of_int t)])"
  "call_native env kernel32_sigs ''CloseHandle'' [PyInt h] = call_ext env (Native ''CloseHandle'' [VPtr (word_of_int h)])"
  "call_native env kernel32_sigs ''CreateEventW'' [PyVoidP 0, PyInt 0, PyInt 0, PyStr n] =
     call_ext env (Native ''CreateEventW'' [VPtr 0, VI32 0, VI32 0, VStr n])"
  by (simp_all add: call_native_def kernel32_sigs_def kernel32_argtypes_def)

text \<open>A barrier wait sets the own event before it waits for the peer's, and returns only when the
  system reports that the peer's event was consumed: the log grows by exactly the signal of the own
  handle followed by the wait on the peer's handle with the configured timeout. A timeout raises
  \<open>TimeoutError\<close>, any other answer \<open>OSError\<close>, and a failed signal raises without waiting.\<close>

lemma barrier_wait_order:
  assumes "answers env" and "bar_handles b = [h0, h1]" and "bar_rank b = 0 \<and> own = h0 \<and> peer = h1 \<or>
      bar_rank b = 1 \<and> own = h1 \<and> peer = h0"
  shows "\<exists>ok o1 x. env (Native ''SetEvent'' [VPtr (word_of_int own)]) (wext w) = (Inr (ok, o1), x) \<and>
    (if ok = 0 then barrier_wait env (w, b) =
        (Inl (Exn OSError ''WinError''), (\<lparr>wext = x, wlog = wlog w @ [Native ''SetEvent'' [VPtr (word_of_int own)]]\<rparr>, b))
     else \<exists>result o2 y r.
       env (Native ''WaitForSingleObject'' [VPtr (word_of_int peer), VU32 (word_of_int (bar_timeout b))]) x =
         (Inr (result, o2), y) \<and>
       barrier_wait env (w, b) = (r, (\<lparr>wext = y, wlog = wlog w @ [Native ''SetEvent'' [VPtr (word_of_int own)],
         Native ''WaitForSingleObject'' [VPtr (word_of_int peer), VU32 (word_of_int (bar_timeout b))]]\<rparr>, b)) \<and>
       (r = Inr () \<longleftrightarrow> result = WAIT_OBJECT_0) \<and>
       (result = WAIT_TIMEOUT \<longrightarrow> (\<exists>m. r = Inl (Exn TimeoutError m))) \<and>
       (result \<notin> {WAIT_OBJECT_0, WAIT_TIMEOUT} \<longrightarrow> (\<exists>m. r = Inl (Exn OSError m))))"
proof -
  let ?set = "Native ''SetEvent'' [VPtr (word_of_int own)]"
  let ?wait = "Native ''WaitForSingleObject'' [VPtr (word_of_int peer), VU32 (word_of_int (bar_timeout b))]"
  obtain ok o1 x where set: "env ?set (wext w) = (Inr (ok, o1), x)"
    using assms(1) by (metis answers_def prod.exhaust)
  obtain result o2 y where wait: "env ?wait x = (Inr (result, o2), y)"
    using assms(1) by (metis answers_def prod.exhaust)
  have handles: "handle_at b (bar_rank b) = Inr own" "handle_at b (1 - bar_rank b) = Inr peer"
    using assms(2,3) by (auto simp: handle_at_def)
  show ?thesis
    using set wait
    by (auto simp: barrier_wait_def handles io_bind_def self_def io_of_sum_def on_world_apply call_ext_def
        kernel32_typed win_error_def io_raise_def io_return_def WAIT_OBJECT_0_def WAIT_TIMEOUT_def)
qed

definition ready_events :: "nat extern" where
  "ready_events = (\<lambda>c n. (Inr (case c of Native fn vs \<Rightarrow> if fn = ''WaitForSingleObject'' then 0 else 1 | _ \<Rightarrow> 0, []), Suc n))"

lemma barrier_wait_order_witness:
  "\<exists>w'. barrier_wait ready_events (\<lparr>wext = 0, wlog = []\<rparr>, \<lparr>bar_rank = 0, bar_timeout = 30000, bar_handles = [5, 6]\<rparr>) =
     (Inr (), (w', \<lparr>bar_rank = 0, bar_timeout = 30000, bar_handles = [5, 6]\<rparr>))"
proof -
  have "answers ready_events" by (simp add: answers_def ready_events_def)
  from barrier_wait_order [OF this, of "\<lparr>bar_rank = 0, bar_timeout = 30000, bar_handles = [5, 6]\<rparr>" 5 6 5 6
      "\<lparr>wext = 0, wlog = []\<rparr>"]
  show ?thesis by (auto simp: ready_events_def WAIT_OBJECT_0_def)
qed

lemma close_handles_run:
  assumes "answers env" and "length (bar_handles b) \<le> n"
  shows "\<exists>x. close_handles env n (w, b) = (Inr (), (\<lparr>wext = x, wlog = wlog w @
      map (\<lambda>h. Native ''CloseHandle'' [VPtr (word_of_int h)]) (rev (bar_handles b))\<rparr>, b\<lparr>bar_handles := []\<rparr>))"
  using assms(2)
proof (induction n arbitrary: w b)
  case 0
  then show ?case by (cases w; cases b) (auto simp: io_return_def)
next
  case (Suc n)
  show ?case
  proof (cases "bar_handles b = []")
    case True
    then show ?thesis by (cases w; cases b) (auto simp: io_bind_def self_def io_return_def)
  next
    case False
    then obtain hs h where hs: "bar_handles b = hs @ [h]" by (metis rev_exhaust)
    obtain a x where a: "env (Native ''CloseHandle'' [VPtr (word_of_int h)]) (wext w) = (Inr a, x)"
      using assms(1) by (metis answers_def)
    from Suc.IH [of "b\<lparr>bar_handles := hs\<rparr>" "\<lparr>wext = x, wlog = wlog w @ [Native ''CloseHandle'' [VPtr (word_of_int h)]]\<rparr>"]
      Suc.prems hs obtain y where "close_handles env n
        (\<lparr>wext = x, wlog = wlog w @ [Native ''CloseHandle'' [VPtr (word_of_int h)]]\<rparr>, b\<lparr>bar_handles := hs\<rparr>) =
        (Inr (), (\<lparr>wext = y, wlog = wlog w @ Native ''CloseHandle'' [VPtr (word_of_int h)] #
          map (\<lambda>h. Native ''CloseHandle'' [VPtr (word_of_int h)]) (rev hs)\<rparr>, b\<lparr>bar_handles := []\<rparr>))"
      by auto
    with a hs show ?thesis
      by (simp add: io_bind_def self_def io_then_def update_self_def on_world_apply call_ext_def kernel32_typed)
  qed
qed

text \<open>\<open>close\<close> terminates, releases every open handle exactly once, last opened first, and leaves the
  object without handles, so that a second \<open>close\<close> makes no call and a later \<open>wait\<close> raises
  \<open>IndexError\<close> before it signals anything.\<close>

lemma barrier_close_releases:
  assumes "answers env" and "bar_rank b \<in> {0, 1}"
  shows "\<exists>w' b'. barrier_close env (w, b) = (Inr (), (w', b')) \<and>
    wlog w' = wlog w @ map (\<lambda>h. Native ''CloseHandle'' [VPtr (word_of_int h)]) (rev (bar_handles b)) \<and>
    barrier_close env (w', b') = (Inr (), (w', b')) \<and>
    (\<exists>m. barrier_wait env (w', b') = (Inl (Exn IndexError m), (w', b')))"
proof -
  obtain x where "close_handles env (length (bar_handles b)) (w, b) = (Inr (), (\<lparr>wext = x, wlog = wlog w @
      map (\<lambda>h. Native ''CloseHandle'' [VPtr (word_of_int h)]) (rev (bar_handles b))\<rparr>, b\<lparr>bar_handles := []\<rparr>))"
    using close_handles_run [OF assms(1), of b "length (bar_handles b)" w] by auto
  then show ?thesis
    using assms(2)
    by (auto simp: barrier_close_def barrier_wait_def io_bind_def self_def io_return_def handle_at_def io_of_sum_def)
qed

lemma barrier_close_releases_witness:
  "\<exists>w' b'. barrier_close ready_events (\<lparr>wext = 0, wlog = []\<rparr>, \<lparr>bar_rank = 0, bar_timeout = 30000, bar_handles = [5, 6]\<rparr>) =
     (Inr (), (w', b')) \<and> wlog w' = [Native ''CloseHandle'' [VPtr 6], Native ''CloseHandle'' [VPtr 5]]"
proof -
  have "answers ready_events" by (simp add: answers_def ready_events_def)
  from barrier_close_releases [OF this, of "\<lparr>bar_rank = 0, bar_timeout = 30000, bar_handles = [5, 6]\<rparr>"
      "\<lparr>wext = 0, wlog = []\<rparr>"]
  show ?thesis by auto
qed

section \<open>As part of a larger object\<close>

lemma barrier_wait_post:
  assumes "answers env" and "bar_handles b = [h0, h1]" and "bar_rank b \<in> {0, 1}"
    and "\<And>w'. Q () (w', b)" and "\<And>k m w'. k \<in> {OSError, TimeoutError} \<Longrightarrow> E (Exn k m) (w', b)"
  shows "io_post (barrier_wait env) Q E (w, b)"
proof -
  obtain own peer where "handle_at b (bar_rank b) = Inr own" "handle_at b (1 - bar_rank b) = Inr peer"
    using assms(2,3) by (auto simp: handle_at_def)
  then show ?thesis
    using assms(4,5)
    by (auto simp: barrier_wait_def wp kernel32_typed win_error_def intro!: answers_call [OF assms(1)])
qed

lemma barrier_close_post:
  assumes "answers env" and "\<And>w'. Q () (w', b\<lparr>bar_handles := []\<rparr>)"
  shows "io_post (barrier_close env) Q E (w, b)"
  using close_handles_run [OF assms(1), of b "length (bar_handles b)" w] assms(2)
  by (auto simp: barrier_close_def wp io_post_def)

end
