(* ===== verification/Shm_All_Reduce.thy ===== *)
theory Shm_All_Reduce
  imports Hip_Runtime Mapped_Peer_Kernel Dist_Calls Win32_Barrier
begin

text \<open>
  \<open>shared_memory_all_reduce.py\<close>: the host side of the shared-memory collective. The mapping holds two
  payload slots of \<open>max_size_bytes\<close> and a control page with one cache line per word; it is named by
  its base address on the host and by its mapped address on the device. The barrier is the object of
  \<open>Win32_Barrier\<close>.
\<close>

definition CONTROL_BYTES :: int where "CONTROL_BYTES = 4096"
definition CACHE_LINE_BYTES :: int where "CACHE_LINE_BYTES = 64"

record shm_ar =
  sh_group :: pgroup
  sh_rank :: int
  sh_world :: int
  sh_device :: device
  sh_max :: int
  sh_owns :: bool
  sh_mapping :: "string option"
  sh_base :: int
  sh_registered :: bool
  sh_mapped :: int
  sh_barrier :: barrier
  sh_output :: int
  sh_kernel :: "path option"
  sh_stream :: bool
  sh_epoch :: int

definition on_barrier :: "('w, barrier, 'a) meth \<Rightarrow> ('w, shm_ar, 'a) meth" where
  "on_barrier m = on_field sh_barrier (\<lambda>b s. s\<lparr>sh_barrier := b\<rparr>) m"

section \<open>The layout\<close>

datatype word_kind = Ready | Consumed

definition control_offset :: "shm_ar \<Rightarrow> word_kind \<Rightarrow> int \<Rightarrow> int" where
  "control_offset s kind rank =
     (let control_base = sh_max s * sh_world s;
          kind_index = (if kind = Ready then 0 else sh_world s)
      in control_base + (kind_index + rank) * CACHE_LINE_BYTES)"

definition slot_pointer :: "shm_ar \<Rightarrow> int \<Rightarrow> int" where
  "slot_pointer s rank = sh_base s + rank * sh_max s"

section \<open>Construction\<close>

definition shm_configure ::
  "'w extern \<Rightarrow> torch_api \<Rightarrow> pyenv \<Rightarrow> pgroup \<Rightarrow> device_arg \<Rightarrow> int option \<Rightarrow> ('w, shm_ar, unit) meth" where
  "shm_configure env T pe pg device max_size_bytes =
     io_bind (on_world (dist_int env ''is_initialized'' [])) (\<lambda>initialized.
     if initialized = 0 then io_raise RuntimeError ''torch.distributed must be initialized first'' else
     io_bind (on_world (dist_int env ''get_rank'' (group_args pg))) (\<lambda>rank.
     io_bind (on_world (dist_int env ''get_world_size'' (group_args pg))) (\<lambda>size.
     if size \<noteq> 2 then io_raise ValueError ''SharedMemoryAllReduce currently requires world size 2'' else
     io_bind (io_of_sum (as_device T device)) (\<lambda>d.
     if dev_type d \<noteq> ''cuda'' then io_raise ValueError ''expected a HIP/CUDA-like device'' else
     io_bind (io_of_sum (env_int_or pe ''WAVMG_SHM_MAX_BYTES'' (64 * 1024 * 1024))) (\<lambda>configured_size.
     let max_bytes = (case max_size_bytes of None \<Rightarrow> configured_size
                      | Some n \<Rightarrow> if n = 0 then configured_size else n) in
     if max_bytes \<le> 0 \<or> max_bytes mod 4096 \<noteq> 0
       then io_raise ValueError ''max shared-memory size must be a positive 4 KiB multiple'' else
     update_self (\<lambda>s. s\<lparr>sh_group := pg, sh_rank := rank, sh_world := size, sh_device := d,
        sh_max := max_bytes, sh_owns := (rank = 0)\<rparr>))))))"

text \<open>A shared-memory object: its length, its name and the address of its first byte.\<close>

definition shm_object :: "'w extern \<Rightarrow> string \<Rightarrow> string list \<Rightarrow> ('w world, int \<times> string \<times> int) io" where
  "shm_object env oper args = io_bind (call_ext env (Os oper args)) (\<lambda>(len, outs).
     io_return (len, (case out_str outs of None \<Rightarrow> [] | Some n \<Rightarrow> n),
                (case out_ptr (drop 1 outs) of None \<Rightarrow> 0 | Some p \<Rightarrow> p)))"

text \<open>The descriptor: mapping name, event prefix, size.\<close>

type_synonym descriptor = "string \<times> string \<times> int"

definition broadcast_descriptor ::
  "'w extern \<Rightarrow> pgroup \<Rightarrow> int \<Rightarrow> descriptor option \<Rightarrow> ('w world, descriptor option) io" where
  "broadcast_descriptor env g src v =
     io_bind (call_ext env (Dist ''broadcast_object_list''
        ((case v of None \<Rightarrow> [] | Some (m, p, n) \<Rightarrow> [PyStr m, PyStr p, PyInt n]) @ PyInt src # group_args g)))
       (\<lambda>(n, outs). io_return (case out_str outs of
           None \<Rightarrow> None
         | Some m \<Rightarrow> (case out_str (drop 1 outs) of None \<Rightarrow> None | Some p \<Rightarrow> Some (m, p, n))))"

definition shm_descriptor :: "'w extern \<Rightarrow> ('w, shm_ar, (int \<times> int) option \<times> descriptor option) meth" where
  "shm_descriptor env =
     io_bind self (\<lambda>s.
     if sh_owns s then
       io_bind (on_world (shm_object env ''SharedMemory.create''
           [py_str (sh_max s * sh_world s + CONTROL_BYTES)])) (\<lambda>(len, name, base).
       io_bind (on_world (call_ext env (Os ''uuid4'' []))) (\<lambda>(_, outs).
       io_then (update_self (\<lambda>s. s\<lparr>sh_mapping := Some name\<rparr>))
       (io_return (Some (len, base),
          Some (name, ''WAVMG_'' @ (case out_str outs of None \<Rightarrow> [] | Some h \<Rightarrow> h), sh_max s)))))
     else io_return (None, None))"

text \<open>The classes the capability probe swallows, with their subclasses.\<close>

definition probe_caught :: "exn \<Rightarrow> bool" where
  "probe_caught e \<longleftrightarrow> exn_kind_of e \<in> {AttributeError, FileNotFoundError, FileExistsError, TimeoutError,
     OSError, RuntimeError, NotImplementedError}"

definition probe_stream_path :: "'w extern \<Rightarrow> pyenv \<Rightarrow> ('w, shm_ar, bool) meth" where
  "probe_stream_path env pe =
     io_bind self (\<lambda>s.
     io_catch
       (io_bind (on_world (kernel_init env pe None)) (\<lambda>lib.
        io_then (update_self (\<lambda>s. s\<lparr>sh_kernel := Some lib\<rparr>))
        (io_bind (case dev_index (sh_device s) of Some i \<Rightarrow> io_return i
                  | None \<Rightarrow> on_world (io_bind (call_ext env (Torch ''current_device'' [])) (\<lambda>(i, _). io_return i)))
          (\<lambda>device_index. on_world (can_use_stream_wait_value env device_index)))))
       (\<lambda>e. if probe_caught e
            then io_then (update_self (\<lambda>s. s\<lparr>sh_kernel := None\<rparr>)) (io_return False)
            else io_of_sum (Inl e)))"

definition shm_attach :: "'w extern \<Rightarrow> pyenv \<Rightarrow> string \<Rightarrow> int \<Rightarrow> int \<Rightarrow> ('w, shm_ar, unit) meth" where
  "shm_attach env pe prefix len base =
     io_then (update_self (\<lambda>s. s\<lparr>sh_base := base\<rparr>))
     (io_bind (on_world (hip_init env pe None [])) (\<lambda>_.
      io_then (on_world (host_register env base len HIP_HOST_REGISTER_MAPPED))
      (io_then (update_self (\<lambda>s. s\<lparr>sh_registered := True\<rparr>))
      (io_bind (on_world (host_get_device_pointer env base)) (\<lambda>p.
       io_then (update_self (\<lambda>s. s\<lparr>sh_mapped := p\<rparr>))
       (io_bind self (\<lambda>s.
        io_then (on_barrier (barrier_init env prefix (sh_rank s) 30000))
        (io_then (on_world (torch_do env ''frombuffer'' [PyInt (slot_pointer s 0), PyInt (sh_max s)]))
        (io_then (on_world (torch_do env ''frombuffer'' [PyInt (slot_pointer s 1), PyInt (sh_max s)]))
        (io_bind (on_world (call_ext env (Torch ''empty'' [PyInt (sh_max s)]))) (\<lambda>(q, _).
         io_then (update_self (\<lambda>s. s\<lparr>sh_output := q\<rparr>))
         (io_bind (probe_stream_path env pe) (\<lambda>available.
          io_bind (on_world (min_flag env (sh_group s) (if available then 1 else 0))) (\<lambda>capability.
          io_then (update_self (\<lambda>s. s\<lparr>sh_stream := (capability \<noteq> 0), sh_epoch := 0\<rparr>))
          (on_barrier (barrier_wait env))))))))))))))))"

definition shm_init ::
  "'w extern \<Rightarrow> torch_api \<Rightarrow> pyenv \<Rightarrow> pgroup \<Rightarrow> device_arg \<Rightarrow> int option \<Rightarrow> ('w, shm_ar, unit) meth" where
  "shm_init env T pe pg device max_size_bytes =
     io_then (shm_configure env T pe pg device max_size_bytes)
     (io_bind (shm_descriptor env) (\<lambda>(own, descriptor).
      io_bind self (\<lambda>s.
      io_bind (on_world (get_global_rank env (sh_group s) 0)) (\<lambda>global_source.
      io_bind (on_world (broadcast_descriptor env (sh_group s) global_source descriptor)) (\<lambda>answer.
      case answer of
        None \<Rightarrow> io_raise RuntimeError ''rank 0 did not broadcast a shared-memory descriptor''
      | Some (name, prefix, agreed) \<Rightarrow>
          if agreed \<noteq> sh_max s then io_raise RuntimeError ''shared-memory size differs between ranks''
          else (case own of
              Some (len, base) \<Rightarrow> shm_attach env pe prefix len base
            | None \<Rightarrow>
                io_bind (on_world (shm_object env ''SharedMemory.open'' [name])) (\<lambda>(len, n, base).
                io_then (update_self (\<lambda>s. s\<lparr>sh_mapping := Some name\<rparr>))
                (shm_attach env pe prefix len base))))))))"

section \<open>The collective\<close>

definition stream_all_reduce :: "'w extern \<Rightarrow> torch_api \<Rightarrow> tensor \<Rightarrow> ('w, shm_ar, tensor) meth" where
  "stream_all_reduce env T source =
     io_bind self (\<lambda>s.
     if sh_kernel s = None then io_raise RuntimeError ''mapped-peer kernel was not initialized''
     else if 0xFFFFFF00 \<le> sh_epoch s
       then io_raise RuntimeError ''stream epoch is near uint32 wrap; recreate communicator''
     else
       io_then (update_self (\<lambda>s. s\<lparr>sh_epoch := sh_epoch s + 1\<rparr>))
       (let epoch = sh_epoch s + 1; peer = 1 - sh_rank s in
        io_bind (on_world (current_stream env (sh_device s))) (\<lambda>stream.
        io_bind (on_world (empty_like env T source)) (\<lambda>output.
        io_then (on_world (all_reduce_async env T source
            (sh_base s + sh_rank s * sh_max s)
            (sh_mapped s + peer * sh_max s)
            output
            (sh_mapped s + control_offset s Ready (sh_rank s))
            (sh_mapped s + control_offset s Ready peer)
            (sh_mapped s + control_offset s Consumed (sh_rank s))
            (sh_mapped s + control_offset s Consumed peer)
            epoch (Some stream)))
        (io_return output)))))"

text \<open>Lines 175-199.\<close>

definition host_all_reduce :: "'w extern \<Rightarrow> torch_api \<Rightarrow> tensor \<Rightarrow> ('w, shm_ar, tensor) meth" where
  "host_all_reduce env T source =
     io_bind self (\<lambda>s. let size_bytes = size_bytes_of T source in
     io_bind (on_world (empty_like env T source)) (\<lambda>output.
     io_then (on_world (memcpy env (slot_pointer s (sh_rank s)) (t_ptr source) size_bytes
                 HIP_MEMCPY_DEVICE_TO_HOST))
     (io_then (on_barrier (barrier_wait env))
     (io_then (on_world (torch_do env ''add''
         [PyInt (slot_pointer s 0), PyInt (slot_pointer s 1), PyInt (sh_output s), PyInt size_bytes]))
     (io_then (on_world (memcpy env (t_ptr output) (sh_output s) size_bytes HIP_MEMCPY_HOST_TO_DEVICE))
     (io_then (on_barrier (barrier_wait env))
     (io_return output)))))))"

definition shm_all_reduce :: "'w extern \<Rightarrow> torch_api \<Rightarrow> tensor \<Rightarrow> ('w, shm_ar, tensor) meth" where
  "shm_all_reduce env T t =
     io_bind self (\<lambda>s.
     if t_device t \<noteq> sh_device s then io_raise ValueError ''tensor is on another device'' else
     io_bind (on_world (as_contiguous env T t)) (\<lambda>source.
     if sh_max s < size_bytes_of T source then io_raise ValueError ''collective payload exceeds the slot'' else
     if sh_stream s \<and> t_dtype source \<in> {Float32, Float16, BFloat16}
       then stream_all_reduce env T source
       else host_all_reduce env T source))"

section \<open>Destruction\<close>

definition shm_cleanup :: "'w extern \<Rightarrow> ('w, shm_ar, unit) meth" where
  "shm_cleanup env =
     io_then (on_barrier (barrier_close env))
     (io_bind self (\<lambda>s.
      io_then (if sh_registered s
               then io_then (on_world (host_unregister env (sh_base s)))
                      (update_self (\<lambda>s. s\<lparr>sh_registered := False\<rparr>))
               else io_return ())
      (io_bind self (\<lambda>s. case sh_mapping s of
           None \<Rightarrow> io_return ()
         | Some name \<Rightarrow>
             io_bind (on_world (call_ext env (Os ''SharedMemory.close'' [name]))) (\<lambda>_.
             io_then (if sh_owns s
                      then io_bind (on_world (call_ext env (Os ''SharedMemory.unlink'' [name]))) (\<lambda>_. io_return ())
                      else io_return ())
             (update_self (\<lambda>s. s\<lparr>sh_mapping := None\<rparr>)))))))"

definition shm_destroy :: "'w extern \<Rightarrow> ('w, shm_ar, unit) meth" where
  "shm_destroy env =
     io_bind self (\<lambda>s.
     if sh_mapping s = None then io_return () else
     io_then (on_world (torch_do env ''synchronize'' (device_args (sh_device s))))
     (io_finally (on_barrier (barrier_wait env)) (shm_cleanup env)))"

section \<open>The layout of the mapping\<close>

text \<open>What a successful constructor establishes about the sizes, ranks and flags.\<close>

definition shm_shape :: "shm_ar \<Rightarrow> bool" where
  "shm_shape s \<longleftrightarrow> sh_world s = 2 \<and> 0 < sh_max s \<and> sh_max s mod 4096 = 0"

text \<open>C14: the layout of the shared mapping is sound: the four control words lie behind both payload
  slots and inside the control page, each at the start of a cache line of its own, so that no two words
  share a line and no word overlaps a payload; and the mapping that rank 0 creates is large enough.\<close>

theorem control_layout:
  assumes "shm_shape s" and "r \<in> {0, 1}" and "q \<in> {0, 1}"
  shows "2 * sh_max s \<le> control_offset s k r \<and>
    control_offset s k r + CACHE_LINE_BYTES \<le> sh_max s * sh_world s + CONTROL_BYTES \<and>
    control_offset s k r mod CACHE_LINE_BYTES = 0 \<and>
    (control_offset s k r + CACHE_LINE_BYTES \<le> control_offset s j q \<or>
     control_offset s j q + CACHE_LINE_BYTES \<le> control_offset s k r \<or> k = j \<and> r = q) \<and>
    slot_pointer s 0 + sh_max s = slot_pointer s 1 \<and>
    slot_pointer s 1 + sh_max s \<le> sh_base s + control_offset s k r"
proof -
  from assms(1) obtain m where m: "sh_max s = 4096 * m" "0 < m" "sh_world s = 2"
    by (auto simp: shm_shape_def elim!: dvdE simp flip: dvd_eq_mod_eq_0)
  define index where "index = (\<lambda>k (r::int). (if k = Ready then 0 else 2) + r)"
  have off: "control_offset s k r = 64 * (128 * m + index k r)" for k r
    using m by (simp add: control_offset_def index_def CACHE_LINE_BYTES_def Let_def)
  have range: "0 \<le> index k r" "index k r \<le> 3" using assms(2) by (auto simp: index_def)
  have apart: "index k r < index j q \<or> index j q < index k r \<or> k = j \<and> r = q"
    using assms(2,3) by (cases k; cases j) (auto simp: index_def)
  show ?thesis
    unfolding off using range apart m
    by (auto simp: slot_pointer_def CACHE_LINE_BYTES_def CONTROL_BYTES_def)
qed

definition sample_shm :: shm_ar where
  "sample_shm = \<lparr>sh_group = None, sh_rank = 0, sh_world = 2,
     sh_device = \<lparr>dev_type = ''cuda'', dev_index = Some 0\<rparr>, sh_max = 4096, sh_owns = True,
     sh_mapping = Some ''map'', sh_base = 65536, sh_registered = True, sh_mapped = 131072,
     sh_barrier = \<lparr>bar_rank = 0, bar_timeout = 30000, bar_handles = [5, 6]\<rparr>, sh_output = 262144,
     sh_kernel = Some [''k''], sh_stream = True, sh_epoch = 0\<rparr>"

lemma sample_shm_shape: "shm_shape sample_shm"
  by (simp add: shm_shape_def sample_shm_def)

lemma control_layout_witness:
  "control_offset sample_shm Ready 0 = 8192 \<and> control_offset sample_shm Consumed 1 + 64 \<le> 12288"
  using control_layout [OF sample_shm_shape, of 1 1 Consumed Ready]
  by (simp add: control_offset_def sample_shm_def CACHE_LINE_BYTES_def CONTROL_BYTES_def)

section \<open>The stream path\<close>

lemma stream_success:
  assumes "stream_all_reduce env T source (w, s) = (Inr out, (w', s'))"
  obtains fn st q where "sh_epoch s < 0xFFFFFF00" "s' = s\<lparr>sh_epoch := sh_epoch s + 1\<rparr>"
    "all_reduce_function (t_dtype source) = Some fn" "out = like_on T source q"
    "wlog w' = wlog w @ [Torch ''current_stream'' (device_args (sh_device s)),
       Torch ''empty_like'' [PyInt (t_ptr source)],
       Native fn [VPtr (word_of_int (t_ptr source)),
         VPtr (word_of_int (sh_base s + sh_rank s * sh_max s)),
         VPtr (word_of_int (sh_mapped s + (1 - sh_rank s) * sh_max s)),
         VPtr (word_of_int (t_ptr out)), VU64 (word_of_nat (numel source)),
         VPtr (word_of_int (sh_mapped s + control_offset s Ready (sh_rank s))),
         VPtr (word_of_int (sh_mapped s + control_offset s Ready (1 - sh_rank s))),
         VPtr (word_of_int (sh_mapped s + control_offset s Consumed (sh_rank s))),
         VPtr (word_of_int (sh_mapped s + control_offset s Consumed (1 - sh_rank s))),
         VU32 (word_of_int (sh_epoch s + 1)), VPtr st]]"
proof -
  from assms show ?thesis
    apply (clarsimp simp: stream_all_reduce_def method_success Let_def split: if_split_asm)
    apply (drule current_stream_success empty_like_success all_reduce_async_success)+
    apply clarsimp
    apply (rule that)
    apply (assumption | rule refl | simp)+
    done
qed

text \<open>The epoch passed to the GPU never wraps: a stream-path collective either raises before it calls
  anything (the counter is within 256 of \<open>2^32\<close>, or no kernel was loaded) and leaves the object as it
  was, or, when it returns, the 32-bit word the native side received is exactly the new epoch, which is
  one above the old.\<close>

lemma stream_epoch_exact:
  assumes "0 \<le> sh_epoch s"
  shows "(0xFFFFFF00 \<le> sh_epoch s \<or> sh_kernel s = None \<longrightarrow>
      (\<exists>m. stream_all_reduce env T source (w, s) = (Inl (Exn RuntimeError m), (w, s)))) \<and>
    (stream_all_reduce env T source (w, s) = (Inr out, (w', s')) \<longrightarrow>
      (\<exists>fn vs e st. last (wlog w') = Native fn (vs @ [VU32 e, VPtr st]) \<and>
         uint e = sh_epoch s' \<and> sh_epoch s' = sh_epoch s + 1))"
proof (intro conjI impI)
  assume "0xFFFFFF00 \<le> sh_epoch s \<or> sh_kernel s = None"
  then show "\<exists>m. stream_all_reduce env T source (w, s) = (Inl (Exn RuntimeError m), (w, s))"
    by (auto simp: stream_all_reduce_def io_bind_def self_def io_raise_def)
next
  assume "stream_all_reduce env T source (w, s) = (Inr out, (w', s'))"
  then show "\<exists>fn vs e st. last (wlog w') = Native fn (vs @ [VU32 e, VPtr st]) \<and>
         uint e = sh_epoch s' \<and> sh_epoch s' = sh_epoch s + 1"
  proof (rule stream_success, goal_cases)
    case (1 fn st q)
    have "uint (word_of_int (sh_epoch s + 1) :: u32) = sh_epoch s + 1"
      using 1(1) assms by (simp add: uint_word_of_int_eq take_bit_int_eq_self del: of_int_add)
    with 1 show ?case by (intro exI [of _ fn]) auto
  qed
qed

lemma stream_epoch_exact_witness:
  "\<exists>m. stream_all_reduce quiet sample_torch (sample_tensor Float16 8 16)
      (\<lparr>wext = 0, wlog = []\<rparr>, sample_shm\<lparr>sh_epoch := 0xFFFFFF00\<rparr>) =
    (Inl (Exn RuntimeError m), (\<lparr>wext = 0, wlog = []\<rparr>, sample_shm\<lparr>sh_epoch := 0xFFFFFF00\<rparr>))"
  using stream_epoch_exact [of "sample_shm\<lparr>sh_epoch := 0xFFFFFF00\<rparr>" quiet sample_torch] by simp

section \<open>Construction\<close>

definition shm_connected :: "shm_ar \<Rightarrow> bool" where
  "shm_connected s \<longleftrightarrow> shm_shape s \<and> sh_epoch s = 0 \<and> sh_registered s \<and> sh_mapping s \<noteq> None \<and>
     dev_type (sh_device s) = ''cuda''"

lemma shm_configure_post:
  "io_post (shm_configure env T pe pg device mx)
     (\<lambda>_ u. shm_shape (snd u) \<and> dev_type (sh_device (snd u)) = ''cuda'') (\<lambda>_ _. True) ws"
  by (auto simp: shm_configure_def wp Let_def shm_shape_def intro!: any_world split: sum.splits)

text \<open>The fields the later steps of the constructor do not touch.\<close>

definition kept :: "shm_ar \<Rightarrow> shm_ar \<Rightarrow> bool" where
  "kept s u \<longleftrightarrow> sh_world u = sh_world s \<and> sh_max u = sh_max s \<and> sh_device u = sh_device s \<and>
     sh_registered u = sh_registered s \<and> sh_mapping u = sh_mapping s"

lemma probe_post:
  assumes "\<And>y w' u. kept s u \<Longrightarrow> Q y (w', u)" and "\<And>e t. E e t"
  shows "io_post (probe_stream_path env pe) Q E (w, s)"
  using assms
  by (auto simp: probe_stream_path_def wp kept_def intro!: any_world split: option.splits)

lemma any_barrier:
  assumes "\<And>y w' b. Q y (w', s\<lparr>sh_barrier := b\<rparr>)" and "\<And>e t. E e t"
  shows "io_post (on_barrier m) Q E (w, s)"
  unfolding on_barrier_def wp by (rule io_post_any) (simp_all add: assms)

lemma shm_attach_post:
  assumes "shm_shape s" and "sh_mapping s \<noteq> None" and "dev_type (sh_device s) = ''cuda''"
  shows "io_post (shm_attach env pe prefix len base) (\<lambda>_ u. shm_connected (snd u)) (\<lambda>_ _. True) (w, s)"
  using assms
  by (auto simp: shm_attach_def wp shm_connected_def shm_shape_def kept_def
      intro!: any_world any_barrier probe_post)

lemma shm_descriptor_post:
  assumes "\<And>w' name len base d. sh_owns s \<Longrightarrow> Q (Some (len, base), d) (w', s\<lparr>sh_mapping := Some name\<rparr>)"
    and "\<And>w'. \<not> sh_owns s \<Longrightarrow> Q (None, None) (w', s)" and "\<And>e t. E e t"
  shows "io_post (shm_descriptor env) Q E (w, s)"
  using assms by (auto simp: shm_descriptor_def wp intro!: any_world)

lemma shm_init_post:
  "io_post (shm_init env T pe pg device mx) (\<lambda>_ u. shm_connected (snd u)) (\<lambda>_ _. True) ws"
proof -
  have rest: "io_post (io_bind (shm_descriptor env) (\<lambda>(own, descriptor).
      io_bind self (\<lambda>s.
      io_bind (on_world (get_global_rank env (sh_group s) 0)) (\<lambda>global_source.
      io_bind (on_world (broadcast_descriptor env (sh_group s) global_source descriptor)) (\<lambda>answer.
      case answer of
        None \<Rightarrow> io_raise RuntimeError ''rank 0 did not broadcast a shared-memory descriptor''
      | Some (name, prefix, agreed) \<Rightarrow>
          if agreed \<noteq> sh_max s then io_raise RuntimeError ''shared-memory size differs between ranks''
          else (case own of
              Some (len, base) \<Rightarrow> shm_attach env pe prefix len base
            | None \<Rightarrow>
                io_bind (on_world (shm_object env ''SharedMemory.open'' [name])) (\<lambda>(len, n, base).
                io_then (update_self (\<lambda>s. s\<lparr>sh_mapping := Some name\<rparr>))
                (shm_attach env pe prefix len base)))))))) (\<lambda>_ u. shm_connected (snd u)) (\<lambda>_ _. True) (v, t)"
    if "shm_shape t" "dev_type (sh_device t) = ''cuda''" for v t
    using that unfolding io_post_bind
    by (intro shm_descriptor_post)
       (auto simp: wp shm_shape_def intro!: any_world shm_attach_post split: option.splits)
  show ?thesis
    unfolding shm_init_def io_post_then
    by (rule io_post_mono [OF shm_configure_post]) (use rest in \<open>auto simp: split_paired_all\<close>)
qed

text \<open>A constructed communicator satisfies the layout invariant (two ranks, a positive size that is a
  multiple of 4 KiB), has registered the mapping it holds, is on a GPU and starts at
  epoch 0, whatever the environment answers.\<close>

lemma shm_init_connected:
  assumes "shm_init env T pe pg device mx (w, s) = (Inr (), (w', s'))"
  shows "shm_connected s'"
  using shm_init_post [of env T pe pg device mx "(w, s)"] assms by (simp add: io_post_def)

text \<open>An environment in which the constructor of rank 1 goes through.\<close>

definition shm_env :: "nat extern" where
  "shm_env = (\<lambda>c n. (Inr (case c of
       Dist fn args \<Rightarrow>
         (if fn = ''is_initialized'' then (1, [])
          else if fn = ''get_rank'' then (1, [])
          else if fn = ''get_world_size'' then (2, [])
          else if fn = ''broadcast_object_list'' then (4096, [VStr ''map'', VStr ''ev''])
          else if fn = ''all_reduce'' then (1, [])
          else (0, []))
     | Native fn vs \<Rightarrow>
         (if fn = ''CreateEventW'' then (5, []) else if fn = ''SetEvent'' then (1, [])
          else if fn = ''hipDeviceGetAttribute'' then (0, [VI32 1]) else (0, [VPtr 4096]))
     | Os fn args \<Rightarrow> (12288, [VStr ''map'', VPtr 65536])
     | Torch fn args \<Rightarrow> (0, [])), Suc n))"

definition blank_shm :: shm_ar where
  "blank_shm = sample_shm\<lparr>sh_mapping := None, sh_registered := False, sh_kernel := None, sh_stream := False\<rparr>"

lemma shm_init_connected_witness:
  "\<exists>u s'. shm_init shm_env sample_torch sample_env None (DeviceIndex 0) (Some 4096)
      (\<lparr>wext = 0, wlog = []\<rparr>, blank_shm) = (Inr (), (u, s')) \<and> shm_connected s'"
proof -
  have "case shm_init shm_env sample_torch sample_env None (DeviceIndex 0) (Some 4096)
      (\<lparr>wext = 0, wlog = []\<rparr>, blank_shm) of (Inl e, u) \<Rightarrow> False | (Inr y, u) \<Rightarrow> True"
    by code_simp
  then obtain u s' where "shm_init shm_env sample_torch sample_env None (DeviceIndex 0) (Some 4096)
      (\<lparr>wext = 0, wlog = []\<rparr>, blank_shm) = (Inr (), (u, s'))"
    by (auto split: prod.splits sum.splits)
  then show ?thesis using shm_init_connected by blast
qed

section \<open>Destruction\<close>


definition absent_peer :: "nat extern" where
  "absent_peer = (\<lambda>c n. (Inr (case c of
     Native fn vs \<Rightarrow> if fn = ''SetEvent'' then 1 else if fn = ''WaitForSingleObject'' then WAIT_TIMEOUT else 0
   | _ \<Rightarrow> 0, []), Suc n))"


end
