(* ===== verification/Kept_Calls.thy ===== *)
theory Kept_Calls
  imports Tensors Runtime_Paths
begin

text \<open>
  Two calculi over computations. \<open>keeps I m\<close>: the invariant \<open>I\<close> holds after \<open>m\<close> when it held before, also if \<open>m\<close> raises; the
  rules in the collection \<open>kept\<close> follow the shape of a computation. \<open>grew P w cs v\<close>: of the calls made between the worlds
  \<open>w\<close> and \<open>v\<close>, those that satisfy \<open>P\<close> are exactly \<open>cs\<close>, in that order.
\<close>

section \<open>Invariants\<close>

named_theorems kept

definition keeps :: "('s \<Rightarrow> bool) \<Rightarrow> ('s, 'a) io \<Rightarrow> bool" where
  "keeps I m \<longleftrightarrow> (\<forall>u. I u \<longrightarrow> io_post m (\<lambda>_. I) (\<lambda>_. I) u)"

lemma keeps_postI: "(\<And>u. I u \<Longrightarrow> io_post m (\<lambda>_. I) (\<lambda>_. I) u) \<Longrightarrow> keeps I m"
  by (simp add: keeps_def)

lemma keeps_post:
  "keeps I m \<Longrightarrow> I u \<Longrightarrow> (\<And>y t. I t \<Longrightarrow> Q y t) \<Longrightarrow> (\<And>e t. I t \<Longrightarrow> E e t) \<Longrightarrow> io_post m Q E u"
  by (auto simp: keeps_def intro: io_post_mono)

lemma keeps_after: "keeps I m \<Longrightarrow> I u \<Longrightarrow> I (snd (m u))"
proof -
  assume "keeps I m" "I u"
  then have "io_post m (\<lambda>_. I) (\<lambda>_. I) u" by (simp add: keeps_def)
  then show ?thesis by (cases "m u"; cases "fst (m u)") (simp_all add: io_post_def)
qed

lemma keeps_return [kept]: "keeps I (io_return x)"
  by (simp add: keeps_def wp)

lemma keeps_raise [kept]: "keeps I (io_raise k m)"
  by (simp add: keeps_def wp)

lemma keeps_bind [kept]: "keeps I m \<Longrightarrow> (\<And>x. keeps I (f x)) \<Longrightarrow> keeps I (io_bind m f)"
  by (rule keeps_postI, unfold wp) (auto elim!: keeps_post, simp add: keeps_def)

lemma keeps_then [kept]: "keeps I m \<Longrightarrow> keeps I n \<Longrightarrow> keeps I (io_then m n)"
  by (simp add: io_then_def keeps_bind)

lemma keeps_catch [kept]: "keeps I m \<Longrightarrow> (\<And>e. keeps I (h e)) \<Longrightarrow> keeps I (io_catch m h)"
  by (rule keeps_postI, unfold wp) (auto elim!: keeps_post, simp add: keeps_def)

lemma keeps_finally [kept]: "keeps I m \<Longrightarrow> keeps I f \<Longrightarrow> keeps I (io_finally m f)"
  by (rule keeps_postI, unfold wp) (auto elim!: keeps_post)

lemma keeps_if [kept]: "keeps I m \<Longrightarrow> keeps I n \<Longrightarrow> keeps I (if b then m else n)"
  by simp

lemma keeps_case_option [kept]:
  "keeps I m \<Longrightarrow> (\<And>x. keeps I (f x)) \<Longrightarrow> keeps I (case z of None \<Rightarrow> m | Some x \<Rightarrow> f x)"
  by (simp split: option.split)

lemma keeps_case_prod [kept]: "(\<And>x y. keeps I (f x y)) \<Longrightarrow> keeps I (case z of (x, y) \<Rightarrow> f x y)"
  by (simp split: prod.split)

lemma keeps_of_sum [kept]: "keeps I (io_of_sum x)"
  by (auto simp: keeps_def io_of_sum_def io_post_def split: sum.split)

lemma keeps_self [kept]: "keeps I self"
  by (simp add: keeps_def wp)

lemma keeps_Let [kept]: "(\<And>x. keeps I (f x)) \<Longrightarrow> keeps I (let x = y in f x)"
  by simp

lemma keeps_world [kept]: "keeps I m \<Longrightarrow> keeps (\<lambda>u. I (fst u)) (on_world m)"
  by (rule keeps_postI, unfold wp) (auto elim!: keeps_post)

lemma keeps_update [kept]: "keeps (\<lambda>u. I (fst u)) (update_self f)"
  by (simp add: keeps_def wp)

section \<open>The calls made\<close>

definition grew :: "(ecall \<Rightarrow> bool) \<Rightarrow> 'w world \<Rightarrow> ecall list \<Rightarrow> 'w world \<Rightarrow> bool" where
  "grew P w cs v \<longleftrightarrow> (\<exists>es. wlog v = wlog w @ es \<and> filter P es = cs)"

lemma grew_refl [simp]: "grew P w [] w"
  by (simp add: grew_def)

lemma grew_trans: "grew P w cs v \<Longrightarrow> grew P v ds u \<Longrightarrow> grew P w (cs @ ds) u"
  unfolding grew_def by (metis append.assoc filter_append)

lemma grew_then: "grew P w [] v \<Longrightarrow> grew P v ds u \<Longrightarrow> grew P w ds u"
  using grew_trans [of P w "[]"] by simp

lemma grew_call: "grew P w (filter P [c]) \<lparr>wext = x, wlog = wlog w @ [c]\<rparr>"
  by (auto simp: grew_def)

lemma kept_call [kept]: "\<not> P c \<Longrightarrow> keeps (grew P w []) (call_ext env c)"
  by (auto simp: keeps_def grew_def intro!: io_post_call_ext)

lemma kept_native: "(\<And>vs. \<not> P (Native fn vs)) \<Longrightarrow> keeps (grew P w []) (call_native env sigs fn args)"
  by (auto simp: call_native_def intro!: kept split: option.split)

end
