(* ===== verification/Host_Staged.thy ===== *)
theory Host_Staged
  imports Dist_Calls Kept_Calls
begin

text \<open>
  \<open>host_staged.py\<close>: collectives of GPU tensors staged through pinned host memory. The object keeps one
  staging tensor per layout (shape, strides, type). A tensor is passed to an external call as its device
  kind with its storage pointer, so that what crosses to \<open>torch.distributed\<close> can be read off the log.
\<close>

definition tensor_arg :: "tensor \<Rightarrow> pyarg" where
  "tensor_arg t = PyStruct (dev_type (t_device t)) [nat (t_ptr t)]"

record buffer_key =
  key_shape :: "nat list"
  key_stride :: "int list"
  key_dtype :: dtype

record staged =
  hs_group :: pgroup
  hs_device :: device
  hs_rank :: int
  hs_world :: int
  hs_buffers :: "(buffer_key \<times> tensor) list"

definition cpu :: device where
  "cpu = \<lparr>dev_type = ''cpu'', dev_index = None\<rparr>"

section \<open>Construction\<close>

definition staged_init ::
  "'w extern \<Rightarrow> torch_api \<Rightarrow> pgroup \<Rightarrow> device_arg option \<Rightarrow> ('w, staged, unit) meth" where
  "staged_init env T pg device =
     io_bind (on_world (dist_int env ''is_available'' [])) (\<lambda>available.
     io_bind (if available = 0 then io_return 0 else on_world (dist_int env ''is_initialized'' []))
       (\<lambda>initialized.
     if available = 0 \<or> initialized = 0
       then io_raise RuntimeError ''torch.distributed must be initialized first'' else
     io_bind (on_world (dist_int env ''is_gloo_available'' [])) (\<lambda>gloo.
     if gloo = 0 then io_raise RuntimeError ''the PyTorch build does not provide Gloo'' else
     io_bind (on_world (call_ext env (Dist ''get_backend'' (group_args pg)))) (\<lambda>(_, outs).
     let backend = py_lower (case out_str outs of None \<Rightarrow> [] | Some b \<Rightarrow> b) in
     if \<not> py_contains ''gloo'' backend
       then io_raise ValueError (''HostStagedGloo requires a Gloo group, got '' @ backend) else
     io_bind (case device of
         None \<Rightarrow> on_world (io_bind (call_ext env (Torch ''current_device'' [])) (\<lambda>(i, _). io_return (DeviceIndex i)))
       | Some d \<Rightarrow> io_return d) (\<lambda>device.
     io_bind (io_of_sum (as_device T device)) (\<lambda>d.
     if dev_type d \<noteq> ''cuda'' then io_raise ValueError ''expected a HIP/CUDA-like device'' else
     io_bind (on_world (dist_int env ''get_rank'' (group_args pg))) (\<lambda>rank.
     io_bind (on_world (dist_int env ''get_world_size'' (group_args pg))) (\<lambda>size.
     update_self (\<lambda>s. s\<lparr>hs_group := pg, hs_device := d, hs_rank := rank, hs_world := size,
        hs_buffers := []\<rparr>)))))))))"

section \<open>Staging\<close>

definition empty_strided ::
  "'w extern \<Rightarrow> nat list \<Rightarrow> int list \<Rightarrow> dtype \<Rightarrow> device \<Rightarrow> ('w world, tensor) io" where
  "empty_strided env shape stride d dev =
     io_bind (call_ext env (Torch ''empty_strided'' (device_args dev))) (\<lambda>(p, _).
       io_return \<lparr>t_shape = shape, t_stride = stride, t_dtype = d, t_device = dev, t_ptr = p\<rparr>)"

text \<open>\<open>torch.empty(shape)\<close>: a contiguous tensor.\<close>

definition empty :: "'w extern \<Rightarrow> torch_api \<Rightarrow> nat list \<Rightarrow> dtype \<Rightarrow> device \<Rightarrow> ('w world, tensor) io" where
  "empty env T shape d dev =
     io_bind (call_ext env (Torch ''empty'' (device_args dev))) (\<lambda>(p, _).
       io_return (contiguous_on T \<lparr>t_shape = shape, t_stride = [], t_dtype = d, t_device = dev, t_ptr = 0\<rparr> p))"

definition copy_into :: "'w extern \<Rightarrow> tensor \<Rightarrow> tensor \<Rightarrow> ('w world, unit) io" where
  "copy_into env dst src = torch_do env ''copy_'' [tensor_arg dst, tensor_arg src]"

definition key_of :: "tensor \<Rightarrow> buffer_key" where
  "key_of t = \<lparr>key_shape = t_shape t, key_stride = t_stride t, key_dtype = t_dtype t\<rparr>"

definition stage_for :: "'w extern \<Rightarrow> tensor \<Rightarrow> ('w, staged, tensor) meth" where
  "stage_for env t =
     io_bind self (\<lambda>s.
     case map_of (hs_buffers s) (key_of t) of
       Some stage \<Rightarrow> io_return stage
     | None \<Rightarrow>
         io_bind (on_world (empty_strided env (t_shape t) (t_stride t) (t_dtype t) cpu)) (\<lambda>stage.
         io_then (update_self (\<lambda>s. s\<lparr>hs_buffers := hs_buffers s @ [(key_of t, stage)]\<rparr>))
         (io_return stage)))"

definition gpu_from_host :: "'w extern \<Rightarrow> tensor \<Rightarrow> device \<Rightarrow> ('w world, tensor) io" where
  "gpu_from_host env host dev =
     io_bind (empty_strided env (t_shape host) (t_stride host) (t_dtype host) dev) (\<lambda>output.
     io_then (copy_into env output host)
     (io_return output))"

text \<open>The list comprehension \<open>[torch.empty_like(stage) for _ in range(n)]\<close>.\<close>

fun empty_likes :: "'w extern \<Rightarrow> torch_api \<Rightarrow> tensor \<Rightarrow> nat \<Rightarrow> ('w world, tensor list) io" where
  "empty_likes env T t 0 = io_return []"
| "empty_likes env T t (Suc n) =
     io_bind (empty_like env T t) (\<lambda>u. io_bind (empty_likes env T t n) (\<lambda>us. io_return (u # us)))"

definition cat :: "'w extern \<Rightarrow> torch_api \<Rightarrow> tensor list \<Rightarrow> int \<Rightarrow> ('w world, tensor) io" where
  "cat env T ts dim =
     io_bind (call_ext env (Torch ''cat'' (PyInt dim # map tensor_arg ts))) (\<lambda>(p, _).
       io_return (cat_on T ts dim p))"

section \<open>The collectives\<close>

definition dist_do :: "'w extern \<Rightarrow> string \<Rightarrow> pyarg list \<Rightarrow> ('w world, unit) io" where
  "dist_do env fn args = io_bind (call_ext env (Dist fn args)) (\<lambda>_. io_return ())"

definition staged_all_reduce :: "'w extern \<Rightarrow> string \<Rightarrow> tensor \<Rightarrow> ('w, staged, tensor) meth" where
  "staged_all_reduce env oper t =
     io_bind self (\<lambda>s.
     if t_device t \<noteq> hs_device s then io_raise ValueError ''tensor is on another device''
     else if hs_world s = 1 then io_return t
     else
       io_bind (stage_for env t) (\<lambda>stage.
       io_then (on_world (copy_into env stage t))
       (io_then (on_world (dist_do env ''all_reduce'' (tensor_arg stage # PyStr oper # group_args (hs_group s))))
       (on_world (gpu_from_host env stage (t_device t))))))"

definition staged_all_gather :: "'w extern \<Rightarrow> torch_api \<Rightarrow> tensor \<Rightarrow> int \<Rightarrow> ('w, staged, tensor) meth" where
  "staged_all_gather env T t dim =
     io_bind self (\<lambda>s.
     if hs_world s = 1 then io_return t
     else
       io_bind (stage_for env t) (\<lambda>stage.
       io_then (on_world (copy_into env stage t))
       (io_bind (on_world (empty_likes env T stage (nat (hs_world s)))) (\<lambda>gathered.
        io_then (on_world (dist_do env ''all_gather''
           (map tensor_arg gathered @ tensor_arg stage # group_args (hs_group s))))
        (io_bind (on_world (cat env T gathered dim)) (\<lambda>host_output.
         on_world (gpu_from_host env host_output (t_device t))))))))"

text \<open>The normalised dimension and the chunk shape of lines 113-125.\<close>

definition scatter_dim :: "tensor \<Rightarrow> int \<Rightarrow> int" where
  "scatter_dim t dim = (if dim < 0 then dim + int (length (t_shape t)) else dim)"

definition scatter_shape :: "tensor \<Rightarrow> int \<Rightarrow> nat list" where
  "scatter_shape moved world = hd (t_shape moved) div nat world # tl (t_shape moved)"

text \<open>\<open>tensor.movedim(a, b).contiguous()\<close>, which is the view itself when it is contiguous.\<close>

definition moved_contiguous ::
  "'w extern \<Rightarrow> torch_api \<Rightarrow> tensor \<Rightarrow> int \<Rightarrow> int \<Rightarrow> ('w world, tensor) io" where
  "moved_contiguous env T t a b =
     io_bind (io_of_sum (movedim_view T t a b)) (\<lambda>moved. as_contiguous env T moved)"

definition staged_reduce_scatter ::
  "'w extern \<Rightarrow> torch_api \<Rightarrow> string \<Rightarrow> tensor \<Rightarrow> int \<Rightarrow> ('w, staged, tensor) meth" where
  "staged_reduce_scatter env T oper t dim =
     io_bind self (\<lambda>s.
     if hs_world s = 1 then io_return t
     else
       io_bind (on_world (moved_contiguous env T t (scatter_dim t dim) 0)) (\<lambda>moved.
       if hd (t_shape moved) mod nat (hs_world s) \<noteq> 0
         then io_raise ValueError ''scatter dimension must be divisible by world size'' else
       io_bind (stage_for env moved) (\<lambda>stage.
       io_then (on_world (copy_into env stage moved))
       (io_bind (on_world (empty env T (scatter_shape moved (hs_world s)) (t_dtype moved) cpu)) (\<lambda>host_output.
        io_then (on_world (dist_do env ''reduce_scatter_tensor''
           (tensor_arg host_output # tensor_arg stage # PyStr oper # group_args (hs_group s))))
        (io_bind (on_world (gpu_from_host env host_output (t_device t))) (\<lambda>output.
         on_world (moved_contiguous env T output 0 (scatter_dim t dim)))))))))"

definition staged_gather ::
  "'w extern \<Rightarrow> torch_api \<Rightarrow> tensor \<Rightarrow> int \<Rightarrow> int \<Rightarrow> ('w, staged, tensor option) meth" where
  "staged_gather env T t dst dim =
     io_bind self (\<lambda>s.
     if hs_world s = 1 then io_return (Some t)
     else
       io_bind (stage_for env t) (\<lambda>stage.
       io_then (on_world (copy_into env stage t))
       (io_bind (on_world (get_global_rank env (hs_group s) dst)) (\<lambda>global_dst.
        io_bind (if hs_rank s = dst then on_world (empty_likes env T stage (nat (hs_world s))) else io_return [])
          (\<lambda>gathered.
        io_then (on_world (dist_do env ''gather''
           (tensor_arg stage # map tensor_arg gathered @ PyInt global_dst # group_args (hs_group s))))
        (if hs_rank s \<noteq> dst then io_return None
         else
           io_bind (on_world (cat env T gathered dim)) (\<lambda>host_output.
           io_bind (on_world (gpu_from_host env host_output (t_device t))) (\<lambda>output.
           io_return (Some output)))))))))"

definition staged_broadcast :: "'w extern \<Rightarrow> tensor \<Rightarrow> int \<Rightarrow> ('w, staged, tensor) meth" where
  "staged_broadcast env t src =
     io_bind self (\<lambda>s.
     if hs_world s = 1 then io_return t
     else
       io_bind (stage_for env t) (\<lambda>stage.
       io_then (on_world (copy_into env stage t))
       (io_bind (on_world (get_global_rank env (hs_group s) src)) (\<lambda>global_src.
        io_then (on_world (dist_do env ''broadcast'' (tensor_arg stage # PyInt global_src # group_args (hs_group s))))
        (io_then (on_world (copy_into env t stage))
        (io_return t))))))"

definition staged_send :: "'w extern \<Rightarrow> tensor \<Rightarrow> int \<Rightarrow> ('w, staged, unit) meth" where
  "staged_send env t dst =
     io_bind self (\<lambda>s.
     io_bind (stage_for env t) (\<lambda>stage.
     io_then (on_world (copy_into env stage t))
     (io_bind (on_world (get_global_rank env (hs_group s) dst)) (\<lambda>global_dst.
      on_world (dist_do env ''send'' (tensor_arg stage # PyInt global_dst # group_args (hs_group s)))))))"

definition staged_recv ::
  "'w extern \<Rightarrow> torch_api \<Rightarrow> nat list \<Rightarrow> dtype \<Rightarrow> int \<Rightarrow> ('w, staged, tensor) meth" where
  "staged_recv env T shape d src =
     io_bind self (\<lambda>s.
     io_bind (on_world (empty env T shape d cpu)) (\<lambda>stage.
     io_bind (on_world (get_global_rank env (hs_group s) src)) (\<lambda>global_src.
     io_then (on_world (dist_do env ''recv'' (tensor_arg stage # PyInt global_src # group_args (hs_group s))))
     (on_world (gpu_from_host env stage (hs_device s))))))"

definition staged_barrier :: "'w extern \<Rightarrow> ('w, staged, unit) meth" where
  "staged_barrier env = io_bind self (\<lambda>s. on_world (dist_do env ''barrier'' (group_args (hs_group s))))"

section \<open>No GPU tensor reaches Gloo\<close>

text \<open>A call to \<open>torch.distributed\<close> that mentions no GPU tensor.\<close>

definition gpu_free :: "ecall \<Rightarrow> bool" where
  "gpu_free c \<longleftrightarrow> (case c of Dist fn args \<Rightarrow> (\<forall>a\<in>set args. \<forall>bs. a \<noteq> PyStruct ''cuda'' bs) | _ \<Rightarrow> True)"

text \<open>The staging tensors are on the host and sit under the key of their own layout, one per key.\<close>

definition cache_ok :: "staged \<Rightarrow> bool" where
  "cache_ok s \<longleftrightarrow> distinct (map fst (hs_buffers s)) \<and>
     (\<forall>(k, t)\<in>set (hs_buffers s). t_device t = cpu \<and> key_of t = k)"

definition staged_ok :: "'w world \<times> staged \<Rightarrow> bool" where
  "staged_ok u \<longleftrightarrow> cache_ok (snd u) \<and> (\<forall>c\<in>set (wlog (fst u)). gpu_free c)"

lemma gpu_free_simps [simp]:
  "gpu_free (Torch fn args)" "gpu_free (Native fn vs)" "gpu_free (Os fn ss)"
  "gpu_free (Dist fn []) "
  "gpu_free (Dist fn (PyInt i # as)) = gpu_free (Dist fn as)"
  "gpu_free (Dist fn (PyStr x # as)) = gpu_free (Dist fn as)"
  "gpu_free (Dist fn (group_args g))"
  "t_device t = cpu \<Longrightarrow> gpu_free (Dist fn (tensor_arg t # as)) = gpu_free (Dist fn as)"
  by (auto simp: gpu_free_def group_args_def tensor_arg_def cpu_def split: option.splits)

lemma gpu_free_map [simp]:
  "\<forall>t\<in>set ts. t_device t = cpu \<Longrightarrow> gpu_free (Dist fn (map tensor_arg ts @ as)) = gpu_free (Dist fn as)"
  by (auto simp: gpu_free_def tensor_arg_def cpu_def)

lemma call_ok:
  assumes "staged_ok (w, s)" and "gpu_free c"
    and "\<And>a w'. staged_ok (w', s) \<Longrightarrow> Q a w'" and "\<And>e w'. staged_ok (w', s) \<Longrightarrow> E e w'"
  shows "io_post (call_ext env c) Q E w"
  using assms by (intro io_post_call_ext) (auto simp: staged_ok_def)

lemma world_ok:
  assumes "staged_ok (w, s)"
  shows "(\<And>a w'. staged_ok (w', s) \<Longrightarrow> R a w') \<Longrightarrow> (\<And>e w'. staged_ok (w', s) \<Longrightarrow> E e w') \<Longrightarrow>
           io_post (copy_into env t1 t2) R E w"
    and "(\<And>t w'. t_device t = dev \<Longrightarrow> t_shape t = sh \<Longrightarrow> t_stride t = st \<Longrightarrow> t_dtype t = d \<Longrightarrow>
           staged_ok (w', s) \<Longrightarrow> Q t w') \<Longrightarrow> (\<And>e w'. staged_ok (w', s) \<Longrightarrow> E e w') \<Longrightarrow>
           io_post (empty_strided env sh st d dev) Q E w"
    and "gpu_free (Dist fn args) \<Longrightarrow> (\<And>a w'. staged_ok (w', s) \<Longrightarrow> R a w') \<Longrightarrow>
           (\<And>e w'. staged_ok (w', s) \<Longrightarrow> E e w') \<Longrightarrow> io_post (dist_do env fn args) R E w"
    and "(\<And>t w'. staged_ok (w', s) \<Longrightarrow> Q t w') \<Longrightarrow> (\<And>e w'. staged_ok (w', s) \<Longrightarrow> E e w') \<Longrightarrow>
           io_post (cat env T ts dim) Q E w"
    and "(\<And>n w'. staged_ok (w', s) \<Longrightarrow> G n w') \<Longrightarrow> (\<And>e w'. staged_ok (w', s) \<Longrightarrow> E e w') \<Longrightarrow>
           io_post (get_global_rank env g r) G E w"
    and "(\<And>t w'. staged_ok (w', s) \<Longrightarrow> Q t w') \<Longrightarrow> (\<And>e w'. staged_ok (w', s) \<Longrightarrow> E e w') \<Longrightarrow>
           io_post (moved_contiguous env T t0 a b) Q E w"
  using assms
  by (auto simp: copy_into_def torch_do_def empty_strided_def dist_do_def cat_def get_global_rank_def dist_int_def
      moved_contiguous_def as_contiguous_def contiguous_def wp intro!: call_ok split: option.splits sum.splits)

lemma empty_ok:
  assumes "torch_ok T" and "staged_ok (w, s)"
    and "\<And>t w'. t_device t = dev \<Longrightarrow> t_dtype t = d \<Longrightarrow> t_shape t = sh \<Longrightarrow> staged_ok (w', s) \<Longrightarrow> Q t w'"
    and "\<And>e w'. staged_ok (w', s) \<Longrightarrow> E e w'"
  shows "io_post (empty env T sh d dev) Q E w"
  using assms(2-4) torch_ok_contiguous(1) [OF assms(1)]
  by (auto simp: empty_def wp same_kind_def intro!: call_ok)

lemma empty_likes_ok:
  assumes "torch_ok T" and "staged_ok (w, s)"
    and "\<And>ts w'. length ts = n \<Longrightarrow> \<forall>u\<in>set ts. t_device u = t_device t \<Longrightarrow> staged_ok (w', s) \<Longrightarrow> Q ts w'"
    and "\<And>e w'. staged_ok (w', s) \<Longrightarrow> E e w'"
  shows "io_post (empty_likes env T t n) Q E w"
  using assms(2-4)
proof (induction n arbitrary: w Q)
  case 0
  then show ?case by (simp add: wp)
next
  case (Suc n)
  show ?case
    using Suc.prems torch_ok_like(1) [OF assms(1)]
    by (auto simp: empty_like_def wp same_kind_def intro!: call_ok Suc.IH)
qed

lemma gpu_from_host_ok:
  assumes "staged_ok (w, s)"
    and "\<And>t w'. t_device t = dev \<Longrightarrow> t_shape t = t_shape h \<Longrightarrow> t_dtype t = t_dtype h \<Longrightarrow> staged_ok (w', s) \<Longrightarrow> Q t w'"
    and "\<And>e w'. staged_ok (w', s) \<Longrightarrow> E e w'"
  shows "io_post (gpu_from_host env h dev) Q E w"
  using assms by (auto simp: gpu_from_host_def wp intro!: world_ok)

lemma stage_for_ok:
  assumes "staged_ok (w, s)"
    and "\<And>t' w' s'. t_device t' = cpu \<Longrightarrow> key_of t' = key_of t \<Longrightarrow> staged_ok (w', s') \<Longrightarrow>
       hs_world s' = hs_world s \<Longrightarrow> hs_group s' = hs_group s \<Longrightarrow> Q t' (w', s')"
    and "\<And>e w'. staged_ok (w', s) \<Longrightarrow> E e (w', s)"
  shows "io_post (stage_for env t) Q E (w, s)"
proof (cases "map_of (hs_buffers s) (key_of t)")
  case None
  then have "key_of t \<notin> fst ` set (hs_buffers s)" by (simp add: map_of_eq_None_iff)
  then show ?thesis
    using None assms
    by (auto simp: stage_for_def wp key_of_def intro!: world_ok(2))
       (auto simp: staged_ok_def cache_ok_def key_of_def)
next
  case (Some t')
  then have "(key_of t, t') \<in> set (hs_buffers s)" by (rule map_of_SomeD)
  with assms(1) have "t_device t' = cpu" "key_of t' = key_of t" by (auto simp: staged_ok_def cache_ok_def)
  with Some assms show ?thesis by (simp add: stage_for_def wp)
qed

text \<open>Every operation keeps the invariant.\<close>

lemmas staged_rules = stage_for_ok world_ok gpu_from_host_ok empty_likes_ok empty_ok

lemma keeps_all_reduce: "keeps staged_ok (staged_all_reduce env oper t)"
  by (auto simp: keeps_def staged_all_reduce_def wp intro!: staged_rules)

lemma keeps_all_gather: "torch_ok T \<Longrightarrow> keeps staged_ok (staged_all_gather env T t dim)"
  by (auto simp: keeps_def staged_all_gather_def wp intro!: staged_rules)

lemma keeps_reduce_scatter: "torch_ok T \<Longrightarrow> keeps staged_ok (staged_reduce_scatter env T oper t dim)"
  by (auto simp: keeps_def staged_reduce_scatter_def wp intro!: staged_rules)

lemma keeps_gather: "torch_ok T \<Longrightarrow> keeps staged_ok (staged_gather env T t dst dim)"
  by (auto simp: keeps_def staged_gather_def wp intro!: staged_rules)

lemma keeps_broadcast: "keeps staged_ok (staged_broadcast env t src)"
  by (auto simp: keeps_def staged_broadcast_def wp intro!: staged_rules)

lemma keeps_send: "keeps staged_ok (staged_send env t dst)"
  by (auto simp: keeps_def staged_send_def wp intro!: staged_rules)

lemma keeps_recv: "torch_ok T \<Longrightarrow> keeps staged_ok (staged_recv env T shape d src)"
  by (auto simp: keeps_def staged_recv_def wp intro!: staged_rules)

lemma keeps_barrier: "keeps staged_ok (staged_barrier env)"
  by (auto simp: keeps_def staged_barrier_def wp intro!: staged_rules)

text \<open>C19: a GPU tensor is never handed to Gloo. Whatever collectives run, in whatever order, with whatever
  answers and exceptions, no call to \<open>torch.distributed\<close> mentions a tensor on a GPU, and the staging
  cache holds host tensors only, one per layout and each of exactly that layout.\<close>

theorem staged_never_hands_gpu:
  assumes "torch_ok T" and "staged_ok u"
  shows "staged_ok (snd (staged_all_reduce env oper t u)) \<and> staged_ok (snd (staged_all_gather env T t dim u)) \<and>
    staged_ok (snd (staged_reduce_scatter env T oper t dim u)) \<and> staged_ok (snd (staged_broadcast env t src u)) \<and>
    staged_ok (snd (staged_gather env T t dst dim u)) \<and> staged_ok (snd (staged_send env t dst u)) \<and>
    staged_ok (snd (staged_recv env T shape d src u)) \<and> staged_ok (snd (staged_barrier env u))"
proof -
  have after: "staged_ok (snd (f u))" if "keeps staged_ok f" for f :: "('a, staged, 'b) meth"
  proof -
    have "io_post f (\<lambda>_. staged_ok) (\<lambda>_. staged_ok) u" using that assms(2) unfolding keeps_def by blast
    then show ?thesis by (cases "f u"; cases "fst (f u)") (simp_all add: io_post_def)
  qed
  show ?thesis
    by (intro conjI after keeps_all_reduce keeps_all_gather keeps_reduce_scatter keeps_gather keeps_broadcast
        keeps_send keeps_recv keeps_barrier assms(1))
qed

definition sample_staged :: staged where
  "sample_staged = \<lparr>hs_group = None, hs_device = \<lparr>dev_type = ''cuda'', dev_index = Some 0\<rparr>, hs_rank = 0,
     hs_world = 2, hs_buffers = []\<rparr>"

lemma sample_staged_ok: "staged_ok (\<lparr>wext = 0 :: nat, wlog = []\<rparr>, sample_staged)"
  by (simp add: staged_ok_def cache_ok_def sample_staged_def)

lemma staged_never_hands_gpu_witness:
  "staged_ok (snd (staged_all_reduce quiet ''SUM'' (sample_tensor Float32 8 16) (\<lparr>wext = 0, wlog = []\<rparr>, sample_staged)))"
  using staged_never_hands_gpu [OF sample_torch_ok sample_staged_ok] by blast

section \<open>The staging cache\<close>

text \<open>The staging cache works as a cache of layouts: a successful lookup returns a host tensor of exactly
  the layout asked for and remembers it; from then on every tensor of the same shape, strides and type
  gets that same staging tensor without any allocation and without changing anything.\<close>

lemma stage_reused:
  assumes "cache_ok s" and "stage_for env t (w, s) = (Inr stage, (w', s'))" and "key_of u = key_of t"
  shows "key_of stage = key_of t \<and> t_device stage = cpu \<and> stage_for env' u (v, s') = (Inr stage, (v, s'))"
proof (cases "map_of (hs_buffers s) (key_of t)")
  case None
  with assms(2) have "key_of stage = key_of t" "t_device stage = cpu"
    "s' = s\<lparr>hs_buffers := hs_buffers s @ [(key_of t, stage)]\<rparr>"
    by (auto simp: stage_for_def method_success empty_strided_def key_of_def)
  with None show ?thesis
    by (simp add: stage_for_def assms(3) io_bind_def self_def io_return_def map_add_def)
next
  case (Some st)
  with assms(2) have eq: "stage = st" "s' = s" by (auto simp: stage_for_def method_success)
  from Some have "(key_of t, st) \<in> set (hs_buffers s)" by (rule map_of_SomeD)
  with assms(1) have "t_device st = cpu" "key_of st = key_of t" by (auto simp: cache_ok_def)
  with Some eq show ?thesis by (simp add: stage_for_def assms(3) io_bind_def self_def io_return_def)
qed

lemma stage_reused_witness:
  "\<exists>stage w' s'. stage_for quiet (sample_tensor Float32 8 16) (\<lparr>wext = 0, wlog = []\<rparr>, sample_staged) = (Inr stage, (w', s')) \<and>
     stage_for quiet (sample_tensor Float32 8 32) (w', s') = (Inr stage, (w', s'))"
proof -
  have "case stage_for quiet (sample_tensor Float32 8 16) (\<lparr>wext = 0, wlog = []\<rparr>, sample_staged) of
      (Inl e, u) \<Rightarrow> False | (Inr y, u) \<Rightarrow> True"
    by code_simp
  then obtain stage w' s' where run: "stage_for quiet (sample_tensor Float32 8 16) (\<lparr>wext = 0, wlog = []\<rparr>, sample_staged) =
      (Inr stage, (w', s'))"
    by (auto split: prod.splits sum.splits)
  have "cache_ok sample_staged" "key_of (sample_tensor Float32 8 32) = key_of (sample_tensor Float32 8 16)"
    by (simp_all add: cache_ok_def sample_staged_def key_of_def sample_tensor_def)
  from stage_reused [OF this(1) run this(2)] run show ?thesis by blast
qed

section \<open>The values\<close>

text \<open>
  The effect of the calls on memory, a map from storage pointers to contents: a copy copies, a collective
  replaces the contents of its tensor by what the group computes from it (\<open>red\<close> for a reduction, \<open>bc\<close>
  for a broadcast), every other call leaves the memory alone.
\<close>

definition memory_effect ::
  "('a \<Rightarrow> 'a) \<Rightarrow> ('a \<Rightarrow> 'a) \<Rightarrow> ecall \<Rightarrow> (nat \<Rightarrow> 'a) \<Rightarrow> (nat \<Rightarrow> 'a)" where
  "memory_effect red bc c m =
     (case c of
        Torch fn [PyStruct _ [d], PyStruct _ [s]] \<Rightarrow> (if fn = ''copy_'' then m(d := m s) else m)
      | Dist fn (PyStruct _ [p] # _) \<Rightarrow>
          (if fn = ''all_reduce'' then m(p := red (m p))
           else if fn = ''broadcast'' then m(p := bc (m p)) else m)
      | _ \<Rightarrow> m)"

definition memory_after :: "('a \<Rightarrow> 'a) \<Rightarrow> ('a \<Rightarrow> 'a) \<Rightarrow> ecall list \<Rightarrow> (nat \<Rightarrow> 'a) \<Rightarrow> (nat \<Rightarrow> 'a)" where
  "memory_after red bc cs m = fold (memory_effect red bc) cs m"

abbreviation storage :: "tensor \<Rightarrow> nat" where
  "storage t \<equiv> nat (t_ptr t)"

lemma memory_effect_simps [simp]:
  "memory_effect red bc (Torch ''copy_'' [tensor_arg d, tensor_arg s]) m = m(storage d := m (storage s))"
  "memory_effect red bc (Dist ''all_reduce'' (tensor_arg t # as)) m = m(storage t := red (m (storage t)))"
  "memory_effect red bc (Dist ''broadcast'' (tensor_arg t # as)) m = m(storage t := bc (m (storage t)))"
  "memory_effect red bc (Dist ''get_global_rank'' [PyStr n, PyInt r]) m = m"
  "memory_effect red bc (Torch ''empty_strided'' (device_args dev)) m = m"
  by (simp_all add: memory_effect_def tensor_arg_def device_args_def split: option.splits)

lemma world_calls:
  "copy_into env d t w = (Inr (), w') \<Longrightarrow> wlog w' = wlog w @ [Torch ''copy_'' [tensor_arg d, tensor_arg t]]"
  "dist_do env fn args w = (Inr (), w') \<Longrightarrow> wlog w' = wlog w @ [Dist fn args]"
  "empty_strided env sh st dt dev w = (Inr u, w') \<Longrightarrow>
     wlog w' = wlog w @ [Torch ''empty_strided'' (device_args dev)] \<and> t_shape u = sh \<and> t_dtype u = dt \<and> t_device u = dev"
  by (auto simp: copy_into_def torch_do_def dist_do_def empty_strided_def io_success call_ext_success_iff)

lemma stage_for_calls:
  assumes "stage_for env t (w, s) = (Inr stage, (w', s'))"
  shows "(wlog w' = wlog w \<or> wlog w' = wlog w @ [Torch ''empty_strided'' (device_args cpu)]) \<and>
    map_of (hs_buffers s') (key_of t) = Some stage"
  using assms
  by (auto simp: stage_for_def method_success map_add_def dest!: world_calls(3) split: option.splits)

text \<open>C20: the staged reduction computes the reduction: when it returns, running the calls it made on the
  memory puts into the returned tensor what the group computes from the input's contents, leaves the
  input and every other live tensor untouched, and the result is a new tensor of the input's shape, type
  and device. (The staging tensor and the result have storage of their own.)\<close>

theorem staged_all_reduce_value:
  assumes "cache_ok s" and "hs_world s \<noteq> 1" and "staged_all_reduce env oper t (w, s) = (Inr out, (w', s'))"
    and "map_of (hs_buffers s') (key_of t) = Some stage"
    and "distinct [storage t, storage stage, storage out]"
  shows "\<exists>cs. wlog w' = wlog w @ cs \<and> same_kind t out \<and>
    memory_after red bc cs m (storage out) = red (m (storage t)) \<and>
    (\<forall>p. p \<noteq> storage stage \<and> p \<noteq> storage out \<longrightarrow> memory_after red bc cs m p = m p)"
proof -
  from assms(2,3) obtain st v1 s1 v2 v3 v4 where dev: "t_device t = hs_device s"
    and stage: "stage_for env t (w, s) = (Inr st, (v1, s'))"
    and copy: "copy_into env st t v1 = (Inr (), v2)"
    and red: "dist_do env ''all_reduce'' (tensor_arg st # PyStr oper # group_args (hs_group s)) v2 = (Inr (), v3)"
    and alloc: "empty_strided env (t_shape st) (t_stride st) (t_dtype st) (t_device t) v3 = (Inr out, v4)"
    and cback: "copy_into env out st v4 = (Inr (), w')"
    by (auto simp: staged_all_reduce_def method_success gpu_from_host_def split: if_splits)
  from stage_for_calls [OF stage] assms(4) have st: "st = stage"
    and first: "\<exists>pre. wlog v1 = wlog w @ pre \<and> memory_after red bc pre m = m" for m
    by (auto simp: memory_after_def intro: exI [of _ "[]"] exI [of _ "[Torch ''empty_strided'' (device_args cpu)]"])
  then obtain pre where pre: "wlog v1 = wlog w @ pre" "memory_after red bc pre m = m" by blast
  have "key_of st = key_of t"
    using assms(1) stage
    by (auto simp: stage_for_def method_success empty_strided_def key_of_def cache_ok_def
        split: option.splits dest!: map_of_SomeD)
  then have kind: "same_kind t out"
    using world_calls(3) [OF alloc] by (simp add: same_kind_def key_of_def)
  let ?cs = "pre @ [Torch ''copy_'' [tensor_arg st, tensor_arg t],
    Dist ''all_reduce'' (tensor_arg st # PyStr oper # group_args (hs_group s)),
    Torch ''empty_strided'' (device_args (t_device t)), Torch ''copy_'' [tensor_arg out, tensor_arg st]]"
  have "wlog w' = wlog w @ ?cs"
    using pre(1) world_calls(1) [OF copy] world_calls(2) [OF red] world_calls(3) [OF alloc] world_calls(1) [OF cback]
    by simp
  moreover have "memory_after red bc ?cs m = m(storage stage := red (m (storage t)), storage out := red (m (storage t)))"
    using pre(2) assms(5) by (simp add: memory_after_def st)
  ultimately show ?thesis using kind assms(5) by (intro exI [of _ ?cs]) auto
qed

text \<open>An environment that hands out a new pointer at every call.\<close>

definition fresh_env :: "nat extern" where
  "fresh_env = (\<lambda>c n. (Inr (int n + 100, []), Suc n))"

lemma staged_all_reduce_value_witness:
  "\<exists>cs out. memory_after Suc id cs (\<lambda>_. 5) (storage out) = 6 \<and>
     same_kind (sample_tensor Float32 8 16) out"
proof -
  let ?t = "sample_tensor Float32 8 16"
  obtain r w' s' where res: "staged_all_reduce fresh_env ''SUM'' ?t (\<lparr>wext = 0, wlog = []\<rparr>, sample_staged) = (r, (w', s'))"
    by (metis surj_pair)
  have "case staged_all_reduce fresh_env ''SUM'' ?t (\<lparr>wext = 0, wlog = []\<rparr>, sample_staged) of
      (Inl e, u) \<Rightarrow> False
    | (Inr out, (w', s')) \<Rightarrow> storage out = 103 \<and>
        (case map_of (hs_buffers s') (key_of ?t) of None \<Rightarrow> False | Some stage \<Rightarrow> storage stage = 100)"
    by code_simp
  with res obtain out stage where run: "staged_all_reduce fresh_env ''SUM'' ?t (\<lparr>wext = 0, wlog = []\<rparr>, sample_staged) =
      (Inr out, (w', s'))" and stage: "map_of (hs_buffers s') (key_of ?t) = Some stage"
    and ptrs: "storage out = 103" "storage stage = 100"
    by (simp split: sum.splits option.splits)
  have "cache_ok sample_staged" "hs_world sample_staged \<noteq> 1" "storage ?t = 16"
    by (simp_all add: cache_ok_def sample_staged_def sample_tensor_def)
  moreover from this ptrs have "distinct [storage ?t, storage stage, storage out]" by simp
  ultimately obtain cs where "memory_after Suc id cs (\<lambda>_. 5) (storage out) = Suc 5" "same_kind ?t out"
    using staged_all_reduce_value [OF _ _ run stage, of Suc id "\<lambda>_. 5"] by blast
  then show ?thesis by (intro exI [of _ cs] exI [of _ out]) simp
qed

section \<open>Kinds of the results\<close>

lemma staged_all_reduce_kind:
  assumes "cache_ok s" and "staged_all_reduce env oper t (w, s) = (Inr out, (w', s'))"
  shows "same_kind t out"
proof (cases "hs_world s = 1")
  case True
  with assms(2) show ?thesis by (auto simp: staged_all_reduce_def method_success split: if_splits)
next
  case False
  with assms(2) obtain st v1 v3 v4 where stage: "stage_for env t (w, s) = (Inr st, (v1, s'))"
    and alloc: "empty_strided env (t_shape st) (t_stride st) (t_dtype st) (t_device t) v3 = (Inr out, v4)"
    by (auto simp: staged_all_reduce_def method_success gpu_from_host_def split: if_splits)
  have "key_of st = key_of t"
    using assms(1) stage
    by (auto simp: stage_for_def method_success empty_strided_def key_of_def cache_ok_def
        split: option.splits dest!: map_of_SomeD)
  then show ?thesis using world_calls(3) [OF alloc] by (simp add: same_kind_def key_of_def)
qed

end
