(* ===== verification/Rccl.thy ===== *)
theory Rccl
  imports Host_Staged
begin

text \<open>
  \<open>rccl.py\<close>: collectives through the RCCL library on the current HIP stream. The communicator keeps the
  native handle (\<open>None\<close> for a null one) and the path of its library (\<open>None\<close> with a single rank). The
  \<open>torch\<close> wrappers are those of \<open>Host_Staged\<close>.
\<close>

definition NCCL_SUM :: int where "NCCL_SUM = 0"

definition rccl_dtype :: "dtype \<Rightarrow> int option" where
  "rccl_dtype d = (case d of Int8 \<Rightarrow> Some 0 | UInt8 \<Rightarrow> Some 1 | Int32 \<Rightarrow> Some 2 | Int64 \<Rightarrow> Some 4
     | Float16 \<Rightarrow> Some 6 | Float32 \<Rightarrow> Some 7 | Float64 \<Rightarrow> Some 8 | BFloat16 \<Rightarrow> Some 9 | _ \<Rightarrow> None)"

definition unique_id_bytes :: nat where "unique_id_bytes = 128"

definition T_unique_id :: ctype where
  "T_unique_id = T_struct ''NcclUniqueId'' unique_id_bytes"

definition rccl_enabled :: "string option \<Rightarrow> bool" where
  "rccl_enabled v = truthy (case v of None \<Rightarrow> [] | Some s \<Rightarrow> s)"

definition rccl_requested :: "pyenv \<Rightarrow> bool" where
  "rccl_requested pe = rccl_enabled (getenv pe ''WAVMG_USE_RCCL'')"

definition rccl_argtypes :: "(string \<times> ctype list) list" where
  "rccl_argtypes =
    [(''ncclGetUniqueId'', [T_pointer T_unique_id]),
     (''ncclCommInitRank'', [T_pointer T_void_p, T_int, T_unique_id, T_int]),
     (''ncclCommDestroy'', [T_void_p]),
     (''ncclGetErrorString'', [T_int]),
     (''ncclAllReduce'', [T_void_p, T_void_p, T_size_t, T_int, T_int, T_void_p, T_void_p]),
     (''ncclAllGather'', [T_void_p, T_void_p, T_size_t, T_int, T_void_p, T_void_p]),
     (''ncclReduceScatter'', [T_void_p, T_void_p, T_size_t, T_int, T_int, T_void_p, T_void_p]),
     (''ncclBroadcast'', [T_void_p, T_void_p, T_size_t, T_int, T_int, T_void_p, T_void_p])]"

definition rccl_sigs :: signatures where
  "rccl_sigs = map_of rccl_argtypes"

record rccl =
  rc_group :: pgroup
  rc_rank :: int
  rc_world :: int
  rc_device :: device
  rc_comm :: "int option"
  rc_library :: "path option"

section \<open>Loading and checking\<close>

definition rccl_load :: "'w extern \<Rightarrow> pyenv \<Rightarrow> path \<Rightarrow> ('w world, path) io" where
  "rccl_load env pe lib =
     io_then (add_dll_directories env (filter (is_dir pe)
        (rocm_bin_directories pe @
         [path_join (path_parent (resolve pe (torch_file pe))) [''lib''], path_parent lib])))
     (io_bind (call_ext env (Os ''CDLL'' lib)) (\<lambda>_.
      io_then (bind_symbols pe lib (map fst rccl_argtypes))
      (io_return lib)))"

definition rccl_check :: "'w extern \<Rightarrow> path option \<Rightarrow> int \<Rightarrow> string \<Rightarrow> ('w world, unit) io" where
  "rccl_check env library result operation =
     (if result = 0 then io_return ()
      else
        io_bind (case library of
            None \<Rightarrow> io_return ''RCCL library is not initialized''
          | Some lib \<Rightarrow> io_bind (call_native env rccl_sigs ''ncclGetErrorString'' [PyInt result])
              (\<lambda>(_, outs). io_return (case out_str outs of
                  None \<Rightarrow> ''unknown'' | Some m \<Rightarrow> (if m = [] then ''unknown'' else m)))) (\<lambda>message.
        io_raise RuntimeError (operation @ '' failed: RCCL '' @ py_str result @ '' ('' @ message @ '')'')))"

text \<open>\<open>self._check(self.library.f(...), "f")\<close>\<close>

definition rccl_call :: "'w extern \<Rightarrow> string \<Rightarrow> pyarg list \<Rightarrow> ('w, rccl, unit) meth" where
  "rccl_call env fn args =
     io_bind self (\<lambda>s.
     on_world (io_bind (call_native env rccl_sigs fn args) (\<lambda>(code, _). rccl_check env (rc_library s) code fn)))"

section \<open>Construction\<close>

definition rccl_defaults :: "(string \<times> string) list" where
  "rccl_defaults = [(''NCCL_RAS_ENABLE'', ''0''), (''NCCL_SHM_DISABLE'', ''1''), (''NCCL_P2P_DISABLE'', ''1''),
     (''NCCL_HOSTID'', ''windows-local''), (''NCCL_COMM_BLOCKING'', ''1''), (''NCCL_ALGO'', ''Ring''),
     (''NCCL_PROTO'', ''Simple'')]"

fun set_defaults :: "'w extern \<Rightarrow> (string \<times> string) list \<Rightarrow> ('w world, unit) io" where
  "set_defaults env [] = io_return ()"
| "set_defaults env ((k, v) # kvs) =
     io_bind (call_ext env (Os ''environ.setdefault'' [k, v])) (\<lambda>_. set_defaults env kvs)"

definition broadcast_bytes ::
  "'w extern \<Rightarrow> pgroup \<Rightarrow> int \<Rightarrow> nat list option \<Rightarrow> ('w world, nat list option) io" where
  "broadcast_bytes env g src v =
     io_bind (call_ext env (Dist ''broadcast_object_list''
        ((case v of None \<Rightarrow> [] | Some bs \<Rightarrow> [PyStruct ''bytes'' bs]) @ PyInt src # group_args g)))
       (\<lambda>(_, outs). io_return (case outs of VBlob bs # _ \<Rightarrow> Some bs | _ \<Rightarrow> None))"

definition rccl_unique_id :: "'w extern \<Rightarrow> ('w, rccl, nat list option) meth" where
  "rccl_unique_id env =
     io_bind self (\<lambda>s.
     if rc_rank s = 0 then
       on_world (io_bind (call_native env rccl_sigs ''ncclGetUniqueId'' [PyByref T_unique_id]) (\<lambda>(code, outs).
         io_then (rccl_check env (rc_library s) code ''ncclGetUniqueId'')
         (io_return (Some (out_blob unique_id_bytes outs)))))
     else io_return None)"

definition rccl_join :: "'w extern \<Rightarrow> nat list \<Rightarrow> ('w, rccl, unit) meth" where
  "rccl_join env descriptor =
     (if length descriptor < unique_id_bytes then io_raise ValueError ''Buffer size too small''
      else
        io_bind self (\<lambda>s.
        io_bind (on_world (call_native env rccl_sigs ''ncclCommInitRank''
           [PyByref T_void_p, PyInt (rc_world s), PyStruct ''NcclUniqueId'' (take unique_id_bytes descriptor),
            PyInt (rc_rank s)])) (\<lambda>(code, outs).
        io_then (update_self (\<lambda>s. s\<lparr>rc_comm := out_ptr outs\<rparr>))
        (on_world (rccl_check env (rc_library s) code ''ncclCommInitRank'')))))"

definition rccl_init ::
  "'w extern \<Rightarrow> torch_api \<Rightarrow> pyenv \<Rightarrow> pgroup \<Rightarrow> device_arg \<Rightarrow> ('w, rccl, unit) meth" where
  "rccl_init env T pe pg device =
     io_bind (on_world (dist_int env ''is_initialized'' [])) (\<lambda>initialized.
     if initialized = 0 then io_raise RuntimeError ''torch.distributed must be initialized before RCCL'' else
     io_bind (on_world (dist_int env ''get_rank'' (group_args pg))) (\<lambda>rank.
     io_bind (on_world (dist_int env ''get_world_size'' (group_args pg))) (\<lambda>size.
     io_bind (io_of_sum (as_device T device)) (\<lambda>d.
     if dev_type d \<noteq> ''cuda'' then io_raise ValueError ''expected a HIP/CUDA-like device'' else
     io_then (update_self (\<lambda>s. s\<lparr>rc_group := pg, rc_rank := rank, rc_world := size, rc_device := d,
        rc_comm := None, rc_library := None\<rparr>))
     (if size = 1 then io_return () else
      io_then (on_world (set_defaults env rccl_defaults))
      (io_then (on_world (torch_do env ''set_device'' (device_args d)))
      (io_bind (io_of_sum (find_rccl pe)) (\<lambda>found.
       io_bind (on_world (rccl_load env pe found)) (\<lambda>lib.
       io_then (update_self (\<lambda>s. s\<lparr>rc_library := Some lib\<rparr>))
       (io_bind (rccl_unique_id env) (\<lambda>descriptor.
        io_bind (on_world (get_global_rank env pg 0)) (\<lambda>global_source.
        io_bind (on_world (broadcast_bytes env pg global_source descriptor)) (\<lambda>answer.
        case answer of
          None \<Rightarrow> io_raise RuntimeError ''rank 0 did not broadcast an RCCL unique ID''
        | Some bs \<Rightarrow> rccl_join env bs)))))))))))))"

section \<open>The collectives\<close>

text \<open>\<open>list(gathered.unbind(0))\<close>: the \<open>i\<close>-th view starts \<open>i\<close> blocks into the storage.\<close>

definition unbind :: "torch_api \<Rightarrow> tensor \<Rightarrow> tensor list" where
  "unbind T g =
     (let n = hd (t_shape g); row = contiguous_on T (g\<lparr>t_shape := tl (t_shape g)\<rparr>) 0;
          bytes = size_bytes_of T row
      in map (\<lambda>i. row\<lparr>t_ptr := t_ptr g + int i * bytes\<rparr>) [0..<n])"

definition rccl_prepare ::
  "'w extern \<Rightarrow> torch_api \<Rightarrow> tensor \<Rightarrow> ('w, rccl, tensor \<times> int \<times> int) meth" where
  "rccl_prepare env T t =
     io_bind self (\<lambda>s.
     if t_device t \<noteq> rc_device s then io_raise ValueError ''tensor is on another device'' else
     (case rccl_dtype (t_dtype t) of
        None \<Rightarrow> io_raise TypeError ''RCCL dtype is not supported''
      | Some data_type \<Rightarrow>
          io_bind (on_world (as_contiguous env T t)) (\<lambda>source.
          io_bind (on_world (current_stream env (rc_device s))) (\<lambda>stream.
          io_return (source, data_type, stream)))))"

definition comm_arg :: "rccl \<Rightarrow> pyarg" where
  "comm_arg s = PyVoidP (case rc_comm s of None \<Rightarrow> 0 | Some p \<Rightarrow> p)"

definition rccl_all_reduce :: "'w extern \<Rightarrow> torch_api \<Rightarrow> tensor \<Rightarrow> ('w, rccl, tensor) meth" where
  "rccl_all_reduce env T t =
     io_bind self (\<lambda>s.
     if rc_world s = 1 then io_return t else
     io_bind (rccl_prepare env T t) (\<lambda>(source, data_type, stream).
     io_bind (on_world (empty_like env T source)) (\<lambda>output.
     io_then (rccl_call env ''ncclAllReduce''
        [PyInt (t_ptr source), PyInt (t_ptr output), PyInt (int (numel source)), PyInt data_type,
         PyInt NCCL_SUM, comm_arg s, PyInt stream])
     (io_return output))))"

definition rccl_all_gather :: "'w extern \<Rightarrow> torch_api \<Rightarrow> tensor \<Rightarrow> int \<Rightarrow> ('w, rccl, tensor) meth" where
  "rccl_all_gather env T t dim =
     io_bind self (\<lambda>s.
     if rc_world s = 1 then io_return t else
     io_bind (rccl_prepare env T t) (\<lambda>(source, data_type, stream).
     io_bind (on_world (empty env T (nat (rc_world s) # t_shape source) (t_dtype source) (t_device source)))
       (\<lambda>gathered.
     io_then (rccl_call env ''ncclAllGather''
        [PyInt (t_ptr source), PyInt (t_ptr gathered), PyInt (int (numel source)), PyInt data_type,
         comm_arg s, PyInt stream])
     (on_world (cat env T (unbind T gathered) dim)))))"

definition rccl_reduce_scatter :: "'w extern \<Rightarrow> torch_api \<Rightarrow> tensor \<Rightarrow> int \<Rightarrow> ('w, rccl, tensor) meth" where
  "rccl_reduce_scatter env T t dim =
     io_bind self (\<lambda>s.
     if rc_world s = 1 then io_return t else
     io_bind (on_world (moved_contiguous env T t (scatter_dim t dim) 0)) (\<lambda>moved.
     if hd (t_shape moved) mod nat (rc_world s) \<noteq> 0
       then io_raise ValueError ''scatter dimension must be divisible by world size'' else
     io_bind (rccl_prepare env T moved) (\<lambda>(source, data_type, stream).
     io_bind (on_world (empty env T (scatter_shape moved (rc_world s)) (t_dtype moved) (t_device moved)))
       (\<lambda>output.
     io_then (rccl_call env ''ncclReduceScatter''
        [PyInt (t_ptr source), PyInt (t_ptr output), PyInt (int (numel output)), PyInt data_type,
         PyInt NCCL_SUM, comm_arg s, PyInt stream])
     (on_world (moved_contiguous env T output 0 (scatter_dim t dim)))))))"

definition rccl_broadcast :: "'w extern \<Rightarrow> torch_api \<Rightarrow> tensor \<Rightarrow> int \<Rightarrow> ('w, rccl, tensor) meth" where
  "rccl_broadcast env T t src =
     io_bind self (\<lambda>s.
     if rc_world s = 1 then io_return t else
     io_bind (rccl_prepare env T t) (\<lambda>(source, data_type, stream).
     io_bind (on_world (empty_like env T source)) (\<lambda>output.
     io_then (rccl_call env ''ncclBroadcast''
        [PyInt (t_ptr source), PyInt (t_ptr output), PyInt (int (numel source)), PyInt data_type,
         PyInt src, comm_arg s, PyInt stream])
     (io_return output))))"

definition rccl_destroy :: "'w extern \<Rightarrow> ('w, rccl, unit) meth" where
  "rccl_destroy env =
     io_bind self (\<lambda>s.
     if rc_comm s = None \<or> rc_library s = None then io_return () else
     io_then (on_world (torch_do env ''synchronize'' (device_args (rc_device s))))
     (io_then (rccl_call env ''ncclCommDestroy'' [comm_arg s])
     (update_self (\<lambda>s. s\<lparr>rc_comm := None\<rparr>))))"

section \<open>The native calls\<close>

definition sample_rccl :: rccl where
  "sample_rccl = \<lparr>rc_group = None, rc_rank = 0, rc_world = 2, rc_device = \<lparr>dev_type = ''cuda'', dev_index = Some 0\<rparr>,
     rc_comm = Some 9, rc_library = Some [''rccl.dll'']\<rparr>"

text \<open>The type table is injective: two element types never share an RCCL code, so no collective
  reinterprets its payload; 16-bit integers and unknown types have no code.\<close>

lemma rccl_dtype_injective:
  "(rccl_dtype d = rccl_dtype e \<and> rccl_dtype d \<noteq> None \<longrightarrow> d = e) \<and>
   (rccl_dtype d = None \<longleftrightarrow> d = Int16 \<or> (\<exists>n. d = OtherDtype n))"
  by (cases d; cases e) (simp_all add: rccl_dtype_def)

lemma rccl_dtype_injective_witness: "Float16 = Float16 \<and> rccl_dtype Float16 = Some 6"
  using rccl_dtype_injective [of Float16 Float16] by (simp add: rccl_dtype_def)

lemma rccl_typed:
  "call_native env rccl_sigs ''ncclAllReduce'' [PyInt a, PyInt b, PyInt n, PyInt d, PyInt r, PyVoidP c, PyInt st] =
     call_ext env (Native ''ncclAllReduce'' [VPtr (word_of_int a), VPtr (word_of_int b), VU64 (word_of_int n),
       VI32 (word_of_int d), VI32 (word_of_int r), VPtr (word_of_int c), VPtr (word_of_int st)])"
  "call_native env rccl_sigs ''ncclAllGather'' [PyInt a, PyInt b, PyInt n, PyInt d, PyVoidP c, PyInt st] =
     call_ext env (Native ''ncclAllGather'' [VPtr (word_of_int a), VPtr (word_of_int b), VU64 (word_of_int n),
       VI32 (word_of_int d), VPtr (word_of_int c), VPtr (word_of_int st)])"
  "call_native env rccl_sigs ''ncclReduceScatter'' [PyInt a, PyInt b, PyInt n, PyInt d, PyInt r, PyVoidP c, PyInt st] =
     call_ext env (Native ''ncclReduceScatter'' [VPtr (word_of_int a), VPtr (word_of_int b), VU64 (word_of_int n),
       VI32 (word_of_int d), VI32 (word_of_int r), VPtr (word_of_int c), VPtr (word_of_int st)])"
  "call_native env rccl_sigs ''ncclBroadcast'' [PyInt a, PyInt b, PyInt n, PyInt d, PyInt r, PyVoidP c, PyInt st] =
     call_ext env (Native ''ncclBroadcast'' [VPtr (word_of_int a), VPtr (word_of_int b), VU64 (word_of_int n),
       VI32 (word_of_int d), VI32 (word_of_int r), VPtr (word_of_int c), VPtr (word_of_int st)])"
  "call_native env rccl_sigs ''ncclCommDestroy'' [PyVoidP c] =
     call_ext env (Native ''ncclCommDestroy'' [VPtr (word_of_int c)])"
  by (simp_all add: call_native_def rccl_sigs_def rccl_argtypes_def)

lemma rccl_check_success: "rccl_check env lib code oper w = (Inr (), w') \<longleftrightarrow> code = 0 \<and> w' = w"
  by (auto simp: rccl_check_def io_success split: option.splits)

definition comm_word :: "rccl \<Rightarrow> u64" where
  "comm_word s = (case rc_comm s of None \<Rightarrow> 0 | Some p \<Rightarrow> word_of_int p)"

lemma rccl_call_success:
  assumes "call_native env rccl_sigs fn args = call_ext env (Native fn vs)"
    and "rccl_call env fn args (w, s) = (Inr (), (w', s'))"
  shows "s' = s \<and> wlog w' = wlog w @ [Native fn vs]"
  using assms
  by (auto simp: rccl_call_def method_success rccl_check_success call_ext_success_iff)

lemma rccl_prepare_success:
  assumes "torch_ok T" and "rccl_prepare env T t (w, s) = (Inr (source, d, st), (w', s'))"
  shows "s' = s \<and> t_device t = rc_device s \<and> rccl_dtype (t_dtype t) = Some d \<and> same_kind t source \<and>
    is_contiguous T source \<and> (\<exists>es. wlog w' = wlog w @ es)"
  using assms
  by (auto simp: rccl_prepare_def method_success dest!: as_contiguous_success [OF assms(1)] current_stream_success
      split: if_splits option.splits)

text \<open>The reduction covers the whole tensor: a returning \<open>all_reduce\<close> on more than one rank ends in one
  native call that reads the contiguous input and writes the returned tensor, counts exactly the elements
  of the input, names its type by the table and uses the communicator's handle; the result has the kind
  of the input.\<close>

lemma rccl_all_reduce_call:
  assumes "torch_ok T" and "rc_world s \<noteq> 1" and "rccl_all_reduce env T t (w, s) = (Inr out, (w', s'))"
  shows "s' = s \<and> same_kind t out \<and> (\<exists>es p d st. rccl_dtype (t_dtype t) = Some d \<and>
    wlog w' = wlog w @ es @ [Native ''ncclAllReduce''
      [VPtr p, VPtr (word_of_int (t_ptr out)), VU64 (word_of_nat (numel t)), VI32 (word_of_int d), VI32 0,
       VPtr (comm_word s), VPtr st]])"
proof -
  from assms(2,3) obtain source d st v1 s1 v2 where
    prep: "rccl_prepare env T t (w, s) = (Inr (source, d, st), (v1, s1))"
    and alloc: "empty_like env T source v1 = (Inr out, v2)"
    and call1: "rccl_call env ''ncclAllReduce''
        [PyInt (t_ptr source), PyInt (t_ptr out), PyInt (int (numel source)), PyInt d,
         PyInt NCCL_SUM, comm_arg s, PyInt st] (v2, s1) = (Inr (), (w', s'))"
    by (auto simp: rccl_all_reduce_def method_success)
  note p = rccl_prepare_success [OF assms(1) prep]
  from empty_like_success [OF alloc] torch_ok_like(1) [OF assms(1)] have "same_kind source out" by auto
  with p have kind: "same_kind t out" "numel source = numel t" by (auto simp: same_kind_def numel_def)
  note call = call1 [unfolded comm_arg_def]
  from rccl_call_success [OF rccl_typed(1) call] p empty_like_success [OF alloc] kind
  show ?thesis
    by (auto simp: NCCL_SUM_def comm_word_def split: option.splits)
qed

lemma rccl_all_reduce_call_witness:
  "\<exists>(w' :: nat world) p q c st. last (wlog w') =
     Native ''ncclAllReduce'' [VPtr p, VPtr q, VU64 8, VI32 7, VI32 0, VPtr c, VPtr st]"
proof -
  let ?s = "\<lparr>rc_group = None, rc_rank = 0, rc_world = 2, rc_device = \<lparr>dev_type = ''cuda'', dev_index = Some 0\<rparr>,
     rc_comm = Some 9, rc_library = Some [''rccl.dll'']\<rparr>"
  have "case rccl_all_reduce quiet sample_torch (sample_tensor Float32 8 16) (\<lparr>wext = 0, wlog = []\<rparr>, ?s) of
      (Inl e, u) \<Rightarrow> False | (Inr y, u) \<Rightarrow> True"
    by code_simp
  then obtain out w' s' where run: "rccl_all_reduce quiet sample_torch (sample_tensor Float32 8 16)
      (\<lparr>wext = 0, wlog = []\<rparr>, ?s) = (Inr out, (w', s'))"
    by (auto split: prod.splits sum.splits)
  have d: "rccl_dtype (t_dtype (sample_tensor Float32 8 16)) = Some 7" "numel (sample_tensor Float32 8 16) = 8"
    by (simp_all add: sample_tensor_def rccl_dtype_def numel_def)
  from rccl_all_reduce_call [OF sample_torch_ok _ run] d obtain p q c st where
    "last (wlog w') = Native ''ncclAllReduce'' [VPtr p, VPtr q, VU64 8, VI32 7, VI32 0, VPtr c, VPtr st]"
    by auto
  then show ?thesis by blast
qed

text \<open>When every native call reports success, a reduction of a supported tensor of the communicator's device returns.\<close>

lemma rccl_all_reduce_returns:
  assumes "torch_ok T" and "obliging env" and "t_device t = rc_device s" and "rccl_dtype (t_dtype t) = Some d"
    and "\<And>out w'. same_kind t out \<Longrightarrow> Q out (w', s)"
  shows "io_post (rccl_all_reduce env T t) Q E (w, s)"
proof -
  have call: "io_post (rccl_call env ''ncclAllReduce'' [PyInt a, PyInt b, PyInt c, PyInt k, PyInt NCCL_SUM, comm_arg s, PyInt st])
      R E (v, s)" if "\<And>w'. R () (w', s)" for a b c k st R v
    using that
    by (simp add: rccl_call_def wp comm_arg_def rccl_check_def rccl_sigs_def rccl_argtypes_def
        obliging_native [OF assms(2), where ts = "[T_void_p, T_void_p, T_size_t, T_int, T_int, T_void_p, T_void_p]"])
  have like: "same_kind t u \<Longrightarrow> same_kind t (like_on T u p)" for u p
    using torch_ok_like(1) [OF assms(1), of u p] by (simp add: same_kind_def)
  show ?thesis
    using assms(3-5) like
    by (auto simp: rccl_all_reduce_def rccl_prepare_def wp
        intro!: as_contiguous_returns [OF assms(1,2)] torch_calls_return [OF assms(2)] call)
qed

lemma numel_scatter_shape:
  assumes "0 < length (t_shape m)" and "n dvd hd (t_shape m)"
  shows "prod_list (scatter_shape m (int n)) * n = numel m"
proof -
  obtain x xs where "t_shape m = x # xs" using assms(1) by (cases "t_shape m") auto
  moreover from this assms(2) have "x div n * n = x" by (simp add: mod_eq_0_iff_dvd)
  ultimately show ?thesis by (simp add: scatter_shape_def numel_def)
qed

lemma moved_contiguous_success:
  assumes "torch_ok T" and "moved_contiguous env T t a b w = (Inr m, w')"
  shows "t_dtype m = t_dtype t \<and> t_device m = t_device t \<and> numel m = numel t \<and> 0 < length (t_shape m) \<and>
    is_contiguous T m \<and> (\<exists>es. wlog w' = wlog w @ es \<and> (\<forall>c\<in>set es. \<exists>f as. c = Torch f as))"
proof -
  from assms(2) obtain v where v: "movedim_view T t a b = Inr v" and c: "as_contiguous env T v w = (Inr m, w')"
    by (auto simp: moved_contiguous_def io_success io_of_sum_def)
  from torch_ok_movedim [OF assms(1) v] as_contiguous_success [OF assms(1) c] show ?thesis
    by (auto simp: same_kind_def numel_def split: if_splits)
qed

text \<open>C21: the reduce-scatter counts are consistent: the native call receives the element count of one
  rank's chunk, and that count times the number of ranks is exactly the number of elements reduced, so
  every element of the input belongs to one chunk and none is read or written past its end.\<close>

theorem rccl_reduce_scatter_counts:
  assumes "torch_ok T" and "1 < rc_world s" and "rccl_reduce_scatter env T t dim (w, s) = (Inr out, (w', s'))"
  shows "\<exists>vs p q n d c st. Native ''ncclReduceScatter'' [VPtr p, VPtr q, VU64 (word_of_nat n), VI32 d, VI32 0, VPtr c, VPtr st]
      \<in> set (wlog w') \<and> n * nat (rc_world s) = numel t"
proof -
  let ?n = "nat (rc_world s)"
  from assms(2,3) obtain moved v1 v2 s1 v3 v4 s4 chunk d st and source :: tensor where
    mv: "moved_contiguous env T t (scatter_dim t dim) 0 w = (Inr moved, v1)"
    and dvd: "?n dvd hd (t_shape moved)"
    and alloc: "empty env T (scatter_shape moved (rc_world s)) (t_dtype moved) (t_device moved) v2 = (Inr chunk, v3)"
    and call1: "rccl_call env ''ncclReduceScatter''
        [PyInt (t_ptr source), PyInt (t_ptr chunk), PyInt (int (numel chunk)), PyInt d,
         PyInt NCCL_SUM, comm_arg s, PyInt st] (v3, s1) = (Inr (), (v4, s4))"
    and fin: "moved_contiguous env T chunk 0 (scatter_dim t dim) v4 = (Inr out, w')"
    by (clarsimp simp: rccl_reduce_scatter_def method_success split: if_split_asm)
  note m = moved_contiguous_success [OF assms(1) mv]
  from alloc torch_ok_contiguous(1) [OF assms(1)] have "t_shape chunk = scatter_shape moved (rc_world s)"
    by (auto simp: empty_def io_success same_kind_def)
  moreover have "rc_world s = int ?n" using assms(2) by simp
  ultimately have "numel chunk * ?n = numel moved"
    using numel_scatter_shape [of moved ?n] m dvd by (simp add: numel_def)
  with m have count: "numel chunk * ?n = numel t" by simp
  note call = call1 [unfolded comm_arg_def]
  from rccl_call_success [OF rccl_typed(3) call] moved_contiguous_success [OF assms(1) fin] count
  show ?thesis
    by (auto simp: NCCL_SUM_def) blast
qed

lemma rccl_reduce_scatter_counts_witness:
  "\<exists>(w' :: nat world) p q n d c st. Native ''ncclReduceScatter''
      [VPtr p, VPtr q, VU64 (word_of_nat n), VI32 d, VI32 0, VPtr c, VPtr st] \<in> set (wlog w') \<and> n * 2 = 8"
proof -
  let ?t = "sample_tensor Float32 8 16"
  have "case rccl_reduce_scatter quiet sample_torch ?t 0 (\<lparr>wext = 0, wlog = []\<rparr>, sample_rccl) of
      (Inl e, u) \<Rightarrow> False | (Inr y, u) \<Rightarrow> True"
    by code_simp
  then obtain out w' s' where run: "rccl_reduce_scatter quiet sample_torch ?t 0
      (\<lparr>wext = 0, wlog = []\<rparr>, sample_rccl) = (Inr out, (w', s'))"
    by (auto split: prod.splits sum.splits)
  have "1 < rc_world sample_rccl" "nat (rc_world sample_rccl) = 2" "numel ?t = 8"
    by (simp_all add: sample_rccl_def sample_tensor_def numel_def)
  with rccl_reduce_scatter_counts [OF sample_torch_ok _ run] show ?thesis by (auto intro!: exI [of _ w'])
qed

text \<open>The guards of a collective come before any native call: with more than one rank, a tensor on
  another device or of a type without a code makes \<open>all_reduce\<close>, \<open>all_gather\<close> and \<open>broadcast\<close> raise with
  nothing called and nothing changed; with a single rank they return the tensor itself, again without
  any call.\<close>

lemma rccl_guards:
  "(rc_world s \<noteq> 1 \<and> (t_device t \<noteq> rc_device s \<or> rccl_dtype (t_dtype t) = None) \<longrightarrow>
     (\<exists>e. rccl_all_reduce env T t (w, s) = (Inl e, (w, s)) \<and> rccl_all_gather env T t dim (w, s) = (Inl e, (w, s)) \<and>
          rccl_broadcast env T t src (w, s) = (Inl e, (w, s)) \<and>
          exn_kind_of e = (if t_device t \<noteq> rc_device s then ValueError else TypeError))) \<and>
   (rc_world s = 1 \<longrightarrow>
     rccl_all_reduce env T t (w, s) = (Inr t, (w, s)) \<and> rccl_all_gather env T t dim (w, s) = (Inr t, (w, s)) \<and>
     rccl_reduce_scatter env T t dim (w, s) = (Inr t, (w, s)) \<and> rccl_broadcast env T t src (w, s) = (Inr t, (w, s)))"
  by (auto simp: rccl_all_reduce_def rccl_all_gather_def rccl_reduce_scatter_def rccl_broadcast_def rccl_prepare_def
      io_bind_def self_def io_return_def io_raise_def)

lemma rccl_guards_witness:
  "\<exists>e. rccl_broadcast quiet sample_torch (sample_tensor Int16 8 16) 0 (\<lparr>wext = 0, wlog = []\<rparr>, sample_rccl) =
     (Inl e, (\<lparr>wext = 0, wlog = []\<rparr>, sample_rccl)) \<and> exn_kind_of e = TypeError"
  using rccl_guards [of sample_rccl "sample_tensor Int16 8 16" quiet sample_torch "\<lparr>wext = 0, wlog = []\<rparr>" 0 0]
  by (auto simp: sample_rccl_def sample_tensor_def rccl_dtype_def)

text \<open>The native communicator is destroyed once: a \<open>destroy\<close> that returns has cleared the handle, and
  a second one makes no call; one whose native call fails keeps the handle, so that it can be retried.\<close>

lemma rccl_destroy_once:
  assumes "rc_comm s = Some p" and "rc_library s = Some lib"
  shows "(rccl_destroy env (w, s) = (Inr (), (w', s')) \<longrightarrow>
      s' = s\<lparr>rc_comm := None\<rparr> \<and> rccl_destroy env (v, s') = (Inr (), (v, s')) \<and>
      wlog w' = wlog w @ [Torch ''synchronize'' (device_args (rc_device s)),
        Native ''ncclCommDestroy'' [VPtr (word_of_int p)]]) \<and>
    (\<forall>e u. rccl_destroy env (w, s) = (Inl e, u) \<longrightarrow> snd u = s)"
proof -
  have ok: "s' = s\<lparr>rc_comm := None\<rparr> \<and> wlog w' = wlog w @ [Torch ''synchronize'' (device_args (rc_device s)),
        Native ''ncclCommDestroy'' [VPtr (word_of_int p)]]"
    if run: "rccl_destroy env (w, s) = (Inr (), (w', s'))"
  proof -
    from run assms obtain v1 s1 where sync: "torch_do env ''synchronize'' (device_args (rc_device s)) w = (Inr (), v1)"
      and call: "rccl_call env ''ncclCommDestroy'' [PyVoidP p] (v1, s) = (Inr (), (w', s1))"
      and s': "s' = s1\<lparr>rc_comm := None\<rparr>"
      by (auto simp: rccl_destroy_def method_success comm_arg_def)
    from rccl_call_success [OF rccl_typed(5) call] torch_do_success [OF sync] s' show ?thesis by simp
  qed
  have "io_post (rccl_destroy env) (\<lambda>_ _. True) (\<lambda>e u. snd u = s) (w, s)"
    using assms by (auto simp: rccl_destroy_def rccl_call_def wp intro!: any_world)
  then have "\<forall>e u. rccl_destroy env (w, s) = (Inl e, u) \<longrightarrow> snd u = s" by (auto simp: io_post_def)
  moreover have "rccl_destroy env (v, s\<lparr>rc_comm := None\<rparr>) = (Inr (), (v, s\<lparr>rc_comm := None\<rparr>))"
    by (simp add: rccl_destroy_def io_bind_def self_def io_return_def)
  ultimately show ?thesis using ok by blast
qed

lemma rccl_destroy_once_witness:
  "\<exists>w'. rccl_destroy quiet (\<lparr>wext = 0, wlog = []\<rparr>, sample_rccl) = (Inr (), (w', sample_rccl\<lparr>rc_comm := None\<rparr>))"
proof -
  have "case rccl_destroy quiet (\<lparr>wext = 0, wlog = []\<rparr>, sample_rccl) of (Inl e, u) \<Rightarrow> False | (Inr y, u) \<Rightarrow> True"
    by code_simp
  then obtain w' s' where run: "rccl_destroy quiet (\<lparr>wext = 0, wlog = []\<rparr>, sample_rccl) = (Inr (), (w', s'))"
    by (auto split: prod.splits sum.splits)
  have "rc_comm sample_rccl = Some 9" "rc_library sample_rccl = Some [''rccl.dll'']" by (simp_all add: sample_rccl_def)
  from rccl_destroy_once [OF this] run show ?thesis by blast
qed

end
