(* ===== verification/Clean_Calls.thy ===== *)
theory Clean_Calls
  imports D3d12_All_Reduce Shm_All_Reduce Rccl
begin

text \<open>
  A calculus for logs: a computation is clean when no call it makes to \<open>torch.distributed\<close> mentions a
  GPU tensor. The rules in the collection \<open>clean\<close> follow the shape of a computation, so that every
  operation of the three GPU communicators is clean by its definition alone.
\<close>

named_theorems clean

definition log_clean :: "'w world \<Rightarrow> bool" where
  "log_clean w \<longleftrightarrow> (\<forall>c\<in>set (wlog w). gpu_free c)"

definition obj_clean :: "'w world \<times> 'o \<Rightarrow> bool" where
  "obj_clean u \<longleftrightarrow> log_clean (fst u)"

lemmas [clean] = kept

section \<open>Clean calls\<close>

lemma clean_update [clean]: "keeps obj_clean (update_self f)"
  by (simp add: keeps_def wp obj_clean_def)

lemma clean_on_world [clean]: "keeps log_clean m \<Longrightarrow> keeps obj_clean (on_world m)"
  by (rule keeps_postI, unfold wp) (auto simp: obj_clean_def elim!: keeps_post)

lemma clean_on_field [clean]: "keeps obj_clean m \<Longrightarrow> keeps obj_clean (on_field g p m)"
  by (rule keeps_postI, unfold wp) (auto simp: obj_clean_def elim!: keeps_post)

lemma clean_call [clean]: "gpu_free c \<Longrightarrow> keeps log_clean (call_ext env c)"
  by (auto simp: keeps_def log_clean_def intro!: io_post_call_ext)

lemma clean_native [clean]: "keeps log_clean (call_native env sigs fn args)"
  by (auto simp: call_native_def intro!: clean split: option.split)

lemma gpu_free_group [simp]: "gpu_free (Dist fn (PyStr a # PyInt b # group_args g)) "
  by simp

lemma clean_torch [clean]:
  "keeps log_clean (torch_do env fn args)" "keeps log_clean (empty_like env T t)"
  "keeps log_clean (contiguous env T t)" "keeps log_clean (as_contiguous env T t)"
  "keeps log_clean (current_stream env dv)" "keeps log_clean (copy_into env t u)"
  "keeps log_clean (cat env T ts dim)" "keeps log_clean (empty env T sh d dv)"
  "keeps log_clean (empty_strided env sh st d dv)"
  by (auto simp: torch_do_def empty_like_def contiguous_def as_contiguous_def current_stream_def copy_into_def
      cat_def empty_def empty_strided_def intro!: clean)

lemma clean_moved [clean]: "keeps log_clean (moved_contiguous env T t a b)"
  by (auto simp: moved_contiguous_def intro!: clean)

lemma clean_dist [clean]: "gpu_free (Dist fn args) \<Longrightarrow> keeps log_clean (dist_int env fn args)"
  by (auto simp: dist_int_def intro!: clean)

lemma clean_group_calls [clean]:
  "keeps log_clean (get_global_rank env g r)" "keeps log_clean (min_flag env g n)"
  "keeps log_clean (broadcast_text env g src v)"
  by (auto simp: get_global_rank_def min_flag_def broadcast_text_def intro!: clean split: option.split)

lemma clean_broadcast_bytes [clean]:
  "keeps log_clean (broadcast_bytes env g src v)"
  by (auto simp: broadcast_bytes_def gpu_free_def group_args_def intro!: clean split: option.split)

lemma clean_broadcast_descriptor [clean]:
  "keeps log_clean (broadcast_descriptor env g src v)"
  by (auto simp: broadcast_descriptor_def intro!: clean split: option.split)

section \<open>The GPU communicators\<close>

lemma clean_hip_run [clean]:
  "keeps log_clean (hip_run env m)" "keeps log_clean (hip_do env m)" "keeps log_clean (non_null fn outs)"
  by (auto simp: hip_run_def hip_do_def hip_check_def error_string_def non_null_def intro!: clean)

lemma clean_hip_methods [clean]:
  "keeps log_clean (set_device env i)" "keeps log_clean (memcpy env a b n k)"
  "keeps log_clean (host_register env a n f)" "keeps log_clean (host_unregister env a)"
  "keeps log_clean (host_get_device_pointer env a)" "keeps log_clean (can_use_stream_wait_value env i)"
  by (auto simp: set_device_def memcpy_def host_register_def host_unregister_def host_get_device_pointer_def
      can_use_stream_wait_value_def intro!: clean)

lemma clean_loader [clean]:
  "keeps log_clean (add_dll_directories env ds)" "keeps log_clean (bind_symbols pe lib fs)"
  "keeps log_clean (add_checked_directories env pe ds)"
proof -
  show add: "keeps log_clean (add_dll_directories env ds)" for ds
    by (induction ds) (auto intro!: clean)
  show "keeps log_clean (bind_symbols pe lib fs)"
    by (induction fs) (auto intro!: clean)
  show "keeps log_clean (add_checked_directories env pe ds)"
    by (induction ds) (auto intro!: clean)
qed

lemma clean_load [clean]:
  "keeps log_clean (load_library env pe ds lib fs)" "keeps log_clean (hip_init env pe rp dd)"
  "keeps log_clean (kernel_init env pe lp)" "keeps log_clean (rccl_load env pe lib)"
  by (auto simp: load_library_def hip_init_def kernel_init_def rccl_load_def intro!: clean)

lemma clean_kernel [clean]:
  "keeps log_clean (add_async env T t p u st)" "keeps log_clean (copy_async env T t p st)"
  "keeps log_clean (all_reduce_async env T t p q u a b c d e st)"
  by (auto simp: add_async_def copy_async_def all_reduce_async_def kernel_call_def kernel_check_def
      stream_or_current_def intro!: clean)

lemma clean_shared_check [clean]: "keeps log_clean (shared_check env code operation)"
  by (auto simp: shared_check_def intro!: clean)

lemma clean_shared [clean]:
  "keeps obj_clean (shared_signal env v st)" "keeps obj_clean (shared_wait env v st)"
  "keeps obj_clean (shared_close env)"
  by (auto simp: shared_signal_def shared_wait_def shared_close_def intro!: clean)

lemma clean_shared_init [clean]: "keeps obj_clean (shared_init env pe name n i c lp)"
  by (auto simp: shared_init_def shared_attach_def intro!: clean)

text \<open>A constructor run on a new object.\<close>

lemma clean_new:
  fixes m :: "('a, 'o, unit) meth"
  assumes "keeps obj_clean m"
  shows "keeps log_clean (\<lambda>w. case m (w, blank) of
     (Inl e, (w', _)) \<Rightarrow> (Inl e, w') | (Inr _, (w', b)) \<Rightarrow> (Inr b, w'))"
proof (rule keeps_postI)
  fix w :: "'a world" assume "log_clean w"
  then have "obj_clean (w, blank)" by (simp add: obj_clean_def)
  with assms have "io_post m (\<lambda>_. obj_clean) (\<lambda>_. obj_clean) (w, blank)" unfolding keeps_def by blast
  then show "io_post (\<lambda>w. case m (w, blank) of
     (Inl e, (w', _)) \<Rightarrow> (Inl e, w') | (Inr _, (w', b)) \<Rightarrow> (Inr b, w')) (\<lambda>_. log_clean) (\<lambda>_. log_clean) w"
    by (auto simp: io_post_def obj_clean_def split: prod.splits sum.splits)
qed

lemma clean_shared_new [clean]: "keeps log_clean (shared_new env pe name n i c lp)"
  unfolding shared_new_def by (rule clean_new) (rule clean)

lemma clean_win_error [clean]: "keeps I win_error"
  by (simp add: win_error_def clean)

lemma clean_barrier [clean]:
  "keeps obj_clean (barrier_init env p r n)" "keeps obj_clean (barrier_wait env)" "keeps obj_clean (barrier_close env)"
proof -
  have "keeps obj_clean (create_events env p rs)" for rs
    by (induction rs) (auto intro!: clean)
  then show "keeps obj_clean (barrier_init env p r n)"
    by (auto simp: barrier_init_def intro!: clean)
  show "keeps obj_clean (barrier_wait env)"
    by (auto simp: barrier_wait_def intro!: clean)
  have "keeps obj_clean (close_handles env k)" for k
    by (induction k) (auto intro!: clean)
  then show "keeps obj_clean (barrier_close env)"
    by (auto simp: barrier_close_def intro!: clean)
qed

text \<open>The D3D12, mapped-host and RCCL communicators.\<close>

lemma clean_close_buffers [clean]: "keeps obj_clean (close_buffers env)"
  by (auto simp: close_buffers_def close_peer_def close_own_def on_peer_def on_own_def intro!: clean)

lemma clean_agree [clean]: "keeps obj_clean (agree_or_raise env err operation)"
  by (auto simp: agree_or_raise_def intro!: clean)

lemma clean_own_peer [clean]:
  "keeps obj_clean (create_own env pe)" "keeps obj_clean (open_peer env pe)"
  by (auto simp: create_own_def open_peer_def intro!: clean)

lemma clean_ar [clean]:
  "keeps obj_clean (ar_init env T pe g d mx mn)" "keeps obj_clean (ar_all_reduce env T t)"
  "keeps obj_clean (ar_destroy env)"
  by (auto simp: ar_init_def ar_configure_def ar_connect_def ar_all_reduce_def ar_enqueue_def ar_destroy_def
      on_own_def on_peer_def Let_def intro!: clean split: option.split)

lemma clean_shm_attach [clean]: "keeps obj_clean (shm_attach env pe prefix n b)"
  by (auto simp: shm_attach_def probe_stream_path_def on_barrier_def intro!: clean)

lemma clean_shm [clean]:
  "keeps obj_clean (shm_init env T pe g d mx)" "keeps obj_clean (shm_all_reduce env T t)"
  "keeps obj_clean (shm_destroy env)"
  by (auto simp: shm_init_def shm_configure_def shm_descriptor_def shm_object_def shm_all_reduce_def
      stream_all_reduce_def host_all_reduce_def shm_destroy_def shm_cleanup_def on_barrier_def Let_def
      intro!: clean)

lemma clean_rccl_check [clean]: "keeps log_clean (rccl_check env lib code operation)"
  by (auto simp: rccl_check_def intro!: clean)

lemma clean_rccl_call [clean]: "keeps obj_clean (rccl_call env fn args)"
  by (auto simp: rccl_call_def intro!: clean)

lemma clean_rccl_prepare [clean]: "keeps obj_clean (rccl_prepare env T t)"
  by (auto simp: rccl_prepare_def intro!: clean)

lemma clean_set_defaults [clean]: "keeps log_clean (set_defaults env kvs)"
  by (induction kvs rule: set_defaults.induct [where ?P = "\<lambda>_ kvs. keeps log_clean (set_defaults env kvs)", case_names Nil Cons])
     (auto intro!: clean)

lemma clean_rccl_init [clean]: "keeps obj_clean (rccl_init env T pe g d)"
  by (auto simp: rccl_init_def rccl_unique_id_def rccl_join_def intro!: clean)

lemma clean_rccl [clean]:
  "keeps obj_clean (rccl_all_reduce env T t)" "keeps obj_clean (rccl_all_gather env T t dim)"
  "keeps obj_clean (rccl_reduce_scatter env T t dim)" "keeps obj_clean (rccl_broadcast env T t src)"
  "keeps obj_clean (rccl_destroy env)"
  by (auto simp: rccl_all_reduce_def rccl_all_gather_def rccl_reduce_scatter_def rccl_broadcast_def rccl_destroy_def
      intro!: clean)

end
