(* ===== verification/Lifecycle.thy ===== *)
theory Lifecycle
  imports Tensors
begin

text \<open>
  The interface that every communicator and the tensor bridge share: an explicit destructor. It is
  interpreted for the D3D12, RCCL and mapped-host communicators, for the bridge, and for the vLLM
  communicator that owns the parts.
\<close>

lemma io_finally_success_iff:
  "io_finally m f s = (Inr y, u) \<longleftrightarrow> (\<exists>t. m s = (Inr y, t) \<and> f t = (Inr (), u))"
  by (auto simp: io_finally_def split: prod.splits sum.splits)

text \<open>When a destructor returns, the object is closed, and a closed one is left alone.\<close>

locale destroyable =
  fixes destroy :: "('w, 'o, unit) meth"
    and closed :: "'o \<Rightarrow> bool"
  assumes destroy_closes: "destroy (w, s) = (Inr (), (w', s')) \<Longrightarrow> closed s'"
    and closed_kept: "closed s \<Longrightarrow> destroy (v, s) = (Inr (), (v, s))"
begin

lemma destroy_idempotent: "destroy (w, s) = (Inr (), (w', s')) \<Longrightarrow> destroy (v, s') = (Inr (), (v, s'))"
  by (blast intro: closed_kept destroy_closes)

end

end
