(* ===== verification/Vllm_Communicator.thy ===== *)
theory Vllm_Communicator
  imports Clean_Calls Transition Lifecycle
begin

text \<open>
  \<open>vllm_communicator.py\<close>: the object vLLM calls. It owns the host-staged transport and, depending on the
  settings and the world size, the D3D12, RCCL and mapped-host communicators, and routes every
  collective to one of them. What vLLM's base class sets (group, device, ranks) is an argument of the
  constructor.
\<close>

record base_communicator =
  base_all2all :: bool
  base_group :: pgroup
  base_device :: device
  base_rank :: int
  base_world :: int

record vllm =
  vc_rank :: int
  vc_world :: int
  vc_transport :: staged
  vc_d3d12 :: "d3d12_ar option"
  vc_rccl :: "rccl option"
  vc_fast :: "shm_ar option"
  vc_trace :: bool
  vc_traced :: "string list"

section \<open>Text\<close>

definition dtype_text :: "dtype \<Rightarrow> string" where
  "dtype_text d = (case d of Float16 \<Rightarrow> ''torch.float16'' | BFloat16 \<Rightarrow> ''torch.bfloat16''
     | Float32 \<Rightarrow> ''torch.float32'' | Float64 \<Rightarrow> ''torch.float64'' | Int8 \<Rightarrow> ''torch.int8''
     | UInt8 \<Rightarrow> ''torch.uint8'' | Int16 \<Rightarrow> ''torch.int16'' | Int32 \<Rightarrow> ''torch.int32''
     | Int64 \<Rightarrow> ''torch.int64'' | OtherDtype n \<Rightarrow> n)"

fun comma_text :: "nat list \<Rightarrow> string" where
  "comma_text [] = []"
| "comma_text [n] = py_str (int n)"
| "comma_text (n # m # ns) = py_str (int n) @ '', '' @ comma_text (m # ns)"

definition tuple_text :: "nat list \<Rightarrow> string" where
  "tuple_text ns = ''('' @ comma_text ns @ (if length ns = 1 then '','' else []) @ '')''"

definition print :: "'w extern \<Rightarrow> string \<Rightarrow> ('w world, unit) io" where
  "print env line = io_bind (call_ext env (Os ''print'' [line])) (\<lambda>_. io_return ())"

section \<open>Methods of the parts\<close>

definition on_transport :: "('w, staged, 'a) meth \<Rightarrow> ('w, vllm, 'a) meth" where
  "on_transport m = on_field vc_transport (\<lambda>b s. s\<lparr>vc_transport := b\<rparr>) m"

definition on_d3d12 :: "d3d12_ar \<Rightarrow> ('w, d3d12_ar, 'a) meth \<Rightarrow> ('w, vllm, 'a) meth" where
  "on_d3d12 b m = on_field (\<lambda>_. b) (\<lambda>b s. s\<lparr>vc_d3d12 := Some b\<rparr>) m"

definition on_rccl :: "rccl \<Rightarrow> ('w, rccl, 'a) meth \<Rightarrow> ('w, vllm, 'a) meth" where
  "on_rccl b m = on_field (\<lambda>_. b) (\<lambda>b s. s\<lparr>vc_rccl := Some b\<rparr>) m"

definition on_fast :: "shm_ar \<Rightarrow> ('w, shm_ar, 'a) meth \<Rightarrow> ('w, vllm, 'a) meth" where
  "on_fast b m = on_field (\<lambda>_. b) (\<lambda>b s. s\<lparr>vc_fast := Some b\<rparr>) m"

section \<open>Construction\<close>

definition blank_staged :: staged where
  "blank_staged = \<lparr>hs_group = None, hs_device = cpu, hs_rank = 0, hs_world = 0, hs_buffers = []\<rparr>"

definition blank_rccl :: rccl where
  "blank_rccl = \<lparr>rc_group = None, rc_rank = 0, rc_world = 0, rc_device = cpu, rc_comm = None, rc_library = None\<rparr>"

text \<open>A part is constructed on a new object, which becomes the attribute.\<close>

definition construct :: "('w, 'o, unit) meth \<Rightarrow> 'o \<Rightarrow> ('w, 'p, 'o) meth" where
  "construct m blank = on_world (\<lambda>w. case m (w, blank) of
     (Inl e, (w', ob)) \<Rightarrow> (Inl e, w') | (Inr _, (w', ob)) \<Rightarrow> (Inr ob, w'))"

definition all_reduce_label :: "vllm \<Rightarrow> string" where
  "all_reduce_label s =
     (case vc_d3d12 s of
        Some d \<Rightarrow> ''hybrid(d3d12='' @ py_str (ar_min d) @ ''..'' @ py_str (ar_max d) @ '',rccl=fallback)''
      | None \<Rightarrow> if vc_rccl s \<noteq> None then ''rccl''
                else if vc_fast s \<noteq> None then ''mapped-host'' else ''gloo-host'')"

definition transport_line :: "vllm \<Rightarrow> string" where
  "transport_line s = ''WAVMG_TRANSPORT rank='' @ py_str (vc_rank s) @ '' world_size='' @ py_str (vc_world s) @
     '' all_reduce='' @ all_reduce_label s @ '' other_collectives='' @
     (if vc_rccl s \<noteq> None then ''rccl'' else ''gloo-host'')"

definition trace_requested :: "pyenv \<Rightarrow> bool" where
  "trace_requested pe = truthy (case getenv pe ''WAVMG_TRACE_COLLECTIVES'' of None \<Rightarrow> [] | Some v \<Rightarrow> v)"

definition vllm_init ::
  "'w extern \<Rightarrow> torch_api \<Rightarrow> pyenv \<Rightarrow> base_communicator \<Rightarrow> ('w, vllm, unit) meth" where
  "vllm_init env T pe base =
     (let g = base_group base; d = DeviceObject (base_device base); two = (base_world base = 2) in
     if base_all2all base then io_raise NotImplementedError ''expert-parallel all-to-all is not implemented'' else
     io_bind (construct (staged_init env T g (Some d)) blank_staged) (\<lambda>transport.
     io_bind (if two \<and> d3d12_requested pe
              then io_bind (construct (ar_init env T pe g d None None) blank_ar) (\<lambda>b. io_return (Some b))
              else io_return None) (\<lambda>d3d12.
     io_bind (if rccl_requested pe
              then io_bind (construct (rccl_init env T pe g d) blank_rccl) (\<lambda>b. io_return (Some b))
              else io_return None) (\<lambda>rccl.
     io_bind (if two \<and> rccl = None \<and> d3d12 = None
              then io_bind (construct (shm_init env T pe g d None) blank_shm) (\<lambda>b. io_return (Some b))
              else io_return None) (\<lambda>fast.
     io_then (update_self (\<lambda>s. s\<lparr>vc_rank := base_rank base, vc_world := base_world base, vc_transport := transport,
        vc_d3d12 := d3d12, vc_rccl := rccl, vc_fast := fast, vc_trace := trace_requested pe, vc_traced := []\<rparr>))
     (io_bind self (\<lambda>s. if vc_trace s then on_world (print env (transport_line s)) else io_return ())))))))"

section \<open>Tracing\<close>

definition trace_key :: "torch_api \<Rightarrow> string \<Rightarrow> string \<Rightarrow> tensor option \<Rightarrow> string" where
  "trace_key T operation backend t =
     operation @ '':'' @ backend @ '':'' @ (case t of None \<Rightarrow> ''None:None:None''
       | Some t \<Rightarrow> dtype_text (t_dtype t) @ '':'' @ py_str (size_bytes_of T t) @ '':'' @ tuple_text (t_shape t))"

definition trace_details :: "torch_api \<Rightarrow> tensor option \<Rightarrow> string" where
  "trace_details T t = (case t of None \<Rightarrow> []
     | Some t \<Rightarrow> '' dtype='' @ dtype_text (t_dtype t) @ '' bytes='' @ py_str (size_bytes_of T t) @
         '' shape='' @ tuple_text (t_shape t))"

definition trace_once :: "'w extern \<Rightarrow> torch_api \<Rightarrow> string \<Rightarrow> string \<Rightarrow> tensor option \<Rightarrow> ('w, vllm, unit) meth" where
  "trace_once env T operation backend t =
     io_bind self (\<lambda>s. let key = trace_key T operation backend t in
     if \<not> vc_trace s \<or> key \<in> set (vc_traced s) then io_return ()
     else
       io_then (update_self (\<lambda>s. s\<lparr>vc_traced := key # vc_traced s\<rparr>))
       (on_world (print env (''WAVMG_COLLECTIVE rank='' @ py_str (vc_rank s) @ '' operation='' @ operation @
          '' backend='' @ backend @ trace_details T t))))"

section \<open>Routing\<close>

definition vllm_all_reduce :: "'w extern \<Rightarrow> torch_api \<Rightarrow> tensor \<Rightarrow> ('w, vllm, tensor) meth" where
  "vllm_all_reduce env T t =
     io_bind self (\<lambda>s.
     let fallback =
       (case vc_rccl s of
          Some r \<Rightarrow>
            io_then (trace_once env T ''all_reduce''
              (if vc_d3d12 s \<noteq> None then ''rccl-d3d12-fallback'' else ''rccl'') (Some t))
            (on_rccl r (rccl_all_reduce env T t))
        | None \<Rightarrow> (case vc_fast s of
            Some f \<Rightarrow>
              io_then (trace_once env T ''all_reduce'' ''mapped-host'' (Some t))
              (on_fast f (shm_all_reduce env T t))
          | None \<Rightarrow>
              io_then (trace_once env T ''all_reduce'' ''gloo-host'' (Some t))
              (on_transport (staged_all_reduce env ''SUM'' t))))
     in (case vc_d3d12 s of
           Some d \<Rightarrow> (if can_handle T d t
             then io_then (trace_once env T ''all_reduce'' ''d3d12'' (Some t))
                    (on_d3d12 d (ar_all_reduce env T t))
             else fallback)
         | None \<Rightarrow> fallback))"

text \<open>The three collectives that RCCL takes over when it is present.\<close>

definition rccl_or_host ::
  "'w extern \<Rightarrow> torch_api \<Rightarrow> string \<Rightarrow> ('w, rccl, 'a) meth \<Rightarrow> ('w, staged, 'a) meth \<Rightarrow> ('w, vllm, 'a) meth" where
  "rccl_or_host env T operation fast slow =
     io_bind self (\<lambda>s. case vc_rccl s of
         Some r \<Rightarrow> io_then (trace_once env T operation ''rccl'' None) (on_rccl r fast)
       | None \<Rightarrow> io_then (trace_once env T operation ''gloo-host'' None) (on_transport slow))"

definition vllm_all_gather :: "'w extern \<Rightarrow> torch_api \<Rightarrow> tensor \<Rightarrow> int \<Rightarrow> ('w, vllm, tensor) meth" where
  "vllm_all_gather env T t dim =
     rccl_or_host env T ''all_gather'' (rccl_all_gather env T t dim) (staged_all_gather env T t dim)"

definition vllm_reduce_scatter :: "'w extern \<Rightarrow> torch_api \<Rightarrow> tensor \<Rightarrow> int \<Rightarrow> ('w, vllm, tensor) meth" where
  "vllm_reduce_scatter env T t dim =
     rccl_or_host env T ''reduce_scatter'' (rccl_reduce_scatter env T t dim) (staged_reduce_scatter env T ''SUM'' t dim)"

definition vllm_broadcast :: "'w extern \<Rightarrow> torch_api \<Rightarrow> tensor \<Rightarrow> int \<Rightarrow> ('w, vllm, tensor) meth" where
  "vllm_broadcast env T t src =
     rccl_or_host env T ''broadcast'' (rccl_broadcast env T t src) (staged_broadcast env t src)"

definition vllm_gather :: "'w extern \<Rightarrow> torch_api \<Rightarrow> tensor \<Rightarrow> int \<Rightarrow> int \<Rightarrow> ('w, vllm, tensor option) meth" where
  "vllm_gather env T t dst dim = on_transport (staged_gather env T t dst dim)"

text \<open>Without an explicit peer, \<open>send\<close> and \<open>recv\<close> use the neighbours in the ring of ranks.\<close>

definition next_rank :: "vllm \<Rightarrow> int" where
  "next_rank s = (vc_rank s + 1) mod vc_world s"

definition previous_rank :: "vllm \<Rightarrow> int" where
  "previous_rank s = (vc_rank s - 1) mod vc_world s"

definition vllm_send :: "'w extern \<Rightarrow> tensor \<Rightarrow> int option \<Rightarrow> ('w, vllm, unit) meth" where
  "vllm_send env t dst =
     io_bind self (\<lambda>s. on_transport (staged_send env t (case dst of None \<Rightarrow> next_rank s | Some r \<Rightarrow> r)))"

definition vllm_recv ::
  "'w extern \<Rightarrow> torch_api \<Rightarrow> nat list \<Rightarrow> dtype \<Rightarrow> int option \<Rightarrow> ('w, vllm, tensor) meth" where
  "vllm_recv env T shape d src =
     io_bind self (\<lambda>s. on_transport (staged_recv env T shape d (case src of None \<Rightarrow> previous_rank s | Some r \<Rightarrow> r)))"

definition vllm_destroy :: "'w extern \<Rightarrow> ('w, vllm, unit) meth" where
  "vllm_destroy env =
     io_then (io_bind self (\<lambda>s. case vc_d3d12 s of None \<Rightarrow> io_return () | Some b \<Rightarrow> on_d3d12 b (ar_destroy env)))
     (io_then (io_bind self (\<lambda>s. case vc_rccl s of None \<Rightarrow> io_return () | Some b \<Rightarrow> on_rccl b (rccl_destroy env)))
     (io_bind self (\<lambda>s. case vc_fast s of None \<Rightarrow> io_return () | Some b \<Rightarrow> on_fast b (shm_destroy env))))"

section \<open>Reductions keep the kind of the tensor\<close>

text \<open>
  The contract of a reduction: from a good state, a result has the shape, type and device of the input
  and the state stays good. Everything \<open>all_reduce\<close> routes to is an instance, and so is the router.
\<close>

locale reducer =
  fixes reduce :: "tensor \<Rightarrow> ('w, 'o, tensor) meth"
    and good :: "'o \<Rightarrow> bool"
  assumes reduce_kind: "good s \<Longrightarrow> reduce t (w, s) = (Inr out, (w', s')) \<Longrightarrow> same_kind t out \<and> good s'"
begin

fun reduce_list :: "tensor list \<Rightarrow> ('w, 'o, tensor list) meth" where
  "reduce_list [] = io_return []"
| "reduce_list (t # ts) = io_bind (reduce t) (\<lambda>u. io_bind (reduce_list ts) (\<lambda>us. io_return (u # us)))"

lemma reduce_list_kind:
  "good s \<Longrightarrow> reduce_list ts (w, s) = (Inr outs, (w', s')) \<Longrightarrow> list_all2 same_kind ts outs \<and> good s'"
proof (induction ts arbitrary: w s outs)
  case Nil
  then show ?case by (simp add: io_success)
next
  case (Cons t ts)
  then obtain u us v r where "reduce t (w, s) = (Inr u, (v, r))"
    and "reduce_list ts (v, r) = (Inr us, (w', s'))" and "outs = u # us"
    by (auto simp: io_success)
  with Cons.IH Cons.prems(1) reduce_kind show ?case by fastforce
qed

end

lemma ar_kind:
  assumes "torch_ok T" and "ar_all_reduce env T t (w, s) = (Inr out, (w', s'))"
  shows "same_kind t out"
proof -
  from assms(2) have "\<exists>source v. as_contiguous env T t w = (Inr source, v) \<and>
      ((\<exists>v'. empty_like env T source v = (Inr out, v')) \<or>
       (\<exists>own peer. ar_enqueue env T own peer source (v, s) = (Inr out, (w', s'))))"
    by (auto simp: ar_all_reduce_def method_success split: option.splits if_splits)
  then obtain source v where c: "as_contiguous env T t w = (Inr source, v)"
    and out: "(\<exists>v'. empty_like env T source v = (Inr out, v')) \<or>
      (\<exists>own peer. ar_enqueue env T own peer source (v, s) = (Inr out, (w', s')))"
    by blast
  have "same_kind source out"
    using out torch_ok_like(1) [OF assms(1)] by (auto dest!: empty_like_success elim!: ar_enqueue_success)
  with as_contiguous_success [OF assms(1) c] show ?thesis by (simp add: same_kind_def)
qed

lemma shm_kind:
  assumes "torch_ok T" and "shm_all_reduce env T t (w, s) = (Inr out, (w', s'))"
  shows "same_kind t out"
proof -
  from assms(2) obtain source v where c: "as_contiguous env T t w = (Inr source, v)"
    and out: "stream_all_reduce env T source (v, s) = (Inr out, (w', s')) \<or>
      host_all_reduce env T source (v, s) = (Inr out, (w', s'))"
    by (auto simp: shm_all_reduce_def method_success split: if_splits)
  from out have "same_kind source out"
  proof
    assume "stream_all_reduce env T source (v, s) = (Inr out, (w', s'))"
    then show ?thesis using torch_ok_like(1) [OF assms(1)] by (elim stream_success) simp
  next
    assume "host_all_reduce env T source (v, s) = (Inr out, (w', s'))"
    then obtain v' where "empty_like env T source v = (Inr out, v')"
      by (auto simp: host_all_reduce_def Let_def method_success)
    then show ?thesis using torch_ok_like(1) [OF assms(1)] by (auto dest!: empty_like_success)
  qed
  with as_contiguous_success [OF assms(1) c] show ?thesis by (simp add: same_kind_def)
qed

lemma rccl_kind:
  assumes "torch_ok T" and "rccl_all_reduce env T t (w, s) = (Inr out, (w', s'))"
  shows "same_kind t out"
proof (cases "rc_world s = 1")
  case True
  with assms(2) show ?thesis by (auto simp: rccl_all_reduce_def method_success)
next
  case False
  with assms(2) obtain source d st v1 s1 v2 where
    p: "rccl_prepare env T t (w, s) = (Inr (source, d, st), (v1, s1))"
    and e: "empty_like env T source v1 = (Inr out, v2)"
    by (auto simp: rccl_all_reduce_def method_success)
  from rccl_prepare_success [OF assms(1) p] empty_like_success [OF e] torch_ok_like(1) [OF assms(1)]
  show ?thesis by (auto simp: same_kind_def)
qed

lemma staged_cache_kept:
  assumes "cache_ok s" and "staged_all_reduce env oper t (w, s) = (Inr out, (w', s'))"
  shows "cache_ok s'"
proof -
  have "stage_for env t (w, s) = (Inr st, (v, s')) \<Longrightarrow> cache_ok s'" for st v
    using assms(1)
    by (auto simp: stage_for_def method_success empty_strided_def cache_ok_def key_of_def map_of_eq_None_iff
        split: option.splits)
  with assms show ?thesis
    by (auto simp: staged_all_reduce_def method_success split: if_splits)
qed

interpretation d3d12: reducer "ar_all_reduce env T" "\<lambda>_. torch_ok T" for env T
  by unfold_locales (auto dest: ar_kind)

interpretation mapped_host: reducer "shm_all_reduce env T" "\<lambda>_. torch_ok T" for env T
  by unfold_locales (auto dest: shm_kind)

interpretation rccl: reducer "rccl_all_reduce env T" "\<lambda>_. torch_ok T" for env T
  by unfold_locales (auto dest: rccl_kind)

interpretation gloo: reducer "staged_all_reduce env oper" cache_ok for env oper
  by unfold_locales (auto dest: staged_all_reduce_kind staged_cache_kept)

definition vllm_good :: "torch_api \<Rightarrow> vllm \<Rightarrow> bool" where
  "vllm_good T s \<longleftrightarrow> torch_ok T \<and> cache_ok (vc_transport s)"

lemma trace_once_success:
  "trace_once env T operation backend t (w, s) = (Inr (), (w', s')) \<Longrightarrow> \<exists>ks. s' = s\<lparr>vc_traced := ks\<rparr>"
  by (auto simp: trace_once_def Let_def method_success split: if_splits intro: exI [of _ "vc_traced s"])

lemma routed:
  "io_then (trace_once env T operation backend x) (on_field g p m) (w, s) = (Inr y, (w', s')) \<Longrightarrow>
     \<exists>v ks b. m (v, g (s\<lparr>vc_traced := ks\<rparr>)) = (Inr y, (w', b)) \<and> s' = p b (s\<lparr>vc_traced := ks\<rparr>)"
  by (auto simp: method_success dest!: trace_once_success)

lemmas on_parts = on_d3d12_def on_rccl_def on_fast_def on_transport_def

text \<open>Which part takes a tensor.\<close>

definition d3d12_takes :: "torch_api \<Rightarrow> vllm \<Rightarrow> tensor \<Rightarrow> bool" where
  "d3d12_takes T s t = (case vc_d3d12 s of None \<Rightarrow> False | Some d \<Rightarrow> can_handle T d t)"

lemma d3d12_takesE:
  assumes "d3d12_takes T s t" obtains d where "vc_d3d12 s = Some d" "can_handle T d t"
  using assms by (auto simp: d3d12_takes_def split: option.splits)

lemma vllm_routes:
  "vc_d3d12 s = Some d \<Longrightarrow> can_handle T d t \<Longrightarrow> vllm_all_reduce env T t (w, s) =
     io_then (trace_once env T ''all_reduce'' ''d3d12'' (Some t)) (on_d3d12 d (ar_all_reduce env T t)) (w, s)"
  "\<not> d3d12_takes T s t \<Longrightarrow> vc_rccl s = Some r \<Longrightarrow> vllm_all_reduce env T t (w, s) =
     io_then (trace_once env T ''all_reduce'' (if vc_d3d12 s \<noteq> None then ''rccl-d3d12-fallback'' else ''rccl'') (Some t))
       (on_rccl r (rccl_all_reduce env T t)) (w, s)"
  "\<not> d3d12_takes T s t \<Longrightarrow> vc_rccl s = None \<Longrightarrow> vc_fast s = Some f \<Longrightarrow> vllm_all_reduce env T t (w, s) =
     io_then (trace_once env T ''all_reduce'' ''mapped-host'' (Some t)) (on_fast f (shm_all_reduce env T t)) (w, s)"
  "\<not> d3d12_takes T s t \<Longrightarrow> vc_rccl s = None \<Longrightarrow> vc_fast s = None \<Longrightarrow> vllm_all_reduce env T t (w, s) =
     io_then (trace_once env T ''all_reduce'' ''gloo-host'' (Some t)) (on_transport (staged_all_reduce env ''SUM'' t)) (w, s)"
  by (auto simp: vllm_all_reduce_def io_bind_def self_apply d3d12_takes_def split: option.splits)

lemma vllm_kind:
  assumes "vllm_good T s" and "vllm_all_reduce env T t (w, s) = (Inr out, (w', s'))"
  shows "same_kind t out \<and> vllm_good T s'"
proof -
  have good: "torch_ok T" "cache_ok (vc_transport s)" using assms(1) by (simp_all add: vllm_good_def)
  show ?thesis
  proof (cases "d3d12_takes T s t")
    case True
    then obtain d where c: "vc_d3d12 s = Some d" "can_handle T d t" by (rule d3d12_takesE)
    from routed [OF assms(2) [unfolded vllm_routes(1) [OF c] on_parts]] d3d12.reduce_kind [OF good(1)] good show ?thesis
      unfolding vllm_good_def by fastforce
  next
    case False
    note c = False
    show ?thesis
    proof (cases "vc_rccl s")
      case (Some r)
      from routed [OF assms(2) [unfolded vllm_routes(2) [OF c Some] on_parts]] rccl.reduce_kind [OF good(1)] good show ?thesis
      unfolding vllm_good_def by fastforce
    next
      case None
      note n = None
      show ?thesis
      proof (cases "vc_fast s")
        case (Some f)
        from routed [OF assms(2) [unfolded vllm_routes(3) [OF c n Some] on_parts]] mapped_host.reduce_kind [OF good(1)] good show ?thesis
      unfolding vllm_good_def by fastforce
      next
        case None
        from routed [OF assms(2) [unfolded vllm_routes(4) [OF c n None] on_parts]] obtain v ks b where
          "staged_all_reduce env ''SUM'' t (v, vc_transport s) = (Inr out, (w', b))" "vc_transport s' = b"
          by auto
        with gloo.reduce_kind [OF good(2) this(1)] good(1) show ?thesis by (simp add: vllm_good_def)
      qed
    qed
  qed
qed

interpretation router: reducer "vllm_all_reduce env T" "vllm_good T" for env T
  by unfold_locales (auto dest: vllm_kind)

text \<open>Reductions preserve kinds: whatever parts the communicator has and however it routes them, a sequence
  of all-reduces that returns gives for every input a tensor of the same shape, type and device, in
  order, and leaves a staging cache of host tensors.\<close>

lemma vllm_reductions_keep_kind:
  assumes "vllm_good T s" and "reducer.reduce_list (vllm_all_reduce env T) ts (w, s) = (Inr outs, (w', s'))"
  shows "list_all2 same_kind ts outs \<and> vllm_good T s'"
  using assms by (rule router.reduce_list_kind)

definition sample_vllm :: vllm where
  "sample_vllm = \<lparr>vc_rank = 0, vc_world = 2, vc_transport = sample_staged, vc_d3d12 = None, vc_rccl = None,
     vc_fast = None, vc_trace = False, vc_traced = []\<rparr>"

lemma sample_vllm_good: "vllm_good sample_torch sample_vllm"
  by (simp add: vllm_good_def sample_torch_ok sample_vllm_def sample_staged_def cache_ok_def)

lemma vllm_reductions_keep_kind_witness:
  "\<exists>out. list_all2 same_kind [sample_tensor Float32 8 16] [out]"
proof -
  let ?t = "sample_tensor Float32 8 16"
  have "case vllm_all_reduce quiet sample_torch ?t (\<lparr>wext = 0, wlog = []\<rparr>, sample_vllm) of
      (Inl e, u) \<Rightarrow> False | (Inr y, u) \<Rightarrow> True"
    by code_simp
  then obtain out w' s' where "vllm_all_reduce quiet sample_torch ?t (\<lparr>wext = 0, wlog = []\<rparr>, sample_vllm) =
      (Inr out, (w', s'))"
    by (auto split: prod.splits sum.splits)
  then have "reducer.reduce_list (vllm_all_reduce quiet sample_torch) [?t] (\<lparr>wext = 0, wlog = []\<rparr>, sample_vllm) =
      (Inr [out], (w', s'))"
    by (simp add: io_bind_def io_return_def)
  from vllm_reductions_keep_kind [OF sample_vllm_good this] show ?thesis by blast
qed

section \<open>No GPU tensor reaches Gloo\<close>

definition vllm_ok :: "'w world \<times> vllm \<Rightarrow> bool" where
  "vllm_ok u \<longleftrightarrow> log_clean (fst u) \<and> cache_ok (vc_transport (snd u))"

lemma keeps_on_world [clean]: "keeps log_clean m \<Longrightarrow> keeps vllm_ok (on_world m)"
  by (rule keeps_postI, unfold wp) (auto simp: vllm_ok_def elim!: keeps_post)

lemma keeps_on_transport [clean]: "keeps staged_ok m \<Longrightarrow> keeps vllm_ok (on_transport m)"
  unfolding on_transport_def
  by (rule keeps_postI, unfold wp) (auto simp: vllm_ok_def staged_ok_def log_clean_def elim!: keeps_post)

lemma keeps_on_parts [clean]:
  "keeps obj_clean m1 \<Longrightarrow> keeps vllm_ok (on_d3d12 d m1)" "keeps obj_clean m2 \<Longrightarrow> keeps vllm_ok (on_rccl r m2)"
  "keeps obj_clean m3 \<Longrightarrow> keeps vllm_ok (on_fast f m3)"
  unfolding on_d3d12_def on_rccl_def on_fast_def
  by (rule keeps_postI, unfold wp, force simp: vllm_ok_def obj_clean_def elim!: keeps_post)+

lemma keeps_trace_once [clean]: "keeps vllm_ok (trace_once env T operation backend x)"
proof -
  have "keeps vllm_ok (update_self (\<lambda>s. s\<lparr>vc_traced := k # vc_traced s\<rparr>))" for k
    by (simp add: keeps_def wp vllm_ok_def)
  then show ?thesis
    by (auto simp: trace_once_def print_def Let_def intro!: clean)
qed

lemmas keeps_staged = keeps_all_reduce keeps_all_gather keeps_reduce_scatter keeps_gather keeps_broadcast
  keeps_send keeps_recv

lemma keeps_vllm:
  assumes "torch_ok T"
  shows "keeps vllm_ok (vllm_all_reduce env T t)" and "keeps vllm_ok (vllm_all_gather env T t dim)"
    and "keeps vllm_ok (vllm_reduce_scatter env T t dim)" and "keeps vllm_ok (vllm_broadcast env T t src)"
    and "keeps vllm_ok (vllm_gather env T t dst dim)" and "keeps vllm_ok (vllm_send env t p)"
    and "keeps vllm_ok (vllm_recv env T sh dt p)" and "keeps vllm_ok (vllm_destroy env)"
  using assms
  by (simp_all add: vllm_all_reduce_def vllm_all_gather_def vllm_reduce_scatter_def vllm_broadcast_def
      vllm_gather_def vllm_send_def vllm_recv_def vllm_destroy_def rccl_or_host_def Let_def clean keeps_staged)

lemma staged_init_post:
  "log_clean w \<Longrightarrow> io_post (staged_init env T pg d) (\<lambda>_ u. log_clean (fst u) \<and> hs_buffers (snd u) = [])
     (\<lambda>_ u. log_clean (fst u)) (w, b)"
proof -
  have call: "io_post (call_ext env c) Q E v"
    if "log_clean v" "gpu_free c" "\<And>a v'. log_clean v' \<Longrightarrow> Q a v'" "\<And>e v'. log_clean v' \<Longrightarrow> E e v'" for c Q E v
    using clean_call [OF that(2)] that(1,3,4) by (rule keeps_post)
  have int: "io_post (dist_int env fn args) Q E v"
    if "log_clean v" "gpu_free (Dist fn args)" "\<And>a v'. log_clean v' \<Longrightarrow> Q a v'" "\<And>e v'. log_clean v' \<Longrightarrow> E e v'" for fn args Q E v
    using clean_dist [OF that(2)] that(1,3,4) by (rule keeps_post)
  assume "log_clean w"
  then show ?thesis
    by (auto simp: staged_init_def wp Let_def intro!: int call split: option.splits sum.splits)
qed

text \<open>What the parts satisfy after their constructors.\<close>

lemma construct_post:
  assumes "keeps obj_clean m" and "log_clean w" and "io_post m (\<lambda>_ u. P (snd u)) (\<lambda>_ _. True) (w, blank)"
    and "\<And>ob w'. log_clean w' \<Longrightarrow> P ob \<Longrightarrow> Q ob (w', p)" and "\<And>e w'. log_clean w' \<Longrightarrow> E e (w', p)"
  shows "io_post (construct m blank) Q E (w, p)"
proof -
  have "io_post m (\<lambda>_. obj_clean) (\<lambda>_. obj_clean) (w, blank)"
    using assms(1,2) by (auto simp: keeps_def obj_clean_def)
  with assms(3-5) show ?thesis
    by (auto simp: construct_def wp io_post_def obj_clean_def split: prod.splits sum.splits)
qed

definition vllm_parts_ok :: "pyenv \<Rightarrow> base_communicator \<Rightarrow> vllm \<Rightarrow> bool" where
  "vllm_parts_ok pe base s \<longleftrightarrow> \<not> base_all2all base \<and> hs_buffers (vc_transport s) = [] \<and> vc_traced s = [] \<and>
     vc_rank s = base_rank base \<and> vc_world s = base_world base \<and>
     (vc_d3d12 s \<noteq> None \<longleftrightarrow> base_world base = 2 \<and> d3d12_requested pe) \<and>
     (vc_rccl s \<noteq> None \<longleftrightarrow> rccl_requested pe) \<and>
     (vc_fast s \<noteq> None \<longleftrightarrow> base_world base = 2 \<and> vc_rccl s = None \<and> vc_d3d12 s = None) \<and>
     (\<forall>d. vc_d3d12 s = Some d \<longrightarrow> ar_connected d) \<and> (\<forall>f. vc_fast s = Some f \<longrightarrow> shm_connected f)"

lemma staged_init_clean: "keeps obj_clean (staged_init env T pg d)"
proof (rule keeps_postI)
  fix u :: "'a world \<times> staged" assume "obj_clean u"
  then show "io_post (staged_init env T pg d) (\<lambda>_. obj_clean) (\<lambda>_. obj_clean) u"
    by (cases u) (auto simp: obj_clean_def intro: io_post_mono [OF staged_init_post])
qed

lemma vllm_init_post:
  assumes "min_ok env" and "log_clean w"
  shows "io_post (vllm_init env T pe base) (\<lambda>_ u. log_clean (fst u) \<and> vllm_parts_ok pe base (snd u))
     (\<lambda>_ u. log_clean (fst u)) (w, s)"
proof -
  have transport: "io_post (construct (staged_init env T g d) blank_staged) Q E (v, p)"
    if "log_clean v" "\<And>ob w'. log_clean w' \<Longrightarrow> hs_buffers ob = [] \<Longrightarrow> Q ob (w', p)"
      "\<And>e w'. log_clean w' \<Longrightarrow> E e (w', p)" for g d v Q E and p :: vllm
    by (rule construct_post [where P = "\<lambda>ob. hs_buffers ob = []" and Q = Q and E = E and p = p, OF staged_init_clean that(1) _ that(2,3)])
       (rule io_post_mono [OF staged_init_post [OF that(1)]], simp_all)
  have d3d12: "io_post (construct (ar_init env T pe g d mx mn) blank_ar) Q E (v, p)"
    if "log_clean v" "\<And>ob w'. log_clean w' \<Longrightarrow> ar_connected ob \<Longrightarrow> Q ob (w', p)"
      "\<And>e w'. log_clean w' \<Longrightarrow> E e (w', p)" for g d mx mn v Q E and p :: vllm
    by (rule construct_post [where P = ar_connected and Q = Q and E = E and p = p, OF clean_ar(1) that(1) ar_init_post [OF assms(1)] that(2,3)])
  have rccl: "io_post (construct (rccl_init env T pe g d) blank_rccl) Q E (v, p)"
    if "log_clean v" "\<And>ob w'. log_clean w' \<Longrightarrow> Q ob (w', p)"
      "\<And>e w'. log_clean w' \<Longrightarrow> E e (w', p)" for g d v Q E and p :: vllm
    by (rule construct_post [where P = "\<lambda>_. True" and Q = Q and E = E and p = p, OF clean_rccl_init that(1) _ that(2,3)])
       (simp add: io_post_any)
  have fast: "io_post (construct (shm_init env T pe g d mx) blank_shm) Q E (v, p)"
    if "log_clean v" "\<And>ob w'. log_clean w' \<Longrightarrow> shm_connected ob \<Longrightarrow> Q ob (w', p)"
      "\<And>e w'. log_clean w' \<Longrightarrow> E e (w', p)" for g d mx v Q E and p :: vllm
    by (rule construct_post [where P = shm_connected and Q = Q and E = E and p = p, OF clean_shm(1) that(1) shm_init_post that(2,3)])
  have printed: "io_post (print env line) Q E v"
    if "log_clean v" "\<And>a v'. log_clean v' \<Longrightarrow> Q a v'" "\<And>e v'. log_clean v' \<Longrightarrow> E e v'" for line Q E v
  proof (rule keeps_post [where I = log_clean and Q = Q and E = E, OF _ that])
    show "keeps log_clean (print env line)" by (auto simp: print_def intro!: clean)
  qed
  show ?thesis
    unfolding vllm_init_def Let_def
    by (simp add: wp) (auto simp: wp vllm_parts_ok_def assms(2) intro!: transport d3d12 rccl fast printed)
qed

text \<open>The life of a communicator: it is constructed, then any methods are called in any order.\<close>

datatype vllm_call =
    CallAllReduce tensor | CallAllGather tensor int | CallReduceScatter tensor int | CallBroadcast tensor int
  | CallGather tensor int int | CallSend tensor "int option" | CallRecv "nat list" dtype "int option" | CallDestroy

definition vllm_after :: "'w extern \<Rightarrow> torch_api \<Rightarrow> vllm_call \<Rightarrow> 'w world \<times> vllm \<Rightarrow> 'w world \<times> vllm" where
  "vllm_after env T c u = (case c of
     CallAllReduce t \<Rightarrow> snd (vllm_all_reduce env T t u)
   | CallAllGather t dim \<Rightarrow> snd (vllm_all_gather env T t dim u)
   | CallReduceScatter t dim \<Rightarrow> snd (vllm_reduce_scatter env T t dim u)
   | CallBroadcast t src \<Rightarrow> snd (vllm_broadcast env T t src u)
   | CallGather t dst dim \<Rightarrow> snd (vllm_gather env T t dst dim u)
   | CallSend t dst \<Rightarrow> snd (vllm_send env t dst u)
   | CallRecv sh d src \<Rightarrow> snd (vllm_recv env T sh d src u)
   | CallDestroy \<Rightarrow> snd (vllm_destroy env u))"

definition vllm_step :: "'w extern \<Rightarrow> torch_api \<Rightarrow> 'w world \<times> vllm \<Rightarrow> 'w world \<times> vllm \<Rightarrow> bool" where
  "vllm_step env T u v \<longleftrightarrow> (\<exists>c. v = vllm_after env T c u)"

definition vllm_start ::
  "'w extern \<Rightarrow> torch_api \<Rightarrow> pyenv \<Rightarrow> base_communicator \<Rightarrow> 'w world \<times> vllm \<Rightarrow> bool" where
  "vllm_start env T pe base u \<longleftrightarrow> torch_ok T \<and> min_ok env \<and>
     (\<exists>x s. vllm_init env T pe base (\<lparr>wext = x, wlog = []\<rparr>, s) = (Inr (), u))"

lemma vllm_after_ok: "torch_ok T \<Longrightarrow> vllm_ok u \<Longrightarrow> vllm_ok (vllm_after env T c u)"
  by (cases c) (simp_all add: vllm_after_def keeps_after keeps_vllm)

interpretation vllm: invariant_system "vllm_start env T pe base" "vllm_step env T" "\<lambda>u. torch_ok T \<and> vllm_ok u"
  for env T pe base
proof unfold_locales
  fix u assume "vllm_start env T pe base u"
  then obtain x s where ok: "torch_ok T" "min_ok env"
    and run: "vllm_init env T pe base (\<lparr>wext = x, wlog = []\<rparr>, s) = (Inr (), u)"
    by (auto simp: vllm_start_def)
  have "log_clean \<lparr>wext = x, wlog = []\<rparr>" by (simp add: log_clean_def)
  from vllm_init_post [OF ok(2) this, of T pe base s] run ok(1) show "torch_ok T \<and> vllm_ok u"
    by (simp add: io_post_def vllm_ok_def vllm_parts_ok_def cache_ok_def)
next
  fix u v assume "torch_ok T \<and> vllm_ok u" "vllm_step env T u v"
  then show "torch_ok T \<and> vllm_ok v" by (auto simp: vllm_step_def vllm_after_ok)
qed

text \<open>C22: the communicator never passes a GPU tensor to Gloo: in every state reachable by constructing the
  communicator and calling its methods in any order, with any answers and any exceptions, no call made to
  \<open>torch.distributed\<close>, by whichever part, mentions a tensor on a GPU.\<close>

theorem vllm_never_hands_gpu:
  assumes "reach (vllm_start env T pe base) (vllm_step env T) u"
  shows "(\<forall>c\<in>set (wlog (fst u)). gpu_free c) \<and> cache_ok (vc_transport (snd u))"
  using vllm.reach_inv [OF assms] by (simp add: vllm_ok_def log_clean_def)

text \<open>A single process with a Gloo group.\<close>

definition gloo_env :: "nat extern" where
  "gloo_env = (\<lambda>c n. (Inr (case c of
       Dist fn args \<Rightarrow> (if fn = ''get_rank'' \<or> fn = ''all_reduce'' then (0, [])
         else if fn = ''get_backend'' then (0, [VStr ''gloo'']) else (1, []))
     | _ \<Rightarrow> (0, [])), Suc n))"

lemma gloo_min_ok: "min_ok gloo_env"
  by (auto simp: min_ok_def gloo_env_def)

definition sample_base :: base_communicator where
  "sample_base = \<lparr>base_all2all = False, base_group = None,
     base_device = \<lparr>dev_type = ''cuda'', dev_index = Some 0\<rparr>, base_rank = 0, base_world = 1\<rparr>"

lemma sample_start:
  "\<exists>u. vllm_start gloo_env sample_torch sample_env sample_base u \<and>
     vllm_init gloo_env sample_torch sample_env sample_base (\<lparr>wext = 0, wlog = []\<rparr>, sample_vllm) = (Inr (), u)"
proof -
  have "case vllm_init gloo_env sample_torch sample_env sample_base (\<lparr>wext = 0, wlog = []\<rparr>, sample_vllm) of
      (Inl e, u) \<Rightarrow> False | (Inr y, u) \<Rightarrow> True"
    by code_simp
  then obtain u where "vllm_init gloo_env sample_torch sample_env sample_base (\<lparr>wext = 0, wlog = []\<rparr>, sample_vllm) =
      (Inr (), u)"
    by (auto split: prod.splits sum.splits)
  then show ?thesis using sample_torch_ok gloo_min_ok unfolding vllm_start_def by blast
qed

lemma vllm_never_hands_gpu_witness:
  "\<exists>u :: nat world \<times> vllm. cache_ok (vc_transport (snd (vllm_after gloo_env sample_torch
     (CallAllReduce (sample_tensor Float32 8 16)) u)))"
proof -
  obtain u where "vllm_start gloo_env sample_torch sample_env sample_base u" using sample_start by blast
  then have "reach (vllm_start gloo_env sample_torch sample_env sample_base) (vllm_step gloo_env sample_torch)
      (vllm_after gloo_env sample_torch (CallAllReduce (sample_tensor Float32 8 16)) u)"
    by (rule reach_step [OF reach_init]) (auto simp: vllm_step_def)
  from vllm_never_hands_gpu [OF this] show ?thesis by blast
qed



section \<open>Tracing\<close>

text \<open>A sequence of trace requests.\<close>

fun trace_all ::
  "'w extern \<Rightarrow> torch_api \<Rightarrow> (string \<times> string \<times> tensor option) list \<Rightarrow> ('w, vllm, unit) meth" where
  "trace_all env T [] = io_return ()"
| "trace_all env T ((operation, backend, t) # rs) =
     io_then (trace_once env T operation backend t) (trace_all env T rs)"

definition request_key :: "torch_api \<Rightarrow> string \<times> string \<times> tensor option \<Rightarrow> string" where
  "request_key T = (\<lambda>(operation, backend, t). trace_key T operation backend t)"

lemma trace_once_run:
  assumes "answers env"
  shows "\<exists>x es. trace_once env T operation backend t (w, s) = (Inr (), (\<lparr>wext = x, wlog = wlog w @ es\<rparr>,
      s\<lparr>vc_traced := (if vc_trace s \<and> trace_key T operation backend t \<notin> set (vc_traced s)
         then trace_key T operation backend t # vc_traced s else vc_traced s)\<rparr>)) \<and>
    length es = (if vc_trace s \<and> trace_key T operation backend t \<notin> set (vc_traced s) then 1 else 0)"
proof (cases "vc_trace s \<and> trace_key T operation backend t \<notin> set (vc_traced s)")
  case True
  obtain a x where "env (Os ''print'' [''WAVMG_COLLECTIVE rank='' @ py_str (vc_rank s) @ '' operation='' @ operation @
      '' backend='' @ backend @ trace_details T t]) (wext w) = (Inr a, x)"
    using assms unfolding answers_def by blast
  with True show ?thesis
    by (simp add: trace_once_def Let_def print_def io_bind_def io_then_def self_apply update_self_apply on_world_apply
        call_ext_def io_return_def)
next
  case False
  then show ?thesis
    by (cases w) (auto simp: trace_once_def Let_def io_bind_def self_apply io_return_def)
qed

text \<open>Each operation is traced once: with tracing on, a sequence of trace requests prints exactly one line for
  every distinct key (operation, backend, type, size, shape) that was not traced before, and remembers
  them all; with tracing off it prints nothing and remembers nothing.\<close>

lemma trace_once_per_key:
  assumes "answers env"
  shows "\<exists>x es ks. trace_all env T rs (w, s) =
      (Inr (), (\<lparr>wext = x, wlog = wlog w @ es\<rparr>, s\<lparr>vc_traced := ks\<rparr>)) \<and>
    length es = (if vc_trace s then card (set (map (request_key T) rs) - set (vc_traced s)) else 0) \<and>
    set ks = (if vc_trace s then set (vc_traced s) \<union> set (map (request_key T) rs) else set (vc_traced s))"
proof (induction rs arbitrary: w s)
  case Nil
  show ?case by (cases w) (auto simp: io_return_def intro!: exI [of _ "vc_traced s"])
next
  case (Cons r rs)
  obtain operation backend t where r: "r = (operation, backend, t)" by (cases r) auto
  let ?k = "trace_key T operation backend t"
  let ?new = "vc_trace s \<and> ?k \<notin> set (vc_traced s)"
  let ?ks = "if ?new then ?k # vc_traced s else vc_traced s"
  from trace_once_run [OF assms, of T operation backend t w s] obtain x es where
    first: "trace_once env T operation backend t (w, s) =
      (Inr (), (\<lparr>wext = x, wlog = wlog w @ es\<rparr>, s\<lparr>vc_traced := ?ks\<rparr>))"
    and es: "length es = (if ?new then 1 else 0)" by blast
  let ?s = "s\<lparr>vc_traced := ?ks\<rparr>"
  from Cons.IH [of "\<lparr>wext = x, wlog = wlog w @ es\<rparr>" ?s] obtain y fs ls where
    rest: "trace_all env T rs (\<lparr>wext = x, wlog = wlog w @ es\<rparr>, ?s) =
      (Inr (), (\<lparr>wext = y, wlog = (wlog w @ es) @ fs\<rparr>, s\<lparr>vc_traced := ls\<rparr>))"
    and fs: "length fs = (if vc_trace s then card (set (map (request_key T) rs) - set ?ks) else 0)"
    and ls: "set ls = (if vc_trace s then set ?ks \<union> set (map (request_key T) rs) else set ?ks)"
    by auto
  have run: "trace_all env T (r # rs) (w, s) =
      (Inr (), (\<lparr>wext = y, wlog = wlog w @ (es @ fs)\<rparr>, s\<lparr>vc_traced := ls\<rparr>))"
    using first rest by (simp add: r io_then_def io_bind_def)
  have key: "request_key T r = ?k" by (simp add: r request_key_def)
  have "length (es @ fs) = (if vc_trace s then card (set (map (request_key T) (r # rs)) - set (vc_traced s)) else 0)"
  proof (cases ?new)
    case True
    let ?A = "set (map (request_key T) rs) - set (?k # vc_traced s)"
    have "set (map (request_key T) (r # rs)) - set (vc_traced s) = insert ?k ?A"
      using True key by auto
    moreover have "?k \<notin> ?A" by simp
    ultimately show ?thesis using True es fs by (simp add: card_insert_disjoint)
  next
    case False
    then show ?thesis using es fs key by (auto simp: insert_Diff_if)
  qed
  moreover have "set ls = (if vc_trace s then set (vc_traced s) \<union> set (map (request_key T) (r # rs)) else set (vc_traced s))"
    using ls key by auto
  ultimately show ?case using run by blast
qed

lemma trace_once_per_key_witness:
  "\<exists>x es ks. trace_all quiet sample_torch [(''all_gather'', ''rccl'', None), (''all_gather'', ''rccl'', None)]
      (\<lparr>wext = 0, wlog = []\<rparr>, sample_vllm\<lparr>vc_trace := True\<rparr>) =
    (Inr (), (\<lparr>wext = x, wlog = es\<rparr>, sample_vllm\<lparr>vc_trace := True, vc_traced := ks\<rparr>)) \<and> length es = 1"
proof -
  from trace_once_per_key [OF quiet_answers, of sample_torch
      "[(''all_gather'', ''rccl'', None), (''all_gather'', ''rccl'', None)]" "\<lparr>wext = 0, wlog = []\<rparr>"
      "sample_vllm\<lparr>vc_trace := True\<rparr>"]
  show ?thesis by (auto simp: sample_vllm_def)
qed

text \<open>The label printed for a hybrid communicator is not what it does: without RCCL, a tensor that D3D12 does not
  take goes to the host-staged Gloo transport, while the label says that RCCL is the fallback.\<close>

lemma hybrid_label_misleads:
  assumes "vc_d3d12 s = Some d" and "vc_rccl s = None" and "vc_fast s = None" and "\<not> can_handle T d t"
  shows "all_reduce_label s = ''hybrid(d3d12='' @ py_str (ar_min d) @ ''..'' @ py_str (ar_max d) @ '',rccl=fallback)''"
    and "vllm_all_reduce env T t (w, s) =
      io_then (trace_once env T ''all_reduce'' ''gloo-host'' (Some t)) (on_transport (staged_all_reduce env ''SUM'' t)) (w, s)"
  using assms by (simp_all add: all_reduce_label_def vllm_routes(4) d3d12_takes_def)

section \<open>The ring\<close>

text \<open>The default neighbours match: the rank a \<open>send\<close> goes to without an explicit destination receives, without
  an explicit source, from the sender.\<close>

lemma ring_neighbours:
  assumes "vc_world s' = vc_world s" and "0 \<le> vc_rank s" and "vc_rank s < vc_world s" and "vc_rank s' = next_rank s"
  shows "previous_rank s' = vc_rank s" and "0 \<le> next_rank s \<and> next_rank s < vc_world s"
proof -
  have "((vc_rank s + 1) mod vc_world s - 1) mod vc_world s = (vc_rank s + 1 - 1) mod vc_world s"
    by (rule mod_diff_left_eq)
  with assms show "previous_rank s' = vc_rank s" by (simp add: previous_rank_def next_rank_def)
  show "0 \<le> next_rank s \<and> next_rank s < vc_world s" using assms by (simp add: next_rank_def)
qed

section \<open>Destruction\<close>

interpretation d3d12_end: destroyable "ar_destroy env" "\<lambda>s. ar_own s = None \<and> ar_peer s = None" for env
proof unfold_locales
  fix w s w' s' assume run: "ar_destroy env (w, s) = (Inr (), (w', s'))"
  show "ar_own s' = None \<and> ar_peer s' = None"
  proof (cases "ar_own s = None \<and> ar_peer s = None")
    case True
    with run show ?thesis by (auto simp: ar_destroy_def method_success)
  next
    case False
    with run obtain u where "close_buffers env (u, s) = (Inr (), (w', s'))"
      by (auto simp: ar_destroy_def method_success split: if_splits)
    from close_buffers_success [OF this] show ?thesis by simp
  qed
qed (simp add: ar_destroy_def io_bind_def self_apply io_return_def)

interpretation rccl_end: destroyable "rccl_destroy env" "\<lambda>s. rc_comm s = None \<or> rc_library s = None" for env
  by unfold_locales
     (auto simp: rccl_destroy_def method_success rccl_call_def io_bind_def self_apply io_return_def split: if_splits)

lemma shm_cleanup_closes: "shm_cleanup env u = (Inr (), v) \<Longrightarrow> sh_mapping (snd v) = None"
proof -
  have "io_post (shm_cleanup env) (\<lambda>_ u. sh_mapping (snd u) = None) (\<lambda>_ _. True) (w, s)" for w s
    by (auto simp: shm_cleanup_def wp intro!: any_barrier any_world split: option.split)
  from this [of "fst u" "snd u"] show "shm_cleanup env u = (Inr (), v) \<Longrightarrow> sh_mapping (snd v) = None"
    by (simp add: io_post_def)
qed

interpretation shm_end: destroyable "shm_destroy env" "\<lambda>s. sh_mapping s = None" for env
proof unfold_locales
  fix w s w' s' assume "shm_destroy env (w, s) = (Inr (), (w', s'))"
  then show "sh_mapping s' = None"
    by (fastforce simp: shm_destroy_def method_success io_finally_success_iff dest: shm_cleanup_closes split: if_splits)
qed (simp add: shm_destroy_def io_bind_def self_apply io_return_def)

text \<open>Closed parts.\<close>

definition vllm_closed :: "vllm \<Rightarrow> bool" where
  "vllm_closed s \<longleftrightarrow>
     (\<forall>d. vc_d3d12 s = Some d \<longrightarrow> ar_own d = None \<and> ar_peer d = None) \<and>
     (\<forall>r. vc_rccl s = Some r \<longrightarrow> rc_comm r = None \<or> rc_library r = None) \<and>
     (\<forall>f. vc_fast s = Some f \<longrightarrow> sh_mapping f = None)"

lemma vllm_destroy_closes:
  assumes "vllm_destroy env (w, s) = (Inr (), (w', s'))"
  shows "vllm_closed s'"
proof -
  from assms obtain v1 s1 v2 s2 where
    d: "(case vc_d3d12 s of None \<Rightarrow> io_return () | Some b \<Rightarrow> on_d3d12 b (ar_destroy env)) (w, s) = (Inr (), (v1, s1))"
    and r: "(case vc_rccl s1 of None \<Rightarrow> io_return () | Some b \<Rightarrow> on_rccl b (rccl_destroy env)) (v1, s1) = (Inr (), (v2, s2))"
    and f: "(case vc_fast s2 of None \<Rightarrow> io_return () | Some b \<Rightarrow> on_fast b (shm_destroy env)) (v2, s2) = (Inr (), (w', s'))"
    by (auto simp: vllm_destroy_def method_success)
  from d have 1: "vc_rccl s1 = vc_rccl s \<and> vc_fast s1 = vc_fast s \<and> (\<forall>b. vc_d3d12 s1 = Some b \<longrightarrow> ar_own b = None \<and> ar_peer b = None)"
    by (auto simp: on_parts method_success dest: d3d12_end.destroy_closes split: option.splits)
  from r have 2: "vc_d3d12 s2 = vc_d3d12 s1 \<and> vc_fast s2 = vc_fast s1 \<and> (\<forall>b. vc_rccl s2 = Some b \<longrightarrow> rc_comm b = None \<or> rc_library b = None)"
    by (auto simp: on_parts method_success dest: rccl_end.destroy_closes split: option.splits)
  from f have "vc_d3d12 s' = vc_d3d12 s2 \<and> vc_rccl s' = vc_rccl s2 \<and> (\<forall>b. vc_fast s' = Some b \<longrightarrow> sh_mapping b = None)"
    by (auto simp: on_parts method_success dest: shm_end.destroy_closes split: option.splits)
  with 1 2 show ?thesis by (simp add: vllm_closed_def)
qed

lemma vllm_closed_kept:
  assumes "vllm_closed s"
  shows "vllm_destroy env (v, s) = (Inr (), (v, s))"
proof -
  have "on_d3d12 d (ar_destroy env) (v, s) = (Inr (), (v, s))" if "vc_d3d12 s = Some d" for d
    using that assms d3d12_end.closed_kept [of d env v]
    by (cases s) (simp add: vllm_closed_def on_d3d12_def on_field_apply)
  moreover have "on_rccl d (rccl_destroy env) (v, s) = (Inr (), (v, s))" if "vc_rccl s = Some d" for d
    using that assms rccl_end.closed_kept [of d env v]
    by (cases s) (simp add: vllm_closed_def on_rccl_def on_field_apply)
  moreover have "on_fast d (shm_destroy env) (v, s) = (Inr (), (v, s))" if "vc_fast s = Some d" for d
    using that assms shm_end.closed_kept [of d env v]
    by (cases s) (simp add: vllm_closed_def on_fast_def on_field_apply)
  ultimately show ?thesis
    by (simp add: vllm_destroy_def io_then_def io_bind_def self_apply io_return_def split: option.splits)
qed

interpretation vllm_end: destroyable "vllm_destroy env" vllm_closed for env
  by unfold_locales (auto dest: vllm_destroy_closes vllm_closed_kept)

text \<open>Destroying the communicator closes every part it owns: when \<open>destroy\<close> returns, the D3D12 heaps, the
  native RCCL communicator and the shared mapping are released, and a second \<open>destroy\<close> does nothing.\<close>

lemma vllm_destroy_final:
  assumes "vllm_destroy env (w, s) = (Inr (), (w', s'))"
  shows "vllm_closed s' \<and> vllm_destroy env (v, s') = (Inr (), (v, s'))"
  using vllm_end.destroy_closes [OF assms] vllm_end.destroy_idempotent [OF assms] by blast

lemma vllm_destroy_final_witness:
  "\<exists>s'. vllm_closed s' \<and> vc_rccl s' \<noteq> None"
proof -
  let ?s = "sample_vllm\<lparr>vc_rccl := Some sample_rccl\<rparr>"
  have "case vllm_destroy quiet (\<lparr>wext = 0, wlog = []\<rparr>, ?s) of
      (Inl e, u) \<Rightarrow> False | (Inr y, (w', s')) \<Rightarrow> vc_rccl s' \<noteq> None"
    by code_simp
  then obtain w' s' where run: "vllm_destroy quiet (\<lparr>wext = 0, wlog = []\<rparr>, ?s) = (Inr (), (w', s'))"
    and "vc_rccl s' \<noteq> None"
    by (auto split: prod.splits sum.splits)
  with vllm_destroy_final [OF run] show ?thesis by blast
qed

end
