(* ===== verification/Host_Buffers.thy ===== *)
theory Host_Buffers
  imports Hip_Runtime Kept_Calls
begin

text \<open>
  What the probes share: host memory they hand to the HIP runtime by address (\<open>ctypes.create_string_buffer\<close> and arrays of
  \<open>c_ubyte\<close>), whose allocation and contents belong to the environment, and the calls that free device memory.
\<close>

section \<open>Buffers\<close>

text \<open>An array of \<open>n\<close> bytes, initialised from a byte string: its address; and the bytes at an address when they are read.\<close>

definition host_array :: "'w extern \<Rightarrow> string \<Rightarrow> nat list \<Rightarrow> int \<Rightarrow> ('w world, int) io" where
  "host_array env what bs n = io_bind (call_ext env (Torch what [PyStruct ''bytes'' bs, PyInt n])) (\<lambda>(p, _). io_return p)"

definition read_buffer :: "'w extern \<Rightarrow> int \<Rightarrow> int \<Rightarrow> ('w world, nat list) io" where
  "read_buffer env p n = io_bind (call_ext env (Torch ''raw'' [PyInt p, PyInt n])) (\<lambda>(_, outs). io_return (out_blob (nat n) outs))"

text \<open>A \<open>range\<close> loop whose body ignores the index.\<close>

fun io_repeat :: "nat \<Rightarrow> ('s, unit) io \<Rightarrow> ('s, unit) io" where
  "io_repeat 0 m = io_return ()"
| "io_repeat (Suc n) m = io_then m (io_repeat n m)"

section \<open>Freeing\<close>

definition hip_free :: "int \<Rightarrow> ecall" where
  "hip_free p = Native ''hipFree'' [VPtr (word_of_int p)]"

definition is_free :: "ecall \<Rightarrow> bool" where
  "is_free c \<longleftrightarrow> (\<exists>vs. c = Native ''hipFree'' vs)"

lemma free_typed: "call_native env hip_sigs ''hipFree'' [PyVoidP p] = call_ext env (hip_free p)"
  by (simp add: call_native_def hip_sigs_def hip_argtypes_def hip_free_def)

lemma is_free_simps [simp]: "is_free (hip_free p)" "\<not> is_free (Native ''hipGetErrorString'' vs)"
  by (simp_all add: is_free_def hip_free_def)

text \<open>A method whose call satisfies \<open>P\<close> makes exactly that one such call, whether it returns or raises.\<close>

lemma hip_do_grew:
  assumes "call_native env hip_sigs (fst (hip_request m)) (snd (hip_request m)) = call_ext env c"
    and "P c" and "\<And>vs. \<not> P (Native ''hipGetErrorString'' vs)"
  shows "grew P w [c] (snd (hip_do env m w))"
proof -
  have "io_post (hip_do env m) (\<lambda>_. grew P w [c]) (\<lambda>_. grew P w [c]) w"
    unfolding hip_do_def hip_run_def hip_check_def error_string_def assms(1) error_string_native wp
    using assms(2,3) by (auto intro!: io_post_call_ext simp: grew_def)
  then show ?thesis by (auto simp: io_post_def split: prod.splits sum.splits)
qed

lemma kept_hip_run [kept]:
  "(\<And>vs. \<not> P (Native (fst (hip_request m)) vs)) \<Longrightarrow> (\<And>vs. \<not> P (Native ''hipGetErrorString'' vs)) \<Longrightarrow> keeps (grew P w []) (hip_run env m)"
  by (auto simp: hip_run_def hip_check_def error_string_def intro!: kept kept_native)

lemma kept_hip_do [kept]:
  "(\<And>vs. \<not> P (Native (fst (hip_request m)) vs)) \<Longrightarrow> (\<And>vs. \<not> P (Native ''hipGetErrorString'' vs)) \<Longrightarrow> keeps (grew P w []) (hip_do env m)"
  by (auto simp: hip_do_def intro!: kept)

lemma kept_non_null [kept]: "keeps I (non_null fn outs)"
  by (auto simp: non_null_def intro!: kept split: option.split)

lemma kept_hip_init [kept]: "(\<And>f ss. \<not> P (Os f ss)) \<Longrightarrow> keeps (grew P w []) (hip_init env pe rp dd)"
proof -
  assume os: "\<And>f ss. \<not> P (Os f ss)"
  have "keeps (grew P w []) (bind_symbols pe lib fs)" for lib fs
    by (induction fs) (auto intro!: kept)
  moreover have "keeps (grew P w []) (add_checked_directories env pe ds)" for ds
    by (induction ds) (auto intro!: kept os)
  ultimately show ?thesis by (auto simp: hip_init_def intro!: kept os)
qed

lemma kept_buffers [kept]:
  "(\<And>f ss. \<not> P (Torch f ss)) \<Longrightarrow> keeps (grew P w []) (host_array env what bs n)"
  "(\<And>f ss. \<not> P (Torch f ss)) \<Longrightarrow> keeps (grew P w []) (read_buffer env p n)"
  by (auto simp: host_array_def read_buffer_def intro!: kept)

end
