(* ===== verification/Rank_Launch.thy ===== *)
theory Rank_Launch
  imports Host_Staged Host_Buffers D3d12_Shared
begin

text \<open>
  What the two-process probes share: \<open>main\<close> starts one process per rank, waits for each of them, ends those that are still
  alive, takes their reports off a queue, and judges reports and exit codes; a rank works on tensors of one value inside a
  process group. Processes, sockets and queues are the environment's: an object taken off the queue is a number, and
  \<open>unpickle\<close> says which report it stands for. Printing the summary is not modelled.
\<close>

section \<open>Calls of the system\<close>

definition os_do :: "'w extern \<Rightarrow> string \<Rightarrow> string list \<Rightarrow> ('w world, unit) io" where
  "os_do env what args = io_bind (call_ext env (Os what args)) (\<lambda>_. io_return ())"

definition os_int :: "'w extern \<Rightarrow> string \<Rightarrow> string list \<Rightarrow> ('w world, int) io" where
  "os_int env what args = io_bind (call_ext env (Os what args)) (\<lambda>(n, _). io_return n)"

text \<open>A loop over a list, for its effects and for its results.\<close>

fun io_each :: "('a \<Rightarrow> ('s, unit) io) \<Rightarrow> 'a list \<Rightarrow> ('s, unit) io" where
  "io_each f [] = io_return ()"
| "io_each f (x # xs) = io_then (f x) (io_each f xs)"

fun io_list :: "('a \<Rightarrow> ('s, 'b) io) \<Rightarrow> 'a list \<Rightarrow> ('s, 'b list) io" where
  "io_list f [] = io_return []"
| "io_list f (x # xs) = io_bind (f x) (\<lambda>y. io_bind (io_list f xs) (\<lambda>ys. io_return (y # ys)))"

text \<open>A free port of the local host; the socket is closed on leaving the \<open>with\<close> block.\<close>

definition unused_local_port :: "'w extern \<Rightarrow> ('w world, int) io" where
  "unused_local_port env =
     io_bind (os_int env ''socket'' []) (\<lambda>listener.
     io_finally
       (io_then (os_do env ''bind'' [py_str listener, ''127.0.0.1'', ''0'']) (os_int env ''getsockname'' [py_str listener]))
       (os_do env ''close_socket'' [py_str listener]))"

section \<open>Starting and judging the ranks\<close>

definition process_call :: "string \<Rightarrow> nat \<Rightarrow> string list \<Rightarrow> ecall" where
  "process_call what r args = Os what (py_str (int r) # args)"

definition process_do :: "'w extern \<Rightarrow> string \<Rightarrow> string list \<Rightarrow> nat \<Rightarrow> ('w world, unit) io" where
  "process_do env what args r = io_bind (call_ext env (process_call what r args)) (\<lambda>_. io_return ())"

definition end_process :: "'w extern \<Rightarrow> int \<Rightarrow> nat \<Rightarrow> ('w world, unit) io" where
  "end_process env grace r =
     io_bind (call_ext env (process_call ''is_alive'' r [])) (\<lambda>(alive, _).
     if alive = 0 then io_return ()
     else io_then (process_do env ''terminate'' [] r) (process_do env ''join'' [py_str grace] r))"

text \<open>\<open>results.get(timeout=5)\<close>, until the queue stays empty: the answer is 0 then.\<close>

definition queue_get :: ecall where
  "queue_get = Os ''queue_get'' [''5'']"

fun collect_records :: "'w extern \<Rightarrow> (int \<Rightarrow> 'r) \<Rightarrow> nat \<Rightarrow> ('w world, 'r list) io" where
  "collect_records env unpickle 0 = io_return []"
| "collect_records env unpickle (Suc n) =
     io_bind (call_ext env queue_get) (\<lambda>(k, _).
     if k = 0 then io_return []
     else io_bind (collect_records env unpickle n) (\<lambda>records. io_return (unpickle k # records)))"

text \<open>\<open>process.exitcode\<close>: \<open>None\<close> while the process runs.\<close>

definition exit_code :: "'w extern \<Rightarrow> nat \<Rightarrow> ('w world, int option) io" where
  "exit_code env r =
     io_bind (call_ext env (process_call ''exitcode'' r [])) (\<lambda>(_, outs).
     io_return (case outs of VU32 c # _ \<Rightarrow> Some (uint c) | _ \<Rightarrow> None))"

definition start_ranks :: "'w extern \<Rightarrow> (nat \<Rightarrow> string list) \<Rightarrow> nat \<Rightarrow> ('w world, unit) io" where
  "start_ranks env args n = io_each (\<lambda>r. process_do env ''start'' (args r) r) [0..<n]"

definition await_ranks ::
  "'w extern \<Rightarrow> (int \<Rightarrow> 'r) \<Rightarrow> ('r \<Rightarrow> int) \<Rightarrow> int \<Rightarrow> int \<Rightarrow> nat \<Rightarrow> ('w world, 'r list \<times> int option list) io" where
  "await_ranks env unpickle rank_of timeout grace n =
     io_then (io_each (process_do env ''join'' [py_str timeout]) [0..<n])
    (io_then (io_each (end_process env grace) [0..<n])
    (io_bind (collect_records env unpickle n) (\<lambda>records.
     io_bind (io_list (exit_code env) [0..<n]) (\<lambda>codes.
     io_return (sort_key rank_of records, codes)))))"

definition all_ended :: "int option list \<Rightarrow> bool" where
  "all_ended codes = list_all (\<lambda>code. code = Some 0) codes"

text \<open>The reports in the order of the ranks and what \<open>main\<close> returns.\<close>

definition judge :: "('r list \<Rightarrow> bool) \<Rightarrow> 'r list \<times> int option list \<Rightarrow> 'r list \<times> int" where
  "judge passed = (\<lambda>(records, codes). (records, if passed records \<and> all_ended codes then 0 else 1))"

definition launch ::
  "'w extern \<Rightarrow> (int \<Rightarrow> 'r) \<Rightarrow> ('r \<Rightarrow> int) \<Rightarrow> ('r list \<Rightarrow> bool) \<Rightarrow> int \<Rightarrow> int \<Rightarrow> string list \<Rightarrow> nat \<Rightarrow>
     ('w world, 'r list \<times> int) io" where
  "launch env unpickle rank_of passed timeout grace args n =
     io_then (start_ranks env (\<lambda>_. args) n)
    (io_bind (await_ranks env unpickle rank_of timeout grace n) (\<lambda>ran. io_return (judge passed ran)))"

definition ranks_passed :: "nat \<Rightarrow> ('r \<Rightarrow> bool) \<Rightarrow> 'r list \<Rightarrow> bool" where
  "ranks_passed n ok records \<longleftrightarrow> length records = n \<and> list_all ok records"

section \<open>What a rank works with\<close>

definition cuda :: "int \<Rightarrow> device" where
  "cuda i = \<lparr>dev_type = ''cuda'', dev_index = Some i\<rparr>"

text \<open>The literal of \<open>float(i)\<close>.\<close>

definition float_text :: "int \<Rightarrow> string" where
  "float_text i = py_str i @ ''.0''"

definition full :: "'w extern \<Rightarrow> torch_api \<Rightarrow> nat \<Rightarrow> string \<Rightarrow> dtype \<Rightarrow> device \<Rightarrow> ('w world, tensor) io" where
  "full env T n v d dev =
     io_bind (call_ext env (Torch ''full'' (PyInt (int n) # PyStr v # device_args dev))) (\<lambda>(p, _).
       io_return (contiguous_on T \<lparr>t_shape = [n], t_stride = [], t_dtype = d, t_device = dev, t_ptr = 0\<rparr> p))"

definition full_like :: "'w extern \<Rightarrow> torch_api \<Rightarrow> tensor \<Rightarrow> string \<Rightarrow> ('w world, tensor) io" where
  "full_like env T t v = io_bind (call_ext env (Torch ''full_like'' [PyInt (t_ptr t), PyStr v])) (\<lambda>(p, _). io_return (like_on T t p))"

text \<open>\<open>torch.all(t == v).item()\<close>, and the same of \<open>t.float()\<close>.\<close>

definition all_equal :: "'w extern \<Rightarrow> tensor \<Rightarrow> string \<Rightarrow> ('w world, bool) io" where
  "all_equal env t v = io_bind (call_ext env (Torch ''all'' [PyInt (t_ptr t), PyStr v])) (\<lambda>(yes, _). io_return (yes \<noteq> 0))"

definition float_equal :: "'w extern \<Rightarrow> tensor \<Rightarrow> string \<Rightarrow> ('w world, bool) io" where
  "float_equal env t v =
     io_bind (call_ext env (Torch ''float'' [PyInt (t_ptr t)])) (\<lambda>(p, _). all_equal env (t\<lparr>t_dtype := Float32, t_ptr := p\<rparr>) v)"

text \<open>\<open>torch.tensor(values)\<close>, and \<open>t.float().cpu().item()\<close> with any chain of conversions; what is read is the text Python
shows for it.\<close>

definition literal :: "'w extern \<Rightarrow> torch_api \<Rightarrow> string list \<Rightarrow> dtype \<Rightarrow> device \<Rightarrow> ('w world, tensor) io" where
  "literal env T values d dev =
     io_bind (call_ext env (Torch ''tensor'' (map PyStr values @ device_args dev))) (\<lambda>(p, _).
       io_return (contiguous_on T \<lparr>t_shape = [length values], t_stride = [], t_dtype = d, t_device = dev, t_ptr = 0\<rparr> p))"

fun show_value :: "'w extern \<Rightarrow> string list \<Rightarrow> string \<Rightarrow> int \<Rightarrow> ('w world, string) io" where
  "show_value env [] last_step p = io_bind (call_ext env (Torch last_step [PyInt p])) (\<lambda>(_, outs).
     io_return (case out_str outs of None \<Rightarrow> [] | Some v \<Rightarrow> v))"
| "show_value env (step # steps) last_step p =
     io_bind (call_ext env (Torch step [PyInt p])) (\<lambda>(q, _). show_value env steps last_step q)"

definition start_group :: "'w extern \<Rightarrow> int \<Rightarrow> int \<Rightarrow> int \<Rightarrow> int \<Rightarrow> ('w world, unit) io" where
  "start_group env port rank world_size timeout =
     dist_do env ''init_process_group'' [PyStr ''gloo'', PyStr (''tcp://127.0.0.1:'' @ py_str port), PyInt rank, PyInt world_size,
       PyInt timeout]"

definition end_group :: "'w extern \<Rightarrow> ('w world, unit) io" where
  "end_group env = io_bind (dist_int env ''is_initialized'' []) (\<lambda>yes.
     if yes = 0 then io_return () else dist_do env ''destroy_process_group'' [])"

text \<open>Events two processes share; \<open>wait\<close> answers whether the event was set in time.\<close>

definition event_set :: "'w extern \<Rightarrow> string \<Rightarrow> ('w world, unit) io" where
  "event_set env name = io_bind (call_ext env (Os ''event_set'' [name])) (\<lambda>_. io_return ())"

definition event_wait :: "'w extern \<Rightarrow> string \<Rightarrow> string \<Rightarrow> ('w world, unit) io" where
  "event_wait env name message =
     io_bind (call_ext env (Os ''event_wait'' [name])) (\<lambda>(set_in_time, _).
     if set_in_time = 0 then io_raise TimeoutError message else io_return ())"

text \<open>A rank's local variables are the object of its methods; what it reports is one of them.\<close>

definition report_of :: "('w, 'l, unit) meth \<Rightarrow> 'l \<Rightarrow> ('l \<Rightarrow> 'r) \<Rightarrow> ('w world, 'r) io" where
  "report_of m l get = (\<lambda>w. case m (w, l) of (Inl e, (w', _)) \<Rightarrow> (Inl e, w') | (Inr _, (w', l')) \<Rightarrow> (Inr (get l'), w'))"

lemma io_post_report_of [wp]:
  "io_post (report_of m l get) Q E = (\<lambda>w. io_post m (\<lambda>_ u. Q (get (snd u)) (fst u)) (\<lambda>e u. E e (fst u)) (w, l))"
  by (simp add: io_post_def report_of_def fun_eq_iff split: prod.splits sum.splits)

text \<open>A stream of the rank's own, and a \<open>with torch.cuda.stream(stream)\<close> block.\<close>

definition new_stream :: "'w extern \<Rightarrow> device \<Rightarrow> ('w world, int) io" where
  "new_stream env d = io_bind (call_ext env (Torch ''Stream'' (device_args d))) (\<lambda>(p, _). io_return p)"

definition on_stream :: "'w extern \<Rightarrow> int \<Rightarrow> ('w, 'o, 'a) meth \<Rightarrow> ('w, 'o, 'a) meth" where
  "on_stream env stream m =
     io_then (on_world (torch_do env ''enter_stream'' [PyInt stream]))
       (io_finally m (on_world (torch_do env ''exit_stream'' [PyInt stream])))"

text \<open>\<open>try: m except Exception as error: \<dots>\<close> around the destruction of an object.\<close>

definition note_failure :: "('w, 'o, unit) meth \<Rightarrow> (exn \<Rightarrow> 'o \<Rightarrow> 'o) \<Rightarrow> ('w, 'o, unit) meth" where
  "note_failure m note = io_catch m (\<lambda>e. update_self (note e))"

section \<open>Invariants of the object\<close>

named_theorems object_kept

definition keeps_object :: "('o \<Rightarrow> bool) \<Rightarrow> ('w, 'o, 'a) meth \<Rightarrow> bool" where
  "keeps_object P m \<longleftrightarrow> keeps (\<lambda>u. P (snd u)) m"

lemma object_kept_rules [object_kept]:
  "keeps_object P (io_return x)" "keeps_object P (io_raise k t)" "keeps_object P self" "keeps_object P (io_of_sum y)"
  "keeps_object P m \<Longrightarrow> (\<And>x. keeps_object P (f x)) \<Longrightarrow> keeps_object P (io_bind m f)"
  "keeps_object P n \<Longrightarrow> keeps_object P q \<Longrightarrow> keeps_object P (io_then n q)"
  "keeps_object P m \<Longrightarrow> (\<And>e. keeps_object P (h e)) \<Longrightarrow> keeps_object P (io_catch m h)"
  "keeps_object P m \<Longrightarrow> keeps_object P n \<Longrightarrow> keeps_object P (io_finally m n)"
  "keeps_object P m \<Longrightarrow> keeps_object P m' \<Longrightarrow> keeps_object P (if b then m else m')"
  "keeps_object P m \<Longrightarrow> (\<And>z. keeps_object P (g z)) \<Longrightarrow> keeps_object P (case v of None \<Rightarrow> m | Some z \<Rightarrow> g z)"
  "(\<And>z1 z2. keeps_object P (k2 z1 z2)) \<Longrightarrow> keeps_object P (case p of (z1, z2) \<Rightarrow> k2 z1 z2)"
  "(\<And>z. keeps_object P (g z)) \<Longrightarrow> keeps_object P (let z = c in g z)"
  by (auto simp: keeps_object_def intro!: kept)

lemma object_kept_world [object_kept]: "keeps_object P (on_world m)"
  by (simp add: keeps_object_def keeps_def wp io_post_any)

lemma object_kept_update [object_kept]: "(\<And>s. P s \<Longrightarrow> P (f s)) \<Longrightarrow> keeps_object P (update_self f)"
  by (simp add: keeps_object_def keeps_def wp)

lemma object_kept_field [object_kept]: "(\<And>f s. P s \<Longrightarrow> P (put f s)) \<Longrightarrow> keeps_object P (on_field get put m)"
  by (auto simp: keeps_object_def keeps_def wp io_post_any)

lemma object_kept_stream [object_kept]: "keeps_object P m \<Longrightarrow> keeps_object P (on_stream env stream m)"
  unfolding on_stream_def by (intro object_kept)

lemma object_kept_post:
  "keeps_object P m \<Longrightarrow> P (snd u) \<Longrightarrow> (\<And>y t. P (snd t) \<Longrightarrow> Q y t) \<Longrightarrow> (\<And>e t. P (snd t) \<Longrightarrow> E e t) \<Longrightarrow> io_post m Q E u"
  unfolding keeps_object_def by (rule keeps_post)

section \<open>Tensors and shared heaps\<close>

text \<open>The tensors \<open>torch\<close> allocates are not in the shared heap.\<close>

definition outside_heap :: "'w extern \<Rightarrow> d3d12_buffer \<Rightarrow> bool" where
  "outside_heap env b \<longleftrightarrow>
     (\<forall>f args v p outs u. env (Torch f args) v = (Inr (p, outs), u) \<longrightarrow> (word_of_int p :: u64) \<noteq> word_of_int (buf_pointer b))"

lemma outside_heapD:
  "outside_heap env b \<Longrightarrow> env (Torch f args) v = (Inr (p, vs), u) \<Longrightarrow> (word_of_int p :: u64) \<noteq> word_of_int (buf_pointer b)"
  unfolding outside_heap_def by blast

lemma tensor_success:
  assumes "torch_ok T" and "outside_heap env b"
  shows "full env T n v d dev w = (Inr t, w') \<Longrightarrow>
      (word_of_int (t_ptr t) :: u64) \<noteq> word_of_int (buf_pointer b) \<and> (\<exists>f as. wlog w' = wlog w @ [Torch f as])"
    and "full_like env T u v w = (Inr t, w') \<Longrightarrow>
      (word_of_int (t_ptr t) :: u64) \<noteq> word_of_int (buf_pointer b) \<and> (\<exists>f as. wlog w' = wlog w @ [Torch f as])"
    and "empty_like env T u w = (Inr t, w') \<Longrightarrow>
      (word_of_int (t_ptr t) :: u64) \<noteq> word_of_int (buf_pointer b) \<and> (\<exists>f as. wlog w' = wlog w @ [Torch f as])"
    and "empty env T sh dt dev w = (Inr t, w') \<Longrightarrow>
      (word_of_int (t_ptr t) :: u64) \<noteq> word_of_int (buf_pointer b) \<and> (\<exists>f as. wlog w' = wlog w @ [Torch f as])"
    and "all_equal env t v w = (Inr yes, w') \<Longrightarrow> (\<exists>f as. wlog w' = wlog w @ [Torch f as])"
proof -
  have at: "t_ptr (contiguous_on T u p) = p" "t_ptr (like_on T u p) = p" for u p
    using assms(1) by (simp_all add: torch_ok_def)
  note defs = io_success call_ext_success_iff at
  show "full env T n v d dev w = (Inr t, w') \<Longrightarrow>
      (word_of_int (t_ptr t) :: u64) \<noteq> word_of_int (buf_pointer b) \<and> (\<exists>f as. wlog w' = wlog w @ [Torch f as])"
    by (auto simp: full_def defs dest: outside_heapD [OF assms(2)])
  show "full_like env T u v w = (Inr t, w') \<Longrightarrow>
      (word_of_int (t_ptr t) :: u64) \<noteq> word_of_int (buf_pointer b) \<and> (\<exists>f as. wlog w' = wlog w @ [Torch f as])"
    by (auto simp: full_like_def defs dest: outside_heapD [OF assms(2)])
  show "empty_like env T u w = (Inr t, w') \<Longrightarrow>
      (word_of_int (t_ptr t) :: u64) \<noteq> word_of_int (buf_pointer b) \<and> (\<exists>f as. wlog w' = wlog w @ [Torch f as])"
    by (auto simp: empty_like_def defs dest: outside_heapD [OF assms(2)])
  show "empty env T sh dt dev w = (Inr t, w') \<Longrightarrow>
      (word_of_int (t_ptr t) :: u64) \<noteq> word_of_int (buf_pointer b) \<and> (\<exists>f as. wlog w' = wlog w @ [Torch f as])"
    by (auto simp: empty_def defs dest: outside_heapD [OF assms(2)])
  show "all_equal env t v w = (Inr yes, w') \<Longrightarrow> (\<exists>f as. wlog w' = wlog w @ [Torch f as])"
    by (auto simp: all_equal_def defs)
qed

lemma stream_synchronize_success:
  assumes "stream_synchronize env st w = (Inr (), w')"
  shows "\<exists>vs. wlog w' = wlog w @ [Native ''hipStreamSynchronize'' vs]"
proof -
  have "call_native env hip_sigs ''hipStreamSynchronize'' [PyVoidP st] = call_ext env (Native ''hipStreamSynchronize'' [VPtr (word_of_int st)])"
    by (simp add: call_native_def hip_sigs_def hip_argtypes_def)
  with assms show ?thesis
    by (auto simp: stream_synchronize_def hip_do_def hip_run_def hip_check_def io_success call_ext_success_iff split: if_splits)
qed

section \<open>The calls of main\<close>

lemma process_do_success: "process_do env what args r w = (Inr (), w') \<Longrightarrow> wlog w' = wlog w @ [process_call what r args]"
  by (auto simp: process_do_def io_success call_ext_success_iff)

lemma io_each_log:
  assumes "\<And>x v v'. f x v = (Inr (), v') \<Longrightarrow> wlog v' = wlog v @ c x" and "io_each f xs w = (Inr (), w')"
  shows "wlog w' = wlog w @ concat (map c xs)"
  using assms(2) by (induction xs arbitrary: w) (auto simp: io_success dest: assms(1))

definition ending_calls :: "int \<Rightarrow> nat \<times> bool \<Rightarrow> ecall list" where
  "ending_calls grace = (\<lambda>(r, alive). process_call ''is_alive'' r [] #
     (if alive then [process_call ''terminate'' r [], process_call ''join'' r [py_str grace]] else []))"

lemma end_process_log:
  assumes "end_process env grace r w = (Inr (), w')"
  shows "\<exists>alive. wlog w' = wlog w @ ending_calls grace (r, alive)"
proof -
  obtain k outs v where alive: "call_ext env (process_call ''is_alive'' r []) w = (Inr (k, outs), v)"
    and rest: "(if k = 0 then io_return ()
      else io_then (process_do env ''terminate'' [] r) (process_do env ''join'' [py_str grace] r)) v = (Inr (), w')"
    using assms by (auto simp: end_process_def io_success)
  show ?thesis
    by (rule exI [of _ "k \<noteq> 0"])
      (use alive rest in \<open>auto simp: ending_calls_def io_success call_ext_success_iff split: if_splits dest!: process_do_success\<close>)
qed

lemma end_processes_log:
  "io_each (end_process env grace) rs w = (Inr (), w') \<Longrightarrow>
     \<exists>alive. length alive = length rs \<and> wlog w' = wlog w @ concat (map (ending_calls grace) (zip rs alive))"
proof (induction rs arbitrary: w)
  case (Cons r rs)
  then obtain v where one: "end_process env grace r w = (Inr (), v)" and more: "io_each (end_process env grace) rs v = (Inr (), w')"
    by (auto simp: io_success)
  obtain b where b: "wlog v = wlog w @ ending_calls grace (r, b)"
    using end_process_log [OF one] by blast
  obtain bs where "length bs = length rs" "wlog w' = wlog v @ concat (map (ending_calls grace) (zip rs bs))"
    using Cons.IH [OF more] by blast
  with b show ?case by (intro exI [of _ "b # bs"]) simp
qed (auto simp: io_success)

lemma collect_records_log:
  "collect_records env unpickle n w = (Inr rs, w') \<Longrightarrow>
     \<exists>k. length rs \<le> k \<and> k \<le> n \<and> wlog w' = wlog w @ replicate k queue_get"
proof (induction n arbitrary: w rs)
  case (Suc n)
  then obtain k outs v where get: "call_ext env queue_get w = (Inr (k, outs), v)"
    and rest: "(if k = 0 then io_return [] else io_bind (collect_records env unpickle n) (\<lambda>records. io_return (unpickle k # records))) v
      = (Inr rs, w')"
    by (auto simp: io_success)
  from get have v: "wlog v = wlog w @ [queue_get]" by (auto simp: call_ext_success_iff)
  show ?case
  proof (cases "k = 0")
    case True
    with rest v show ?thesis by (intro exI [of _ 1]) (simp add: io_success)
  next
    case False
    with rest obtain rs' where "collect_records env unpickle n v = (Inr rs', w')" "rs = unpickle k # rs'"
      by (auto simp: io_success)
    moreover from Suc.IH [OF this(1)] obtain j where "length rs' \<le> j" "j \<le> n" "wlog w' = wlog v @ replicate j queue_get"
      by blast
    ultimately show ?thesis using v by (intro exI [of _ "Suc j"]) simp
  qed
qed (simp add: io_success)

lemma exit_codes_log:
  "io_list (exit_code env) rs w = (Inr cs, w') \<Longrightarrow>
     length cs = length rs \<and> wlog w' = wlog w @ map (\<lambda>r. process_call ''exitcode'' r []) rs"
  by (induction rs arbitrary: w cs) (auto simp: io_success exit_code_def call_ext_success_iff)

text \<open>A run of \<open>main\<close> that returns: every process is started, then every one is waited for, then every one is asked whether
it is alive and ended if so, and only then are the reports and the exit codes read.\<close>

definition launch_calls :: "int \<Rightarrow> int \<Rightarrow> (nat \<Rightarrow> string list) \<Rightarrow> bool list \<Rightarrow> nat \<Rightarrow> ecall list" where
  "launch_calls timeout grace args alive reads =
     (let ranks = [0..<length alive] in
      map (\<lambda>r. process_call ''start'' r (args r)) ranks @ map (\<lambda>r. process_call ''join'' r [py_str timeout]) ranks @
      concat (map (ending_calls grace) (zip ranks alive)) @ replicate reads queue_get @
      map (\<lambda>r. process_call ''exitcode'' r []) ranks)"

lemma start_await_calls:
  assumes "start_ranks env args n w = (Inr (), a)"
    and "await_ranks env unpickle rank_of timeout grace n a = (Inr (records, codes), w')"
  shows "\<exists>alive reads. length alive = n \<and> length records \<le> reads \<and> reads \<le> n \<and> length codes = n \<and>
     sorted (map rank_of records) \<and> wlog w' = wlog w @ launch_calls timeout grace args alive reads"
proof -
  from assms(2) obtain b c d got where join: "io_each (process_do env ''join'' [py_str timeout]) [0..<n] a = (Inr (), b)"
    and ends: "io_each (end_process env grace) [0..<n] b = (Inr (), c)"
    and got: "collect_records env unpickle n c = (Inr got, d)" and codes: "io_list (exit_code env) [0..<n] d = (Inr codes, w')"
    and records: "records = sort_key rank_of got"
    by (auto simp: await_ranks_def io_success)
  obtain alive where "length alive = n" "wlog c = wlog b @ concat (map (ending_calls grace) (zip [0..<n] alive))"
    using end_processes_log [OF ends] by auto
  moreover obtain reads where "length got \<le> reads" "reads \<le> n" "wlog d = wlog c @ replicate reads queue_get"
    using collect_records_log [OF got] by auto
  moreover have "wlog a = wlog w @ map (\<lambda>r. process_call ''start'' r (args r)) [0..<n]"
    using io_each_log [OF _ assms(1) [unfolded start_ranks_def], of "\<lambda>r. [process_call ''start'' r (args r)]"]
    by (auto dest: process_do_success)
  moreover have "wlog b = wlog a @ map (\<lambda>r. process_call ''join'' r [py_str timeout]) [0..<n]"
    using io_each_log [OF _ join, of "\<lambda>r. [process_call ''join'' r [py_str timeout]]"] by (auto dest: process_do_success)
  ultimately show ?thesis
    using exit_codes_log [OF codes] unfolding records launch_calls_def Let_def by (intro exI [of _ alive] exI [of _ reads]) simp
qed

text \<open>The order in which the reports arrive does not matter.\<close>

lemma reports_in_rank_order:
  assumes "set rs = set rs'" and "distinct (map rank_of rs)" and "distinct (map rank_of rs')"
  shows "sort_key rank_of rs = sort_key rank_of rs'"
proof (rule map_sorted_distinct_set_unique)
  show "inj_on rank_of (set (sort_key rank_of rs) \<union> set (sort_key rank_of rs'))"
    using assms(1,2) by (simp add: distinct_map)
qed (use assms in \<open>simp_all add: distinct_map\<close>)

end
