(* ===== verification/Collective_Probes.thy ===== *)
theory Collective_Probes
  imports Vllm_Communicator Rank_Launch
begin

text \<open>
  The scripts that run one communicator over a table of cases: \<open>probes/d3d12_all_reduce_probe.py\<close>,
  \<open>probes/benchmark_stream_all_reduce.py\<close>, \<open>probes/benchmark_host_staged.py\<close> and \<open>probes/rccl_torch_tensor_probe.py\<close>.
  The clock, the rates computed from it, tracebacks, the argument parsers and the printed summaries are not modelled.
\<close>

section \<open>Cases and reports\<close>

record reduce_case =
  rp_dtype :: dtype
  rp_bytes :: int
  rp_iterations :: nat
  rp_correct :: bool

record reduce_record =
  rp_rank :: int
  rp_results :: "reduce_case list"
  rp_stream_path :: bool
  rp_passed :: bool
  rp_error :: "exn option"
  rp_destroy_error :: "exn option"

text \<open>The local variables of a rank: its communicator and its record.\<close>

record ('c, 'r) probe_rank =
  pr_comm :: "'c option"
  pr_record :: 'r

definition start_probe :: "int \<Rightarrow> ('c, reduce_record) probe_rank" where
  "start_probe rank = \<lparr>pr_comm = None, pr_record = \<lparr>rp_rank = rank, rp_results = [], rp_stream_path = False, rp_passed = False,
     rp_error = None, rp_destroy_error = None\<rparr>\<rparr>"

definition using_comm :: "('w, 'c, 'a) meth \<Rightarrow> ('w, ('c, 'r) probe_rank, 'a) meth" where
  "using_comm m = io_bind self (\<lambda>s. case pr_comm s of
       None \<Rightarrow> io_raise AttributeError ''NoneType''
     | Some c \<Rightarrow> on_field (\<lambda>_. c) (\<lambda>c s. s\<lparr>pr_comm := Some c\<rparr>) m)"

definition note_result :: "reduce_case \<Rightarrow> ('w, ('c, reduce_record) probe_rank, unit) meth" where
  "note_result c = update_self (\<lambda>s. s\<lparr>pr_record := (pr_record s)\<lparr>rp_results := rp_results (pr_record s) @ [c]\<rparr>\<rparr>)"

definition probe_failed :: "exn \<Rightarrow> ('w, ('c, reduce_record) probe_rank, unit) meth" where
  "probe_failed e = update_self (\<lambda>s. s\<lparr>pr_record := (pr_record s)\<lparr>rp_passed := False, rp_error := Some e\<rparr>\<rparr>)"

definition probe_end :: "'w extern \<Rightarrow> ('w, 'c, unit) meth \<Rightarrow> ('w, ('c, reduce_record) probe_rank, unit) meth" where
  "probe_end env destroy =
     io_bind self (\<lambda>s.
     io_then (if pr_comm s = None then io_return () else note_failure (using_comm destroy)
       (\<lambda>e s. s\<lparr>pr_record := (pr_record s)\<lparr>rp_destroy_error := Some e, rp_passed := False\<rparr>\<rparr>))
     (on_world (end_group env)))"

text \<open>\<open>for _ in range(n): output = m\<close>; the variable keeps the last result.\<close>

fun reduce_again :: "nat \<Rightarrow> ('s, 'a) io \<Rightarrow> 'a \<Rightarrow> ('s, 'a) io" where
  "reduce_again 0 m output = io_return output"
| "reduce_again (Suc n) m output = io_bind m (\<lambda>output. reduce_again n m output)"

section \<open>The D3D12 probe\<close>

definition PROBE_SIZES :: "int list" where
  "PROBE_SIZES = [4 * 1024, 64 * 1024, 235520, 1024 * 1024, 8 * 1024 * 1024, 64 * 1024 * 1024]"

definition PROBE_DTYPES :: "dtype list" where
  "PROBE_DTYPES = [Float16, Float32, BFloat16]"

definition d3d12_iterations :: "int \<Rightarrow> nat" where
  "d3d12_iterations n = (if n \<le> 64 * 1024 then 200 else if n \<le> 1024 * 1024 then 100 else if n \<le> 8 * 1024 * 1024 then 50 else 20)"

definition d3d12_case :: "'w extern \<Rightarrow> torch_api \<Rightarrow> int \<Rightarrow> int \<Rightarrow> dtype \<times> int \<Rightarrow> ('w, (d3d12_ar, reduce_record) probe_rank, unit) meth" where
  "d3d12_case env T rank test_stream = (\<lambda>(d, n).
     let count = nat (n div int (element_size T d)); iterations = d3d12_iterations n in
     io_bind (on_world (full env T count (float_text (rank + 1)) d (cuda rank))) (\<lambda>source.
     io_then (on_world (torch_do env ''synchronize'' [PyInt rank]))
    (io_bind (on_stream env test_stream (reduce_again 10 (using_comm (ar_all_reduce env T source)) source)) (\<lambda>warm.
     io_then (on_world (torch_do env ''stream_synchronize'' [PyInt test_stream]))
    (io_then (on_world (dist_do env ''barrier'' []))
    (io_bind (on_stream env test_stream (reduce_again iterations (using_comm (ar_all_reduce env T source)) warm)) (\<lambda>output.
     io_then (on_world (torch_do env ''stream_synchronize'' [PyInt test_stream]))
    (io_bind (on_world (float_equal env output (float_text 3))) (\<lambda>correct.
     io_bind (on_world (show_value env [''float''] ''item'' (t_ptr output))) (\<lambda>first_value.
     note_result \<lparr>rp_dtype = d, rp_bytes = n, rp_iterations = iterations, rp_correct = correct\<rparr>))))))))))"

definition d3d12_probe_body :: "'w extern \<Rightarrow> torch_api \<Rightarrow> pyenv \<Rightarrow> int \<Rightarrow> int \<Rightarrow> ('w, (d3d12_ar, reduce_record) probe_rank, unit) meth" where
  "d3d12_probe_body env T pe rank port =
     io_then (on_world (torch_do env ''set_num_threads'' [PyInt 1]))
    (io_then (on_world (torch_do env ''set_device'' [PyInt rank]))
    (io_then (on_world (start_group env port rank 2 180))
    (io_bind (construct (ar_init env T pe None (DeviceIndex rank) (Some (Max (set PROBE_SIZES))) None) blank_ar) (\<lambda>communicator.
     io_then (update_self (\<lambda>s. s\<lparr>pr_comm := Some communicator\<rparr>))
    (io_bind (on_world (new_stream env (cuda rank))) (\<lambda>test_stream.
     io_then (io_each (d3d12_case env T rank test_stream) (List.product PROBE_DTYPES PROBE_SIZES))
    (update_self (\<lambda>s. s\<lparr>pr_record := (pr_record s)\<lparr>rp_passed := list_all rp_correct (rp_results (pr_record s))\<rparr>\<rparr>))))))))"

definition d3d12_probe_main :: "'w extern \<Rightarrow> torch_api \<Rightarrow> pyenv \<Rightarrow> int \<Rightarrow> int \<Rightarrow> ('w world, reduce_record) io" where
  "d3d12_probe_main env T pe rank port =
     report_of (io_finally (io_catch (d3d12_probe_body env T pe rank port) probe_failed) (probe_end env (ar_destroy env)))
       (start_probe rank) pr_record"

definition d3d12_probe_launch :: "'w extern \<Rightarrow> (int \<Rightarrow> reduce_record) \<Rightarrow> ('w world, reduce_record list \<times> int) io" where
  "d3d12_probe_launch env unpickle =
     io_bind (unused_local_port env) (\<lambda>port.
     launch env unpickle rp_rank (ranks_passed 2 rp_passed) (180 + 30) 10 [py_str port] 2)"

section \<open>The benchmark of the mapped-host communicator\<close>

definition stream_iterations :: "int \<Rightarrow> nat" where
  "stream_iterations n = (if n \<le> 64 * 1024 then 200 else if n \<le> 1024 * 1024 then 50 else 15)"

definition stream_case :: "'w extern \<Rightarrow> torch_api \<Rightarrow> int \<Rightarrow> dtype \<times> int \<Rightarrow> ('w, (shm_ar, reduce_record) probe_rank, unit) meth" where
  "stream_case env T rank = (\<lambda>(d, n).
     if n mod int (element_size T d) \<noteq> 0 then io_raise ValueError ''size is not aligned for the dtype'' else
     let count = nat (n div int (element_size T d)); iterations = stream_iterations n in
     io_bind (on_world (full env T count (float_text (rank + 1)) d (cuda rank))) (\<lambda>source.
     io_bind (reduce_again 5 (using_comm (shm_all_reduce env T source)) source) (\<lambda>warm.
     io_then (on_world (torch_do env ''synchronize'' [PyInt rank]))
    (io_then (on_world (dist_do env ''barrier'' []))
    (io_bind (reduce_again iterations (using_comm (shm_all_reduce env T source)) warm) (\<lambda>destination.
     io_then (on_world (torch_do env ''synchronize'' [PyInt rank]))
    (io_bind (on_world (float_equal env destination (float_text 3))) (\<lambda>correct.
     note_result \<lparr>rp_dtype = d, rp_bytes = n, rp_iterations = iterations, rp_correct = correct\<rparr>))))))))"

definition stream_body ::
  "'w extern \<Rightarrow> torch_api \<Rightarrow> pyenv \<Rightarrow> int list \<Rightarrow> dtype list \<Rightarrow> int \<Rightarrow> int \<Rightarrow> ('w, (shm_ar, reduce_record) probe_rank, unit) meth" where
  "stream_body env T pe sizes dtypes rank port =
     io_then (on_world (torch_do env ''set_num_threads'' [PyInt 1]))
    (io_then (on_world (torch_do env ''set_device'' [PyInt rank]))
    (io_then (on_world (start_group env port rank 2 120))
    (io_bind (construct (shm_init env T pe None (DeviceIndex rank) (Some (Max (set sizes)))) blank_shm) (\<lambda>communicator.
     io_then (update_self (\<lambda>s. s\<lparr>pr_comm := Some communicator,
       pr_record := (pr_record s)\<lparr>rp_stream_path := sh_stream communicator\<rparr>\<rparr>))
    (io_then (io_each (stream_case env T rank) (List.product dtypes sizes))
    (update_self (\<lambda>s. s\<lparr>pr_record := (pr_record s)\<lparr>rp_passed :=
       rp_stream_path (pr_record s) \<and> list_all rp_correct (rp_results (pr_record s))\<rparr>\<rparr>)))))))"

definition stream_main ::
  "'w extern \<Rightarrow> torch_api \<Rightarrow> pyenv \<Rightarrow> int list \<Rightarrow> dtype list \<Rightarrow> int \<Rightarrow> int \<Rightarrow> ('w world, reduce_record) io" where
  "stream_main env T pe sizes dtypes rank port =
     report_of (io_finally (io_catch (stream_body env T pe sizes dtypes rank port) probe_failed) (probe_end env (shm_destroy env)))
       (start_probe rank) pr_record"

definition stream_launch ::
  "'w extern \<Rightarrow> (int \<Rightarrow> reduce_record) \<Rightarrow> int list \<Rightarrow> dtype list \<Rightarrow> ('w world, reduce_record list \<times> int) io" where
  "stream_launch env unpickle sizes dtypes =
     (if sizes = [] \<or> list_ex (\<lambda>n. n \<le> 0) sizes then io_raise SystemExit ''sizes must be positive''
      else
        io_bind (unused_local_port env) (\<lambda>port.
        launch env unpickle rp_rank (ranks_passed 2 rp_passed) (120 + 30) 5
          (py_str port # map py_str sizes @ map dtype_text dtypes) 2))"

section \<open>The benchmark of the host-staged communicator\<close>

definition staged_iterations :: "int \<Rightarrow> nat" where
  "staged_iterations n = (if n \<le> 64 * 1024 then 50 else if n \<le> 1024 * 1024 then 20 else 8)"

definition staged_case :: "'w extern \<Rightarrow> torch_api \<Rightarrow> int \<Rightarrow> int \<Rightarrow> ('w, (staged, reduce_record) probe_rank, unit) meth" where
  "staged_case env T rank n =
     (let element_count = nat (max 1 (n div 4)); iterations = staged_iterations n in
      io_bind (on_world (full env T element_count (float_text (rank + 1)) Float32 (cuda rank))) (\<lambda>source.
      io_bind (reduce_again 3 (using_comm (staged_all_reduce env ''SUM'' source)) source) (\<lambda>warm.
      io_then (on_world (torch_do env ''synchronize'' [PyInt rank]))
     (io_then (using_comm (staged_barrier env))
     (io_bind (reduce_again iterations (using_comm (staged_all_reduce env ''SUM'' source)) warm) (\<lambda>output.
      io_then (on_world (torch_do env ''synchronize'' [PyInt rank]))
     (io_then (using_comm (staged_barrier env))
     (io_bind (on_world (all_equal env output (float_text 3))) (\<lambda>correct.
      note_result \<lparr>rp_dtype = Float32, rp_bytes = n, rp_iterations = iterations, rp_correct = correct\<rparr>)))))))))"

text \<open>The results are a list of their own, which only a rank that gets through all sizes reports.\<close>

definition staged_body :: "'w extern \<Rightarrow> torch_api \<Rightarrow> int list \<Rightarrow> int \<Rightarrow> int \<Rightarrow> ('w, (staged, reduce_record) probe_rank, unit) meth" where
  "staged_body env T sizes rank port =
     io_then (on_world (torch_do env ''set_device'' [PyInt rank]))
    (io_then (on_world (start_group env port rank 2 120))
    (io_bind (construct (staged_init env T None (Some (DeviceIndex rank))) blank_staged) (\<lambda>communicator.
     io_then (update_self (\<lambda>s. s\<lparr>pr_comm := Some communicator\<rparr>))
    (io_then (io_each (staged_case env T rank) sizes)
    (update_self (\<lambda>s. s\<lparr>pr_record := (pr_record s)\<lparr>rp_passed := True\<rparr>\<rparr>))))))"

definition staged_failed :: "exn \<Rightarrow> ('w, (staged, reduce_record) probe_rank, unit) meth" where
  "staged_failed e = update_self (\<lambda>s. s\<lparr>pr_record := (pr_record s)\<lparr>rp_passed := False, rp_results := [], rp_error := Some e\<rparr>\<rparr>)"

text \<open>The report is on the queue before the group is destroyed, so it is there also when that fails.\<close>

definition staged_main ::
  "'w extern \<Rightarrow> torch_api \<Rightarrow> int list \<Rightarrow> int \<Rightarrow> int \<Rightarrow> ('w world, reduce_record \<times> (exn + unit)) io" where
  "staged_main env T sizes rank port =
     io_bind (report_of (io_catch (staged_body env T sizes rank port) staged_failed) (start_probe rank) pr_record) (\<lambda>record.
     io_catch (io_then (end_group env) (io_return (record, Inr ()))) (\<lambda>e. io_return (record, Inl e)))"

definition staged_passed :: "reduce_record list \<Rightarrow> bool" where
  "staged_passed records \<longleftrightarrow> ranks_passed 2 rp_passed records \<and> list_all (\<lambda>r. list_all rp_correct (rp_results r)) records"

definition staged_launch :: "'w extern \<Rightarrow> (int \<Rightarrow> reduce_record) \<Rightarrow> int list \<Rightarrow> ('w world, reduce_record list \<times> int) io" where
  "staged_launch env unpickle sizes =
     io_bind (unused_local_port env) (\<lambda>port.
     launch env unpickle rp_rank staged_passed (120 + 30) 5 (py_str port # map py_str sizes) 2)"

section \<open>The RCCL communicator on tensors\<close>

record tensor_record =
  tn_rank :: int
  tn_dtypes :: "(dtype \<times> bool) list option"
  tn_passed :: bool
  tn_error :: "exn option"
  tn_destroy_error :: "exn option"

definition start_tensor :: "int \<Rightarrow> (rccl, tensor_record) probe_rank" where
  "start_tensor rank = \<lparr>pr_comm = None, pr_record = \<lparr>tn_rank = rank, tn_dtypes = None, tn_passed = False, tn_error = None,
     tn_destroy_error = None\<rparr>\<rparr>"

text \<open>The inputs: \<open>arange(1, 5).reshape(2, 2).add_(rank * 4).to(dtype)\<close>, a filled matrix, and a row.\<close>

definition matrix_at :: "torch_api \<Rightarrow> nat list \<Rightarrow> dtype \<Rightarrow> device \<Rightarrow> int \<Rightarrow> tensor" where
  "matrix_at T shape d dev p = contiguous_on T \<lparr>t_shape = shape, t_stride = [], t_dtype = d, t_device = dev, t_ptr = 0\<rparr> p"

definition gather_matrix :: "'w extern \<Rightarrow> torch_api \<Rightarrow> int \<Rightarrow> dtype \<Rightarrow> ('w world, tensor) io" where
  "gather_matrix env T rank d =
     io_bind (call_ext env (Torch ''arange'' (PyInt 1 # PyInt 5 # device_args (cuda rank)))) (\<lambda>(p, _).
     io_then (torch_do env ''add_'' [PyInt p, PyInt (rank * 4)])
    (io_bind (call_ext env (Torch ''to'' [PyInt p, PyStr (dtype_text d)])) (\<lambda>(q, _). io_return (matrix_at T [2, 2] d (cuda rank) q))))"

definition filled_matrix :: "'w extern \<Rightarrow> torch_api \<Rightarrow> nat \<Rightarrow> nat \<Rightarrow> string \<Rightarrow> dtype \<Rightarrow> device \<Rightarrow> ('w world, tensor) io" where
  "filled_matrix env T m n v d dev =
     io_bind (call_ext env (Torch ''full'' (PyInt (int m) # PyInt (int n) # PyStr v # device_args dev))) (\<lambda>(p, _).
     io_return (matrix_at T [m, n] d dev p))"

definition row_matrix :: "'w extern \<Rightarrow> torch_api \<Rightarrow> string list \<Rightarrow> dtype \<Rightarrow> device \<Rightarrow> ('w world, tensor) io" where
  "row_matrix env T values d dev =
     io_bind (call_ext env (Torch ''tensor'' (map PyStr values @ device_args dev))) (\<lambda>(p, _).
     io_return (matrix_at T [1, length values] d dev p))"

definition tensor_collectives ::
  "'w extern \<Rightarrow> torch_api \<Rightarrow> int \<Rightarrow> dtype \<Rightarrow> ('w, (rccl, tensor_record) probe_rank, tensor \<times> tensor \<times> tensor \<times> tensor) meth" where
  "tensor_collectives env T rank d =
     io_bind (on_world (full env T 4096 (float_text (rank + 1)) d (cuda rank))) (\<lambda>value.
     io_bind (using_comm (rccl_all_reduce env T value)) (\<lambda>reduced.
     io_bind (on_world (gather_matrix env T rank d)) (\<lambda>gather_input.
     io_bind (using_comm (rccl_all_gather env T gather_input (- 1))) (\<lambda>gathered.
     io_bind (on_world (filled_matrix env T 2 4 (float_text (rank + 1)) d (cuda rank))) (\<lambda>scatter_input.
     io_bind (using_comm (rccl_reduce_scatter env T scatter_input (- 1))) (\<lambda>scattered.
     io_bind (on_world (row_matrix env T (if rank = 0 then [''7.0'', ''8.0''] else [''-1.0'', ''-1.0'']) d (cuda rank))) (\<lambda>broadcast_input.
     io_bind (using_comm (rccl_broadcast env T broadcast_input 0)) (\<lambda>broadcast.
     io_return (reduced, gathered, scattered, broadcast)))))))))"

definition tensor_case :: "'w extern \<Rightarrow> torch_api \<Rightarrow> int \<Rightarrow> int \<Rightarrow> dtype \<Rightarrow> ('w, (rccl, tensor_record) probe_rank, dtype \<times> bool) meth" where
  "tensor_case env T rank stream d =
     io_bind (on_stream env stream (tensor_collectives env T rank d)) (\<lambda>(reduced, gathered, scattered, broadcast).
     io_then (on_world (torch_do env ''stream_synchronize'' [PyInt stream]))
    (io_bind (on_world (all_equal env reduced ''3'')) (\<lambda>reduced_ok.
     io_bind (on_world (show_value env [''float'', ''cpu''] ''tolist'' (t_ptr gathered))) (\<lambda>gathered_values.
     io_bind (on_world (show_value env [''float'', ''cpu''] ''tolist'' (t_ptr scattered))) (\<lambda>scattered_values.
     io_bind (on_world (show_value env [''float'', ''cpu''] ''tolist'' (t_ptr broadcast))) (\<lambda>broadcast_values.
     io_return (d, reduced_ok \<and> gathered_values = ''[[1.0, 2.0, 5.0, 6.0], [3.0, 4.0, 7.0, 8.0]]'' \<and>
       scattered_values = ''[[3.0, 3.0], [3.0, 3.0]]'' \<and> broadcast_values = ''[[7.0, 8.0]]'')))))))"

definition tensor_body :: "'w extern \<Rightarrow> torch_api \<Rightarrow> pyenv \<Rightarrow> int \<Rightarrow> int \<Rightarrow> ('w, (rccl, tensor_record) probe_rank, unit) meth" where
  "tensor_body env T pe rank port =
     io_then (on_world (torch_do env ''set_device'' [PyInt rank]))
    (io_then (on_world (start_group env port rank 2 90))
    (io_bind (construct (rccl_init env T pe None (DeviceIndex rank)) blank_rccl) (\<lambda>communicator.
     io_then (update_self (\<lambda>s. s\<lparr>pr_comm := Some communicator\<rparr>))
    (io_bind (on_world (new_stream env (cuda rank))) (\<lambda>stream.
     io_bind (io_list (tensor_case env T rank stream) [Float16, Float32, BFloat16]) (\<lambda>dtype_results.
     update_self (\<lambda>s. s\<lparr>pr_record := (pr_record s)\<lparr>tn_dtypes := Some dtype_results, tn_passed := list_all snd dtype_results\<rparr>\<rparr>)))))))"

definition tensor_failed :: "exn \<Rightarrow> ('w, (rccl, tensor_record) probe_rank, unit) meth" where
  "tensor_failed e = update_self (\<lambda>s. s\<lparr>pr_record := (pr_record s)\<lparr>tn_passed := False, tn_error := Some e\<rparr>\<rparr>)"

definition tensor_end :: "'w extern \<Rightarrow> ('w, (rccl, tensor_record) probe_rank, unit) meth" where
  "tensor_end env =
     io_bind self (\<lambda>s.
     io_then (if pr_comm s = None then io_return () else note_failure (using_comm (rccl_destroy env))
       (\<lambda>e s. s\<lparr>pr_record := (pr_record s)\<lparr>tn_destroy_error := Some e, tn_passed := False\<rparr>\<rparr>))
     (on_world (end_group env)))"

definition tensor_main :: "'w extern \<Rightarrow> torch_api \<Rightarrow> pyenv \<Rightarrow> int \<Rightarrow> int \<Rightarrow> ('w world, tensor_record) io" where
  "tensor_main env T pe rank port =
     report_of (io_finally (io_catch (tensor_body env T pe rank port) tensor_failed) (tensor_end env)) (start_tensor rank) pr_record"

definition tensor_launch :: "'w extern \<Rightarrow> (int \<Rightarrow> tensor_record) \<Rightarrow> ('w world, tensor_record list \<times> int) io" where
  "tensor_launch env unpickle =
     io_bind (unused_local_port env) (\<lambda>port.
     launch env unpickle tn_rank (ranks_passed 2 tn_passed) (90 + 15) 5 [py_str port] 2)"

section \<open>What a passing report says\<close>

text \<open>A report that passed has one case for every entry of the table, in its order, and every case was correct.\<close>

abbreviation case_key :: "reduce_case \<Rightarrow> dtype \<times> int" where
  "case_key c \<equiv> (rp_dtype c, rp_bytes c)"

definition covers :: "(dtype \<times> int) list \<Rightarrow> reduce_record \<Rightarrow> bool" where
  "covers xs r \<longleftrightarrow> (rp_passed r \<longrightarrow> map case_key (rp_results r) = xs \<and> list_all rp_correct (rp_results r))"

lemma record_kept [object_kept]: "keeps_object (\<lambda>s. P (pr_record s)) (using_comm m)"
  unfolding using_comm_def by (intro object_kept) simp

lemma again_kept [object_kept]: "keeps_object P m \<Longrightarrow> keeps_object P (reduce_again n m x)"
  by (induction n arbitrary: x) (auto intro: object_kept)

lemma record_bind:
  "keeps_object (\<lambda>s. pr_record s = R) m \<Longrightarrow> pr_record (snd u) = R \<Longrightarrow>
     (\<And>x v. pr_record (snd v) = R \<Longrightarrow> io_post (f x) Q (\<lambda>_ _. True) v) \<Longrightarrow> io_post (io_bind m f) Q (\<lambda>_ _. True) u"
  "keeps_object (\<lambda>s. pr_record s = R) k \<Longrightarrow> pr_record (snd u) = R \<Longrightarrow>
     (\<And>v. pr_record (snd v) = R \<Longrightarrow> io_post n Q (\<lambda>_ _. True) v) \<Longrightarrow> io_post (io_then k n) Q (\<lambda>_ _. True) u"
  unfolding wp by (erule object_kept_post; auto)+

definition adds_case :: "('w, ('c, reduce_record) probe_rank, unit) meth \<Rightarrow> dtype \<times> int \<Rightarrow> bool" where
  "adds_case m x \<longleftrightarrow> (\<forall>u. io_post m (\<lambda>_ v. \<exists>c. case_key c = x \<and>
     pr_record (snd v) = (pr_record (snd u))\<lparr>rp_results := rp_results (pr_record (snd u)) @ [c]\<rparr>) (\<lambda>_ _. True) u)"

lemma note_adds:
  "case_key c = x \<Longrightarrow> pr_record (snd u) = R \<Longrightarrow> io_post (note_result c) (\<lambda>_ v. \<exists>c. case_key c = x \<and>
     pr_record (snd v) = R\<lparr>rp_results := rp_results R @ [c]\<rparr>) (\<lambda>_ _. True) u"
  unfolding note_result_def wp by auto

lemma adds_caseI:
  "(\<And>u R. pr_record (snd u) = R \<Longrightarrow> io_post m (\<lambda>_ v. \<exists>c. case_key c = x \<and> pr_record (snd v) = R\<lparr>rp_results := rp_results R @ [c]\<rparr>)
     (\<lambda>_ _. True) u) \<Longrightarrow> adds_case m x"
  by (simp add: adds_case_def)

lemma d3d12_case_adds: "adds_case (d3d12_case env T rank test_stream (d, n)) (d, n)"
  unfolding d3d12_case_def Let_def prod.case
proof (rule adds_caseI, goal_cases)
  case (1 u R)
  note steps = record_bind [where R = R] record_kept [where P = "\<lambda>r. r = R"] object_kept note_adds [where R = R] 1
  show ?case by (intro steps | simp | assumption)+
qed

lemma table_covered:
  fixes u :: "'w world \<times> ('c, reduce_record) probe_rank"
  assumes "\<And>x. adds_case (f x) x"
  shows "io_post (io_each f xs) (\<lambda>_ v. \<exists>cs. map case_key cs = xs \<and>
     pr_record (snd v) = (pr_record (snd u))\<lparr>rp_results := rp_results (pr_record (snd u)) @ cs\<rparr>) (\<lambda>_ _. True) u"
proof (induction xs arbitrary: u)
  case Nil
  show ?case by (simp add: wp)
next
  case (Cons x xs)
  show ?case
    unfolding io_each.simps wp
  proof (rule io_post_mono [OF assms [unfolded adds_case_def, rule_format]])
    fix y and v :: "'w world \<times> ('c, reduce_record) probe_rank"
    assume "\<exists>c. case_key c = x \<and> pr_record (snd v) = (pr_record (snd u))\<lparr>rp_results := rp_results (pr_record (snd u)) @ [c]\<rparr>"
    then obtain c where c: "case_key c = x" "pr_record (snd v) = (pr_record (snd u))\<lparr>rp_results := rp_results (pr_record (snd u)) @ [c]\<rparr>"
      by blast
    show "io_post (io_each f xs) (\<lambda>_ v. \<exists>cs. map case_key cs = x # xs \<and>
        pr_record (snd v) = (pr_record (snd u))\<lparr>rp_results := rp_results (pr_record (snd u)) @ cs\<rparr>) (\<lambda>_ _. True) v"
    proof (rule io_post_mono [OF Cons.IH])
      fix z and t :: "'w world \<times> ('c, reduce_record) probe_rank"
      assume "\<exists>cs. map case_key cs = xs \<and> pr_record (snd t) = (pr_record (snd v))\<lparr>rp_results := rp_results (pr_record (snd v)) @ cs\<rparr>"
      then obtain cs where "map case_key cs = xs"
        "pr_record (snd t) = (pr_record (snd v))\<lparr>rp_results := rp_results (pr_record (snd v)) @ cs\<rparr>"
        by blast
      then show "\<exists>cs. map case_key cs = x # xs \<and>
          pr_record (snd t) = (pr_record (snd u))\<lparr>rp_results := rp_results (pr_record (snd u)) @ cs\<rparr>"
        by (intro exI [of _ "c # cs"]) (simp add: c)
    qed simp
  qed simp
qed

lemma report_covers:
  assumes "\<And>v. io_post body (\<lambda>_ u. covers xs (pr_record (snd u))) (\<lambda>_ _. True) (v, start_probe rank)"
  shows "io_post (report_of (io_finally (io_catch body probe_failed) (probe_end env destroy)) (start_probe rank) pr_record)
     (\<lambda>r _. covers xs r) (\<lambda>_ _. True) w"
proof -
  have ending: "keeps_object (\<lambda>s. covers xs (pr_record s)) (probe_end env destroy)"
    unfolding probe_end_def note_failure_def by (intro object_kept) (auto simp: covers_def)
  have final: "io_post (probe_end env destroy) (\<lambda>_ u. covers xs (pr_record (snd u))) (\<lambda>_ _. True) u"
    if "covers xs (pr_record (snd u))" for u
    by (rule object_kept_post [OF ending that]) auto
  show ?thesis
    unfolding wp probe_failed_def
  proof (rule io_post_mono [OF assms])
    fix e and t :: "'a world \<times> ('b, reduce_record) probe_rank"
    show "io_post (probe_end env destroy) (\<lambda>_ u. covers xs (pr_record (snd u))) (\<lambda>_ _. True)
        (fst t, (snd t)\<lparr>pr_record := (pr_record (snd t))\<lparr>rp_passed := False, rp_error := Some e\<rparr>\<rparr>)"
      by (rule final) (simp add: covers_def)
  qed (rule final)
qed

text \<open>The tables of the D3D12 probe and of the benchmark of the mapped-host communicator; the other steps of a rank do not touch
the record.\<close>

lemma table_judged:
  assumes "\<And>x. adds_case (f x) x" and "\<And>r. rp_passed (judgement r) \<longrightarrow> list_all rp_correct (rp_results r)"
    and "\<And>r. rp_results (judgement r) = rp_results r" and "rp_results (pr_record (snd u)) = []"
  shows "io_post (io_then (io_each f xs) (update_self (\<lambda>s. s\<lparr>pr_record := judgement (pr_record s)\<rparr>)))
     (\<lambda>_ u. covers xs (pr_record (snd u))) (\<lambda>_ _. True) u"
  unfolding wp
proof (rule io_post_mono [OF table_covered [OF assms(1)]])
  fix y t
  assume "\<exists>cs. map case_key cs = xs \<and> pr_record (snd t) = (pr_record (snd u))\<lparr>rp_results := rp_results (pr_record (snd u)) @ cs\<rparr>"
  then show "covers xs (pr_record (snd (fst t, (snd t)\<lparr>pr_record := judgement (pr_record (snd t))\<rparr>)))"
    using assms(2) [of "pr_record (snd t)"] assms(3,4) by (auto simp: covers_def)
qed simp

lemma construct_kept [object_kept]: "keeps_object P (construct m blank)"
  unfolding construct_def by (rule object_kept_world)

lemma d3d12_report_complete:
  fixes env :: "'w extern"
  shows "io_post (d3d12_probe_main env T pe rank port) (\<lambda>r _. covers (List.product PROBE_DTYPES PROBE_SIZES) r) (\<lambda>_ _. True) w"
  unfolding d3d12_probe_main_def
proof (rule report_covers)
  fix v :: "'w world"
  let ?u = "(v, start_probe rank) :: 'w world \<times> (d3d12_ar, reduce_record) probe_rank"
  define R where "R = pr_record (snd ?u)"
  have u: "pr_record (snd ?u) = R" and start: "rp_results R = []"
    by (simp_all add: R_def start_probe_def)
  have case_adds: "\<And>st x. adds_case (d3d12_case env T rank st x) x"
    using d3d12_case_adds by (metis surj_pair)
  show "io_post (d3d12_probe_body env T pe rank port) (\<lambda>_ u. covers (List.product PROBE_DTYPES PROBE_SIZES) (pr_record (snd u)))
      (\<lambda>_ _. True) ?u"
    unfolding d3d12_probe_body_def
    by (rule record_bind(2) [where R = R, OF _ u], intro object_kept)
      (intro record_bind [where R = R] record_kept [where P = "\<lambda>r. r = R"] object_kept table_judged case_adds | simp add: start | assumption)+
qed

end
