(* ===== verification/Platform_Config.thy ===== *)
theory Platform_Config
  imports Runtime_Paths
begin

text \<open>
  What vLLM sees before a communicator exists: the plugin entry point (\<open>platform_plugin.py\<close>), the platform
  with its validation of the parallel configuration (\<open>platform.py\<close>), and the lazily imported exports of
  the package (\<open>__init__.py\<close>). The inherited check of vLLM and the import system are arguments.
\<close>

section \<open>The plugin\<close>

definition platform_name :: string where
  "platform_name = ''windows_amd_vllm_multigpu.platform.WindowsAmdMultiGpuPlatform''"

text \<open>\<open>import torch\<close> gives the HIP version of the build, or raises.\<close>

definition windows_amd_platform_plugin ::
  "pyenv \<Rightarrow> string \<Rightarrow> exn + string option \<Rightarrow> exn + string option" where
  "windows_amd_platform_plugin pe sys_platform import_torch =
     (let enabled = py_lower (case getenv pe ''WAVMG_ENABLE'' of None \<Rightarrow> [] | Some v \<Rightarrow> v) in
      if enabled \<notin> set truthy_words \<or> sys_platform \<noteq> ''win32'' then Inr None
      else (case import_torch of
          Inl (Exn k m) \<Rightarrow> if k = ImportError then Inr None else Inl (Exn k m)
        | Inr hip \<Rightarrow> if hip = None then Inr None else Inr (Some platform_name)))"

section \<open>The platform\<close>

text \<open>\<open>None\<close> stands for an attribute the configuration does not have.\<close>

record parallel_config =
  tensor_parallel_size :: int
  pipeline_parallel_size :: int
  data_parallel_size :: "int option"
  decode_context_parallel_size :: "int option"
  prefill_context_parallel_size :: "int option"
  enable_expert_parallel :: "bool option"
  use_all2all :: "bool option"

definition getattr :: "'a option \<Rightarrow> 'a \<Rightarrow> 'a" where
  "getattr x d = (case x of None \<Rightarrow> d | Some y \<Rightarrow> y)"

definition env_enabled :: "pyenv \<Rightarrow> string \<Rightarrow> bool" where
  "env_enabled pe name \<longleftrightarrow>
     py_lower (py_strip (case getenv pe name of None \<Rightarrow> [] | Some v \<Rightarrow> v)) \<in> set truthy_words"

definition dist_backend :: string where "dist_backend = ''gloo''"

definition get_device_communicator_cls :: string where
  "get_device_communicator_cls = ''windows_amd_vllm_multigpu.vllm_communicator.WindowsAmdMultiGpuCommunicator''"

definition use_custom_allreduce :: bool where "use_custom_allreduce = False"
definition use_custom_op_collectives :: bool where "use_custom_op_collectives = True"
definition support_static_graph_mode :: bool where "support_static_graph_mode = False"

definition unsupported_modes :: "parallel_config \<Rightarrow> (string \<times> int) list" where
  "unsupported_modes c = filter (\<lambda>(_, v). v \<noteq> 1)
     [(''data_parallel_size'', getattr (data_parallel_size c) 1),
      (''decode_context_parallel_size'', getattr (decode_context_parallel_size c) 1),
      (''prefill_context_parallel_size'', getattr (prefill_context_parallel_size c) 1)]"

definition EP_MESSAGE :: string where
  "EP_MESSAGE = ''TP-local expert parallelism is experimental; set WAVMG_ALLOW_TP_EXPERT_PARALLEL=1 to enable TP=2 EP without all-to-all''"

definition check_and_update_config ::
  "(parallel_config \<Rightarrow> exn + parallel_config) \<Rightarrow> pyenv \<Rightarrow> parallel_config \<Rightarrow> exn + parallel_config" where
  "check_and_update_config base_check pe c =
     (case base_check c of
        Inl e \<Rightarrow> Inl e
      | Inr c \<Rightarrow>
          (let tp = tensor_parallel_size c; pp = pipeline_parallel_size c in
           if tp \<notin> {1, 2}
             then Inl (Exn ValueError ''Windows AMD transport currently supports TP=1 or TP=2'')
           else if pp \<noteq> 1
             then Inl (Exn ValueError ''pipeline parallelism needs the version-pinned vLLM broadcast patch'')
           else if unsupported_modes c \<noteq> []
             then Inl (Exn ValueError ''unsupported Windows AMD parallel modes'')
           else if getattr (enable_expert_parallel c) False then
             (if getattr (use_all2all c) False
                then Inl (Exn ValueError ''expert-parallel all-to-all is not implemented'')
              else if tp \<noteq> 2 \<or> \<not> env_enabled pe ''WAVMG_ALLOW_TP_EXPERT_PARALLEL''
                then Inl (Exn ValueError EP_MESSAGE)
              else Inr c)
           else Inr c))"

section \<open>The lazy exports\<close>

definition all_exports :: "string list" where
  "all_exports = [''D3D12AllReduce'', ''D3D12TensorBridge'', ''HostStagedGloo'', ''SharedMemoryAllReduce'',
     ''Win32PairBarrier'']"

definition exports_table :: "(string \<times> string \<times> string) list" where
  "exports_table =
    [(''D3D12AllReduce'', ''.d3d12_all_reduce'', ''D3D12AllReduce''),
     (''D3D12TensorBridge'', ''.d3d12_transfer'', ''D3D12TensorBridge''),
     (''HostStagedGloo'', ''.host_staged'', ''HostStagedGloo''),
     (''SharedMemoryAllReduce'', ''.shared_memory_all_reduce'', ''SharedMemoryAllReduce''),
     (''Win32PairBarrier'', ''.win32_barrier'', ''Win32PairBarrier'')]"

text \<open>The module's dictionary is a map; importing an attribute of a submodule is the argument \<open>load\<close>.\<close>

definition module_getattr ::
  "(string \<Rightarrow> string \<Rightarrow> exn + 'v) \<Rightarrow> string \<Rightarrow> (string \<rightharpoonup> 'v, 'v) io" where
  "module_getattr load name =
     (case map_of exports_table name of
        None \<Rightarrow> io_raise AttributeError name
      | Some (module, attribute) \<Rightarrow>
          io_bind (io_of_sum (load module attribute)) (\<lambda>v.
          io_then (io_modify (\<lambda>globals. globals(name \<mapsto> v)))
          (io_return v)))"

text \<open>Python calls \<open>__getattr__\<close> only for names that are not in the dictionary.\<close>

definition module_attribute ::
  "(string \<Rightarrow> string \<Rightarrow> exn + 'v) \<Rightarrow> string \<Rightarrow> (string \<rightharpoonup> 'v, 'v) io" where
  "module_attribute load name =
     io_bind io_get (\<lambda>globals. case globals name of Some v \<Rightarrow> io_return v | None \<Rightarrow> module_getattr load name)"

section \<open>Facts\<close>

text \<open>The configurations the transport supports, stated without the order of the checks.\<close>

definition supported_config :: "pyenv \<Rightarrow> parallel_config \<Rightarrow> bool" where
  "supported_config pe c \<longleftrightarrow>
     (tensor_parallel_size c = 1 \<or> tensor_parallel_size c = 2) \<and> pipeline_parallel_size c = 1 \<and>
     (\<forall>n\<in>{data_parallel_size c, decode_context_parallel_size c, prefill_context_parallel_size c}. n = None \<or> n = Some 1) \<and>
     (enable_expert_parallel c = Some True \<longrightarrow> use_all2all c \<noteq> Some True \<and> tensor_parallel_size c = 2 \<and>
        env_enabled pe ''WAVMG_ALLOW_TP_EXPERT_PARALLEL'')"

text \<open>C24: the validation accepts exactly the supported configurations: it returns the configuration that vLLM's own
  check produced if that is supported, and otherwise raises, \<open>ValueError\<close> unless vLLM's check itself
  raised.\<close>

theorem config_validation_exact:
  "(check_and_update_config base_check pe c = Inr c' \<longleftrightarrow> base_check c = Inr c' \<and> supported_config pe c') \<and>
   (check_and_update_config base_check pe c = Inl e \<longrightarrow> base_check c = Inl e \<or>
      (\<exists>c'. base_check c = Inr c' \<and> \<not> supported_config pe c' \<and> exn_kind_of e = ValueError))"
proof (cases "base_check c")
  case (Inl x)
  then show ?thesis by (simp add: check_and_update_config_def)
next
  case (Inr d)
  have modes: "unsupported_modes d = [] \<longleftrightarrow>
      (\<forall>n\<in>{data_parallel_size d, decode_context_parallel_size d, prefill_context_parallel_size d}. n = None \<or> n = Some 1)"
    by (auto simp: unsupported_modes_def getattr_def split: option.splits)
  have flag: "getattr b False \<longleftrightarrow> b = Some True" for b
    by (cases b) (simp_all add: getattr_def)
  have yes: "check_and_update_config base_check pe c = Inr d" if "supported_config pe d"
    using that by (auto simp: check_and_update_config_def Inr Let_def supported_config_def modes flag)
  have no: "\<exists>m. check_and_update_config base_check pe c = Inl (Exn ValueError m)" if "\<not> supported_config pe d"
    using that unfolding check_and_update_config_def Inr supported_config_def modes [symmetric] flag Let_def sum.case
    by (cases "unsupported_modes d = []"; cases "enable_expert_parallel d = Some True"; cases "use_all2all d = Some True";
        cases "tensor_parallel_size d = 2"; cases "pipeline_parallel_size d = 1") simp_all
  show ?thesis
    using yes no by (cases "supported_config pe d") (auto simp: Inr)
qed

definition sample_parallel :: parallel_config where
  "sample_parallel = \<lparr>tensor_parallel_size = 2, pipeline_parallel_size = 1, data_parallel_size = Some 2,
     decode_context_parallel_size = None, prefill_context_parallel_size = Some 1, enable_expert_parallel = None,
     use_all2all = None\<rparr>"

lemma config_validation_exact_witness:
  "\<exists>e. check_and_update_config Inr sample_env sample_parallel = Inl e \<and> exn_kind_of e = ValueError"
proof -
  have "case check_and_update_config Inr sample_env sample_parallel of Inl e \<Rightarrow> True | Inr c \<Rightarrow> False"
    by code_simp
  then obtain e where "check_and_update_config Inr sample_env sample_parallel = Inl e"
    by (auto split: sum.splits)
  with config_validation_exact [of Inr sample_env sample_parallel sample_parallel e] show ?thesis by auto
qed

text \<open>The lazy exports: the table covers exactly the public names; any other name raises \<open>AttributeError\<close> with
  nothing imported and the dictionary unchanged; a public name is imported at its first use, and from then
  on comes from the dictionary, whatever an import would now do.\<close>

lemma exports_imported_once:
  "set (map fst exports_table) = set all_exports \<and>
   (name \<notin> set all_exports \<and> globals name = None \<longrightarrow>
      module_attribute load name globals = (Inl (Exn AttributeError name), globals)) \<and>
   (module_attribute load name globals = (Inr v, globals') \<longrightarrow>
      globals' = globals(name \<mapsto> v) \<and> (\<forall>load'. module_attribute load' name globals' = (Inr v, globals')))"
proof -
  have names: "set (map fst exports_table) = set all_exports" by (simp add: exports_table_def all_exports_def)
  have missing: "map_of exports_table name = None" if "name \<notin> set all_exports"
    using that names by (auto simp: map_of_eq_None_iff)
  have hit: "globals' = globals(name \<mapsto> v) \<and> (\<forall>load'. module_attribute load' name globals' = (Inr v, globals'))"
    if "module_attribute load name globals = (Inr v, globals')"
    using that
    by (cases "globals name"; cases "map_of exports_table name")
       (auto simp: module_attribute_def module_getattr_def io_bind_def io_get_def io_of_sum_def io_then_def
          io_modify_def io_return_def io_raise_def fun_upd_idem split: sum.splits)
  show ?thesis
    using names missing hit
    by (auto simp: module_attribute_def module_getattr_def io_bind_def io_get_def io_raise_def)
qed

lemma exports_imported_once_witness:
  "\<exists>g. module_attribute (\<lambda>m a. Inr a) ''HostStagedGloo'' Map.empty = (Inr ''HostStagedGloo'', g) \<and>
     module_attribute (\<lambda>m a. Inl (Exn ImportError m)) ''HostStagedGloo'' g = (Inr ''HostStagedGloo'', g)"
proof -
  have "module_attribute (\<lambda>m a. Inr a) ''HostStagedGloo'' Map.empty =
      (Inr ''HostStagedGloo'', [''HostStagedGloo'' \<mapsto> ''HostStagedGloo''])"
    by (simp add: module_attribute_def module_getattr_def exports_table_def io_bind_def io_get_def io_of_sum_def
        io_then_def io_modify_def io_return_def)
  with exports_imported_once [of "''HostStagedGloo''" Map.empty "\<lambda>m a. Inr a" "''HostStagedGloo''"
      "[''HostStagedGloo'' \<mapsto> ''HostStagedGloo'']"]
  show ?thesis by (intro exI conjI) (assumption, simp del: set_map)
qed

text \<open>The two ways of reading a switch differ: the platform strips blanks, the plugin and the transports do not, so
  the same value can enable one and not the other.\<close>

lemma switches_differ:
  assumes "getenv pe ''WAVMG_ENABLE'' = Some '' 1''" and "getenv pe ''WAVMG_ALLOW_TP_EXPERT_PARALLEL'' = Some '' 1''"
  shows "env_enabled pe ''WAVMG_ALLOW_TP_EXPERT_PARALLEL''"
    and "windows_amd_platform_plugin pe ''win32'' t = Inr None"
proof -
  have 1: "py_lower (py_strip '' 1'') \<in> set truthy_words" by code_simp
  have 2: "py_lower '' 1'' \<notin> set truthy_words" by code_simp
  from 1 2 show "env_enabled pe ''WAVMG_ALLOW_TP_EXPERT_PARALLEL''"
    and "windows_amd_platform_plugin pe ''win32'' t = Inr None"
    using assms by (simp_all add: env_enabled_def windows_amd_platform_plugin_def)
qed

end
