(* ===== verification/Config_Probe.thy ===== *)
theory Config_Probe
  imports Platform_Config
begin

text \<open>
  \<open>probes/platform_config_probe.py\<close>: the repository's own check of the configuration gates, run on the model. The state is
  the process environment, of which the probe changes one variable; vLLM's inherited check is patched to accept everything.
\<close>

definition probe_parallel :: "int \<Rightarrow> bool \<Rightarrow> parallel_config" where
  "probe_parallel tp all2all = \<lparr>tensor_parallel_size = tp, pipeline_parallel_size = 1, data_parallel_size = Some 1,
     decode_context_parallel_size = Some 1, prefill_context_parallel_size = Some 1, enable_expert_parallel = Some True,
     use_all2all = Some all2all\<rparr>"

definition EP_SWITCH :: string where
  "EP_SWITCH = ''WAVMG_ALLOW_TP_EXPERT_PARALLEL''"

text \<open>\<open>os.environ[name] = value\<close> and \<open>os.environ.pop(name, None)\<close>.\<close>

definition set_variable :: "string \<Rightarrow> string option \<Rightarrow> (pyenv, unit) io" where
  "set_variable name v = io_modify (\<lambda>pe. pe\<lparr>getenv := (getenv pe)(name := v)\<rparr>)"

definition py_in :: "string \<Rightarrow> string \<Rightarrow> bool" where
  "py_in sub s \<longleftrightarrow> list_ex (\<lambda>i. take (length sub) (drop i s) = sub) [0..<Suc (length s)]"

definition patched_check :: "parallel_config \<Rightarrow> (pyenv, exn + parallel_config) io" where
  "patched_check c = io_bind io_get (\<lambda>pe. io_return (check_and_update_config Inr pe c))"

definition expect_rejection :: "parallel_config \<Rightarrow> string \<Rightarrow> (pyenv, unit) io" where
  "expect_rejection c wanted =
     io_bind (patched_check c) (\<lambda>r. case r of
       Inr _ \<Rightarrow> io_raise AssertionError (''expected rejection containing '' @ wanted)
     | Inl (Exn k message) \<Rightarrow>
         if k \<noteq> ValueError then io_raise k message
         else if py_in wanted message then io_return () else io_raise AssertionError message)"

definition config_probe_main :: "(pyenv, int) io" where
  "config_probe_main =
     io_then (set_variable EP_SWITCH None)
    (io_then (expect_rejection (probe_parallel 2 False) ''experimental'')
    (io_then (set_variable EP_SWITCH (Some ''1''))
    (io_bind (patched_check (probe_parallel 2 False)) (\<lambda>r.
     io_bind (io_of_sum r) (\<lambda>_.
     io_then (expect_rejection (probe_parallel 2 True) ''all-to-all'')
    (io_then (expect_rejection (probe_parallel 1 False) ''experimental'')
    (io_return 0)))))))"

text \<open>The probe passes from every environment, whatever the switch was, and leaves the switch on.\<close>

lemma env_enabled_set:
  "env_enabled (pe\<lparr>getenv := (getenv pe)(EP_SWITCH := v)\<rparr>) ''WAVMG_ALLOW_TP_EXPERT_PARALLEL'' \<longleftrightarrow>
     py_lower (py_strip (case v of None \<Rightarrow> [] | Some t \<Rightarrow> t)) \<in> set truthy_words"
  by (simp add: env_enabled_def EP_SWITCH_def)

lemma switch_words: "py_lower (py_strip ''1'') \<in> set truthy_words" "py_lower (py_strip []) \<notin> set truthy_words"
  by code_simp+

lemma gate_messages: "py_in ''experimental'' EP_MESSAGE" "py_in ''all-to-all'' ''expert-parallel all-to-all is not implemented''"
  unfolding EP_MESSAGE_def by code_simp+

lemma probe_modes: "unsupported_modes (probe_parallel tp all2all) = []"
  by (simp add: unsupported_modes_def probe_parallel_def getattr_def)

lemma probe_check:
  "check_and_update_config Inr pe (probe_parallel 2 True) = Inl (Exn ValueError ''expert-parallel all-to-all is not implemented'')"
  "check_and_update_config Inr pe (probe_parallel 1 False) = Inl (Exn ValueError EP_MESSAGE)"
  "check_and_update_config Inr pe (probe_parallel 2 False) =
     (if env_enabled pe ''WAVMG_ALLOW_TP_EXPERT_PARALLEL'' then Inr (probe_parallel 2 False) else Inl (Exn ValueError EP_MESSAGE))"
  using probe_modes [of 2 True] probe_modes [of 1 False] probe_modes [of 2 False]
  by (simp_all add: check_and_update_config_def Let_def probe_parallel_def getattr_def)

lemma config_probe_passes:
  "config_probe_main pe = (Inr 0, pe\<lparr>getenv := (getenv pe)(EP_SWITCH \<mapsto> ''1'')\<rparr>)"
  by (simp add: config_probe_main_def expect_rejection_def patched_check_def set_variable_def io_then_bind io_bind_def io_get_def
    io_modify_def io_return_def io_of_sum_def probe_check env_enabled_set switch_words gate_messages)

end
