(* ===== verification/D3d12_Link.thy ===== *)
theory D3d12_Link
  imports D3d12_All_Reduce D3d12_Protocol
begin

text \<open>
  From the host code to the stream protocol: a native call, read with the two buffers of the
  communicator, is a list of stream commands. A copy into the own heap stores the payload, a signal
  and a wait name the rank whose fence they use, an add kernel reads the heap its pointer names. The
  calls that enqueue nothing (the device selection, the allocation) have no commands.
\<close>

definition heap_rank :: "d3d12_buffer \<Rightarrow> nat \<Rightarrow> u64 \<Rightarrow> nat" where
  "heap_rank own rank p = (if p = word_of_int (buf_pointer own) then rank else 1 - rank)"

definition fence_rank :: "d3d12_buffer \<Rightarrow> nat \<Rightarrow> u64 \<Rightarrow> nat" where
  "fence_rank own rank c = (if c = context_word (buf_context own) then rank else 1 - rank)"

definition stream_commands :: "d3d12_buffer \<Rightarrow> nat \<Rightarrow> 'a \<Rightarrow> ecall \<Rightarrow> 'a cmd list" where
  "stream_commands own rank x c =
     (case c of
        Native fn vs \<Rightarrow>
          (if fn = ''wavmg_copy_async'' then
             (case vs of [_, VPtr dst, _, _] \<Rightarrow>
                [StoreBegin (heap_rank own rank dst), StoreEnd (heap_rank own rank dst) x] | _ \<Rightarrow> [])
           else if fn = ''wavmg_d3d12_signal'' then
             (case vs of [VPtr c, VU64 v, _] \<Rightarrow> [Signal (fence_rank own rank c) (unat v)] | _ \<Rightarrow> [])
           else if fn = ''wavmg_d3d12_wait'' then
             (case vs of [VPtr c, VU64 v, _] \<Rightarrow> [WaitGe (fence_rank own rank c) (unat v)] | _ \<Rightarrow> [])
           else if fn \<in> {''wavmg_add_f32_async'', ''wavmg_add_f16_async'', ''wavmg_add_bf16_async''} then
             (case vs of [_, VPtr src, _, _, _] \<Rightarrow> [ReadBegin (heap_rank own rank src), AddEnd x] | _ \<Rightarrow> [])
           else [])
      | _ \<Rightarrow> [])"

text \<open>The two buffers are different objects of the native side.\<close>

definition distinct_buffers :: "d3d12_buffer \<Rightarrow> d3d12_buffer \<Rightarrow> bool" where
  "distinct_buffers own peer \<longleftrightarrow>
     (word_of_int (buf_pointer own) :: u64) \<noteq> word_of_int (buf_pointer peer) \<and>
     context_word (buf_context own) \<noteq> context_word (buf_context peer)"

lemma fence_value:
  assumes "0 \<le> n" and "n < 2 ^ 64"
  shows "unat (word_of_int n :: u64) = nat n"
  using assms by (simp add: unat_eq_nat_uint uint_word_of_int_eq take_bit_int_eq_self)

lemma stream_commands_simps [simp]:
  "stream_commands own rank x (Torch f args) = []"
  "stream_commands own rank x (Native ''hipSetDevice'' vs) = []"
  "stream_commands own rank x (Native ''wavmg_copy_async'' [a, VPtr p, n, st]) =
     [StoreBegin (heap_rank own rank p), StoreEnd (heap_rank own rank p) x]"
  "stream_commands own rank x (Native ''wavmg_d3d12_signal'' [VPtr c, VU64 v, st]) =
     [Signal (fence_rank own rank c) (unat v)]"
  "stream_commands own rank x (Native ''wavmg_d3d12_wait'' [VPtr c, VU64 v, st]) =
     [WaitGe (fence_rank own rank c) (unat v)]"
  by (simp_all add: stream_commands_def)

lemma stream_commands_add:
  assumes "add_function d = Some fn"
  shows "stream_commands own rank x (Native fn [a, VPtr p, b, n, st]) =
    [ReadBegin (heap_rank own rank p), AddEnd x]"
  using assms by (cases d) (auto simp: stream_commands_def add_function_def)

lemma buffer_ranks [simp]:
  "heap_rank own rank (word_of_int (buf_pointer own)) = rank"
  "fence_rank own rank (context_word (buf_context own)) = rank"
  "distinct_buffers own peer \<Longrightarrow> heap_rank own rank (word_of_int (buf_pointer peer)) = 1 - rank"
  "distinct_buffers own peer \<Longrightarrow> fence_rank own rank (context_word (buf_context peer)) = 1 - rank"
  by (auto simp: heap_rank_def fence_rank_def distinct_buffers_def)

text \<open>The commands of one collective, whatever came before on the log.\<close>

lemma ar_call_block:
  assumes T: "torch_ok T" and bufs: "ar_own s = Some own" "ar_peer s = Some peer" "distinct_buffers own peer"
    and ep: "0 \<le> ar_epoch s" "ar_epoch s < 2 ^ 63 - 1"
    and call: "ar_all_reduce env T t (w, s) = (Inr out, (w', s'))" "0 < size_bytes_of T t"
  obtains cs where "wlog w' = wlog w @ cs" "s' = s\<lparr>ar_epoch := ar_epoch s + 1\<rparr>"
    "concat (map (stream_commands own rank x) cs) = d3d12_block rank (Suc (nat (ar_epoch s))) x"
proof -
  from call(1) bufs obtain source v where src: "as_contiguous env T t w = (Inr source, v)"
    and rest: "(if t_dtype source \<notin> supported_dtypes
            then io_raise TypeError ''D3D12 all-reduce does not support the dtype'' else
          if size_bytes_of T source = 0 then on_world (empty_like env T source) else
          if ar_max s < size_bytes_of T source
            then io_raise ValueError ''collective payload exceeds WAVMG_D3D12_MAX_BYTES'' else
          ar_enqueue env T own peer source) (v, s) = (Inr out, (w', s'))"
    by (auto simp: ar_all_reduce_def method_success io_raise_def split: if_splits)
  from as_contiguous_success [OF T src] have kind: "same_kind t source"
    and log: "wlog v = wlog w \<or> wlog v = wlog w @ [Torch ''contiguous'' [PyInt (t_ptr t)]]"
    by (auto split: if_splits)
  from same_kind_size [OF kind, of T] call(2) have sz: "size_bytes_of T source \<noteq> 0" by simp
  with rest have enq: "ar_enqueue env T own peer source (v, s) = (Inr out, (w', s'))"
    by (auto simp: io_raise_success_iff split: if_splits)
  have s: "s\<lparr>ar_own := Some own, ar_peer := Some peer\<rparr> = s" using bufs by (cases s) simp
  have val: "unat (word_of_int ((ar_epoch s + 1) * 2 - 1) :: u64) = ready_value (Suc (nat (ar_epoch s)))"
    "unat (word_of_int ((ar_epoch s + 1) * 2) :: u64) = consumed_value (Suc (nat (ar_epoch s)))"
    using ep by (subst fence_value; simp add: ready_value_def consumed_value_def)+
  from enq show ?thesis
  proof (rule ar_enqueue_success, goal_cases)
    case (1 st fn d q)
    note add = stream_commands_add [OF 1(1)]
    have "s' = s\<lparr>ar_epoch := ar_epoch s + 1\<rparr>" using 1(5) s by (cases s) simp
    moreover obtain cs where cs: "wlog w' = wlog v @ cs"
      "concat (map (stream_commands own rank x) cs) = d3d12_block rank (Suc (nat (ar_epoch s))) x"
      using 1(6) bufs(3) by (simp add: add d3d12_block_def val [simplified])
    from log have "\<exists>pre. wlog v = wlog w @ pre \<and> concat (map (stream_commands own rank x) pre) = []"
    proof
      assume "wlog v = wlog w"
      then show ?thesis by (intro exI [of _ "[]"]) simp
    next
      assume "wlog v = wlog w @ [Torch ''contiguous'' [PyInt (t_ptr t)]]"
      then show ?thesis by (intro exI [of _ "[Torch ''contiguous'' [PyInt (t_ptr t)]]"]) simp
    qed
    then obtain pre where "wlog v = wlog w @ pre" "concat (map (stream_commands own rank x) pre) = []"
      by blast
    with cs have "wlog w' = wlog w @ (pre @ cs)"
      "concat (map (stream_commands own rank x) (pre @ cs)) = d3d12_block rank (Suc (nat (ar_epoch s))) x"
      by simp_all
    ultimately show ?thesis by (intro that)
  qed
qed

section \<open>A run of collectives\<close>

fun ar_calls :: "'w extern \<Rightarrow> torch_api \<Rightarrow> tensor list \<Rightarrow> ('w, d3d12_ar, tensor list) meth" where
  "ar_calls env T [] = io_return []"
| "ar_calls env T (t # ts) =
     io_bind (ar_all_reduce env T t) (\<lambda>out. io_bind (ar_calls env T ts) (\<lambda>os. io_return (out # os)))"

text \<open>What the stream of a rank holds after calls with the payloads \<open>xs\<close> and the native calls \<open>css\<close>.\<close>

definition recorded_stream :: "d3d12_buffer \<Rightarrow> nat \<Rightarrow> 'a list \<Rightarrow> ecall list list \<Rightarrow> 'a cmd list" where
  "recorded_stream own rank xs css =
     concat (map (\<lambda>(x, cs). concat (map (stream_commands own rank x) cs)) (zip xs css))"

lemma recorded_stream_Cons:
  "recorded_stream own rank (x # xs) (cs # css) =
     concat (map (stream_commands own rank x) cs) @ recorded_stream own rank xs css"
  by (simp add: recorded_stream_def)

lemma d3d12_blocks_Cons:
  "concat (map (\<lambda>i. d3d12_block r (Suc (e + i)) ((x # xs) ! i)) [0..<Suc n]) =
     d3d12_block r (Suc e) x @ concat (map (\<lambda>i. d3d12_block r (Suc (Suc e + i)) (xs ! i)) [0..<n])"
  by (simp add: upt_conv_Cons map_Suc_upt [symmetric] comp_def del: upt_Suc)

lemma ar_calls_blocks:
  assumes T: "torch_ok T" and bufs: "ar_own s = Some own" "ar_peer s = Some peer" "distinct_buffers own peer"
    and ep: "0 \<le> ar_epoch s" "ar_epoch s + int (length ts) < 2 ^ 63"
    and len: "length xs = length ts" and pos: "\<forall>t\<in>set ts. 0 < size_bytes_of T t"
    and calls: "ar_calls env T ts (w, s) = (Inr os, (w', s'))"
  shows "\<exists>css. length css = length ts \<and> wlog w' = wlog w @ concat css \<and>
    recorded_stream own rank xs css =
      concat (map (\<lambda>i. d3d12_block rank (Suc (nat (ar_epoch s) + i)) (xs ! i)) [0..<length ts])"
  using bufs ep len pos calls
proof (induction ts arbitrary: w s xs os)
  case Nil
  then show ?case by (auto simp: io_return_def recorded_stream_def)
next
  case (Cons t ts)
  from Cons.prems(6) obtain x xs' where xs: "xs = x # xs'" by (cases xs) auto
  from Cons.prems(8) obtain out os' v u where one: "ar_all_reduce env T t (w, s) = (Inr out, (v, u))"
    and more: "ar_calls env T ts (v, u) = (Inr os', (w', s'))"
    by (auto simp: io_success)
  have "ar_epoch s < 2 ^ 63 - 1" "0 < size_bytes_of T t" using Cons.prems(5,7) by simp_all
  from ar_call_block [OF T Cons.prems(1-4) this(1) one this(2), of rank x]
  obtain cs where cs: "wlog v = wlog w @ cs" "u = s\<lparr>ar_epoch := ar_epoch s + 1\<rparr>"
    "concat (map (stream_commands own rank x) cs) = d3d12_block rank (Suc (nat (ar_epoch s))) x" by blast
  have "\<exists>css. length css = length ts \<and> wlog w' = wlog v @ concat css \<and>
    recorded_stream own rank xs' css =
      concat (map (\<lambda>i. d3d12_block rank (Suc (nat (ar_epoch u) + i)) (xs' ! i)) [0..<length ts])"
    using Cons.prems more xs cs(2) by (intro Cons.IH) simp_all
  then obtain css where css: "length css = length ts" "wlog w' = wlog v @ concat css"
    "recorded_stream own rank xs' css =
      concat (map (\<lambda>i. d3d12_block rank (Suc (nat (ar_epoch u) + i)) (xs' ! i)) [0..<length ts])" by blast
  have e: "nat (ar_epoch u) = Suc (nat (ar_epoch s))" using cs(2) Cons.prems(4) by simp
  show ?case
  proof (intro exI [of _ "cs # css"] conjI)
    show "recorded_stream own rank xs (cs # css) =
      concat (map (\<lambda>i. d3d12_block rank (Suc (nat (ar_epoch s) + i)) (xs ! i)) [0..<length (t # ts)])"
      using css(3) cs(3) d3d12_blocks_Cons [of rank "nat (ar_epoch s)" x xs' "length ts"]
      by (simp add: recorded_stream_Cons xs e del: upt_Suc)
  qed (use cs css in simp_all)
qed

text \<open>The host code implements the protocol. After any number of successful collectives on a fresh
  communicator (fewer than \<open>2^63\<close>, so that no fence value wraps), the native calls it logged, read as
  stream commands, are exactly the stream of \<open>D3d12_Protocol\<close>: every copy, signal, wait and kernel
  in its place with the right heap, fence and value, and nothing else.\<close>

lemma ar_calls_stream:
  assumes "torch_ok T" and "ar_own s = Some own" and "ar_peer s = Some peer" and "distinct_buffers own peer"
    and "ar_epoch s = 0" and "int (length ts) < 2 ^ 63" and "length xs = length ts"
    and "\<forall>t\<in>set ts. 0 < size_bytes_of T t"
    and "ar_calls env T ts (w, s) = (Inr os, (w', s'))"
  shows "\<exists>css. length css = length ts \<and> wlog w' = wlog w @ concat css \<and>
    recorded_stream own rank xs css = d3d12_stream rank xs"
  using ar_calls_blocks [OF assms(1-4) _ _ assms(7-9), of rank] assms(5-7)
  by (simp add: d3d12_stream_def)

definition two_streams :: "'a cmd list \<Rightarrow> 'a cmd list \<Rightarrow> nat \<Rightarrow> 'a cmd list" where
  "two_streams a b r = (if r = 0 then a else if r = 1 then b else [])"

text \<open>A sample run of one collective on either rank.\<close>

definition sample_ar1 :: d3d12_ar where
  "sample_ar1 = sample_ar\<lparr>ar_rank := 1, ar_own := Some (sample_buffer 8 8192), ar_peer := Some (sample_buffer 7 4096)\<rparr>"

lemma sample_runs:
  "\<exists>os u. ar_calls quiet sample_torch [sample_tensor Float16 8 16] (\<lparr>wext = 0, wlog = []\<rparr>, sample_ar) = (Inr os, u)"
  "\<exists>os u. ar_calls quiet sample_torch [sample_tensor Float16 8 16] (\<lparr>wext = 0, wlog = []\<rparr>, sample_ar1) = (Inr os, u)"
proof -
  have "case ar_calls quiet sample_torch [sample_tensor Float16 8 16] (\<lparr>wext = 0, wlog = []\<rparr>, sample_ar) of
      (Inl e, u) \<Rightarrow> False | (Inr y, u) \<Rightarrow> True"
    by code_simp
  then show "\<exists>os u. ar_calls quiet sample_torch [sample_tensor Float16 8 16] (\<lparr>wext = 0, wlog = []\<rparr>, sample_ar) = (Inr os, u)"
    by (auto split: prod.splits sum.splits)
  have "case ar_calls quiet sample_torch [sample_tensor Float16 8 16] (\<lparr>wext = 0, wlog = []\<rparr>, sample_ar1) of
      (Inl e, u) \<Rightarrow> False | (Inr y, u) \<Rightarrow> True"
    by code_simp
  then show "\<exists>os u. ar_calls quiet sample_torch [sample_tensor Float16 8 16] (\<lparr>wext = 0, wlog = []\<rparr>, sample_ar1) = (Inr os, u)"
    by (auto split: prod.splits sum.splits)
qed

lemma sample_facts:
  "ar_own sample_ar = Some (sample_buffer 7 4096)" "ar_peer sample_ar = Some (sample_buffer 8 8192)"
  "ar_own sample_ar1 = Some (sample_buffer 8 8192)" "ar_peer sample_ar1 = Some (sample_buffer 7 4096)"
  "ar_epoch sample_ar = 0" "ar_epoch sample_ar1 = 0"
  "distinct_buffers (sample_buffer 7 4096) (sample_buffer 8 8192)"
  "distinct_buffers (sample_buffer 8 8192) (sample_buffer 7 4096)"
  "\<forall>t\<in>set [sample_tensor Float16 8 16]. 0 < size_bytes_of sample_torch t"
  by (simp_all add: sample_ar_def sample_ar1_def distinct_buffers_def sample_buffer_def context_word_def
      sample_tensor_def size_bytes_of_def numel_def sample_torch_def)

lemma ar_calls_stream_witness:
  "\<exists>css. recorded_stream (sample_buffer 7 4096) 0 [5::nat] css = d3d12_stream 0 [5]"
proof -
  obtain os w' s' where run: "ar_calls quiet sample_torch [sample_tensor Float16 8 16]
      (\<lparr>wext = 0, wlog = []\<rparr>, sample_ar) = (Inr os, (w', s'))"
    using sample_runs(1) by auto
  from ar_calls_stream [OF sample_torch_ok sample_facts(1,2,7,5) _ _ sample_facts(9) run, of "[5::nat]" 0]
  show ?thesis by auto
qed



end
