(* ===== verification/D3d12_Transfer.thy ===== *)
theory D3d12_Transfer
  imports Clean_Calls Lifecycle Bridge_Protocol D3d12_Link
begin

text \<open>
  \<open>d3d12_transfer.py\<close>: the tensor bridge between two GPUs of one process. The object keeps both ends of
  the heap and the epoch. The lock of \<open>transfer\<close> and \<open>close\<close> makes their bodies atomic among threads, so
  the methods are modelled as sequential operations.
\<close>

record bridge =
  br_source :: device
  br_destination :: device
  br_max :: int
  br_epoch :: int
  br_creator :: "d3d12_buffer option"
  br_opener :: "d3d12_buffer option"

definition on_creator :: "d3d12_buffer \<Rightarrow> ('w, d3d12_buffer, 'a) meth \<Rightarrow> ('w, bridge, 'a) meth" where
  "on_creator b m = on_field (\<lambda>_. b) (\<lambda>b s. s\<lparr>br_creator := Some b\<rparr>) m"

definition on_opener :: "d3d12_buffer \<Rightarrow> ('w, d3d12_buffer, 'a) meth \<Rightarrow> ('w, bridge, 'a) meth" where
  "on_opener b m = on_field (\<lambda>_. b) (\<lambda>b s. s\<lparr>br_opener := Some b\<rparr>) m"

section \<open>Construction\<close>

definition indexed_device :: "torch_api \<Rightarrow> device_arg \<Rightarrow> exn + device" where
  "indexed_device T a = (case as_device T a of
     Inl e \<Rightarrow> Inl e
   | Inr d \<Rightarrow> if dev_type d \<noteq> ''cuda'' \<or> dev_index d = None
       then Inl (Exn ValueError ''expected an indexed HIP/CUDA-like device'') else Inr d)"

definition device_number :: "device \<Rightarrow> int" where
  "device_number d = (case dev_index d of None \<Rightarrow> 0 | Some i \<Rightarrow> i)"

definition current_device :: "'w extern \<Rightarrow> ('w world, int) io" where
  "current_device env = io_bind (call_ext env (Torch ''current_device'' [])) (\<lambda>(i, _). io_return i)"

definition bridge_close_opener :: "'w extern \<Rightarrow> ('w, bridge, unit) meth" where
  "bridge_close_opener env = io_bind self (\<lambda>s. case br_opener s of None \<Rightarrow> io_return ()
     | Some b \<Rightarrow> io_then (on_opener b (shared_close env)) (update_self (\<lambda>s. s\<lparr>br_opener := None\<rparr>)))"

definition bridge_close_creator :: "'w extern \<Rightarrow> ('w, bridge, unit) meth" where
  "bridge_close_creator env = io_bind self (\<lambda>s. case br_creator s of None \<Rightarrow> io_return ()
     | Some b \<Rightarrow> io_then (on_creator b (shared_close env)) (update_self (\<lambda>s. s\<lparr>br_creator := None\<rparr>)))"

definition bridge_close_buffers :: "'w extern \<Rightarrow> ('w, bridge, unit) meth" where
  "bridge_close_buffers env = io_then (bridge_close_opener env) (bridge_close_creator env)"

text \<open>\<open>torch.cuda.set_device\<close> with a device, and with the index that \<open>current_device\<close> returned.\<close>

definition select_device :: "'w extern \<Rightarrow> device \<Rightarrow> ('w, bridge, unit) meth" where
  "select_device env d = on_world (torch_do env ''set_device'' (device_args d))"

definition restore_device :: "'w extern \<Rightarrow> int \<Rightarrow> ('w, bridge, unit) meth" where
  "restore_device env previous = on_world (torch_do env ''set_device'' [PyInt previous])"

definition bridge_buffers :: "'w extern \<Rightarrow> pyenv \<Rightarrow> string \<Rightarrow> ('w, bridge, unit) meth" where
  "bridge_buffers env pe name =
     io_bind self (\<lambda>s.
     io_bind (on_world (shared_new env pe name (br_max s) (device_number (br_source s)) True None)) (\<lambda>b.
     io_then (update_self (\<lambda>s. s\<lparr>br_creator := Some b\<rparr>))
     (io_bind (on_world (shared_new env pe name (br_max s) (device_number (br_destination s)) False None)) (\<lambda>b.
      update_self (\<lambda>s. s\<lparr>br_opener := Some b\<rparr>)))))"

definition bridge_init ::
  "'w extern \<Rightarrow> torch_api \<Rightarrow> pyenv \<Rightarrow> device_arg \<Rightarrow> device_arg \<Rightarrow> int option \<Rightarrow> ('w, bridge, unit) meth" where
  "bridge_init env T pe source destination max_size_bytes =
     io_bind (io_of_sum (indexed_device T source)) (\<lambda>src.
     io_bind (io_of_sum (indexed_device T destination)) (\<lambda>dst.
     if src = dst then io_raise ValueError ''source and destination devices must differ'' else
     io_bind (io_of_sum (case max_size_bytes of
         Some n \<Rightarrow> if n = 0 then env_int_or pe ''WAVMG_D3D12_MAX_BYTES'' (64 * 1024 * 1024) else Inr n
       | None \<Rightarrow> env_int_or pe ''WAVMG_D3D12_MAX_BYTES'' (64 * 1024 * 1024))) (\<lambda>max_bytes.
     if max_bytes \<le> 0 then io_raise ValueError ''D3D12 maximum payload must be positive'' else
     io_bind (on_world (hip_init env pe None [])) (\<lambda>_.
     io_then (update_self (\<lambda>s. s\<lparr>br_source := src, br_destination := dst, br_max := max_bytes, br_epoch := 0,
        br_creator := None, br_opener := None\<rparr>))
     (io_bind (on_world (current_device env)) (\<lambda>previous.
      io_bind (on_world (call_ext env (Os ''uuid4'' []))) (\<lambda>(_, outs).
      io_finally
        (io_catch
          (bridge_buffers env pe (''Local'' @ [char_of (92::nat)] @ ''wavmg-transfer-'' @
             (case out_str outs of None \<Rightarrow> [] | Some h \<Rightarrow> h)))
          (\<lambda>e. io_then (bridge_close_buffers env) (io_of_sum (Inl e))))
        (restore_device env previous))))))))"

section \<open>Transfers\<close>

definition bridge_can_handle :: "torch_api \<Rightarrow> bridge \<Rightarrow> tensor \<Rightarrow> bool" where
  "bridge_can_handle T s t \<longleftrightarrow> t_device t = br_source s \<and> size_bytes_of T t \<le> br_max s"

text \<open>\<open>torch.empty_like(source, device=...)\<close>\<close>

definition empty_like_on :: "'w extern \<Rightarrow> torch_api \<Rightarrow> tensor \<Rightarrow> device \<Rightarrow> ('w world, tensor) io" where
  "empty_like_on env T t d =
     io_bind (call_ext env (Torch ''empty_like'' (PyInt (t_ptr t) # device_args d))) (\<lambda>(p, _).
       io_return ((like_on T t p)\<lparr>t_device := d\<rparr>))"

definition default_stream :: "'w extern \<Rightarrow> device \<Rightarrow> ('w world, int) io" where
  "default_stream env d =
     io_bind (call_ext env (Torch ''default_stream'' (device_args d))) (\<lambda>(p, _). io_return p)"

definition record_stream :: "'w extern \<Rightarrow> tensor \<Rightarrow> int \<Rightarrow> ('w world, unit) io" where
  "record_stream env t stream = torch_do env ''record_stream'' [PyInt (t_ptr t), PyInt stream]"

text \<open>The body of the inner \<open>try\<close>, lines 99-119.\<close>

definition bridge_enqueue ::
  "'w extern \<Rightarrow> d3d12_buffer \<Rightarrow> d3d12_buffer \<Rightarrow> tensor \<Rightarrow> tensor \<Rightarrow> int \<Rightarrow> int \<Rightarrow> int \<Rightarrow> int \<Rightarrow>
     ('w, bridge, unit) meth" where
  "bridge_enqueue env creator opener source destination nbytes ready source_stream destination_stream =
     io_bind self (\<lambda>s.
     io_then (select_device env (br_source s))
     (io_then (on_world (memcpy_async env (buf_pointer creator) (t_ptr source) nbytes HIP_MEMCPY_DEFAULT source_stream))
     (io_then (on_creator creator (shared_signal env ready source_stream))
     (io_then (on_opener opener (shared_wait env ready destination_stream))
     (io_then (on_world (memcpy_async env (t_ptr destination) (buf_pointer opener) nbytes HIP_MEMCPY_DEFAULT
                 destination_stream))
     (io_then (on_opener opener (shared_signal env (ready + 1) destination_stream))
     (on_creator creator (shared_wait env (ready + 1) source_stream))))))))"

definition bridge_transfer :: "'w extern \<Rightarrow> torch_api \<Rightarrow> tensor \<Rightarrow> ('w, bridge, tensor) meth" where
  "bridge_transfer env T t =
     io_bind self (\<lambda>s.
     (case (br_creator s, br_opener s) of
        (Some creator, Some opener) \<Rightarrow>
          if t_device t \<noteq> br_source s then io_raise ValueError ''tensor is not on the bridge source'' else
          io_bind (on_world (as_contiguous env T t)) (\<lambda>source.
          let nbytes = size_bytes_of T source in
          if br_max s < nbytes then io_raise ValueError ''transfer payload exceeds WAVMG_D3D12_MAX_BYTES'' else
          io_bind (on_world (empty_like_on env T source (br_destination s))) (\<lambda>destination.
          if nbytes = 0 then io_return destination else
          io_then (update_self (\<lambda>s. s\<lparr>br_epoch := br_epoch s + 1\<rparr>))
          (let ready = (br_epoch s + 1) * 2 - 1 in
           io_bind (on_world (current_stream env (br_source s))) (\<lambda>source_stream.
           io_bind (on_world (default_stream env (br_destination s))) (\<lambda>destination_stream.
           io_bind (on_world (current_device env)) (\<lambda>previous.
           io_then (io_finally
              (bridge_enqueue env creator opener source destination nbytes ready source_stream destination_stream)
              (restore_device env previous))
           (io_then (on_world (record_stream env source source_stream))
           (io_then (on_world (record_stream env destination destination_stream))
           (io_return destination)))))))))
      | _ \<Rightarrow> io_raise RuntimeError ''D3D12 tensor bridge is closed''))"

section \<open>Closing\<close>

definition bridge_close :: "'w extern \<Rightarrow> ('w, bridge, unit) meth" where
  "bridge_close env =
     io_bind self (\<lambda>s.
     if br_creator s = None \<and> br_opener s = None then io_return () else
     io_bind (on_world (current_device env)) (\<lambda>previous.
     io_finally
       (io_then (on_world (torch_do env ''synchronize'' (device_args (br_source s))))
       (io_then (on_world (torch_do env ''synchronize'' (device_args (br_destination s))))
       (bridge_close_buffers env)))
       (restore_device env previous)))"

section \<open>The calls of one transfer\<close>

lemma memcpy_async_success:
  assumes "memcpy_async env a b n k st w = (Inr (), w')"
  shows "wlog w' = wlog w @ [Native ''hipMemcpyAsync'' [VPtr (word_of_int a), VPtr (word_of_int b),
    VU64 (word_of_int n), VI32 (word_of_int k), VPtr (word_of_int st)]]"
proof -
  have "call_native env hip_sigs (fst (hip_request (MemcpyAsync a b n k st))) (snd (hip_request (MemcpyAsync a b n k st))) =
      call_ext env (Native ''hipMemcpyAsync'' [VPtr (word_of_int a), VPtr (word_of_int b),
        VU64 (word_of_int n), VI32 (word_of_int k), VPtr (word_of_int st)])"
    by (simp add: call_native_def hip_sigs_def hip_argtypes_def)
  with assms show ?thesis
    by (auto simp: memcpy_async_def hip_do_def hip_run_def hip_check_def io_success call_ext_success_iff
        simp del: hip_request.simps split: if_splits)
qed

lemma bridge_calls_success:
  "empty_like_on env T t d w = (Inr u, w') \<Longrightarrow> (\<exists>p. u = (like_on T t p)\<lparr>t_device := d\<rparr>) \<and>
     wlog w' = wlog w @ [Torch ''empty_like'' (PyInt (t_ptr t) # device_args d)]"
  "default_stream env d w = (Inr st, w') \<Longrightarrow> wlog w' = wlog w @ [Torch ''default_stream'' (device_args d)]"
  "current_device env w = (Inr n, w') \<Longrightarrow> wlog w' = wlog w @ [Torch ''current_device'' []]"
  "record_stream env t st w = (Inr (), w') \<Longrightarrow> wlog w' = wlog w @ [Torch ''record_stream'' [PyInt (t_ptr t), PyInt st]]"
  by (auto simp: empty_like_on_def default_stream_def current_device_def record_stream_def io_success
      call_ext_success_iff dest: torch_do_success split: prod.splits)

lemma bridge_enqueue_success:
  assumes "bridge_enqueue env creator opener source destination n ready st1 st2 (w, s) = (Inr (), (w', s'))"
  shows "s' = s\<lparr>br_creator := Some creator, br_opener := Some opener\<rparr> \<and> wlog w' = wlog w @
    [Torch ''set_device'' (device_args (br_source s)),
     Native ''hipMemcpyAsync'' [VPtr (word_of_int (buf_pointer creator)), VPtr (word_of_int (t_ptr source)),
       VU64 (word_of_int n), VI32 (word_of_int HIP_MEMCPY_DEFAULT), VPtr (word_of_int st1)],
     Native ''wavmg_d3d12_signal'' [VPtr (context_word (buf_context creator)), VU64 (word_of_int ready), VPtr (word_of_int st1)],
     Native ''wavmg_d3d12_wait'' [VPtr (context_word (buf_context opener)), VU64 (word_of_int ready), VPtr (word_of_int st2)],
     Native ''hipMemcpyAsync'' [VPtr (word_of_int (t_ptr destination)), VPtr (word_of_int (buf_pointer opener)),
       VU64 (word_of_int n), VI32 (word_of_int HIP_MEMCPY_DEFAULT), VPtr (word_of_int st2)],
     Native ''wavmg_d3d12_signal'' [VPtr (context_word (buf_context opener)), VU64 (word_of_int (ready + 1)), VPtr (word_of_int st2)],
     Native ''wavmg_d3d12_wait'' [VPtr (context_word (buf_context creator)), VU64 (word_of_int (ready + 1)), VPtr (word_of_int st1)]]"
proof -
  from assms show ?thesis
    apply (clarsimp simp: bridge_enqueue_def select_device_def method_success on_creator_def on_opener_def
        simp del: of_int_add)
    apply (drule torch_do_success memcpy_async_success shared_signal_success shared_wait_success)+
    apply (clarsimp simp del: of_int_add)
    done
qed

section \<open>The transfer as stream commands\<close>

text \<open>
  A native call read as commands of side \<open>r\<close> (0 the source, 1 the destination), whose stream has the handle
  \<open>st\<close>: a fence call belongs to the side whose context it names, a copy into the creator's pointer stores the
  payload, a copy out of the opener's pointer loads it.
\<close>

definition bridge_commands :: "d3d12_buffer \<Rightarrow> d3d12_buffer \<Rightarrow> u64 \<Rightarrow> nat \<Rightarrow> 'a \<Rightarrow> ecall \<Rightarrow> 'a cmd list" where
  "bridge_commands creator opener st r x c =
     (let mine = context_word (buf_context (if r = 0 then creator else opener)) in
      case c of
        Native fn vs \<Rightarrow>
          (if fn = ''hipMemcpyAsync'' then
             (case vs of [VPtr dst, VPtr src, _, _, VPtr h] \<Rightarrow>
                (if h \<noteq> st then []
                 else if dst = word_of_int (buf_pointer creator) then (if r = 0 then [StoreBegin 0, StoreEnd 0 x] else [])
                 else if src = word_of_int (buf_pointer opener) then (if r = 1 then [ReadBegin 0, LoadEnd] else [])
                 else [])
              | _ \<Rightarrow> [])
           else if fn = ''wavmg_d3d12_signal'' then
             (case vs of [VPtr k, VU64 v, VPtr h] \<Rightarrow> (if k = mine \<and> h = st then [Signal 0 (unat v)] else []) | _ \<Rightarrow> [])
           else if fn = ''wavmg_d3d12_wait'' then
             (case vs of [VPtr k, VU64 v, VPtr h] \<Rightarrow> (if k = mine \<and> h = st then [WaitGe 0 (unat v)] else []) | _ \<Rightarrow> [])
           else [])
      | _ \<Rightarrow> [])"

lemma bridge_commands_simps [simp]:
  "bridge_commands c p st r x (Torch f args) = []"
  "bridge_commands c p st r x (Native ''wavmg_d3d12_signal'' [VPtr k, VU64 v, VPtr h]) =
     (if k = context_word (buf_context (if r = 0 then c else p)) \<and> h = st then [Signal 0 (unat v)] else [])"
  "bridge_commands c p st r x (Native ''wavmg_d3d12_wait'' [VPtr k, VU64 v, VPtr h]) =
     (if k = context_word (buf_context (if r = 0 then c else p)) \<and> h = st then [WaitGe 0 (unat v)] else [])"
  "bridge_commands c p st r x (Native ''hipMemcpyAsync'' [VPtr dst, VPtr src, n, k', VPtr h]) =
     (if h \<noteq> st then []
      else if dst = word_of_int (buf_pointer c) then (if r = 0 then [StoreBegin 0, StoreEnd 0 x] else [])
      else if src = word_of_int (buf_pointer p) then (if r = 1 then [ReadBegin 0, LoadEnd] else [])
      else [])"
  by (simp_all add: bridge_commands_def Let_def)

text \<open>The two streams always have the same handles.\<close>

definition fixed_streams :: "'w extern \<Rightarrow> bridge \<Rightarrow> int \<Rightarrow> int \<Rightarrow> bool" where
  "fixed_streams env s st1 st2 \<longleftrightarrow>
     (\<forall>x a outs y. env (Torch ''current_stream'' (device_args (br_source s))) x = (Inr (a, outs), y) \<longrightarrow> a = st1) \<and>
     (\<forall>x a outs y. env (Torch ''default_stream'' (device_args (br_destination s))) x = (Inr (a, outs), y) \<longrightarrow> a = st2)"

lemma bridge_transfer_block:
  assumes T: "torch_ok T" and bufs: "br_creator s = Some creator" "br_opener s = Some opener" "distinct_buffers creator opener"
    and ep: "0 \<le> br_epoch s" "br_epoch s < 2 ^ 63 - 1" and st: "fixed_streams env s st1 st2"
    and call: "bridge_transfer env T t (w, s) = (Inr out, (w', s'))" "0 < size_bytes_of T t"
    and fresh: "(word_of_int (t_ptr out) :: u64) \<noteq> word_of_int (buf_pointer creator)"
  shows "\<exists>cs. wlog w' = wlog w @ cs \<and> s' = s\<lparr>br_epoch := br_epoch s + 1\<rparr> \<and>
    concat (map (bridge_commands creator opener (word_of_int st1) 0 x) cs) = source_block (Suc (nat (br_epoch s))) x \<and>
    concat (map (bridge_commands creator opener (word_of_int st2) 1 x) cs) = destination_block (Suc (nat (br_epoch s))) \<and>
    t_shape out = t_shape t \<and> t_dtype out = t_dtype t \<and> t_device out = br_destination s"
proof -
  let ?s = "s\<lparr>br_epoch := br_epoch s + 1\<rparr>"
  let ?ready = "(br_epoch s + 1) * 2 - 1"
  from call(1) bufs obtain source v1 v2 where
    src: "as_contiguous env T t w = (Inr source, v1)"
    and alloc: "empty_like_on env T source (br_destination s) v1 = (Inr out, v2)"
    and rest: "(if size_bytes_of T source = 0 then io_return out else
          io_then (update_self (\<lambda>s. s\<lparr>br_epoch := br_epoch s + 1\<rparr>))
           (io_bind (on_world (current_stream env (br_source s))) (\<lambda>source_stream.
           io_bind (on_world (default_stream env (br_destination s))) (\<lambda>destination_stream.
           io_bind (on_world (current_device env)) (\<lambda>previous.
           io_then (io_finally
              (bridge_enqueue env creator opener source out (size_bytes_of T source) ?ready source_stream destination_stream)
              (restore_device env previous))
           (io_then (on_world (record_stream env source source_stream))
           (io_then (on_world (record_stream env out destination_stream))
           (io_return out)))))))) (v2, s) = (Inr out, (w', s'))"
    by (auto simp: bridge_transfer_def Let_def method_success split: if_splits)
  from as_contiguous_success [OF T src] have kind: "same_kind t source"
    and log: "wlog v1 = wlog w \<or> wlog v1 = wlog w @ [Torch ''contiguous'' [PyInt (t_ptr t)]]"
    by (auto split: if_splits)
  from same_kind_size [OF kind, of T] call(2) have sz: "size_bytes_of T source \<noteq> 0" by simp
  from rest sz obtain h1 h2 v3 v4 v5 v6 s6 v7 v8 n where
    cur: "current_stream env (br_source s) v2 = (Inr h1, v3)"
    and def: "default_stream env (br_destination s) v3 = (Inr h2, v4)"
    and prev: "current_device env v4 = (Inr n, v5)"
    and enq: "bridge_enqueue env creator opener source out (size_bytes_of T source) ?ready h1 h2 (v5, ?s) = (Inr (), (v6, s6))"
    and res: "torch_do env ''set_device'' [PyInt n] v6 = (Inr (), v7)"
    and rec1: "record_stream env source h1 v7 = (Inr (), v8)" and rec2: "record_stream env out h2 v8 = (Inr (), w')"
    and s6: "s' = s6"
    by (auto simp: method_success io_finally_success_iff restore_device_def)
  from cur have "\<exists>outs x. env (Torch ''current_stream'' (device_args (br_source s))) (wext v2) = (Inr (h1, outs), x)"
    by (auto simp: current_stream_def io_success call_ext_success_iff)
  moreover from def have "\<exists>outs x. env (Torch ''default_stream'' (device_args (br_destination s))) (wext v3) = (Inr (h2, outs), x)"
    by (auto simp: default_stream_def io_success call_ext_success_iff)
  ultimately have h: "h1 = st1" "h2 = st2"
    using st unfolding fixed_streams_def by blast+
  have s': "s' = ?s" using bridge_enqueue_success [OF enq] s6 bufs by (cases s) simp
  have val: "unat (word_of_int ?ready :: u64) = ready_value (Suc (nat (br_epoch s)))"
    "unat (word_of_int (?ready + 1) :: u64) = consumed_value (Suc (nat (br_epoch s)))"
    using ep by (subst fence_value; simp add: ready_value_def consumed_value_def)+
  then have val': "unat (word_of_int (1 + br_epoch s * 2) :: u64) = ready_value (Suc (nat (br_epoch s)))"
    "unat (word_of_int (2 + br_epoch s * 2) :: u64) = consumed_value (Suc (nat (br_epoch s)))"
    by (simp_all add: algebra_simps del: of_int_add of_int_mult of_int_diff)
  from log obtain pre where pre: "wlog v1 = wlog w @ pre" "\<forall>c\<in>set pre. \<exists>f a. c = Torch f a"
    by (metis append_Nil2 empty_iff empty_set list.set_intros(1) set_ConsD)
  then have quiet: "concat (map (bridge_commands creator opener k r x) pre) = []" for k r
    by (induction pre arbitrary: v1) auto
  obtain body where body: "wlog w' = wlog v1 @ body"
    "concat (map (bridge_commands creator opener (word_of_int st1) 0 x) body) = source_block (Suc (nat (br_epoch s))) x"
    "concat (map (bridge_commands creator opener (word_of_int st2) 1 x) body) = destination_block (Suc (nat (br_epoch s)))"
    using bridge_enqueue_success [OF enq] current_stream_success [OF cur] bridge_calls_success(1) [OF alloc]
      bridge_calls_success(2) [OF def] bridge_calls_success(3) [OF prev] torch_do_success [OF res]
      bridge_calls_success(4) [OF rec1] bridge_calls_success(4) [OF rec2] bufs(3) fresh h
    by (auto simp: source_block_def destination_block_def val' distinct_buffers_def
        simp del: of_int_add of_int_mult of_int_diff cong: if_cong)
  have "t_shape out = t_shape t \<and> t_dtype out = t_dtype t \<and> t_device out = br_destination s"
    using bridge_calls_success(1) [OF alloc] torch_ok_like(1) [OF T] kind by (auto simp: same_kind_def)
  then show ?thesis using body pre(1) quiet s' by (intro exI [of _ "pre @ body"]) simp
qed

section \<open>A run of transfers\<close>

fun bridge_transfers :: "'w extern \<Rightarrow> torch_api \<Rightarrow> tensor list \<Rightarrow> ('w, bridge, tensor list) meth" where
  "bridge_transfers env T [] = io_return []"
| "bridge_transfers env T (t # ts) =
     io_bind (bridge_transfer env T t) (\<lambda>u. io_bind (bridge_transfers env T ts) (\<lambda>us. io_return (u # us)))"

definition bridge_stream ::
  "d3d12_buffer \<Rightarrow> d3d12_buffer \<Rightarrow> u64 \<Rightarrow> nat \<Rightarrow> 'a list \<Rightarrow> ecall list list \<Rightarrow> 'a cmd list" where
  "bridge_stream creator opener st r xs css =
     concat (map (\<lambda>(x, cs). concat (map (bridge_commands creator opener st r x) cs)) (zip xs css))"

lemma bridge_transfers_blocks:
  assumes T: "torch_ok T" and bufs: "br_creator s = Some creator" "br_opener s = Some opener" "distinct_buffers creator opener"
    and ep: "0 \<le> br_epoch s" "br_epoch s + int (length ts) < 2 ^ 63" and st: "fixed_streams env s st1 st2"
    and len: "length xs = length ts" and pos: "\<forall>t\<in>set ts. 0 < size_bytes_of T t"
    and calls: "bridge_transfers env T ts (w, s) = (Inr os, (w', s'))"
    and fresh: "\<forall>u\<in>set os. (word_of_int (t_ptr u) :: u64) \<noteq> word_of_int (buf_pointer creator)"
  shows "\<exists>css. wlog w' = wlog w @ concat css \<and>
    bridge_stream creator opener (word_of_int st1) 0 xs css =
      concat (map (\<lambda>i. source_block (Suc (nat (br_epoch s) + i)) (xs ! i)) [0..<length ts]) \<and>
    bridge_stream creator opener (word_of_int st2) 1 xs css =
      concat (map (\<lambda>i. destination_block (Suc (nat (br_epoch s) + i))) [0..<length ts])"
  using bufs ep st len pos calls fresh
proof (induction ts arbitrary: w s xs os)
  case Nil
  then show ?case by (auto simp: io_return_def bridge_stream_def intro!: exI [of _ "[]"])
next
  case (Cons t ts)
  from Cons.prems(7) obtain x xs' where xs: "xs = x # xs'" by (cases xs) auto
  from Cons.prems(9) obtain out os' v u where one: "bridge_transfer env T t (w, s) = (Inr out, (v, u))"
    and more: "bridge_transfers env T ts (v, u) = (Inr os', (w', s'))" and os: "os = out # os'"
    by (auto simp: io_success)
  have "br_epoch s < 2 ^ 63 - 1" "0 < size_bytes_of T t"
    "(word_of_int (t_ptr out) :: u64) \<noteq> word_of_int (buf_pointer creator)"
    using Cons.prems(5,8,10) os by simp_all
  from bridge_transfer_block [OF T Cons.prems(1-4) this(1) Cons.prems(6) one this(2,3), of x]
  obtain cs where cs: "wlog v = wlog w @ cs" "u = s\<lparr>br_epoch := br_epoch s + 1\<rparr>"
    "concat (map (bridge_commands creator opener (word_of_int st1) 0 x) cs) = source_block (Suc (nat (br_epoch s))) x"
    "concat (map (bridge_commands creator opener (word_of_int st2) 1 x) cs) = destination_block (Suc (nat (br_epoch s)))"
    by blast
  have "\<exists>css. wlog w' = wlog v @ concat css \<and>
    bridge_stream creator opener (word_of_int st1) 0 xs' css =
      concat (map (\<lambda>i. source_block (Suc (nat (br_epoch u) + i)) (xs' ! i)) [0..<length ts]) \<and>
    bridge_stream creator opener (word_of_int st2) 1 xs' css =
      concat (map (\<lambda>i. destination_block (Suc (nat (br_epoch u) + i))) [0..<length ts])"
    using Cons.prems more xs cs(2) os by (intro Cons.IH) (auto simp: fixed_streams_def)
  then obtain css where css: "wlog w' = wlog v @ concat css"
    "bridge_stream creator opener (word_of_int st1) 0 xs' css =
      concat (map (\<lambda>i. source_block (Suc (nat (br_epoch u) + i)) (xs' ! i)) [0..<length ts])"
    "bridge_stream creator opener (word_of_int st2) 1 xs' css =
      concat (map (\<lambda>i. destination_block (Suc (nat (br_epoch u) + i))) [0..<length ts])" by blast
  have e: "nat (br_epoch u) = Suc (nat (br_epoch s))" using cs(2) Cons.prems(4) by simp
  have up: "concat (map f [0..<Suc n]) = f 0 @ concat (map (\<lambda>i. f (Suc i)) [0..<n])" for f :: "nat \<Rightarrow> 'z list" and n
    by (simp add: upt_conv_Cons map_Suc_upt [symmetric] comp_def del: upt_Suc)
  show ?case
    using css cs xs e
    by (intro exI [of _ "cs # css"]) (simp add: bridge_stream_def up del: upt_Suc)
qed


definition sample_bridge :: bridge where
  "sample_bridge = \<lparr>br_source = \<lparr>dev_type = ''cuda'', dev_index = Some 0\<rparr>,
     br_destination = \<lparr>dev_type = ''cuda'', dev_index = Some 1\<rparr>, br_max = 1024, br_epoch = 0,
     br_creator = Some (sample_buffer 7 4096), br_opener = Some (sample_buffer 8 8192)\<rparr>"


text \<open>When the current stream of the source device changes between two transfers, the copy of the second does not
  wait for the fence of the first: with the two source blocks on different streams there is a schedule that
  delivers the second payload twice.\<close>

definition two_source_streams :: "'a \<Rightarrow> 'a \<Rightarrow> nat \<Rightarrow> 'a cmd list" where
  "two_source_streams x y r =
     (if r = 0 then source_block 1 x else if r = 1 then destination_block 1 @ destination_block 2
      else if r = 2 then source_block 2 y else [])"

lemma changing_streams_race:
  "\<exists>s. reach gpu_init (gpu_step add (two_source_streams x y)) s \<and>
      gpu_done (two_source_streams x y) [0, 1, 2] s \<and> outs s 1 = [Some y, Some y]"
proof -
  have "\<exists>s. gpu_schedule add (two_source_streams x y) [0, 0, 0, 2, 2, 1, 1, 1, 1, 0, 2, 1, 1, 1, 1, 2] gpu_start = Some s \<and>
      gpu_done (two_source_streams x y) [0, 1, 2] s \<and> outs s 1 = [Some y, Some y]"
    by (simp add: two_source_streams_def source_block_def destination_block_def ready_value_def consumed_value_def
        gpu_start_def gpu_done_def read_value_def)
  then show ?thesis using gpu_schedule_reach [OF _ gpu_reach_start] by metis
qed

section \<open>The device is restored\<close>

text \<open>The device that the calls of a log have selected last, if any.\<close>

fun selected :: "ecall list \<Rightarrow> pyarg list option" where
  "selected [] = None"
| "selected (c # cs) = (case selected cs of
     Some d \<Rightarrow> Some d
   | None \<Rightarrow> (case c of Torch fn args \<Rightarrow> (if fn = ''set_device'' then Some args else None) | _ \<Rightarrow> None))"

lemma selected_append:
  "selected (xs @ ys) = (case selected ys of Some d \<Rightarrow> Some d | None \<Rightarrow> selected xs)"
  by (induction xs) (auto split: option.split)

definition on_device :: "pyarg list option \<Rightarrow> int \<Rightarrow> 'w world \<Rightarrow> bool" where
  "on_device d p w \<longleftrightarrow> selected (wlog w) = d \<or> selected (wlog w) = Some [PyInt p]"

definition obj_on_device :: "pyarg list option \<Rightarrow> int \<Rightarrow> 'w world \<times> 'o \<Rightarrow> bool" where
  "obj_on_device d p u \<longleftrightarrow> on_device d p (fst u)"

lemma device_call [clean]:
  "(\<forall>args. c \<noteq> Torch ''set_device'' args) \<Longrightarrow> keeps (on_device d p) (call_ext env c)"
  by (cases c) (auto simp: keeps_def on_device_def selected_append intro!: io_post_call_ext)

lemma device_native [clean]: "keeps (on_device d p) (call_native env sigs fn args)"
  by (auto simp: call_native_def intro!: clean split: option.split)

lemma device_world [clean]: "keeps (on_device d p) m \<Longrightarrow> keeps (obj_on_device d p) (on_world m)"
  by (rule keeps_postI, unfold wp) (auto simp: obj_on_device_def elim!: keeps_post)

lemma device_field [clean]: "keeps (obj_on_device d p) m \<Longrightarrow> keeps (obj_on_device d p) (on_field g put m)"
  by (rule keeps_postI, unfold wp) (auto simp: obj_on_device_def elim!: keeps_post)

lemma device_update [clean]: "keeps (obj_on_device d p) (update_self f)"
  by (simp add: keeps_def wp obj_on_device_def)

lemma device_calls [clean]:
  "keeps (on_device d p) (as_contiguous env T t)" "keeps (on_device d p) (empty_like_on env T t dv)"
  "keeps (on_device d p) (current_stream env dv)" "keeps (on_device d p) (default_stream env dv)"
  "keeps (on_device d p) (record_stream env t st)"
  by (auto simp: as_contiguous_def contiguous_def empty_like_on_def current_stream_def default_stream_def
      record_stream_def torch_do_def intro!: clean)

text \<open>A body run under \<open>finally: set_device(previous)\<close> ends on the previous device, whatever the body does.\<close>

lemma restore_post:
  assumes "\<And>w'. selected (wlog w') = Some [PyInt p] \<Longrightarrow> Q () (w', s)"
    and "\<And>e w'. selected (wlog w') = Some [PyInt p] \<Longrightarrow> E e (w', s)"
  shows "io_post (restore_device env p) Q E (w, s)"
  using assms
  by (auto simp: restore_device_def torch_do_def wp selected_append intro!: io_post_call_ext)

lemma finally_restores: "keeps (obj_on_device d p) (io_finally m (restore_device env p))"
  unfolding keeps_def wp
  by (rule allI, rule impI, rule io_post_any)
     (auto simp: split_paired_all obj_on_device_def on_device_def intro!: restore_post)

text \<open>The runtime keeps answering that the current device is \<open>p\<close>.\<close>

definition device_is :: "'w extern \<Rightarrow> int \<Rightarrow> bool" where
  "device_is env p \<longleftrightarrow> (\<forall>x r y. env (Torch ''current_device'' []) x = (r, y) \<longrightarrow> (\<exists>outs. r = Inr (p, outs)))"

lemma current_restores:
  fixes f :: "int \<Rightarrow> ('w, bridge, 'a) meth"
  assumes "device_is env p" and "keeps (obj_on_device d p) (f p)"
  shows "keeps (obj_on_device d p) (io_bind (on_world (current_device env)) f)"
proof (rule keeps_postI)
  fix u :: "'w world \<times> bridge" assume u: "obj_on_device d p u"
  obtain r y where ry: "env (Torch ''current_device'' []) (wext (fst u)) = (r, y)" by fastforce
  with assms(1) obtain outs where "r = Inr (p, outs)" unfolding device_is_def by blast
  with ry have run: "io_bind (on_world (current_device env)) f u =
      f p (\<lparr>wext = y, wlog = wlog (fst u) @ [Torch ''current_device'' []]\<rparr>, snd u)"
    by (cases u) (simp add: io_bind_def on_world_apply current_device_def call_ext_def io_return_def)
  have "obj_on_device d p (\<lparr>wext = y, wlog = wlog (fst u) @ [Torch ''current_device'' []]\<rparr>, snd u)"
    using u by (simp add: obj_on_device_def on_device_def selected_append)
  with assms(2) have "io_post (f p) (\<lambda>_. obj_on_device d p) (\<lambda>_. obj_on_device d p)
      (\<lparr>wext = y, wlog = wlog (fst u) @ [Torch ''current_device'' []]\<rparr>, snd u)"
    unfolding keeps_def by blast
  then show "io_post (io_bind (on_world (current_device env)) f)
      (\<lambda>_. obj_on_device d p) (\<lambda>_. obj_on_device d p) u"
    unfolding io_post_def run .
qed



section \<open>Life of a bridge\<close>

lemma bridge_close_buffers_success:
  assumes "bridge_close_buffers env (w, s) = (Inr (), (w', s'))"
  shows "s' = s\<lparr>br_creator := None, br_opener := None\<rparr>"
proof -
  from assms obtain v t where q: "bridge_close_opener env (w, s) = (Inr (), (v, t))"
    and c: "bridge_close_creator env (v, t) = (Inr (), (w', s'))"
    by (auto simp: bridge_close_buffers_def method_success)
  from q have "t = s\<lparr>br_opener := None\<rparr>"
    by (cases "br_opener s") (auto simp: bridge_close_opener_def method_success on_opener_def)
  moreover from c have "s' = t\<lparr>br_creator := None\<rparr>"
    by (cases "br_creator t") (auto simp: bridge_close_creator_def method_success on_creator_def)
  ultimately show ?thesis by simp
qed

interpretation bridge_end: destroyable "bridge_close env" "\<lambda>s. br_creator s = None \<and> br_opener s = None" for env
proof unfold_locales
  fix w s w' s' assume run: "bridge_close env (w, s) = (Inr (), (w', s'))"
  show "br_creator s' = None \<and> br_opener s' = None"
  proof (cases "br_creator s = None \<and> br_opener s = None")
    case True
    with run show ?thesis by (auto simp: bridge_close_def method_success)
  next
    case False
    with run obtain u v t where "bridge_close_buffers env (u, s) = (Inr (), (v, t))" "s' = t"
      by (auto simp: bridge_close_def method_success io_finally_success_iff restore_device_def split: if_splits)
    with bridge_close_buffers_success [of env u s v t] show ?thesis by simp
  qed
qed (simp add: bridge_close_def io_bind_def self_apply io_return_def)

text \<open>A constructed bridge joins two different indexed GPUs, has a positive payload limit, and both of its ends are
  open on the same heap with that size.\<close>

definition bridge_connected :: "bridge \<Rightarrow> bool" where
  "bridge_connected s \<longleftrightarrow> dev_index (br_source s) \<noteq> None \<and> dev_index (br_destination s) \<noteq> None \<and>
     br_source s \<noteq> br_destination s \<and> 0 < br_max s \<and> br_epoch s = 0 \<and>
     (\<exists>c q. br_creator s = Some c \<and> br_opener s = Some q \<and> buf_size c = br_max s \<and> buf_size q = br_max s \<and>
        buf_name c = buf_name q \<and> 0 < buf_pointer c \<and> 0 < buf_pointer q)"

lemma indexed_device_success:
  "indexed_device T a = Inr d \<Longrightarrow> dev_type d = ''cuda'' \<and> dev_index d \<noteq> None"
  by (auto simp: indexed_device_def split: sum.splits if_splits)

lemma bridge_init_post:
  "io_post (bridge_init env T pe source destination mx) (\<lambda>_ u. bridge_connected (snd u)) (\<lambda>_ _. True) (w, s)"
proof -
  have bufs: "io_post (bridge_buffers env pe name) (\<lambda>_ u. bridge_connected (snd u)) (\<lambda>_ _. True) (v, r)"
    if "dev_index (br_source r) \<noteq> None" "dev_index (br_destination r) \<noteq> None" "br_source r \<noteq> br_destination r"
      "0 < br_max r" "br_epoch r = 0" for name v r
    using that by (auto simp: bridge_buffers_def wp bridge_connected_def intro!: shared_new_post)
  have fin: "io_post (io_finally (io_catch (bridge_buffers env pe name) (\<lambda>e. io_then m (io_of_sum (Inl e)))) (restore_device env p))
      (\<lambda>_ u. bridge_connected (snd u)) (\<lambda>_ _. True) (v, r)"
    if "dev_index (br_source r) \<noteq> None" "dev_index (br_destination r) \<noteq> None" "br_source r \<noteq> br_destination r"
      "0 < br_max r" "br_epoch r = 0" for name v r m p
    unfolding wp
    by (rule io_post_mono [OF bufs [OF that]])
       (auto simp: split_paired_all restore_device_def wp io_post_def [of "io_of_sum _"] io_of_sum_def intro!: any_world io_post_any)
  note out = io_post_bind io_post_then io_post_on_world io_post_update_self io_post_raise io_post_of_sum
  show ?thesis
    by (auto simp: bridge_init_def out split_beta dest!: indexed_device_success intro!: any_world fin split: sum.splits if_splits)
qed

end
