(* ===== verification/Context_Managers.thy ===== *)
theory Context_Managers
  imports D3d12_Transfer Win32_Barrier
begin

text \<open>
  The three classes that can head a \<open>with\<close> statement: \<open>D3D12SharedBuffer\<close>, \<open>D3D12TensorBridge\<close> and
  \<open>Win32PairBarrier\<close>. \<open>__enter__\<close> returns the object and \<open>__exit__\<close> closes it and never swallows an exception.
\<close>

definition with_statement :: "('w, 'o, unit) meth \<Rightarrow> ('w, 'o, 'a) meth \<Rightarrow> ('w, 'o, 'a) meth" where
  "with_statement leave body = io_finally body leave"

definition shared_exit :: "'w extern \<Rightarrow> ('w, d3d12_buffer, unit) meth" where
  "shared_exit env = shared_close env"

definition bridge_exit :: "'w extern \<Rightarrow> ('w, bridge, unit) meth" where
  "bridge_exit env = bridge_close env"

definition barrier_exit :: "'w extern \<Rightarrow> ('w, barrier, unit) meth" where
  "barrier_exit env = barrier_close env"

context destroyable
begin

text \<open>A block that ends normally leaves a closed object, and the result is the body's.\<close>

lemma with_closes:
  assumes "with_statement destroy body (w, s) = (Inr y, (w', s'))"
  shows "closed s' \<and> (\<exists>u. body (w, s) = (Inr y, u))"
  using assms by (auto simp: with_statement_def io_finally_success_iff intro: destroy_closes)

lemma with_closed: "body (w, s) = (r, (v, t)) \<Longrightarrow> closed t \<Longrightarrow> with_statement destroy body (w, s) = (r, (v, t))"
  by (simp add: with_statement_def io_finally_def closed_kept)

end

lemma close_handles_success: "close_handles env n (w, b) = (Inr (), (w', b')) \<Longrightarrow> length (bar_handles b) \<le> n \<Longrightarrow> bar_handles b' = []"
proof (induction n arbitrary: w b)
  case (Suc n)
  show ?case
  proof (cases "bar_handles b = []")
    case True
    with Suc.prems show ?thesis by (simp add: io_success self_apply)
  next
    case False
    with Suc.prems(1) obtain v where "close_handles env n (v, b\<lparr>bar_handles := butlast (bar_handles b)\<rparr>) = (Inr (), (w', b'))"
      by (auto simp: method_success split: if_splits)
    from Suc.IH [OF this] Suc.prems(2) show ?thesis by simp
  qed
qed (simp add: io_success)

interpretation shared_end: destroyable "shared_exit env" "\<lambda>b. buf_context b = None" for env
proof unfold_locales
  fix w b w' b' assume "shared_exit env (w, b) = (Inr (), (w', b'))"
  then show "buf_context b' = None" using shared_close_outcome [of env w b] by (auto simp: shared_exit_def)
qed (simp add: shared_exit_def shared_close_def io_bind_def self_apply io_return_def)

interpretation bridge_with: destroyable "bridge_exit env" "\<lambda>s. br_creator s = None \<and> br_opener s = None" for env
  unfolding bridge_exit_def by (rule bridge_end.destroyable_axioms)

interpretation barrier_end: destroyable "barrier_exit env" "\<lambda>b. bar_handles b = []" for env
  by unfold_locales
    (auto simp: barrier_exit_def barrier_close_def io_bind_def self_apply io_return_def dest: close_handles_success)

text \<open>A \<open>with\<close> block over a shared buffer releases its context however it ends, and reports the body's exception unless
closing itself failed.\<close>

lemma shared_with_releases:
  assumes "body (w, b) = (r, (v, t))"
  shows "\<exists>r' v'. with_statement (shared_exit env) body (w, b) = (r', (v', t\<lparr>buf_context := None\<rparr>)) \<and>
    (r' = r \<or> fst (shared_close env (v, t)) = r' \<and> (\<exists>e. r' = Inl e))"
proof -
  obtain q v' where q: "shared_close env (v, t) = (q, (v', t\<lparr>buf_context := None\<rparr>))"
    using shared_close_outcome by blast
  then show ?thesis
    using assms by (cases q) (simp_all add: with_statement_def shared_exit_def io_finally_def)
qed

end
