(* ===== verification/Copy_Benchmark.thy ===== *)
theory Copy_Benchmark
  imports Rank_Launch
begin

text \<open>
  \<open>probes/benchmark_cross_device.py\<close>: one process copies and adds tensors of two GPUs, directly and through pinned host
  memory. The clock, the argument parser and the printed summary are not modelled.
\<close>

section \<open>The operations\<close>

record copy_tensors =
  source0 :: tensor
  source1 :: tensor
  destination0 :: tensor
  destination1 :: tensor
  stage0 :: tensor
  stage1 :: tensor
  stage_sum :: tensor

definition add_into :: "'w extern \<Rightarrow> tensor \<Rightarrow> tensor \<Rightarrow> ('w world, unit) io" where
  "add_into env d t = torch_do env ''add_'' [tensor_arg d, tensor_arg t]"

definition add_out :: "'w extern \<Rightarrow> tensor \<Rightarrow> tensor \<Rightarrow> tensor \<Rightarrow> ('w world, unit) io" where
  "add_out env t u out = torch_do env ''add'' [tensor_arg t, tensor_arg u, tensor_arg out]"

definition cross_device_copy :: "'w extern \<Rightarrow> copy_tensors \<Rightarrow> ('w world, unit) io" where
  "cross_device_copy env b = copy_into env (destination1 b) (source0 b)"

definition explicit_host_copy :: "'w extern \<Rightarrow> copy_tensors \<Rightarrow> ('w world, unit) io" where
  "explicit_host_copy env b =
     io_then (copy_into env (stage0 b) (source0 b))
     (copy_into env (destination1 b) (stage0 b))"

definition cross_device_all_reduce :: "'w extern \<Rightarrow> copy_tensors \<Rightarrow> ('w world, unit) io" where
  "cross_device_all_reduce env b =
     io_then (copy_into env (destination0 b) (source1 b))
    (io_then (add_into env (destination0 b) (source0 b))
     (copy_into env (destination1 b) (destination0 b)))"

definition pinned_host_all_reduce :: "'w extern \<Rightarrow> copy_tensors \<Rightarrow> ('w world, unit) io" where
  "pinned_host_all_reduce env b =
     io_then (copy_into env (stage0 b) (source0 b))
    (io_then (copy_into env (stage1 b) (source1 b))
    (io_then (add_out env (stage0 b) (stage1 b) (stage_sum b))
    (io_then (copy_into env (destination0 b) (stage_sum b))
     (copy_into env (destination1 b) (stage_sum b)))))"

section \<open>The benchmark\<close>

definition copy_iterations :: "int \<Rightarrow> nat" where
  "copy_iterations n = (if n \<le> 64 * 1024 then 100 else if n \<le> 1024 * 1024 then 30 else 10)"

definition sync_both :: "'w extern \<Rightarrow> ('w world, unit) io" where
  "sync_both env = io_then (torch_do env ''synchronize'' [PyInt 0]) (torch_do env ''synchronize'' [PyInt 1])"

definition measure_copies :: "'w extern \<Rightarrow> ('w world, unit) io \<Rightarrow> nat \<Rightarrow> ('w world, unit) io" where
  "measure_copies env operation iterations =
     io_then (io_repeat 3 operation) (io_then (sync_both env) (io_then (io_repeat iterations operation) (sync_both env)))"

definition pinned :: "'w extern \<Rightarrow> torch_api \<Rightarrow> nat \<Rightarrow> ('w world, tensor) io" where
  "pinned env T n =
     io_bind (call_ext env (Torch ''empty'' [PyInt (int n), PyStr ''pin_memory''])) (\<lambda>(p, _).
       io_return (contiguous_on T \<lparr>t_shape = [n], t_stride = [], t_dtype = Float32, t_device = cpu, t_ptr = 0\<rparr> p))"

definition copy_allocate :: "'w extern \<Rightarrow> torch_api \<Rightarrow> nat \<Rightarrow> ('w world, copy_tensors) io" where
  "copy_allocate env T n =
     io_bind (full env T n ''1.0'' Float32 (cuda 0)) (\<lambda>s0.
     io_bind (full env T n ''2.0'' Float32 (cuda 1)) (\<lambda>s1.
     io_bind (empty_like env T s0) (\<lambda>d0.
     io_bind (empty_like env T s1) (\<lambda>d1.
     io_bind (pinned env T n) (\<lambda>h0.
     io_bind (pinned env T n) (\<lambda>h1.
     io_bind (pinned env T n) (\<lambda>h.
     io_return \<lparr>source0 = s0, source1 = s1, destination0 = d0, destination1 = d1, stage0 = h0, stage1 = h1, stage_sum = h\<rparr>)))))))"

text \<open>\<open>torch.all(destination0 == 3.0).item() and torch.all(destination1 == 3.0).item()\<close>\<close>

definition both_equal :: "'w extern \<Rightarrow> copy_tensors \<Rightarrow> string \<Rightarrow> ('w world, bool) io" where
  "both_equal env b v =
     io_bind (all_equal env (destination0 b) v) (\<lambda>first. if first then all_equal env (destination1 b) v else io_return False)"

record copy_case =
  cp_bytes :: int
  cp_iterations :: nat
  cp_copy :: bool
  cp_cross :: bool
  cp_pinned :: bool

definition copy_correct :: "copy_case \<Rightarrow> bool" where
  "copy_correct c \<longleftrightarrow> cp_copy c \<and> cp_cross c \<and> cp_pinned c"

definition copy_measure :: "'w extern \<Rightarrow> torch_api \<Rightarrow> int \<Rightarrow> ('w world, copy_case) io" where
  "copy_measure env T n =
     (let iterations = copy_iterations n in
      io_bind (copy_allocate env T (nat (max 1 (n div 4)))) (\<lambda>b.
      io_then (measure_copies env (cross_device_copy env b) iterations)
     (io_then (measure_copies env (explicit_host_copy env b) iterations)
     (io_then (measure_copies env (cross_device_all_reduce env b) iterations)
     (io_then (measure_copies env (pinned_host_all_reduce env b) iterations)
     (io_then (cross_device_copy env b)
     (io_then (sync_both env)
     (io_bind (all_equal env (destination1 b) ''1.0'') (\<lambda>copied.
      io_then (cross_device_all_reduce env b)
     (io_then (sync_both env)
     (io_bind (both_equal env b ''3.0'') (\<lambda>crossed.
      io_then (pinned_host_all_reduce env b)
     (io_then (sync_both env)
     (io_bind (both_equal env b ''3.0'') (\<lambda>staged_sum.
      io_return \<lparr>cp_bytes = n, cp_iterations = iterations, cp_copy = copied, cp_cross = crossed, cp_pinned = staged_sum\<rparr>)))))))))))))))"

definition copy_main :: "'w extern \<Rightarrow> torch_api \<Rightarrow> int list \<Rightarrow> ('w world, copy_case list \<times> int) io" where
  "copy_main env T sizes =
     io_bind (call_ext env (Torch ''device_count'' [])) (\<lambda>(devices, _).
     if devices < 2 then io_raise SystemExit ''two GPUs are required''
     else
       io_bind (io_list (copy_measure env T) sizes) (\<lambda>records.
       io_then (torch_do env ''can_device_access_peer'' [PyInt 0, PyInt 1])
      (io_then (torch_do env ''can_device_access_peer'' [PyInt 1, PyInt 0])
      (io_return (records, if list_all copy_correct records then 0 else 1)))))"

text \<open>Without sizes nothing is measured or compared, and the benchmark says that it passed.\<close>

lemma benchmark_without_sizes: "copy_main env T [] w = (Inr (records, code), w') \<Longrightarrow> records = [] \<and> code = 0"
  by (auto simp: copy_main_def io_success split: if_splits)

section \<open>What the operations compute\<close>

text \<open>The effect of the calls on memory, for any addition of tensors.\<close>

definition copy_effect :: "('a \<Rightarrow> 'a \<Rightarrow> 'a) \<Rightarrow> ecall \<Rightarrow> (nat \<Rightarrow> 'a) \<Rightarrow> (nat \<Rightarrow> 'a)" where
  "copy_effect add c m =
     (case c of
        Torch fn [PyStruct _ [d], PyStruct _ [s]] \<Rightarrow>
          (if fn = ''copy_'' then m(d := m s) else if fn = ''add_'' then m(d := add (m d) (m s)) else m)
      | Torch fn [PyStruct _ [s], PyStruct _ [t], PyStruct _ [d]] \<Rightarrow> (if fn = ''add'' then m(d := add (m s) (m t)) else m)
      | _ \<Rightarrow> m)"

definition copies_on :: "('a \<Rightarrow> 'a \<Rightarrow> 'a) \<Rightarrow> ecall list \<Rightarrow> (nat \<Rightarrow> 'a) \<Rightarrow> (nat \<Rightarrow> 'a)" where
  "copies_on add cs m = fold (copy_effect add) cs m"

lemma copy_effect_simps [simp]:
  "copy_effect add (Torch ''copy_'' [tensor_arg d, tensor_arg s]) m = m(storage d := m (storage s))"
  "copy_effect add (Torch ''add_'' [tensor_arg d, tensor_arg s]) m = m(storage d := add (m (storage d)) (m (storage s)))"
  "copy_effect add (Torch ''add'' [tensor_arg s, tensor_arg t, tensor_arg d]) m =
     m(storage d := add (m (storage s)) (m (storage t)))"
  by (simp_all add: copy_effect_def tensor_arg_def)

text \<open>\<open>effect_of add m f\<close>: whenever \<open>m\<close> returns, the calls it made change the memory by \<open>f\<close>.\<close>

definition effect_of :: "('a \<Rightarrow> 'a \<Rightarrow> 'a) \<Rightarrow> ('w world, unit) io \<Rightarrow> ((nat \<Rightarrow> 'a) \<Rightarrow> (nat \<Rightarrow> 'a)) \<Rightarrow> bool" where
  "effect_of add m f \<longleftrightarrow> (\<forall>w w'. m w = (Inr (), w') \<longrightarrow> (\<exists>cs. wlog w' = wlog w @ cs \<and> (\<forall>a. copies_on add cs a = f a)))"

lemma effect_of_then: "effect_of add m f \<Longrightarrow> effect_of add n g \<Longrightarrow> effect_of add (io_then m n) (g \<circ> f)"
proof -
  assume m: "effect_of add m f" and n: "effect_of add n g"
  show ?thesis
    unfolding effect_of_def
  proof (intro allI impI)
    fix w w'
    assume "io_then m n w = (Inr (), w')"
    then obtain v where "m w = (Inr (), v)" "n v = (Inr (), w')"
      by (auto simp: io_then_success_iff)
    with m n obtain cs ds where "wlog v = wlog w @ cs" "\<And>a. copies_on add cs a = f a" "wlog w' = wlog v @ ds"
      "\<And>a. copies_on add ds a = g a"
      unfolding effect_of_def by blast
    then show "\<exists>cs. wlog w' = wlog w @ cs \<and> (\<forall>a. copies_on add cs a = (g \<circ> f) a)"
      by (intro exI [of _ "cs @ ds"]) (simp add: copies_on_def)
  qed
qed

lemma effect_of_torch: "effect_of add (torch_do env fn args) (copy_effect add (Torch fn args))"
  unfolding effect_of_def copies_on_def by (auto dest!: torch_do_success)

lemma effect_of_repeat: "effect_of add m f \<Longrightarrow> effect_of add (io_repeat n m) (f ^^ n)"
proof (induction n)
  case 0
  show ?case by (auto simp: effect_of_def copies_on_def io_return_success_iff)
next
  case (Suc n)
  from effect_of_then [OF Suc.prems Suc.IH [OF Suc.prems]] show ?case by (simp add: funpow_swap1 comp_def)
qed

lemma funpow_idem: "(\<And>a. f (f a) = f a) \<Longrightarrow> (f ^^ Suc n) a = f a"
  by (induction n) simp_all

definition apart :: "copy_tensors \<Rightarrow> bool" where
  "apart b \<longleftrightarrow> distinct (map (nat \<circ> t_ptr) [source0 b, source1 b, destination0 b, destination1 b, stage0 b, stage1 b, stage_sum b])"

lemma copy_effects:
  "effect_of add (copy_into env d t) (copy_effect add (Torch ''copy_'' [tensor_arg d, tensor_arg t]))"
  "effect_of add (add_into env d t) (copy_effect add (Torch ''add_'' [tensor_arg d, tensor_arg t]))"
  "effect_of add (add_out env t u d) (copy_effect add (Torch ''add'' [tensor_arg t, tensor_arg u, tensor_arg d]))"
  unfolding copy_into_def add_into_def add_out_def by (rule effect_of_torch)+

text \<open>What one run of each operation leaves in memory; running it again changes nothing.\<close>

definition crossed :: "('a \<Rightarrow> 'a \<Rightarrow> 'a) \<Rightarrow> copy_tensors \<Rightarrow> (nat \<Rightarrow> 'a) \<Rightarrow> (nat \<Rightarrow> 'a)" where
  "crossed add b m =
     (let total = add (m (storage (source1 b))) (m (storage (source0 b))) in
      m(storage (destination0 b) := total, storage (destination1 b) := total))"

definition pinned_sum :: "('a \<Rightarrow> 'a \<Rightarrow> 'a) \<Rightarrow> copy_tensors \<Rightarrow> (nat \<Rightarrow> 'a) \<Rightarrow> (nat \<Rightarrow> 'a)" where
  "pinned_sum add b m =
     (let total = add (m (storage (source0 b))) (m (storage (source1 b))) in
      m(storage (stage0 b) := m (storage (source0 b)), storage (stage1 b) := m (storage (source1 b)), storage (stage_sum b) := total,
        storage (destination0 b) := total, storage (destination1 b) := total))"

lemma effect_of_cong: "effect_of add m f \<Longrightarrow> (\<And>a. f a = g a) \<Longrightarrow> effect_of add m g"
  by (simp add: effect_of_def)

lemma cross_effect: "apart b \<Longrightarrow> effect_of add (cross_device_all_reduce env b) (crossed add b)"
  unfolding cross_device_all_reduce_def
  by (rule effect_of_cong [OF effect_of_then [OF copy_effects(1) effect_of_then [OF copy_effects(2) copy_effects(1)]]])
    (auto simp: crossed_def apart_def Let_def fun_eq_iff)

lemma pinned_effect: "apart b \<Longrightarrow> effect_of add (pinned_host_all_reduce env b) (pinned_sum add b)"
  unfolding pinned_host_all_reduce_def
  by (rule effect_of_cong [OF effect_of_then [OF copy_effects(1) effect_of_then [OF copy_effects(1)
      effect_of_then [OF copy_effects(3) effect_of_then [OF copy_effects(1) copy_effects(1)]]]]])
    (auto simp: pinned_sum_def apart_def Let_def fun_eq_iff)

lemma crossed_again: "apart b \<Longrightarrow> crossed add b (crossed add b m) = crossed add b m"
  by (auto simp: crossed_def apart_def Let_def fun_eq_iff)

lemma pinned_again: "apart b \<Longrightarrow> pinned_sum add b (pinned_sum add b m) = pinned_sum add b m"
  by (auto simp: pinned_sum_def apart_def Let_def fun_eq_iff)

lemma repeated_effect:
  assumes "effect_of add m f" and "\<And>a. f (f a) = f a" and "io_repeat (Suc n) m w = (Inr (), w')"
  shows "\<exists>cs. wlog w' = wlog w @ cs \<and> (\<forall>a. copies_on add cs a = f a)"
  using effect_of_repeat [OF assms(1), of "Suc n"] assms(3) funpow_idem [of f n, OF assms(2)] unfolding effect_of_def by metis

lemma crossed_at:
  "apart b \<Longrightarrow> map (crossed add b m \<circ> nat \<circ> t_ptr) [destination0 b, destination1 b, source0 b, source1 b] =
     (let total = add (m (storage (source1 b))) (m (storage (source0 b))) in
      [total, total, m (storage (source0 b)), m (storage (source1 b))])"
  by (simp add: crossed_def apart_def Let_def)

lemma pinned_at:
  "apart b \<Longrightarrow> map (pinned_sum add b m \<circ> nat \<circ> t_ptr) [destination0 b, destination1 b, source0 b, source1 b] =
     (let total = add (m (storage (source0 b))) (m (storage (source1 b))) in
      [total, total, m (storage (source0 b)), m (storage (source1 b))])"
  by (simp add: pinned_sum_def apart_def Let_def)

text \<open>C40: the two all-reduces the benchmark compares are the same function of memory: however often each is repeated (at least
once, as the timing loop does), both leave the sum of the two sources in both destinations and leave the sources as they were,
for any commutative addition of tensors, provided the seven tensors have storage of their own.\<close>

theorem device_reductions_agree:
  assumes "apart b" and "\<And>x y. add x y = add y x"
    and "io_repeat (Suc n) (cross_device_all_reduce env b) w = (Inr (), w')"
    and "io_repeat (Suc k) (pinned_host_all_reduce env b) v = (Inr (), v')"
  shows "\<exists>cs ds. wlog w' = wlog w @ cs \<and> wlog v' = wlog v @ ds \<and>
     (let total = add (m (storage (source0 b))) (m (storage (source1 b))) in
      map (copies_on add cs m \<circ> nat \<circ> t_ptr) [destination0 b, destination1 b, source0 b, source1 b] =
        [total, total, m (storage (source0 b)), m (storage (source1 b))] \<and>
      map (copies_on add ds m \<circ> nat \<circ> t_ptr) [destination0 b, destination1 b, source0 b, source1 b] =
        [total, total, m (storage (source0 b)), m (storage (source1 b))])"
proof -
  obtain cs where cs: "wlog w' = wlog w @ cs" "\<And>a. copies_on add cs a = crossed add b a"
    using repeated_effect [OF cross_effect [OF assms(1)] crossed_again [OF assms(1)] assms(3)] by blast
  obtain ds where ds: "wlog v' = wlog v @ ds" "\<And>a. copies_on add ds a = pinned_sum add b a"
    using repeated_effect [OF pinned_effect [OF assms(1)] pinned_again [OF assms(1)] assms(4)] by blast
  show ?thesis
    unfolding Let_def
    by (intro exI [of _ cs] exI [of _ ds] conjI cs(1) ds(1))
      (simp_all only: cs(2) ds(2) crossed_at [OF assms(1)] pinned_at [OF assms(1)] Let_def assms(2) [of "m (storage (source1 b))"])
qed

definition sample_copies :: copy_tensors where
  "sample_copies =
     (let t = sample_tensor Float32 8 in
      \<lparr>source0 = t 1, source1 = t 2, destination0 = t 3, destination1 = t 4, stage0 = t 5, stage1 = t 6, stage_sum = t 7\<rparr>)"

lemma device_reductions_agree_witness:
  "\<exists>cs. map (copies_on (+) cs (\<lambda>p. 10 * p) \<circ> nat \<circ> t_ptr) [destination0 sample_copies, destination1 sample_copies] = [30, 30]"
proof -
  let ?w = "\<lparr>wext = 0 :: nat, wlog = []\<rparr>"
  have "apart sample_copies" by code_simp
  moreover have "io_post (io_repeat (Suc 2) (cross_device_all_reduce fresh_env sample_copies)) (\<lambda>_ _. True) (\<lambda>_ _. False) ?w"
    unfolding io_post_def by code_simp
  moreover have "io_post (io_repeat (Suc 1) (pinned_host_all_reduce fresh_env sample_copies)) (\<lambda>_ _. True) (\<lambda>_ _. False) ?w"
    unfolding io_post_def by code_simp
  ultimately obtain v v' where run: "io_repeat (Suc 2) (cross_device_all_reduce fresh_env sample_copies) ?w = (Inr (), v)"
    "io_repeat (Suc 1) (pinned_host_all_reduce fresh_env sample_copies) ?w = (Inr (), v')" and sep: "apart sample_copies"
    unfolding io_post_returns by auto
  have at: "storage (source0 sample_copies) = 1" "storage (source1 sample_copies) = 2"
    by (simp_all add: sample_copies_def sample_tensor_def)
  from device_reductions_agree [where m = "\<lambda>p. 10 * p" and add = "(+)", OF sep add.commute run(1,2)]
  obtain cs where "map (copies_on (+) cs (\<lambda>p. 10 * p) \<circ> nat \<circ> t_ptr) [destination0 sample_copies, destination1 sample_copies,
      source0 sample_copies, source1 sample_copies] = [30, 30, 10, 20]"
    unfolding Let_def at by (elim exE conjE) (rule that, simp)
  then show ?thesis by (intro exI [of _ cs]) simp
qed

end
