(* ===== verification/Cross_Process_Probe.thy ===== *)
theory Cross_Process_Probe
  imports D3d12_Transfer Rank_Launch
begin

text \<open>
  \<open>probes/d3d12_cross_process_probe.py\<close>: two processes exchange a payload through \<^emph>\<open>one\<close> shared heap and one timeline fence.
  The creator stores its payload and signals 1; the opener loads it, stores its own and signals 2; the creator loads that.
  The two events that order the opening are calls of the system; the printed summary is not modelled.
\<close>

section \<open>Constants\<close>

definition CROSS_BYTES :: int where
  "CROSS_BYTES = 1024 * 1024"

definition FIRST_VALUE :: string where
  "FIRST_VALUE = ''3.25''"

definition SECOND_VALUE :: string where
  "SECOND_VALUE = ''7.5''"

section \<open>One rank\<close>

record cross_record =
  cr_rank :: int
  cr_opened :: bool
  cr_received :: bool
  cr_pointer :: "int option"
  cr_error :: "exn option"
  cr_close_error :: "exn option"

record cross_rank =
  co_shared :: "d3d12_buffer option"
  co_record :: cross_record

definition start_cross :: "int \<Rightarrow> cross_rank" where
  "start_cross rank = \<lparr>co_shared = None, co_record = \<lparr>cr_rank = rank, cr_opened = False, cr_received = False,
     cr_pointer = None, cr_error = None, cr_close_error = None\<rparr>\<rparr>"

definition on_shared :: "d3d12_buffer \<Rightarrow> ('w, d3d12_buffer, 'a) meth \<Rightarrow> ('w, cross_rank, 'a) meth" where
  "on_shared b m = on_field (\<lambda>_. b) (\<lambda>b s. s\<lparr>co_shared := Some b\<rparr>) m"

definition cross_connect :: "'w extern \<Rightarrow> pyenv \<Rightarrow> string \<Rightarrow> int \<Rightarrow> ('w, cross_rank, d3d12_buffer) meth" where
  "cross_connect env pe name rank =
     (if rank = 0 then
        io_bind (on_world (shared_new env pe name CROSS_BYTES rank True None)) (\<lambda>b.
        io_then (update_self (\<lambda>s. s\<lparr>co_shared := Some b\<rparr>))
       (io_then (on_world (event_set env ''creator_ready''))
       (io_then (on_world (event_wait env ''opener_ready'' ''peer did not open the D3D12 objects''))
       (io_return b))))
      else
        io_then (on_world (event_wait env ''creator_ready'' ''creator did not publish the D3D12 objects''))
       (io_bind (on_world (shared_new env pe name CROSS_BYTES rank False None)) (\<lambda>b.
        io_then (update_self (\<lambda>s. s\<lparr>co_shared := Some b\<rparr>))
       (io_then (on_world (event_set env ''opener_ready''))
       (io_return b)))))"

definition creator_exchange :: "'w extern \<Rightarrow> torch_api \<Rightarrow> int \<Rightarrow> d3d12_buffer \<Rightarrow> ('w, cross_rank, bool) meth" where
  "creator_exchange env T stream b =
     io_bind (on_world (full env T (nat (CROSS_BYTES div 4)) FIRST_VALUE Float32 (cuda 0))) (\<lambda>outgoing.
     io_bind (on_world (empty_like env T outgoing)) (\<lambda>incoming.
     io_then (on_world (memcpy_async env (buf_pointer b) (t_ptr outgoing) CROSS_BYTES HIP_MEMCPY_DEFAULT stream))
    (io_then (on_shared b (shared_signal env 1 stream))
    (io_then (on_shared b (shared_wait env 2 stream))
    (io_then (on_world (memcpy_async env (t_ptr incoming) (buf_pointer b) CROSS_BYTES HIP_MEMCPY_DEFAULT stream))
    (io_then (on_world (stream_synchronize env stream))
    (on_world (all_equal env incoming SECOND_VALUE))))))))"

definition opener_exchange :: "'w extern \<Rightarrow> torch_api \<Rightarrow> int \<Rightarrow> d3d12_buffer \<Rightarrow> ('w, cross_rank, bool) meth" where
  "opener_exchange env T stream b =
     io_bind (on_world (empty env T [nat (CROSS_BYTES div 4)] Float32 (cuda 1))) (\<lambda>incoming.
     io_bind (on_world (full_like env T incoming SECOND_VALUE)) (\<lambda>outgoing.
     io_then (on_shared b (shared_wait env 1 stream))
    (io_then (on_world (memcpy_async env (t_ptr incoming) (buf_pointer b) CROSS_BYTES HIP_MEMCPY_DEFAULT stream))
    (io_then (on_world (memcpy_async env (buf_pointer b) (t_ptr outgoing) CROSS_BYTES HIP_MEMCPY_DEFAULT stream))
    (io_then (on_shared b (shared_signal env 2 stream))
    (io_then (on_world (stream_synchronize env stream))
    (on_world (all_equal env incoming FIRST_VALUE))))))))"

definition cross_body :: "'w extern \<Rightarrow> pyenv \<Rightarrow> torch_api \<Rightarrow> string \<Rightarrow> int \<Rightarrow> ('w, cross_rank, unit) meth" where
  "cross_body env pe T name rank =
     io_then (on_world (torch_do env ''set_device'' [PyInt rank]))
    (io_bind (on_world (hip_init env pe None [])) (\<lambda>_.
     io_bind (cross_connect env pe name rank) (\<lambda>b.
     io_bind (on_world (current_stream env (cuda rank))) (\<lambda>stream.
     io_bind (if rank = 0 then creator_exchange env T stream b else opener_exchange env T stream b) (\<lambda>correct.
     update_self (\<lambda>s. s\<lparr>co_record := (co_record s)\<lparr>cr_received := correct, cr_pointer := Some (buf_pointer b),
       cr_opened := True\<rparr>\<rparr>))))))"

text \<open>A failing rank releases a peer that waits for either event.\<close>

definition cross_failed :: "'w extern \<Rightarrow> exn \<Rightarrow> ('w, cross_rank, unit) meth" where
  "cross_failed env e =
     io_then (update_self (\<lambda>s. s\<lparr>co_record := (co_record s)\<lparr>cr_opened := False, cr_received := False, cr_error := Some e\<rparr>\<rparr>))
    (io_then (on_world (event_set env ''creator_ready''))
    (on_world (event_set env ''opener_ready'')))"

definition cross_close :: "'w extern \<Rightarrow> ('w, cross_rank, unit) meth" where
  "cross_close env =
     io_bind self (\<lambda>s. case co_shared s of
       None \<Rightarrow> io_return ()
     | Some b \<Rightarrow> io_catch (on_shared b (shared_close env))
         (\<lambda>e. update_self (\<lambda>s. s\<lparr>co_record := (co_record s)\<lparr>cr_close_error := Some e\<rparr>\<rparr>)))"

definition cross_main :: "'w extern \<Rightarrow> pyenv \<Rightarrow> torch_api \<Rightarrow> string \<Rightarrow> int \<Rightarrow> ('w world, cross_record) io" where
  "cross_main env pe T name rank = (\<lambda>w.
     case io_finally (io_catch (cross_body env pe T name rank) (cross_failed env)) (cross_close env) (w, start_cross rank) of
       (Inl e, (w', _)) \<Rightarrow> (Inl e, w')
     | (Inr _, (w', s)) \<Rightarrow> (Inr (co_record s), w'))"

definition cross_passed :: "cross_record list \<Rightarrow> bool" where
  "cross_passed records \<longleftrightarrow> length records = 2 \<and> list_all cr_opened records \<and> list_all cr_received records"

text \<open>\<open>main\<close>: the name of the heap is fresh, and both processes get it.\<close>

definition cross_launch :: "'w extern \<Rightarrow> (int \<Rightarrow> cross_record) \<Rightarrow> ('w world, cross_record list \<times> int) io" where
  "cross_launch env unpickle =
     io_bind (call_ext env (Os ''uuid4'' [])) (\<lambda>(_, outs).
     let name = ''Local'' @ [char_of (92::nat)] @ ''wavmg-'' @ (case out_str outs of None \<Rightarrow> [] | Some h \<Rightarrow> h)
     in launch env unpickle cr_rank cross_passed (45 + 15) 5 [name] 2)"

section \<open>The two streams\<close>

definition creator_block :: "'a \<Rightarrow> 'a cmd list" where
  "creator_block x = [StoreBegin 0, StoreEnd 0 x, Signal 0 1, WaitGe 0 2, ReadBegin 0, LoadEnd]"

definition opener_block :: "'a \<Rightarrow> 'a cmd list" where
  "opener_block y = [WaitGe 0 1, ReadBegin 0, LoadEnd, StoreBegin 0, StoreEnd 0 y, Signal 0 2]"

definition swap_progs :: "'a \<Rightarrow> 'a \<Rightarrow> nat \<Rightarrow> 'a cmd list" where
  "swap_progs x y = two_streams (creator_block x) (opener_block y)"

text \<open>The heap belongs to the creator until its first signal, then to the opener until the second, then to the creator.\<close>

definition swap_inv :: "'a \<Rightarrow> 'a \<Rightarrow> 'a gpu \<Rightarrow> bool" where
  "swap_inv x y s \<longleftrightarrow>
     pc s 0 \<le> 6 \<and> pc s 1 \<le> 6 \<and> (pc s 0 < 3 \<longrightarrow> pc s 1 = 0) \<and> (3 < pc s 0 \<longrightarrow> pc s 1 = 6) \<and>
     sem s 0 = (if pc s 0 < 3 then 0 else if pc s 1 < 6 then 1 else 2) \<and>
     (pc s 0 = 2 \<or> pc s 0 = 3 \<and> pc s 1 \<le> 3 \<longrightarrow> mem s 0 = Some x) \<and> (5 \<le> pc s 1 \<longrightarrow> mem s 0 = Some y) \<and>
     (pc s 1 = 2 \<longrightarrow> reading s 1 = Some (0, Some x)) \<and> (pc s 0 = 5 \<longrightarrow> reading s 0 = Some (0, Some y)) \<and>
     outs s 0 = (if pc s 0 = 6 then [Some y] else []) \<and> outs s 1 = (if 3 \<le> pc s 1 then [Some x] else [])"

lemma block_lengths: "length (creator_block x) = 6" "length (opener_block y) = 6"
  by (simp_all add: creator_block_def opener_block_def)

lemma less_6_cases: "(k::nat) < 6 \<Longrightarrow> k = 0 \<or> k = 1 \<or> k = 2 \<or> k = 3 \<or> k = 4 \<or> k = 5"
  by arith

lemma swap_inv_step:
  assumes inv: "swap_inv x y s" and step: "gpu_step add (swap_progs x y) s t"
  shows "swap_inv x y t"
  using step
proof (cases rule: gpu_step.cases)
  case (gpu_step_exec r u)
  then have "r = 0 \<or> r = 1" by (auto simp: swap_progs_def two_streams_def split: if_splits)
  then show ?thesis
  proof
    assume r: "r = 0"
    with gpu_step_exec(2) have "pc s 0 < 6" by (simp add: swap_progs_def two_streams_def creator_block_def)
    from less_6_cases [OF this] show ?thesis
      by (elim disjE; use inv gpu_step_exec r in \<open>clarsimp simp: swap_inv_def swap_progs_def two_streams_def creator_block_def
        split: if_split_asm\<close>)
  next
    assume r: "r = 1"
    with gpu_step_exec(2) have "pc s 1 < 6" by (simp add: swap_progs_def two_streams_def opener_block_def)
    from less_6_cases [OF this] show ?thesis
      by (elim disjE; use inv gpu_step_exec r in \<open>clarsimp simp: swap_inv_def swap_progs_def two_streams_def opener_block_def
        split: if_split_asm\<close>)
  qed
qed

lemma swap_moves:
  assumes inv: "swap_inv x y s" and unfinished: "\<not> gpu_done (swap_progs x y) [0, 1] s"
  shows "\<exists>t. gpu_step add (swap_progs x y) s t"
proof (cases "pc s 0 < 6 \<and> (pc s 0 = 3 \<longrightarrow> pc s 1 = 6)")
  case True
  have sem: "pc s 0 = 3 \<Longrightarrow> sem s 0 = 2" using True inv by (simp add: swap_inv_def)
  from less_6_cases [OF conjunct1 [OF True]] have "exec add 0 (swap_progs x y 0 ! pc s 0) s \<noteq> None"
    by (elim disjE) (simp_all add: swap_progs_def two_streams_def creator_block_def sem)
  with True show ?thesis
    by (intro gpu_can_step [of s 0]) (simp_all add: swap_progs_def two_streams_def creator_block_def)
next
  case False
  have "\<not> (pc s 0 = 6 \<and> pc s 1 = 6)"
    using unfinished by (simp add: gpu_done_def swap_progs_def two_streams_def block_lengths)
  moreover have "pc s 0 \<le> 6" "pc s 1 \<le> 6" "3 < pc s 0 \<longrightarrow> pc s 1 = 6" using inv by (simp_all add: swap_inv_def)
  ultimately have at: "pc s 0 = 3" "pc s 1 < 6" using False by linarith+
  have sem: "sem s 0 = 1" using at inv by (simp add: swap_inv_def)
  from less_6_cases [OF at(2)] have "exec add 1 (swap_progs x y 1 ! pc s 1) s \<noteq> None"
    by (elim disjE) (simp_all add: swap_progs_def two_streams_def opener_block_def sem)
  with at show ?thesis
    by (intro gpu_can_step [of s 1]) (simp_all add: swap_progs_def two_streams_def opener_block_def)
qed

interpretation swap: two_stream_protocol add "swap_progs x y" "swap_inv x y"
  for add :: "'a \<Rightarrow> 'a \<Rightarrow> 'a" and x y :: 'a
proof unfold_locales
  fix s t :: "'a gpu" and r
  show "gpu_init s \<Longrightarrow> swap_inv x y s" by (simp add: gpu_init_def swap_inv_def)
  show "swap_inv x y s \<Longrightarrow> gpu_step add (swap_progs x y) s t \<Longrightarrow> swap_inv x y t" by (rule swap_inv_step)
  show "swap_inv x y s \<Longrightarrow> \<not> gpu_done (swap_progs x y) [0, 1] s \<Longrightarrow> \<exists>t. gpu_step add (swap_progs x y) s t" by (rule swap_moves)
  show "swap_progs x y r \<noteq> [] \<Longrightarrow> r = 0 \<or> r = Suc 0" by (simp add: swap_progs_def two_streams_def split: if_splits)
qed

lemma swap_results:
  assumes "reach gpu_init (gpu_step add (swap_progs x y)) s" and "gpu_done (swap_progs x y) [0, 1] s"
  shows "outs s 0 = [Some y] \<and> outs s 1 = [Some x]"
  using swap.reach_inv [OF assms(1)] assms(2)
  by (simp add: swap_inv_def gpu_done_def swap_progs_def two_streams_def creator_block_def opener_block_def)

section \<open>From the calls to the streams\<close>

text \<open>
  A native call of one rank as commands of its stream \<open>st\<close>: a copy into its pointer stores its payload, a copy out of it
  loads, and the fence calls are those with its context.
\<close>

definition cross_commands :: "d3d12_buffer \<Rightarrow> u64 \<Rightarrow> 'a \<Rightarrow> ecall \<Rightarrow> 'a cmd list" where
  "cross_commands b st x c =
     (case c of
        Native fn vs \<Rightarrow>
          (if fn = ''hipMemcpyAsync'' then
             (case vs of [VPtr dst, VPtr src, _, _, VPtr h] \<Rightarrow>
                (if h \<noteq> st then []
                 else if dst = word_of_int (buf_pointer b) then [StoreBegin 0, StoreEnd 0 x]
                 else if src = word_of_int (buf_pointer b) then [ReadBegin 0, LoadEnd]
                 else [])
              | _ \<Rightarrow> [])
           else if fn = ''wavmg_d3d12_signal'' then
             (case vs of [VPtr k, VU64 v, VPtr h] \<Rightarrow> (if k = context_word (buf_context b) \<and> h = st then [Signal 0 (unat v)] else []) | _ \<Rightarrow> [])
           else if fn = ''wavmg_d3d12_wait'' then
             (case vs of [VPtr k, VU64 v, VPtr h] \<Rightarrow> (if k = context_word (buf_context b) \<and> h = st then [WaitGe 0 (unat v)] else []) | _ \<Rightarrow> [])
           else [])
      | _ \<Rightarrow> [])"

lemma cross_commands_simps [simp]:
  "cross_commands b st x (Torch f args) = []"
  "cross_commands b st x (Native ''hipStreamSynchronize'' vs) = []"
  "cross_commands b st x (Native ''wavmg_d3d12_signal'' [VPtr k, VU64 v, VPtr h]) =
     (if k = context_word (buf_context b) \<and> h = st then [Signal 0 (unat v)] else [])"
  "cross_commands b st x (Native ''wavmg_d3d12_wait'' [VPtr k, VU64 v, VPtr h]) =
     (if k = context_word (buf_context b) \<and> h = st then [WaitGe 0 (unat v)] else [])"
  "cross_commands b st x (Native ''hipMemcpyAsync'' [VPtr dst, VPtr src, n, k', VPtr h]) =
     (if h \<noteq> st then []
      else if dst = word_of_int (buf_pointer b) then [StoreBegin 0, StoreEnd 0 x]
      else if src = word_of_int (buf_pointer b) then [ReadBegin 0, LoadEnd]
      else [])"
  by (simp_all add: cross_commands_def)

lemmas cross_success = memcpy_async_success shared_signal_success shared_wait_success stream_synchronize_success

lemma creator_exchange_block:
  assumes "torch_ok T" and "outside_heap env b" and "creator_exchange env T st b (w, l) = (Inr ok, (w', l'))"
  shows "\<exists>cs. wlog w' = wlog w @ cs \<and> concat (map (cross_commands b (word_of_int st) x) cs) = creator_block x"
  using assms(3)
  apply (clarsimp simp: creator_exchange_def on_shared_def method_success)
  apply (drule cross_success tensor_success [OF assms(1,2)])+
  apply (clarsimp simp: creator_block_def)
  done

lemma opener_exchange_block:
  assumes "torch_ok T" and "outside_heap env b" and "opener_exchange env T st b (w, l) = (Inr ok, (w', l'))"
  shows "\<exists>cs. wlog w' = wlog w @ cs \<and> concat (map (cross_commands b (word_of_int st) y) cs) = opener_block y"
  using assms(3)
  apply (clarsimp simp: opener_exchange_def on_shared_def method_success)
  apply (drule cross_success tensor_success [OF assms(1,2)])+
  apply (clarsimp simp: opener_block_def)
  done


text \<open>A heap at address 4096 and an environment whose tensors are at address 1.\<close>

definition sample_heap :: d3d12_buffer where
  "sample_heap = \<lparr>buf_name = ''heap'', buf_size = CROSS_BYTES, buf_device = 0, buf_context = Some 7, buf_pointer = 4096\<rparr>"

definition tensors_at_1 :: "nat extern" where
  "tensors_at_1 = (\<lambda>c n. (Inr (case c of Torch f as \<Rightarrow> 1 | _ \<Rightarrow> 0, []), Suc n))"

text \<open>Both exchanges return when the native calls succeed and the calls of \<open>torch\<close> do not raise.\<close>

lemma exchange_returns:
  assumes "obliging env"
  shows "io_post (creator_exchange env T st b) (\<lambda>_ _. True) (\<lambda>_ _. False) u"
    and "io_post (opener_exchange env T st b) (\<lambda>_ _. True) (\<lambda>_ _. False) u"
  unfolding creator_exchange_def opener_exchange_def on_shared_def full_def full_like_def empty_like_def empty_def all_equal_def
    memcpy_async_def stream_synchronize_def wp
  by (intro obliging_call [OF assms] hip_do_returns [OF assms] shared_signal_returns [OF assms] shared_wait_returns [OF assms];
      simp add: handle_ok_def)+


end
