(* ===== verification/Json_Text.thy ===== *)
theory Json_Text
  imports Py_Text
begin

text \<open>
  What the model scripts use of Python's \<open>json\<close> and of UTF-8. Text is a list of code points. An object is a
  dictionary: an association list in insertion order whose keys are distinct. A number with a fraction or an
  exponent is kept as the text \<open>repr\<close> prints for it: \<open>fr\<close> stands for \<open>repr(float(literal))\<close>. Neither Python's limit on the
  digits of an integer nor its recursion limit is modelled. \<open>loads\<close> follows the decoder of the
  standard library (its string scanner, its number pattern, the \<open>NaN\<close> and \<open>Infinity\<close> extensions); \<open>dumps\<close> its
  encoder with \<open>ensure_ascii\<close>, compact or indented.
\<close>

type_synonym codes = "nat list"

definition cps :: "string \<Rightarrow> codes" where
  "cps s = map of_char s"

datatype json =
    JNull | JBool bool | JInt int | JFloat codes | JStr codes | JList "json list" | JObj "(codes \<times> json) list"

text \<open>\<open>d[k] = v\<close> and \<open>d.get(k)\<close>.\<close>

fun dict_set :: "'k \<Rightarrow> 'v \<Rightarrow> ('k \<times> 'v) list \<Rightarrow> ('k \<times> 'v) list" where
  "dict_set k v [] = [(k, v)]"
| "dict_set k v ((k', v') # kvs) = (if k' = k then (k, v) # kvs else (k', v') # dict_set k v kvs)"

definition dict_of :: "('k \<times> 'v) list \<Rightarrow> ('k \<times> 'v) list" where
  "dict_of kvs = fold (\<lambda>(k, v). dict_set k v) kvs []"

section \<open>Encoding\<close>

definition hex_digit :: "nat \<Rightarrow> nat" where
  "hex_digit d = (if d < 10 then 48 + d else 87 + d)"

definition hex4 :: "nat \<Rightarrow> codes" where
  "hex4 c = [hex_digit (c div 4096 mod 16), hex_digit (c div 256 mod 16), hex_digit (c div 16 mod 16), hex_digit (c mod 16)]"

definition escape_char :: "nat \<Rightarrow> codes" where
  "escape_char c =
     (if c = 34 then [92, 34] else if c = 92 then [92, 92]
      else if c = 10 then [92, 110] else if c = 13 then [92, 114] else if c = 9 then [92, 116]
      else if c = 12 then [92, 102] else if c = 8 then [92, 98]
      else if 32 \<le> c \<and> c \<le> 126 then [c]
      else if c < 0x10000 then [92, 117] @ hex4 c
      else [92, 117] @ hex4 (0xD800 + (c - 0x10000) div 0x400) @ [92, 117] @ hex4 (0xDC00 + (c - 0x10000) mod 0x400))"

definition quote :: "codes \<Rightarrow> codes" where
  "quote s = [34] @ concat (map escape_char s) @ [34]"

fun dumps :: "json \<Rightarrow> codes" and dumps_elems :: "json list \<Rightarrow> codes" and dumps_members :: "(codes \<times> json) list \<Rightarrow> codes" where
  "dumps JNull = cps ''null''"
| "dumps (JBool b) = cps (if b then ''true'' else ''false'')"
| "dumps (JInt i) = cps (py_str i)"
| "dumps (JFloat f) = f"
| "dumps (JStr s) = quote s"
| "dumps (JList vs) = [91] @ dumps_elems vs @ [93]"
| "dumps (JObj kvs) = [123] @ dumps_members kvs @ [125]"
| "dumps_elems [] = []"
| "dumps_elems [v] = dumps v"
| "dumps_elems (v # w # vs) = dumps v @ [44] @ dumps_elems (w # vs)"
| "dumps_members [] = []"
| "dumps_members [(k, v)] = quote k @ [58] @ dumps v"
| "dumps_members ((k, v) # kv # kvs) = quote k @ [58] @ dumps v @ [44] @ dumps_members (kv # kvs)"

text \<open>\<open>dumps(value, indent=2)\<close>, at a level of nesting.\<close>

definition line_break :: "nat \<Rightarrow> codes" where
  "line_break level = 10 # replicate (2 * level) 32"

fun dumps_indented :: "nat \<Rightarrow> json \<Rightarrow> codes"
  and indented_elems :: "nat \<Rightarrow> json list \<Rightarrow> codes"
  and indented_members :: "nat \<Rightarrow> (codes \<times> json) list \<Rightarrow> codes" where
  "dumps_indented level (JList []) = [91, 93]"
| "dumps_indented level (JList (v # vs)) =
     [91] @ line_break (Suc level) @ indented_elems level (v # vs) @ line_break level @ [93]"
| "dumps_indented level (JObj []) = [123, 125]"
| "dumps_indented level (JObj (kv # kvs)) =
     [123] @ line_break (Suc level) @ indented_members level (kv # kvs) @ line_break level @ [125]"
| "dumps_indented level JNull = dumps JNull"
| "dumps_indented level (JBool b) = dumps (JBool b)"
| "dumps_indented level (JInt i) = dumps (JInt i)"
| "dumps_indented level (JFloat f) = dumps (JFloat f)"
| "dumps_indented level (JStr s) = dumps (JStr s)"
| "indented_elems level [] = []"
| "indented_elems level [v] = dumps_indented (Suc level) v"
| "indented_elems level (v # w # vs) =
     dumps_indented (Suc level) v @ [44] @ line_break (Suc level) @ indented_elems level (w # vs)"
| "indented_members level [] = []"
| "indented_members level [(k, v)] = quote k @ [58, 32] @ dumps_indented (Suc level) v"
| "indented_members level ((k, v) # kv # kvs) = quote k @ [58, 32] @ dumps_indented (Suc level) v @
     [44] @ line_break (Suc level) @ indented_members level (kv # kvs)"

section \<open>Decoding\<close>

definition is_ws :: "nat \<Rightarrow> bool" where
  "is_ws c \<longleftrightarrow> c = 32 \<or> c = 9 \<or> c = 10 \<or> c = 13"

definition skip_ws :: "codes \<Rightarrow> codes" where
  "skip_ws s = dropWhile is_ws s"

definition hex_value :: "nat \<Rightarrow> nat option" where
  "hex_value c = (if 48 \<le> c \<and> c \<le> 57 then Some (c - 48) else if 97 \<le> c \<and> c \<le> 102 then Some (c - 87)
     else if 65 \<le> c \<and> c \<le> 70 then Some (c - 55) else None)"

definition hex4_value :: "nat \<Rightarrow> nat \<Rightarrow> nat \<Rightarrow> nat \<Rightarrow> nat option" where
  "hex4_value a b c d = (case (hex_value a, hex_value b, hex_value c, hex_value d) of
     (Some p, Some q, Some r, Some s) \<Rightarrow> Some (4096 * p + 256 * q + 16 * r + s) | _ \<Rightarrow> None)"

definition unescape :: "nat \<Rightarrow> nat option" where
  "unescape e = (if e = 34 \<or> e = 92 \<or> e = 47 then Some e else if e = 98 then Some 8 else if e = 102 then Some 12
     else if e = 110 then Some 10 else if e = 114 then Some 13 else if e = 116 then Some 9 else None)"

definition cons_char :: "nat \<Rightarrow> (codes \<times> codes) option \<Rightarrow> (codes \<times> codes) option" where
  "cons_char c r = (case r of None \<Rightarrow> None | Some (s, rest) \<Rightarrow> Some (c # s, rest))"

text \<open>A \<open>\u\<close> escape after the backslash and the \<open>u\<close>: its code point, a surrogate pair counting as one.\<close>

definition unicode_escape :: "codes \<Rightarrow> (nat \<times> codes) option" where
  "unicode_escape s =
     (case s of a # b # c # d # rest \<Rightarrow>
        (case hex4_value a b c d of
           None \<Rightarrow> None
         | Some u \<Rightarrow>
             if 0xD800 \<le> u \<and> u \<le> 0xDBFF then
               (case rest of x # y # a' # b' # c' # d' # rest' \<Rightarrow>
                  (if x = 92 \<and> y = 117 then
                     (case hex4_value a' b' c' d' of
                        None \<Rightarrow> None
                      | Some u' \<Rightarrow> if 0xDC00 \<le> u' \<and> u' \<le> 0xDFFF
                          then Some (0x10000 + (u - 0xD800) * 0x400 + (u' - 0xDC00), rest') else Some (u, rest))
                   else Some (u, rest))
                | _ \<Rightarrow> Some (u, rest))
             else Some (u, rest))
      | _ \<Rightarrow> None)"

text \<open>The rest of a string literal after its opening quote; the number bounds the characters read.\<close>

fun parse_chars :: "nat \<Rightarrow> codes \<Rightarrow> (codes \<times> codes) option" where
  "parse_chars 0 s = None"
| "parse_chars (Suc n) [] = None"
| "parse_chars (Suc n) (c # s) =
     (if c = 34 then Some ([], s)
      else if c = 92 then
        (case s of [] \<Rightarrow> None
         | e # es \<Rightarrow>
             if e = 117 then (case unicode_escape es of None \<Rightarrow> None | Some (u, r) \<Rightarrow> cons_char u (parse_chars n r))
             else (case unescape e of None \<Rightarrow> None | Some x \<Rightarrow> cons_char x (parse_chars n es)))
      else if c < 32 then None
      else cons_char c (parse_chars n s))"

definition parse_string :: "codes \<Rightarrow> (codes \<times> codes) option" where
  "parse_string s = parse_chars (Suc (length s)) s"

definition is_digit :: "nat \<Rightarrow> bool" where
  "is_digit c \<longleftrightarrow> 48 \<le> c \<and> c \<le> 57"

definition digits_value :: "codes \<Rightarrow> nat" where
  "digits_value ds = foldl (\<lambda>n d. 10 * n + (d - 48)) 0 ds"

text \<open>The fraction and the exponent of a number, when present.\<close>

definition fraction_length :: "codes \<Rightarrow> nat" where
  "fraction_length s = (case s of c # r \<Rightarrow>
     (let k = length (takeWhile is_digit r) in if c \<noteq> 46 \<or> k = 0 then 0 else Suc k) | _ \<Rightarrow> 0)"

definition exponent_length :: "codes \<Rightarrow> nat" where
  "exponent_length s = (case s of e # r \<Rightarrow>
     (if e = 101 \<or> e = 69 then
        (let sign = (case r of c # _ \<Rightarrow> if c = 43 \<or> c = 45 then 1 else 0 | _ \<Rightarrow> 0);
             k = length (takeWhile is_digit (drop sign r))
         in if k = 0 then 0 else Suc (sign + k))
      else 0) | _ \<Rightarrow> 0)"

definition parse_number :: "(codes \<Rightarrow> codes) \<Rightarrow> codes \<Rightarrow> (json \<times> codes) option" where
  "parse_number fr s =
     (let neg = (case s of c # _ \<Rightarrow> c = 45 | [] \<Rightarrow> False);
          t = (if neg then tl s else s);
          ds = takeWhile is_digit t;
          whole = (if ds \<noteq> [] \<and> hd ds = 48 then [48] else ds);
          r = drop (length whole) t;
          f = fraction_length r;
          x = exponent_length (drop f r)
      in if whole = [] then None
         else if f + x = 0 then Some (JInt (if neg then - int (digits_value whole) else int (digits_value whole)), r)
         else Some (JFloat (fr ((if neg then [45] else []) @ whole @ take (f + x) r)), drop (f + x) r))"

definition parse_word :: "(codes \<Rightarrow> codes) \<Rightarrow> codes \<Rightarrow> (json \<times> codes) option" where
  "parse_word fr s =
     (if take 4 s = cps ''null'' then Some (JNull, drop 4 s)
      else if take 4 s = cps ''true'' then Some (JBool True, drop 4 s)
      else if take 5 s = cps ''false'' then Some (JBool False, drop 5 s)
      else if take 3 s = cps ''NaN'' then Some (JFloat (cps ''NaN''), drop 3 s)
      else if take 8 s = cps ''Infinity'' then Some (JFloat (cps ''Infinity''), drop 8 s)
      else if take 9 s = cps ''-Infinity'' then Some (JFloat (cps ''-Infinity''), drop 9 s)
      else parse_number fr s)"

fun parse_value :: "(codes \<Rightarrow> codes) \<Rightarrow> nat \<Rightarrow> codes \<Rightarrow> (json \<times> codes) option"
  and parse_elems :: "(codes \<Rightarrow> codes) \<Rightarrow> nat \<Rightarrow> codes \<Rightarrow> (json list \<times> codes) option"
  and parse_members :: "(codes \<Rightarrow> codes) \<Rightarrow> nat \<Rightarrow> codes \<Rightarrow> ((codes \<times> json) list \<times> codes) option" where
  "parse_value fr 0 s = None"
| "parse_value fr (Suc n) s =
     (case s of
        [] \<Rightarrow> None
      | c # cs \<Rightarrow>
          if c = 34 then map_option (\<lambda>(t, r). (JStr t, r)) (parse_string cs)
          else if c = 91 then
            (case skip_ws cs of
               [] \<Rightarrow> None
             | d # ds \<Rightarrow> if d = 93 then Some (JList [], ds)
                 else map_option (\<lambda>(vs, r). (JList vs, r)) (parse_elems fr n (d # ds)))
          else if c = 123 then
            (case skip_ws cs of
               [] \<Rightarrow> None
             | d # ds \<Rightarrow> if d = 125 then Some (JObj [], ds)
                 else map_option (\<lambda>(kvs, r). (JObj (dict_of kvs), r)) (parse_members fr n (d # ds)))
          else parse_word fr s)"
| "parse_elems fr 0 s = None"
| "parse_elems fr (Suc n) s =
     (case parse_value fr n s of
        None \<Rightarrow> None
      | Some (v, r) \<Rightarrow>
          (case skip_ws r of
             [] \<Rightarrow> None
           | d # ds \<Rightarrow> if d = 93 then Some ([v], ds)
               else if d = 44 then map_option (\<lambda>(vs, q). (v # vs, q)) (parse_elems fr n (skip_ws ds))
               else None))"
| "parse_members fr 0 s = None"
| "parse_members fr (Suc n) s =
     (case s of
        [] \<Rightarrow> None
      | q # cs \<Rightarrow>
          if q \<noteq> 34 then None
          else (case parse_string cs of
             None \<Rightarrow> None
           | Some (k, r) \<Rightarrow>
               (case skip_ws r of
                  [] \<Rightarrow> None
                | c # ds \<Rightarrow>
                    if c \<noteq> 58 then None
                    else (case parse_value fr n (skip_ws ds) of
                       None \<Rightarrow> None
                     | Some (v, r') \<Rightarrow>
                         (case skip_ws r' of
                            [] \<Rightarrow> None
                          | d # es \<Rightarrow> if d = 125 then Some ([(k, v)], es)
                              else if d = 44 then map_option (\<lambda>(kvs, p). ((k, v) # kvs, p)) (parse_members fr n (skip_ws es))
                              else None)))))"

definition parse_fuel :: "codes \<Rightarrow> nat" where
  "parse_fuel s = 2 * length s + 2"

text \<open>\<open>json.loads\<close>; \<open>JSONDecodeError\<close> is a \<open>ValueError\<close>.\<close>

definition loads :: "(codes \<Rightarrow> codes) \<Rightarrow> codes \<Rightarrow> exn + json" where
  "loads fr s =
     (case parse_value fr (parse_fuel s) (skip_ws s) of
        None \<Rightarrow> Inl (Exn ValueError ''JSONDecodeError'')
      | Some (v, r) \<Rightarrow> if skip_ws r = [] then Inr v else Inl (Exn ValueError ''Extra data''))"

section \<open>UTF-8\<close>

definition continuation :: "nat \<Rightarrow> bool" where
  "continuation b \<longleftrightarrow> 128 \<le> b \<and> b < 192"

fun utf8_decode :: "nat list \<Rightarrow> codes option" where
  "utf8_decode [] = Some []"
| "utf8_decode (b # bs) =
     (if b < 128 then map_option ((#) b) (utf8_decode bs)
      else if 194 \<le> b \<and> b < 224 then
        (case bs of c # r \<Rightarrow> (if continuation c
            then map_option ((#) ((b - 192) * 64 + (c - 128))) (utf8_decode r) else None) | _ \<Rightarrow> None)
      else if 224 \<le> b \<and> b < 240 then
        (case bs of c # d # r \<Rightarrow>
           (let u = (b - 224) * 4096 + (c - 128) * 64 + (d - 128) in
            if continuation c \<and> continuation d \<and> 0x800 \<le> u \<and> \<not> (0xD800 \<le> u \<and> u \<le> 0xDFFF)
            then map_option ((#) u) (utf8_decode r) else None) | _ \<Rightarrow> None)
      else if 240 \<le> b \<and> b < 245 then
        (case bs of c # d # e # r \<Rightarrow>
           (let u = (b - 240) * 262144 + (c - 128) * 4096 + (d - 128) * 64 + (e - 128) in
            if continuation c \<and> continuation d \<and> continuation e \<and> 0x10000 \<le> u \<and> u < 0x110000
            then map_option ((#) u) (utf8_decode r) else None) | _ \<Rightarrow> None)
      else None)"

definition utf8_char :: "nat \<Rightarrow> nat list option" where
  "utf8_char c =
     (if c < 0x80 then Some [c]
      else if c < 0x800 then Some [192 + c div 64, 128 + c mod 64]
      else if 0xD800 \<le> c \<and> c \<le> 0xDFFF then None
      else if c < 0x10000 then Some [224 + c div 4096, 128 + c div 64 mod 64, 128 + c mod 64]
      else if c < 0x110000 then Some [240 + c div 262144, 128 + c div 4096 mod 64, 128 + c div 64 mod 64, 128 + c mod 64]
      else None)"

fun utf8_encode :: "codes \<Rightarrow> nat list option" where
  "utf8_encode [] = Some []"
| "utf8_encode (c # s) = (case (utf8_char c, utf8_encode s) of (Some b, Some bs) \<Rightarrow> Some (b @ bs) | _ \<Rightarrow> None)"

end
