(* ===== verification/Disk.thy ===== *)
theory Disk
  imports Runtime_Paths Json_Text "HOL-Library.Sublist"
begin

text \<open>
  The file system the model scripts work on: files with their bytes, directories, and what the scripts have printed.
  A path is the list of its parts. Times, permissions and links are not modelled; \<open>OSError\<close> stands for opening a
  directory as a file.
\<close>

record disk =
  files :: "(path \<times> nat list) list"
  dirs :: "path list"
  console :: "codes list"

definition file_at :: "path \<Rightarrow> disk \<Rightarrow> nat list option" where
  "file_at p d = map_of (files d) p"

definition disk_is_file :: "path \<Rightarrow> disk \<Rightarrow> bool" where
  "disk_is_file p d \<longleftrightarrow> file_at p d \<noteq> None"

definition disk_exists :: "path \<Rightarrow> disk \<Rightarrow> bool" where
  "disk_exists p d \<longleftrightarrow> disk_is_file p d \<or> p \<in> set (dirs d)"

definition put_file :: "path \<Rightarrow> nat list \<Rightarrow> disk \<Rightarrow> disk" where
  "put_file p b d = d\<lparr>files := dict_set p b (files d)\<rparr>"

section \<open>Calls\<close>

definition read_bytes :: "path \<Rightarrow> (disk, nat list) io" where
  "read_bytes p = io_bind io_get (\<lambda>d. if p \<in> set (dirs d) then io_raise OSError ''is a directory''
     else (case file_at p d of None \<Rightarrow> io_raise FileNotFoundError ''no such file'' | Some b \<Rightarrow> io_return b))"

text \<open>\<open>open("w")\<close> empties the file or creates it; every \<open>write\<close> goes to its end.\<close>

definition create_file :: "path \<Rightarrow> (disk, unit) io" where
  "create_file p = io_bind io_get (\<lambda>d. if p \<in> set (dirs d) then io_raise OSError ''is a directory''
     else if butlast p \<notin> set (dirs d) then io_raise FileNotFoundError ''no such directory''
     else io_modify (put_file p []))"

definition append_file :: "path \<Rightarrow> nat list \<Rightarrow> (disk, unit) io" where
  "append_file p b = io_modify (\<lambda>d. put_file p ((case file_at p d of None \<Rightarrow> [] | Some a \<Rightarrow> a) @ b) d)"

definition stat_size :: "path \<Rightarrow> (disk, nat) io" where
  "stat_size p = io_bind io_get (\<lambda>d. case file_at p d of None \<Rightarrow> io_raise FileNotFoundError ''no such file''
     | Some b \<Rightarrow> io_return (length b))"

definition iterdir :: "path \<Rightarrow> (disk, path list) io" where
  "iterdir p = io_bind io_get (\<lambda>d. if disk_is_file p d then io_raise OSError ''not a directory''
     else if p \<notin> set (dirs d) then io_raise FileNotFoundError ''no such directory''
     else io_return (filter (\<lambda>q. q \<noteq> [] \<and> butlast q = p) (map fst (files d) @ dirs d)))"

text \<open>\<open>mkdir(parents=True, exist_ok=True)\<close>.\<close>

definition make_dirs :: "path \<Rightarrow> (disk, unit) io" where
  "make_dirs p = io_bind io_get (\<lambda>d.
     let new = map (\<lambda>n. take n p) [1..<Suc (length p)]
     in if list_ex (\<lambda>q. disk_is_file q d) new then io_raise FileExistsError ''not a directory''
        else io_modify (dirs_update (\<lambda>ds. ds @ filter (\<lambda>q. q \<notin> set ds) new)))"

definition print_line :: "codes \<Rightarrow> (disk, unit) io" where
  "print_line s = io_modify (console_update (\<lambda>c. c @ [s]))"

text \<open>Text files: UTF-8, with the newlines of a read file made uniform.\<close>

fun newlines_after :: "bool \<Rightarrow> codes \<Rightarrow> codes" where
  "newlines_after cr [] = []"
| "newlines_after cr (c # s) =
     (if c = 13 then 10 # newlines_after True s
      else if c = 10 \<and> cr then newlines_after False s
      else c # newlines_after False s)"

definition uniform_newlines :: "codes \<Rightarrow> codes" where
  "uniform_newlines s = newlines_after False s"

definition read_text :: "path \<Rightarrow> (disk, codes) io" where
  "read_text p = io_bind (read_bytes p) (\<lambda>b. case utf8_decode b of
     None \<Rightarrow> io_raise ValueError ''UnicodeDecodeError'' | Some s \<Rightarrow> io_return (uniform_newlines s))"

definition write_text :: "path \<Rightarrow> codes \<Rightarrow> (disk, unit) io" where
  "write_text p s = io_then (create_file p) (case utf8_encode s of
     None \<Rightarrow> io_raise ValueError ''UnicodeEncodeError'' | Some b \<Rightarrow> append_file p b)"

definition copy_file :: "path \<Rightarrow> path \<Rightarrow> (disk, unit) io" where
  "copy_file p q = io_bind (read_bytes p) (\<lambda>b. io_then (create_file q) (append_file q b))"

text \<open>\<open>key in value\<close> and \<open>value[key]\<close> for a key that is a string.\<close>

definition json_contains :: "json \<Rightarrow> codes \<Rightarrow> exn + bool" where
  "json_contains j k = (case j of JObj kvs \<Rightarrow> Inr (map_of kvs k \<noteq> None) | JList vs \<Rightarrow> Inr (JStr k \<in> set vs)
     | JStr s \<Rightarrow> Inr (sublist k s) | _ \<Rightarrow> Inl (Exn TypeError ''argument is not iterable''))"

definition json_item :: "json \<Rightarrow> codes \<Rightarrow> exn + json" where
  "json_item j k = (case j of JObj kvs \<Rightarrow> (case map_of kvs k of None \<Rightarrow> Inl (Exn KeyError ''key'') | Some v \<Rightarrow> Inr v)
     | _ \<Rightarrow> Inl (Exn TypeError ''not subscriptable by a string''))"

text \<open>\<open>value.get(key)\<close>: only a dictionary has it.\<close>

definition json_get :: "json \<Rightarrow> codes \<Rightarrow> json \<Rightarrow> exn + json" where
  "json_get j k v = (case j of JObj kvs \<Rightarrow> Inr (case map_of kvs k of None \<Rightarrow> v | Some w \<Rightarrow> w)
     | _ \<Rightarrow> Inl (Exn AttributeError ''get''))"

text \<open>\<open>for x in value\<close>.\<close>

definition json_iter :: "json \<Rightarrow> exn + json list" where
  "json_iter j = (case j of JObj kvs \<Rightarrow> Inr (map (JStr \<circ> fst) kvs) | JList vs \<Rightarrow> Inr vs
     | JStr s \<Rightarrow> Inr (map (\<lambda>c. JStr [c]) s) | _ \<Rightarrow> Inl (Exn TypeError ''not iterable''))"

section \<open>Facts\<close>

lemma io_of_sum_apply [io_simps]: "io_of_sum r s = (r, s)"
  by (simp add: io_of_sum_def)

lemma io_of_sum_success_iff: "io_of_sum r s = (Inr y, u) \<longleftrightarrow> r = Inr y \<and> u = s"
  by (auto simp: io_of_sum_def)

lemma map_of_dict_set [simp]: "map_of (dict_set k v kvs) = (map_of kvs)(k \<mapsto> v)"
  by (induction kvs) auto

lemma file_at_put [simp]: "file_at p (put_file q b d) = (if p = q then Some b else file_at p d)"
  by (simp add: file_at_def put_file_def)

lemma dirs_put [simp]: "dirs (put_file p b d) = dirs d" "console (put_file p b d) = console d"
  by (simp_all add: put_file_def)

lemma append_file_apply: "append_file p b d = (Inr (), put_file p ((case file_at p d of None \<Rightarrow> [] | Some a \<Rightarrow> a) @ b) d)"
  by (simp add: append_file_def io_simps)

end
