(* ===== verification/Json_Round_Trip.thy ===== *)
theory Json_Round_Trip
  imports Json_Text
begin

text \<open>
  The decoder reads back what the encoder writes: escaped strings (surrogate pairs included), integers, nested lists and
  objects, with enough fuel at every step of the recursion.
\<close>

section \<open>Strings\<close>

definition valid_char :: "nat \<Rightarrow> bool" where
  "valid_char c \<longleftrightarrow> c < 0x110000 \<and> \<not> (0xD800 \<le> c \<and> c \<le> 0xDFFF)"

definition valid_text :: "codes \<Rightarrow> bool" where
  "valid_text s \<longleftrightarrow> (\<forall>c\<in>set s. valid_char c)"

lemma hex_value_digit [simp]: "d < 16 \<Longrightarrow> hex_value (hex_digit d) = Some d"
  by (auto simp: hex_value_def hex_digit_def)

lemma hex4_value_digits: "c < 0x10000 \<Longrightarrow>
  hex4_value (hex_digit (c div 4096 mod 16)) (hex_digit (c div 256 mod 16)) (hex_digit (c div 16 mod 16)) (hex_digit (c mod 16)) = Some c"
proof -
  assume "c < 0x10000"
  have "c = 16 * (c div 16) + c mod 16" by simp
  moreover have "c div 16 = 16 * (c div 256) + c div 16 mod 16"
    using mult_div_mod_eq [of 16 "c div 16"] by (simp flip: div_mult2_eq)
  moreover have "c div 256 = 16 * (c div 4096) + c div 256 mod 16"
    using mult_div_mod_eq [of 16 "c div 256"] by (simp flip: div_mult2_eq)
  moreover have top: "c div 4096 mod 16 = c div 4096" using \<open>c < 0x10000\<close> by simp
  ultimately have "4096 * (c div 4096 mod 16) + 256 * (c div 256 mod 16) + 16 * (c div 16 mod 16) + c mod 16 = c"
    by linarith
  then show ?thesis unfolding hex4_value_def by (simp add: hex_value_digit del: mod_less)
qed

lemma unicode_escape_bmp:
  assumes "c < 0x10000" and "valid_char c"
  shows "unicode_escape (hex4 c @ rest) = Some (c, rest)"
  using assms hex4_value_digits [OF assms(1)] by (auto simp: unicode_escape_def hex4_def valid_char_def)

lemma unicode_escape_surrogates:
  assumes "0xD800 \<le> h" "h \<le> 0xDBFF" "0xDC00 \<le> l" "l \<le> 0xDFFF"
  shows "unicode_escape (hex4 h @ 92 # 117 # hex4 l @ rest) = Some (0x10000 + (h - 0xD800) * 0x400 + (l - 0xDC00), rest)"
proof -
  have "h < 0x10000" and "l < 0x10000" using assms by simp_all
  note digits = hex4_value_digits [OF this(1)] hex4_value_digits [OF this(2)]
  show ?thesis
    unfolding unicode_escape_def hex4_def append.simps list.case digits option.case
    using assms by simp
qed

lemma unicode_escape_pair:
  assumes "0x10000 \<le> c" and "c < 0x110000"
  shows "unicode_escape (hex4 (0xD800 + (c - 0x10000) div 0x400) @ 92 # 117 # hex4 (0xDC00 + (c - 0x10000) mod 0x400) @ rest) =
    Some (c, rest)"
proof -
  define u where "u = c - 0x10000"
  then have "u < 0x100000" and c: "c = 0x10000 + u" using assms by simp_all
  then have "u div 0x400 < 0x400" by (simp add: less_mult_imp_div_less)
  moreover have "0x10000 + u div 0x400 * 0x400 + u mod 0x400 = c" by (simp add: c)
  ultimately show ?thesis
    using unicode_escape_surrogates [of "0xD800 + u div 0x400" "0xDC00 + u mod 0x400" rest]
    unfolding u_def [symmetric] by (simp add: less_Suc_eq_le [symmetric])
qed

lemma parse_escaped:
  assumes "valid_char c"
  shows "parse_chars (Suc n) (escape_char c @ rest) = cons_char c (parse_chars n rest)"
proof -
  consider "c = 34 \<or> c = 92 \<or> c = 10 \<or> c = 13 \<or> c = 9 \<or> c = 12 \<or> c = 8"
    | "32 \<le> c" "c \<le> 126" "c \<noteq> 34" "c \<noteq> 92"
    | "c < 0x10000" "\<not> (32 \<le> c \<and> c \<le> 126)" "c \<notin> {10, 13, 9, 12, 8}"
    | "0x10000 \<le> c" by (cases "c < 0x10000") auto
  then show ?thesis
  proof cases
    case 1
    then show ?thesis by (auto simp: escape_char_def unescape_def)
  next
    case 2
    then show ?thesis by (simp add: escape_char_def)
  next
    case 3
    then show ?thesis
      using unicode_escape_bmp [OF 3(1) assms, of rest] by (auto simp: escape_char_def)
  next
    case 4
    then show ?thesis
      using unicode_escape_pair [OF 4, of rest] assms by (auto simp: escape_char_def valid_char_def)
  qed
qed

lemma escape_char_length: "1 \<le> length (escape_char c)"
  by (simp add: escape_char_def hex4_def)

lemma parse_chars_quoted:
  assumes "valid_text s" and "length s < n"
  shows "parse_chars n (concat (map escape_char s) @ 34 # rest) = Some (s, rest)"
  using assms
proof (induction s arbitrary: n)
  case Nil
  then show ?case by (cases n) simp_all
next
  case (Cons c s)
  then obtain m where "n = Suc m" "length s < m" by (cases n) auto
  with Cons show ?case by (simp add: parse_escaped valid_text_def cons_char_def)
qed

lemma concat_escape_length: "length s \<le> length (concat (map escape_char s))"
proof (induction s)
  case (Cons c s)
  have "length (c # s) = 1 + length s" by simp
  also have "\<dots> \<le> length (escape_char c) + length (concat (map escape_char s))"
    by (rule add_mono [OF escape_char_length Cons.IH])
  finally show ?case by simp
qed simp

lemma parse_string_quoted:
  assumes "valid_text s"
  shows "parse_string (concat (map escape_char s) @ 34 # rest) = Some (s, rest)"
  unfolding parse_string_def
  by (rule parse_chars_quoted [OF assms]) (use concat_escape_length [of s] in simp)

section \<open>Numbers\<close>

text \<open>What may follow a value inside a document.\<close>

definition stops :: "codes \<Rightarrow> bool" where
  "stops s \<longleftrightarrow> s = [] \<or> hd s \<in> {44, 93, 125} \<or> is_ws (hd s)"

lemma stops_not_number:
  assumes "stops s"
  shows "fraction_length s = 0" and "exponent_length s = 0" and "takeWhile is_digit s = []"
  using assms by (cases s; auto simp: stops_def is_ws_def fraction_length_def exponent_length_def is_digit_def)+

lemma digit_code: "d < 10 \<Longrightarrow> (of_char (digit_char d) :: nat) = 48 + d"
  by (simp add: digit_char_def)

lemma cps_digits: "\<forall>c\<in>set (cps (py_str_nat n)). is_digit c"
  using py_str_nat_all_digits [of _ n] by (fastforce simp: cps_def is_digit_def digit_code)

lemma digits_value_str: "digits_value (cps (py_str_nat n)) = n"
proof (induction n rule: py_str_nat.induct)
  case (1 n)
  show ?case
  proof (cases "n < 10")
    case True
    then show ?thesis by (subst py_str_nat.simps) (simp add: cps_def digits_value_def digit_code)
  next
    case False
    with 1 show ?thesis by (subst py_str_nat.simps) (simp add: cps_def digits_value_def digit_code)
  qed
qed

lemma first_digit: "hd (cps (py_str_nat n)) = 48 \<longleftrightarrow> n = 0"
proof (induction n rule: py_str_nat.induct)
  case (1 n)
  show ?case
  proof (cases "n < 10")
    case True
    then show ?thesis by (subst py_str_nat.simps) (simp add: cps_def digit_code)
  next
    case False
    with 1 have "hd (cps (py_str_nat (n div 10))) \<noteq> 48" by simp
    with False show ?thesis by (subst py_str_nat.simps) (simp add: cps_def hd_append)
  qed
qed

lemma cps_zero: "cps (py_str_nat 0) = [48]"
  by (subst py_str_nat.simps) (simp add: cps_def digit_code)

lemma cps_nonempty: "cps (py_str_nat n) \<noteq> []"
  by (simp add: cps_def)

lemma parse_number_digits:
  assumes "stops rest" and "\<forall>c\<in>set ds. is_digit c" and "ds \<noteq> []" and "hd ds = 48 \<Longrightarrow> ds = [48]"
  shows "parse_number fr (ds @ rest) = Some (JInt (int (digits_value ds)), rest)"
    and "parse_number fr (45 # ds @ rest) = Some (JInt (- int (digits_value ds)), rest)"
proof -
  obtain d ds' where ds: "ds = d # ds'" using assms(3) by (cases ds) auto
  have "d \<noteq> 45" using assms(2) by (auto simp: ds is_digit_def)
  moreover have "takeWhile is_digit (ds @ rest) = ds"
    using assms(2) stops_not_number(3) [OF assms(1)] by (simp add: takeWhile_append)
  moreover have "(if ds \<noteq> [] \<and> hd ds = 48 then [48] else ds) = ds" using assms(4) by auto
  ultimately show "parse_number fr (ds @ rest) = Some (JInt (int (digits_value ds)), rest)"
    and "parse_number fr (45 # ds @ rest) = Some (JInt (- int (digits_value ds)), rest)"
    using assms(3) stops_not_number(1,2) [OF assms(1)] by (auto simp: parse_number_def Let_def ds)
qed

lemma parse_number_int:
  assumes "stops rest"
  shows "parse_number fr (cps (py_str i) @ rest) = Some (JInt i, rest)"
proof -
  let ?ds = "cps (py_str_nat (nat \<bar>i\<bar>))"
  have str: "cps (py_str i) = (if i < 0 then 45 # ?ds else ?ds)"
    by (auto simp: py_str_def cps_def)
  have "hd ?ds = 48 \<Longrightarrow> ?ds = [48]" by (simp only: first_digit cps_zero)
  note number = parse_number_digits [OF assms cps_digits cps_nonempty this]
  show ?thesis
    using number by (cases "i < 0") (simp_all add: str digits_value_str)
qed

section \<open>Round trip\<close>

lemma dict_set_new: "k \<notin> fst ` set kvs \<Longrightarrow> dict_set k v kvs = kvs @ [(k, v)]"
  by (induction kvs) auto

lemma dict_of_distinct_append:
  "distinct (map fst (acc @ kvs)) \<Longrightarrow> fold (\<lambda>(k, v). dict_set k v) kvs acc = acc @ kvs"
  by (induction kvs arbitrary: acc) (auto simp: dict_set_new)

lemma dict_of_distinct: "distinct (map fst kvs) \<Longrightarrow> dict_of kvs = kvs"
  using dict_of_distinct_append [of "[]" kvs] by (simp add: dict_of_def)

text \<open>A value that \<open>dumps\<close> writes so that \<open>loads\<close> reads it back: no floating literal, valid text, distinct keys.\<close>

fun portable :: "json \<Rightarrow> bool" where
  "portable JNull = True"
| "portable (JBool b) = True"
| "portable (JInt i) = True"
| "portable (JFloat f) = False"
| "portable (JStr s) = valid_text s"
| "portable (JList vs) = (\<forall>v\<in>set vs. portable v)"
| "portable (JObj kvs) = (distinct (map fst kvs) \<and> (\<forall>kv\<in>set kvs. valid_text (fst kv) \<and> portable (snd kv)))"

lemma portable_code [code]: "portable (JList vs) = list_all portable vs"
  "portable (JObj kvs) = (distinct (map fst kvs) \<and> list_all (\<lambda>kv. valid_text (fst kv) \<and> portable (snd kv)) kvs)"
  by (simp_all add: list_all_iff)

lemma first_char:
  assumes "portable v"
  shows "\<exists>c cs. dumps v = c # cs \<and> c \<notin> {44, 58, 93, 125} \<and> \<not> is_ws c"
proof (cases v)
  case (JInt i)
  let ?ds = "cps (py_str_nat (nat \<bar>i\<bar>))"
  obtain d ds where ds: "?ds = d # ds" using cps_nonempty [of "nat \<bar>i\<bar>"] by (cases ?ds) auto
  with cps_digits [of "nat \<bar>i\<bar>"] have "is_digit d" by simp
  moreover have "cps (py_str i) = (if i < 0 then 45 # d # ds else d # ds)"
    using ds by (auto simp: py_str_def cps_def)
  ultimately show ?thesis by (auto simp: JInt is_digit_def is_ws_def)
qed (use assms in \<open>auto simp: cps_def quote_def is_ws_def\<close>)

lemma skip_ws_dumps: "portable v \<Longrightarrow> skip_ws (dumps v @ r) = dumps v @ r"
  using first_char [of v] by (auto simp: skip_ws_def)

lemma take_words: "take 4 s = cps ''null'' \<Longrightarrow> hd s = 110" "take 4 s = cps ''true'' \<Longrightarrow> hd s = 116"
  "take 5 s = cps ''false'' \<Longrightarrow> hd s = 102" "take 3 s = cps ''NaN'' \<Longrightarrow> hd s = 78"
  "take 8 s = cps ''Infinity'' \<Longrightarrow> hd s = 73" "take 9 s = cps ''-Infinity'' \<Longrightarrow> hd s = 45 \<and> hd (tl s) = 73"
  by (cases s; cases "tl s"; simp add: cps_def)+

lemma no_word:
  assumes "hd s = 45 \<and> is_digit (hd (tl s)) \<or> is_digit (hd s)"
  shows "parse_word fr s = parse_number fr s"
proof -
  have "take 4 s \<noteq> cps ''null''" "take 4 s \<noteq> cps ''true''" "take 5 s \<noteq> cps ''false''"
    "take 3 s \<noteq> cps ''NaN''" "take 8 s \<noteq> cps ''Infinity''" "take 9 s \<noteq> cps ''-Infinity''"
    using assms by (auto dest!: take_words simp: is_digit_def)
  then show ?thesis by (simp add: parse_word_def)
qed

lemma parse_word_int:
  assumes "stops rest"
  shows "parse_word fr (cps (py_str i) @ rest) = Some (JInt i, rest)"
proof -
  let ?ds = "cps (py_str_nat (nat \<bar>i\<bar>))"
  have str: "cps (py_str i) = (if i < 0 then 45 # ?ds else ?ds)"
    by (auto simp: py_str_def cps_def)
  obtain d ds where ds: "?ds = d # ds" using cps_nonempty [of "nat \<bar>i\<bar>"] by (cases ?ds) auto
  with cps_digits [of "nat \<bar>i\<bar>"] have "is_digit d" by simp
  then have "parse_word fr (cps (py_str i) @ rest) = parse_number fr (cps (py_str i) @ rest)"
    unfolding str ds by (intro no_word) simp
  then show ?thesis by (simp add: parse_number_int [OF assms])
qed

lemma scalar_start:
  assumes "stops rest"
  shows "parse_value fr (Suc n) (cps ''null'' @ rest) = Some (JNull, rest)"
    and "parse_value fr (Suc n) (cps ''true'' @ rest) = Some (JBool True, rest)"
    and "parse_value fr (Suc n) (cps ''false'' @ rest) = Some (JBool False, rest)"
    and "parse_value fr (Suc n) (cps (py_str i) @ rest) = Some (JInt i, rest)"
proof -
  show "parse_value fr (Suc n) (cps ''null'' @ rest) = Some (JNull, rest)"
    and "parse_value fr (Suc n) (cps ''true'' @ rest) = Some (JBool True, rest)"
    and "parse_value fr (Suc n) (cps ''false'' @ rest) = Some (JBool False, rest)"
    by (simp_all add: cps_def parse_word_def)
  let ?ds = "cps (py_str_nat (nat \<bar>i\<bar>))"
  obtain d ds where ds: "?ds = d # ds" using cps_nonempty [of "nat \<bar>i\<bar>"] by (cases ?ds) auto
  with cps_digits [of "nat \<bar>i\<bar>"] have "is_digit d" by simp
  with ds obtain c cs where "cps (py_str i) = c # cs" "c \<notin> {34, 91, 123}"
    by (cases "i < 0") (auto simp: py_str_def cps_def is_digit_def)
  then show "parse_value fr (Suc n) (cps (py_str i) @ rest) = Some (JInt i, rest)"
    using parse_word_int [OF assms, of fr i] by simp
qed

lemma stops_simps [simp]: "stops (44 # s)" "stops (93 # s)" "stops (125 # s)"
  by (simp_all add: stops_def)

lemma dumps_pos: "portable v \<Longrightarrow> 0 < length (dumps v)"
  using first_char [of v] by auto

lemma first_elem: "\<lbrakk>\<forall>v\<in>set vs. portable v; vs \<noteq> []\<rbrakk> \<Longrightarrow>
  \<exists>c cs. dumps_elems vs = c # cs \<and> c \<notin> {44, 58, 93, 125} \<and> \<not> is_ws c"
  by (cases vs rule: dumps_elems.cases) (auto dest!: first_char)

lemma first_member: "kvs \<noteq> [] \<Longrightarrow> \<exists>cs. dumps_members kvs = 34 # cs"
  by (cases kvs rule: dumps_members.cases) (auto simp: quote_def)

lemma parse_list:
  assumes "parse_elems fr n (dumps_elems vs @ 93 # rest) = Some (vs, rest)" and "\<forall>v\<in>set vs. portable v" and "vs \<noteq> []"
  shows "parse_value fr (Suc n) (dumps (JList vs) @ rest) = Some (JList vs, rest)"
  using first_elem [OF assms(2,3)] assms(1) by (auto simp: skip_ws_def)

lemma parse_object:
  assumes "parse_members fr n (dumps_members kvs @ 125 # rest) = Some (kvs, rest)" and "distinct (map fst kvs)" and "kvs \<noteq> []"
  shows "parse_value fr (Suc n) (dumps (JObj kvs) @ rest) = Some (JObj kvs, rest)"
  using first_member [OF assms(3)] assms(1) by (auto simp: skip_ws_def is_ws_def dict_of_distinct [OF assms(2)])

lemma parse_member_step:
  assumes "valid_text k" and "portable v" and "parse_value fr n (dumps v @ d # es) = Some (v, d # es)"
  shows "parse_members fr (Suc n) (quote k @ 58 # dumps v @ d # es) =
    (if is_ws d then parse_members fr (Suc n) (quote k @ 58 # dumps v @ d # es)
     else if d = 125 then Some ([(k, v)], es)
     else if d = 44 then map_option (\<lambda>(kvs, p). ((k, v) # kvs, p)) (parse_members fr n (skip_ws es)) else None)"
  using assms skip_ws_dumps [OF assms(2), of "d # es"]
  by (simp add: quote_def parse_string_quoted skip_ws_def is_ws_def)

lemma parse_dumps:
  shows "portable v \<Longrightarrow> stops rest \<Longrightarrow> length (dumps v) \<le> n \<Longrightarrow> parse_value fr n (dumps v @ rest) = Some (v, rest)"
    and "(\<forall>v\<in>set vs. portable v) \<Longrightarrow> vs \<noteq> [] \<Longrightarrow> length (dumps_elems vs) < n \<Longrightarrow>
      parse_elems fr n (dumps_elems vs @ 93 # rest) = Some (vs, rest)"
    and "(\<forall>kv\<in>set kvs. valid_text (fst kv) \<and> portable (snd kv)) \<Longrightarrow> kvs \<noteq> [] \<Longrightarrow> length (dumps_members kvs) < n \<Longrightarrow>
      parse_members fr n (dumps_members kvs @ 125 # rest) = Some (kvs, rest)"
proof (induction v and vs and kvs arbitrary: n rest and n rest and n rest rule: dumps_dumps_elems_dumps_members.induct)
  case 1
  then show ?case using scalar_start(1) [where rest = rest and n = "n - 1" and fr = fr] by (cases n) (simp_all add: cps_def)
next
  case (2 b)
  then show ?case using scalar_start(2,3) [where rest = rest and n = "n - 1" and fr = fr] by (cases n; cases b) (simp_all add: cps_def)
next
  case (3 i)
  moreover have "n \<noteq> 0" using less_le_trans [OF dumps_pos [OF 3(1)] 3(3)] by simp
  ultimately show ?case using scalar_start(4) [where rest = rest and n = "n - 1" and fr = fr] by (cases n) simp_all
next
  case (4 f)
  then show ?case by simp
next
  case (5 s)
  then show ?case using parse_string_quoted [of s rest] by (cases n) (simp_all add: quote_def)
next
  case (6 vs)
  then obtain m where m: "n = Suc m" "vs = [] \<or> length (dumps_elems vs) < m" by (cases n) auto
  show ?case
  proof (cases "vs = []")
    case True
    then show ?thesis by (simp add: m skip_ws_def is_ws_def)
  next
    case False
    then show ?thesis
      using 6 m parse_list [of fr m vs rest] by auto
  qed
next
  case (7 kvs)
  then obtain m where m: "n = Suc m" "kvs = [] \<or> length (dumps_members kvs) < m" by (cases n) auto
  show ?case
  proof (cases "kvs = []")
    case True
    then show ?thesis by (simp add: m skip_ws_def is_ws_def)
  next
    case False
    then show ?thesis
      using 7 m parse_object [of fr m kvs rest] by auto
  qed
next
  case 8
  then show ?case by simp
next
  case (9 v)
  then obtain m where "n = Suc m" "length (dumps v) \<le> m" by (cases n) auto
  with 9 show ?case by (simp add: skip_ws_def is_ws_def)
next
  case (10 v w vs)
  then obtain m where "n = Suc m" "length (dumps v) \<le> m" "length (dumps_elems (w # vs)) < m" by (cases n) auto
  moreover have "skip_ws (dumps_elems (w # vs) @ 93 # rest) = dumps_elems (w # vs) @ 93 # rest"
    using first_elem [of "w # vs"] 10(3) by (auto simp: skip_ws_def)
  ultimately show ?case using 10 by (simp add: skip_ws_def [of "44 # _"] is_ws_def)
next
  case 11
  then show ?case by simp
next
  case (12 k v)
  then obtain m where "n = Suc m" "length (dumps v) \<le> m" by (cases n) auto
  with 12 show ?case using parse_member_step [of k v fr m 125 rest] by (simp add: is_ws_def)
next
  case (13 k v kv kvs)
  then obtain m where "n = Suc m" "length (dumps v) \<le> m" "length (dumps_members (kv # kvs)) < m" by (cases n) auto
  moreover have "skip_ws (dumps_members (kv # kvs) @ 125 # rest) = dumps_members (kv # kvs) @ 125 # rest"
    using first_member [of "kv # kvs"] by (auto simp: skip_ws_def is_ws_def)
  ultimately show ?case
    using 13 parse_member_step [of k v fr m 44 "dumps_members (kv # kvs) @ 125 # rest"] by (simp add: is_ws_def)
qed

lemma loads_dumps:
  assumes "portable v"
  shows "loads fr (dumps v @ replicate k 32) = Inr v"
proof -
  have "stops (replicate k 32)" by (cases k) (simp_all add: stops_def is_ws_def)
  then have "parse_value fr (parse_fuel (dumps v @ replicate k 32)) (dumps v @ replicate k 32) = Some (v, replicate k 32)"
    by (intro parse_dumps(1) assms) (simp_all add: parse_fuel_def)
  moreover have "skip_ws (replicate k 32) = []" by (simp add: skip_ws_def is_ws_def)
  ultimately show ?thesis by (simp add: loads_def skip_ws_dumps [OF assms])
qed

text \<open>Reading back what was written gives the same value: \<open>json.loads\<close> of the compact \<open>json.dumps\<close> of a value, followed
  by any padding of spaces (the padding the safetensors header gets), is that value, for every value with valid text,
  distinct keys and no floating literal.
\<close>

lemma json_round_trip:
  assumes "portable v"
  shows "loads fr (dumps v @ replicate k 32) = Inr v"
  by (rule loads_dumps [OF assms])

lemma json_round_trip_witness:
  "loads fr (dumps (JObj [(cps ''shape'', JList [JInt (- 12), JNull]), ([128512, 34], JStr [10, 233])]) @ replicate 3 32)
     = Inr (JObj [(cps ''shape'', JList [JInt (- 12), JNull]), ([128512, 34], JStr [10, 233])])"
  by (rule json_round_trip) (simp add: valid_text_def valid_char_def cps_def)

end
