(* ===== verification/Safetensors.thy ===== *)
theory Safetensors
  imports Disk Json_Round_Trip Byte_Order
begin

text \<open>
  The reading and the writing of safetensors files in \<open>scripts/prepare-qwen38-27b-awq-mtp.py\<close>: a file is the length of
  its JSON header in eight little-endian bytes, the header, and the data; the header gives every tensor its type, its
  shape and the interval of the data that holds it.
\<close>

section \<open>The length field\<close>

definition pack_u64 :: "nat \<Rightarrow> exn + nat list" where
  "pack_u64 n = (if n < 2 ^ 64 then Inr (le_bytes 8 n) else Inl (Exn StructError ''int too large to convert''))"

section \<open>Reading a header\<close>

text \<open>\<open>stream.read\<close> takes a size that fits a signed 64-bit index.\<close>

definition parse_header :: "(codes \<Rightarrow> codes) \<Rightarrow> nat list \<Rightarrow> exn + (json \<times> nat)" where
  "parse_header fr data =
     (let header_size_raw = take 8 data;
          header_size = le_value header_size_raw
      in if length header_size_raw \<noteq> 8 then Inl (Exn ValueError ''Invalid safetensors header'')
         else if 2 ^ 63 \<le> header_size then Inl (Exn OverflowError ''cannot fit int into an index-sized integer'')
         else (case utf8_decode (take header_size (drop 8 data)) of
             None \<Rightarrow> Inl (Exn ValueError ''UnicodeDecodeError'')
           | Some s \<Rightarrow> (case loads fr s of Inl e \<Rightarrow> Inl e | Inr header \<Rightarrow> Inr (header, 8 + header_size))))"

definition read_safetensors_header :: "(codes \<Rightarrow> codes) \<Rightarrow> path \<Rightarrow> (disk, json \<times> nat) io" where
  "read_safetensors_header fr p = io_bind (read_bytes p) (\<lambda>data. io_of_sum (parse_header fr data))"

section \<open>Copying\<close>

text \<open>
  \<open>copy_exact\<close>: the source is what its stream has left, the destination is appended to. A negative length reads
  everything that is left, as \<open>read\<close> does.
\<close>

definition chunk_size :: int where
  "chunk_size = 16 * 1024 * 1024"

definition stream_read :: "int \<Rightarrow> nat list \<Rightarrow> nat list" where
  "stream_read n source = (if n < 0 then source else take (nat n) source)"

lemma stream_read_empty [simp]: "stream_read n [] = []"
  by (simp add: stream_read_def)

lemma stream_read_progress: "stream_read n source \<noteq> [] \<Longrightarrow> length source - length (stream_read n source) < length source"
  by (cases "source = []") auto

function copy_exact :: "nat list \<Rightarrow> path \<Rightarrow> int \<Rightarrow> (disk, unit) io" where
  "copy_exact source destination remaining =
     (if remaining = 0 then io_return ()
      else (let chunk = stream_read (min chunk_size remaining) source
        in if chunk = [] then io_raise EOFError ''Unexpected end of safetensors data''
           else io_then (append_file destination chunk)
             (copy_exact (drop (length chunk) source) destination (remaining - int (length chunk)))))"
  by pat_completeness auto

termination
  by (relation "measure (\<lambda>(source, destination, remaining). length source)")
    (use stream_read_progress in auto)

declare copy_exact.simps [simp del]

section \<open>Planning and writing the drafter\<close>

text \<open>\<open>a, b = value\<close>, and the difference of two values (a truth value counts as a number).\<close>

definition unpack_two :: "json \<Rightarrow> exn + (json \<times> json)" where
  "unpack_two j =
     (let two = (\<lambda>xs. case xs of [a, b] \<Rightarrow> Inr (a, b) | _ \<Rightarrow> Inl (Exn ValueError ''values to unpack''))
      in case j of JList vs \<Rightarrow> two vs
         | JObj kvs \<Rightarrow> two (map (JStr \<circ> fst) kvs)
         | JStr s \<Rightarrow> two (map (\<lambda>c. JStr [c]) s)
         | _ \<Rightarrow> Inl (Exn TypeError ''cannot unpack non-iterable''))"

definition as_int :: "json \<Rightarrow> exn + int" where
  "as_int j = (case j of JInt i \<Rightarrow> Inr i | JBool b \<Rightarrow> Inr (if b then 1 else 0)
     | _ \<Rightarrow> Inl (Exn TypeError ''unsupported operand''))"

text \<open>What the planning has gathered: \<open>entries\<close>, \<open>output_header\<close>, \<open>output_offset\<close> and \<open>sizes\<close>.\<close>

record draft_entry =
  source_path :: path
  source_offset :: int
  entry_length :: int
  entry_key :: codes
  source_entry :: json

record draft_plan =
  plan_entries :: "draft_entry list"
  output_header :: "(codes \<times> json) list"
  output_offset :: int
  plan_sizes :: "(codes \<times> int) list"

definition metadata :: "codes \<times> json" where
  "metadata = (cps ''__metadata__'', JObj
     [(cps ''format'', JStr (cps ''pt'')),
      (cps ''source_repo'', JStr (cps ''Qwen/Qwen3.8-27B'')),
      (cps ''source_revision'', JStr (cps ''1d4bf0f2ff6012fd82039f2fa52739d0dd7c60c0'')),
      (cps ''source_shard'', JStr (cps ''model-00018-of-00018.safetensors'')),
      (cps ''purpose'', JStr (cps ''standalone Qwen3.8 native MTP drafter for vLLM''))])"

definition plan_start :: draft_plan where
  "plan_start = \<lparr>plan_entries = [], output_header = [metadata], output_offset = 0, plan_sizes = []\<rparr>"

definition output_entry :: "json \<Rightarrow> json \<Rightarrow> int \<Rightarrow> int \<Rightarrow> json" where
  "output_entry dtype shape offset n = JObj
     [(cps ''dtype'', dtype), (cps ''shape'', shape), (cps ''data_offsets'', JList [JInt offset, JInt (offset + n)])]"

text \<open>The body of the inner loop: one key of one source.\<close>

definition plan_key :: "path \<Rightarrow> json \<Rightarrow> nat \<Rightarrow> codes \<Rightarrow> draft_plan \<Rightarrow> (disk, draft_plan) io" where
  "plan_key p source_header source_data_start key plan =
     io_bind (io_of_sum (json_contains source_header key)) (\<lambda>present.
     if \<not> present then io_raise ValueError ''missing tensor''
     else
       io_bind (io_of_sum (json_item source_header key)) (\<lambda>entry.
       io_bind (io_of_sum (json_item entry (cps ''data_offsets''))) (\<lambda>offsets.
       io_bind (io_of_sum (unpack_two offsets)) (\<lambda>(a, b).
       io_bind (io_of_sum (as_int b)) (\<lambda>source_end.
       io_bind (io_of_sum (as_int a)) (\<lambda>source_start.
       let n = source_end - source_start in
       io_bind (io_of_sum (json_item entry (cps ''dtype''))) (\<lambda>dtype.
       io_bind (io_of_sum (json_item entry (cps ''shape''))) (\<lambda>shape.
       io_return (plan\<lparr>
         output_header := dict_set key (output_entry dtype shape (output_offset plan) n) (output_header plan),
         plan_entries := plan_entries plan @
           [\<lparr>source_path = p, source_offset = int source_data_start + source_start, entry_length = n,
             entry_key = key, source_entry = entry\<rparr>],
         plan_sizes := dict_set key n (plan_sizes plan),
         output_offset := output_offset plan + n\<rparr>)))))))))"

fun plan_keys :: "path \<Rightarrow> json \<Rightarrow> nat \<Rightarrow> codes list \<Rightarrow> draft_plan \<Rightarrow> (disk, draft_plan) io" where
  "plan_keys p h start [] plan = io_return plan"
| "plan_keys p h start (key # keys) plan = io_bind (plan_key p h start key plan) (plan_keys p h start keys)"

fun plan_sources :: "(codes \<Rightarrow> codes) \<Rightarrow> (path \<times> codes list) list \<Rightarrow> draft_plan \<Rightarrow> (disk, draft_plan) io" where
  "plan_sources fr [] plan = io_return plan"
| "plan_sources fr ((p, keys) # sources) plan =
     io_bind (read_safetensors_header fr p) (\<lambda>(source_header, source_data_start).
     io_bind (plan_keys p source_header source_data_start keys plan) (plan_sources fr sources))"

text \<open>The header, padded with spaces to a multiple of eight bytes.\<close>

definition header_bytes :: "(codes \<times> json) list \<Rightarrow> exn + nat list" where
  "header_bytes header = (case utf8_encode (dumps (JObj header)) of
     None \<Rightarrow> Inl (Exn ValueError ''UnicodeEncodeError'')
   | Some b \<Rightarrow> Inr (b @ replicate (nat ((- int (length b)) mod 8)) 32))"

definition copy_entry :: "path \<Rightarrow> draft_entry \<Rightarrow> (disk, unit) io" where
  "copy_entry output e =
     io_bind (read_bytes (source_path e)) (\<lambda>source.
     if source_offset e < 0 then io_raise ValueError ''negative seek value''
     else copy_exact (drop (nat (source_offset e)) source) output (entry_length e))"

fun copy_entries :: "path \<Rightarrow> draft_entry list \<Rightarrow> (disk, unit) io" where
  "copy_entries output [] = io_return ()"
| "copy_entries output (e # es) = io_then (copy_entry output e) (copy_entries output es)"

definition build_draft_safetensors ::
  "(codes \<Rightarrow> codes) \<Rightarrow> path \<Rightarrow> (path \<times> codes list) list \<Rightarrow> (disk, (codes \<times> int) list) io" where
  "build_draft_safetensors fr output sources =
     io_bind (plan_sources fr sources plan_start) (\<lambda>plan.
     io_bind (io_of_sum (header_bytes (output_header plan))) (\<lambda>header.
     io_then (create_file output)
     (io_bind (io_of_sum (pack_u64 (length header))) (\<lambda>size_raw.
     io_then (append_file output size_raw)
     (io_then (append_file output header)
     (io_then (copy_entries output (plan_entries plan))
     (io_return (plan_sizes plan))))))))"

section \<open>Hashing\<close>

text \<open>
  \<open>sha256\<close> feeds the file to a digest in chunks; \<open>h\<close> is the digest of what it has been fed, and a digest object is its
  input so far.
\<close>

function feed :: "nat list \<Rightarrow> nat list \<Rightarrow> nat list" where
  "feed fed source =
     (let chunk = stream_read chunk_size source
      in if chunk = [] then fed else feed (fed @ chunk) (drop (length chunk) source))"
  by pat_completeness auto

termination
  by (relation "measure (\<lambda>(fed, source). length source)") (use stream_read_progress in auto)

declare feed.simps [simp del]

definition sha256 :: "(nat list \<Rightarrow> codes) \<Rightarrow> path \<Rightarrow> (disk, codes) io" where
  "sha256 h p = io_bind (read_bytes p) (\<lambda>data. io_return (h (feed [] data)))"

end
