(* ===== verification/Drafter_Round_Trip.thy ===== *)
theory Drafter_Round_Trip
  imports Safetensors
begin

text \<open>
  Reading the built drafter gives every tensor of its sources back: the same type, the same shape, the same bytes. The
  reader is the format itself, \<open>tensor_of\<close>: the header's entry of a key and the interval of the data it names.
\<close>

section \<open>Copying\<close>

text \<open>\<open>wrote p b d d'\<close>: from \<open>d\<close> to \<open>d'\<close> only the file \<open>p\<close> changed, and it now holds \<open>b\<close>.\<close>

definition wrote :: "path \<Rightarrow> nat list \<Rightarrow> disk \<Rightarrow> disk \<Rightarrow> bool" where
  "wrote p b d d' \<longleftrightarrow> (\<forall>q. file_at q d' = (if q = p then Some b else file_at q d)) \<and> dirs d' = dirs d \<and> console d' = console d"

lemma wrote_put [simp]: "wrote p b d (put_file p b d)"
  by (simp add: wrote_def)

lemma wrote_refl: "file_at p d = Some b \<Longrightarrow> wrote p b d d"
  by (simp add: wrote_def)

lemma wrote_trans [trans]: "wrote p b d d' \<Longrightarrow> wrote p c d' d'' \<Longrightarrow> wrote p c d d''"
  by (simp add: wrote_def)

lemma wrote_at: "wrote p b d d' \<Longrightarrow> file_at p d' = Some b"
  by (simp add: wrote_def)

lemma copy_exact_outcome:
  assumes "file_at p d = Some c"
  shows "\<exists>d'. copy_exact source p n d =
      ((if 0 \<le> n \<and> n \<le> int (length source) then Inr () else Inl (Exn EOFError ''Unexpected end of safetensors data'')), d') \<and>
    wrote p (c @ (if 0 \<le> n \<and> n \<le> int (length source) then take (nat n) source else source)) d d'"
  using assms
proof (induction source p n arbitrary: c d rule: copy_exact.induct)
  case (1 source p n)
  show ?case
  proof (cases "n = 0")
    case True
    with 1(2) show ?thesis by (subst copy_exact.simps) (auto simp: io_simps intro: wrote_refl)
  next
    case False
    define chunk where "chunk = stream_read (min chunk_size n) source"
    show ?thesis
    proof (cases "chunk = []")
      case True
      then have "source = [] \<or> n = 0" by (auto simp: chunk_def stream_read_def chunk_size_def split: if_splits)
      with False have "source = []" by simp
      with False 1(2) show ?thesis by (subst copy_exact.simps) (auto simp: io_simps intro: wrote_refl)
    next
      case nonempty: False
      let ?d = "put_file p (c @ chunk) d"
      let ?rest = "drop (length chunk) source" and ?n = "n - int (length chunk)"
      have step: "copy_exact source p n d = copy_exact ?rest p ?n ?d"
        using False nonempty 1(2)
        by (subst copy_exact.simps) (simp add: Let_def chunk_def [symmetric] io_then_bind io_bind_Inr [OF append_file_apply])
      have split: "source = chunk @ ?rest"
        by (simp add: chunk_def stream_read_def min_def)
      have cover: "0 \<le> n \<and> n \<le> int (length source) \<longleftrightarrow> 0 \<le> ?n \<and> ?n \<le> int (length ?rest)"
        using False nonempty by (auto simp: chunk_def stream_read_def chunk_size_def split: if_splits)
      have taken: "take (nat n) source = chunk @ take (nat ?n) ?rest" if "0 \<le> ?n"
        using that by (subst split) (simp add: nat_diff_distrib')
      have IH: "\<exists>d'. copy_exact ?rest p ?n ?d = ((if 0 \<le> ?n \<and> ?n \<le> int (length ?rest) then Inr ()
          else Inl (Exn EOFError ''Unexpected end of safetensors data'')), d') \<and>
        wrote p ((c @ chunk) @ (if 0 \<le> ?n \<and> ?n \<le> int (length ?rest) then take (nat ?n) ?rest else ?rest)) ?d d'"
        using 1(1) [OF False chunk_def nonempty, of ?d "c @ chunk"] by simp
      moreover have "(c @ chunk) @ (if 0 \<le> ?n \<and> ?n \<le> int (length ?rest) then take (nat ?n) ?rest else ?rest) =
          c @ (if 0 \<le> n \<and> n \<le> int (length source) then take (nat n) source else source)"
        using taken split cover by auto
      ultimately show ?thesis
        unfolding step cover by (auto intro: wrote_trans [OF wrote_put])
    qed
  qed
qed


section \<open>Planning\<close>

definition entry_field :: "draft_entry \<Rightarrow> string \<Rightarrow> json" where
  "entry_field e name = (case json_item (source_entry e) (cps name) of Inr v \<Rightarrow> v | Inl _ \<Rightarrow> JNull)"

text \<open>An entry of the plan describes a tensor of its source.\<close>

definition planned :: "(codes \<Rightarrow> codes) \<Rightarrow> disk \<Rightarrow> draft_entry \<Rightarrow> bool" where
  "planned fr d e \<longleftrightarrow> (\<exists>data header start offsets a b source_start source_end t sh.
     source_path e \<notin> set (dirs d) \<and> file_at (source_path e) d = Some data \<and> parse_header fr data = Inr (header, start) \<and>
     json_item header (entry_key e) = Inr (source_entry e) \<and>
     json_item (source_entry e) (cps ''data_offsets'') = Inr offsets \<and> unpack_two offsets = Inr (a, b) \<and>
     as_int a = Inr source_start \<and> as_int b = Inr source_end \<and>
     json_item (source_entry e) (cps ''dtype'') = Inr t \<and> json_item (source_entry e) (cps ''shape'') = Inr sh \<and>
     source_offset e = int start + source_start \<and> entry_length e = source_end - source_start)"

definition add_entry :: "draft_plan \<Rightarrow> draft_entry \<Rightarrow> draft_plan" where
  "add_entry plan e = plan\<lparr>
     output_header := dict_set (entry_key e) (output_entry (entry_field e ''dtype'') (entry_field e ''shape'')
       (output_offset plan) (entry_length e)) (output_header plan),
     plan_entries := plan_entries plan @ [e],
     plan_sizes := dict_set (entry_key e) (entry_length e) (plan_sizes plan),
     output_offset := output_offset plan + entry_length e\<rparr>"

lemma read_header_success: "read_safetensors_header fr p d = (Inr (h, start), d') \<longleftrightarrow>
    d' = d \<and> p \<notin> set (dirs d) \<and> (\<exists>data. file_at p d = Some data \<and> parse_header fr data = Inr (h, start))"
  by (auto simp: read_safetensors_header_def read_bytes_def io_success io_of_sum_success_iff split: if_splits option.splits)

lemma plan_key_success:
  assumes "plan_key p h start key plan d = (Inr plan', d')"
    and "p \<notin> set (dirs d)" and "file_at p d = Some data" and "parse_header fr data = Inr (h, start)"
  shows "d' = d \<and> (\<exists>e. plan' = add_entry plan e \<and> source_path e = p \<and> entry_key e = key \<and> planned fr d e)"
proof -
  from assms(1) obtain entry offsets a b source_end source_start dtype shape where
    steps: "json_item h key = Inr entry" "json_item entry (cps ''data_offsets'') = Inr offsets" "unpack_two offsets = Inr (a, b)"
      "as_int b = Inr source_end" "as_int a = Inr source_start" "json_item entry (cps ''dtype'') = Inr dtype"
      "json_item entry (cps ''shape'') = Inr shape" and d': "d' = d"
    and plan': "plan' = plan\<lparr>
         output_header := dict_set key (output_entry dtype shape (output_offset plan) (source_end - source_start)) (output_header plan),
         plan_entries := plan_entries plan @
           [\<lparr>source_path = p, source_offset = int start + source_start, entry_length = source_end - source_start,
             entry_key = key, source_entry = entry\<rparr>],
         plan_sizes := dict_set key (source_end - source_start) (plan_sizes plan),
         output_offset := output_offset plan + (source_end - source_start)\<rparr>"
    unfolding plan_key_def
    by (auto simp: io_success io_of_sum_success_iff Let_def split: if_splits prod.splits)
  let ?e = "\<lparr>source_path = p, source_offset = int start + source_start, entry_length = source_end - source_start,
             entry_key = key, source_entry = entry\<rparr>"
  have "plan' = add_entry plan ?e" by (simp add: plan' add_entry_def entry_field_def steps)
  moreover have "planned fr d ?e" unfolding planned_def using assms(2-4) steps by auto
  ultimately show ?thesis using d' by (intro conjI exI [of _ ?e]) simp_all
qed

lemma plan_keys_success:
  assumes "plan_keys p h start keys plan d = (Inr plan', d')"
    and "p \<notin> set (dirs d)" and "file_at p d = Some data" and "parse_header fr data = Inr (h, start)"
  shows "d' = d \<and> (\<exists>es. plan' = foldl add_entry plan es \<and> map (\<lambda>e. (source_path e, entry_key e)) es = map (Pair p) keys \<and>
    (\<forall>e\<in>set es. planned fr d e))"
  using assms(1)
proof (induction keys arbitrary: plan)
  case Nil
  then show ?case by (auto simp: io_success intro: exI [of _ "[]"])
next
  case (Cons key keys)
  then obtain plan1 d1 where "plan_key p h start key plan d = (Inr plan1, d1)"
    and rest: "plan_keys p h start keys plan1 d1 = (Inr plan', d')" by (auto simp: io_success)
  from plan_key_success [OF this(1) assms(2-4)] obtain e where "d1 = d"
    and e: "plan1 = add_entry plan e" "source_path e = p" "entry_key e = key" "planned fr d e" by blast
  with Cons.IH rest obtain es where "d' = d" "plan' = foldl add_entry plan1 es"
    "map (\<lambda>e. (source_path e, entry_key e)) es = map (Pair p) keys" "\<forall>e\<in>set es. planned fr d e" by blast
  with e show ?case by (intro conjI exI [of _ "e # es"]) simp_all
qed

lemma plan_sources_success:
  assumes "plan_sources fr sources plan d = (Inr plan', d')"
  shows "d' = d \<and> (\<exists>es. plan' = foldl add_entry plan es \<and>
    map (\<lambda>e. (source_path e, entry_key e)) es = concat (map (\<lambda>(p, keys). map (Pair p) keys) sources) \<and>
    (\<forall>e\<in>set es. planned fr d e))"
  using assms
proof (induction sources arbitrary: plan)
  case Nil
  then show ?case by (auto simp: io_success intro: exI [of _ "[]"])
next
  case (Cons source sources)
  obtain p keys where source: "source = (p, keys)" by fastforce
  with Cons.prems obtain h start data plan1 d1 where source_data: "p \<notin> set (dirs d)" "file_at p d = Some data" "parse_header fr data = Inr (h, start)"
    and first: "plan_keys p h start keys plan d = (Inr plan1, d1)" and rest: "plan_sources fr sources plan1 d1 = (Inr plan', d')"
    by (auto simp: io_success read_header_success)
  from plan_keys_success [OF first source_data] obtain es1 where "d1 = d" and es1: "plan1 = foldl add_entry plan es1"
    "map (\<lambda>e. (source_path e, entry_key e)) es1 = map (Pair p) keys" "\<forall>e\<in>set es1. planned fr d e" by blast
  with Cons.IH rest obtain es where "d' = d" "plan' = foldl add_entry plan1 es"
    "map (\<lambda>e. (source_path e, entry_key e)) es = concat (map (\<lambda>(p, keys). map (Pair p) keys) sources)" "\<forall>e\<in>set es. planned fr d e"
    by blast
  with es1 source show ?case by (intro conjI exI [of _ "es1 @ es"]) auto
qed

text \<open>The header and the sizes of a plan whose keys are distinct.\<close>

fun layout :: "int \<Rightarrow> draft_entry list \<Rightarrow> (codes \<times> json) list" where
  "layout offset [] = []"
| "layout offset (e # es) =
     (entry_key e, output_entry (entry_field e ''dtype'') (entry_field e ''shape'') offset (entry_length e)) #
     layout (offset + entry_length e) es"

lemma layout_keys [simp]: "map fst (layout offset es) = map entry_key es"
  by (induction es arbitrary: offset) simp_all

lemma foldl_add_entry:
  assumes "distinct (map fst (output_header plan) @ map entry_key es)" and "distinct (map fst (plan_sizes plan) @ map entry_key es)"
  shows "plan_entries (foldl add_entry plan es) = plan_entries plan @ es \<and>
    output_header (foldl add_entry plan es) = output_header plan @ layout (output_offset plan) es \<and>
    plan_sizes (foldl add_entry plan es) = plan_sizes plan @ map (\<lambda>e. (entry_key e, entry_length e)) es"
  using assms
proof (induction es arbitrary: plan)
  case (Cons e es)
  let ?plan = "add_entry plan e"
  have new: "entry_key e \<notin> fst ` set (output_header plan)" "entry_key e \<notin> fst ` set (plan_sizes plan)"
    using Cons.prems by auto
  have plan: "plan_entries ?plan = plan_entries plan @ [e]"
    "output_header ?plan = output_header plan @ layout (output_offset plan) [e]"
    "plan_sizes ?plan = plan_sizes plan @ [(entry_key e, entry_length e)]"
    "output_offset ?plan = output_offset plan + entry_length e"
    by (simp_all add: add_entry_def dict_set_new new)
  with Cons.IH [of ?plan] Cons.prems show ?case by simp
qed simp_all


section \<open>Writing\<close>

definition entry_bytes :: "disk \<Rightarrow> draft_entry \<Rightarrow> nat list" where
  "entry_bytes d e = (case file_at (source_path e) d of None \<Rightarrow> []
     | Some data \<Rightarrow> take (nat (entry_length e)) (drop (nat (source_offset e)) data))"

lemma entry_bytes_wrote: "wrote p b d d' \<Longrightarrow> source_path e \<noteq> p \<Longrightarrow> entry_bytes d' e = entry_bytes d e"
  by (simp add: wrote_def entry_bytes_def)

lemma copy_entry_success:
  assumes "copy_entry output e d = (Inr (), d')" and "file_at output d = Some c"
  shows "wrote output (c @ entry_bytes d e) d d' \<and> 0 \<le> entry_length e \<and> length (entry_bytes d e) = nat (entry_length e)"
proof -
  from assms(1) obtain data where data: "file_at (source_path e) d = Some data"
    and copy: "copy_exact (drop (nat (source_offset e)) data) output (entry_length e) d = (Inr (), d')"
    by (auto simp: copy_entry_def read_bytes_def io_success split: if_splits option.splits)
  from copy_exact_outcome [OF assms(2), of "drop (nat (source_offset e)) data" "entry_length e"] copy
  have "0 \<le> entry_length e \<and> entry_length e \<le> int (length (drop (nat (source_offset e)) data))"
    and "wrote output (c @ take (nat (entry_length e)) (drop (nat (source_offset e)) data)) d d'"
    by (auto split: if_splits)
  then show ?thesis by (auto simp: entry_bytes_def data)
qed

lemma copy_entries_success:
  assumes "copy_entries output es d = (Inr (), d')" and "file_at output d = Some c" and "\<forall>e\<in>set es. source_path e \<noteq> output"
  shows "wrote output (c @ concat (map (entry_bytes d) es)) d d' \<and>
    (\<forall>e\<in>set es. 0 \<le> entry_length e \<and> length (entry_bytes d e) = nat (entry_length e))"
  using assms
proof (induction es arbitrary: c d)
  case Nil
  then show ?case by (simp add: io_success wrote_refl)
next
  case (Cons e es)
  then obtain d1 where first: "copy_entry output e d = (Inr (), d1)" and rest: "copy_entries output es d1 = (Inr (), d')"
    by (auto simp: io_success)
  note one = copy_entry_success [OF first Cons.prems(2)]
  then have w: "wrote output (c @ entry_bytes d e) d d1" by blast
  have same: "entry_bytes d1 x = entry_bytes d x" if "x \<in> set es" for x
    using entry_bytes_wrote [OF w] Cons.prems(3) that by simp
  have "wrote output ((c @ entry_bytes d e) @ concat (map (entry_bytes d1) es)) d1 d' \<and>
    (\<forall>e\<in>set es. 0 \<le> entry_length e \<and> length (entry_bytes d1 e) = nat (entry_length e))"
    using Cons.IH [OF rest wrote_at [OF w]] Cons.prems(3) by simp
  then show ?case using one same wrote_trans [OF w] by (simp cong: map_cong)
qed

lemma layout_slice:
  assumes "e \<in> set es" and "distinct (map entry_key es)"
    and "\<forall>e\<in>set es. 0 \<le> entry_length e \<and> length (f e) = nat (entry_length e)"
  shows "\<exists>a. map_of (layout offset es) (entry_key e) =
      Some (output_entry (entry_field e ''dtype'') (entry_field e ''shape'') (offset + int a) (entry_length e)) \<and>
    take (nat (entry_length e)) (drop a (concat (map f es))) = f e \<and> a + nat (entry_length e) \<le> length (concat (map f es))"
  using assms
proof (induction es arbitrary: offset)
  case (Cons x es)
  show ?case
  proof (cases "e = x")
    case True
    with Cons.prems(3) show ?thesis by (intro exI [of _ 0]) simp
  next
    case False
    with Cons.prems(1) have e: "e \<in> set es" by simp
    then have "entry_key e \<noteq> entry_key x" using Cons.prems(2) by (metis distinct.simps(2) image_eqI image_set list.simps(9))
    moreover obtain a where "map_of (layout (offset + entry_length x) es) (entry_key e) =
        Some (output_entry (entry_field e ''dtype'') (entry_field e ''shape'') (offset + entry_length x + int a) (entry_length e))"
      "take (nat (entry_length e)) (drop a (concat (map f es))) = f e" "a + nat (entry_length e) \<le> length (concat (map f es))"
      using Cons.IH [OF e, of "offset + entry_length x"] Cons.prems(2,3) by auto
    ultimately show ?thesis
      using Cons.prems(3) by (intro exI [of _ "nat (entry_length x) + a"]) (simp add: add.assoc)
  qed
qed simp

section \<open>The header\<close>

lemma ascii_decode: "\<forall>c\<in>set s. c < 128 \<Longrightarrow> utf8_decode s = Some s"
  by (induction s) simp_all

lemma ascii_encode: "\<forall>c\<in>set s. c < 128 \<Longrightarrow> utf8_encode s = Some s"
  by (induction s) (simp_all add: utf8_char_def)

lemma hex_digit_ascii: "d < 16 \<Longrightarrow> hex_digit d < 128"
  by (simp add: hex_digit_def)

lemma escape_char_ascii: "\<forall>x\<in>set (escape_char c). x < 128"
  by (simp add: escape_char_def hex4_def hex_digit_ascii)

lemma quote_ascii: "\<forall>x\<in>set (quote s). x < 128"
  using escape_char_ascii by (auto simp: quote_def)

lemma dumps_ascii:
  shows "portable v \<Longrightarrow> \<forall>x\<in>set (dumps v). x < 128"
    and "\<forall>v\<in>set vs. portable v \<Longrightarrow> \<forall>x\<in>set (dumps_elems vs). x < 128"
    and "\<forall>kv\<in>set kvs. portable (snd kv) \<Longrightarrow> \<forall>x\<in>set (dumps_members kvs). x < 128"
proof (induction v and vs and kvs rule: dumps_dumps_elems_dumps_members.induct)
  case (3 i)
  have "\<forall>x\<in>set (cps (py_str_nat n)). x < 128" for n using cps_digits [of n] by (auto simp only: is_digit_def)
  then show ?case by (simp add: py_str_def cps_def)
qed (use quote_ascii in \<open>auto simp: cps_def\<close>)

lemma parse_written_header:
  assumes "portable (JObj header)" and "header_bytes header = Inr b" and "length b < 2 ^ 63" and "pack_u64 (length b) = Inr raw"
  shows "parse_header fr (raw @ b @ data) = Inr (JObj header, 8 + length b)"
proof -
  obtain k where b: "b = dumps (JObj header) @ replicate k 32"
    using assms(2) ascii_encode [OF dumps_ascii(1) [OF assms(1)]] by (auto simp: header_bytes_def)
  have "\<forall>c\<in>set b. c < 128" using dumps_ascii(1) [OF assms(1)] by (auto simp: b)
  then have "utf8_decode b = Some b" by (rule ascii_decode)
  moreover have "loads fr b = Inr (JObj header)"
    unfolding b by (rule loads_dumps [OF assms(1)])
  moreover have "raw = le_bytes 8 (length b)" and "length b < 256 ^ 8" using assms(4) by (auto simp: pack_u64_def split: if_splits)
  ultimately show ?thesis
    using assms(3) by (simp add: parse_header_def le_value_bytes Let_def)
qed


section \<open>Reading back\<close>

text \<open>The format's reader: the type, the shape and the bytes of a tensor of a file.\<close>

definition interval :: "json \<Rightarrow> (int \<times> int) option" where
  "interval j = (case j of JList [JInt a, JInt b] \<Rightarrow> Some (a, b) | _ \<Rightarrow> None)"

definition tensor_of :: "(codes \<Rightarrow> codes) \<Rightarrow> nat list \<Rightarrow> codes \<Rightarrow> (json \<times> json \<times> nat list) option" where
  "tensor_of fr data key =
     (case parse_header fr data of
        Inr (header, start) \<Rightarrow>
          (case json_item header key of
             Inr entry \<Rightarrow>
               (case (json_item entry (cps ''dtype''), json_item entry (cps ''shape''), json_item entry (cps ''data_offsets'')) of
                  (Inr t, Inr sh, Inr offsets) \<Rightarrow>
                    (case interval offsets of
                       Some (a, b) \<Rightarrow> if 0 \<le> a \<and> a \<le> b \<and> int start + b \<le> int (length data)
                         then Some (t, sh, take (nat (b - a)) (drop (start + nat a) data)) else None
                     | None \<Rightarrow> None)
                | _ \<Rightarrow> None)
           | Inl _ \<Rightarrow> None)
      | Inl _ \<Rightarrow> None)"

definition tensor_at :: "(codes \<Rightarrow> codes) \<Rightarrow> disk \<Rightarrow> path \<Rightarrow> codes \<Rightarrow> (json \<times> json \<times> nat list) option" where
  "tensor_at fr d p key = (case file_at p d of None \<Rightarrow> None | Some data \<Rightarrow> tensor_of fr data key)"

lemma interval_unpack: "interval j = Some (a, b) \<Longrightarrow> unpack_two j = Inr (JInt a, JInt b)"
  by (auto simp: interval_def unpack_two_def split: json.splits list.splits)

lemma planned_tensor:
  assumes "planned fr d e" and "tensor_at fr d (source_path e) (entry_key e) = Some (t, sh, bs)"
  shows "entry_field e ''dtype'' = t \<and> entry_field e ''shape'' = sh \<and> entry_bytes d e = bs \<and>
    0 \<le> source_offset e \<and> entry_length e = int (length bs)"
proof -
  from assms(1) obtain data header start offsets a b source_start source_end t' sh' where
    e: "file_at (source_path e) d = Some data" "parse_header fr data = Inr (header, start)"
      "json_item header (entry_key e) = Inr (source_entry e)" "json_item (source_entry e) (cps ''data_offsets'') = Inr offsets"
      "unpack_two offsets = Inr (a, b)" "as_int a = Inr source_start" "as_int b = Inr source_end"
      "json_item (source_entry e) (cps ''dtype'') = Inr t'" "json_item (source_entry e) (cps ''shape'') = Inr sh'"
      "source_offset e = int start + source_start" "entry_length e = source_end - source_start"
    unfolding planned_def by blast
  from assms(2) e(1-4,8,9) obtain i j where ij: "interval offsets = Some (i, j)" "0 \<le> i" "i \<le> j"
      "int start + j \<le> int (length data)"
    and t: "t = t'" "sh = sh'" "bs = take (nat (j - i)) (drop (start + nat i) data)"
    by (auto simp: tensor_at_def tensor_of_def split: option.splits if_splits)
  from interval_unpack [OF ij(1)] e(5-7) have "source_start = i" "source_end = j" by (auto simp: as_int_def)
  moreover from t(3) ij(2-4) have "int (length bs) = j - i" by simp
  ultimately show ?thesis using e(1,10,11) ij(2,3) t
    by (simp add: entry_field_def e(8,9) entry_bytes_def nat_add_distrib)
qed


lemma layout_portable:
  assumes "\<forall>e\<in>set es. valid_text (entry_key e) \<and> portable (entry_field e ''dtype'') \<and> portable (entry_field e ''shape'')"
  shows "\<forall>kv\<in>set (layout offset es). valid_text (fst kv) \<and> portable (snd kv)"
  using assms
proof (induction es arbitrary: offset)
  case (Cons e es)
  have "valid_text (cps ''dtype'')" "valid_text (cps ''shape'')" "valid_text (cps ''data_offsets'')"
    by (simp_all add: valid_text_def valid_char_def cps_def)
  moreover have "cps ''dtype'' \<noteq> cps ''shape''" "cps ''dtype'' \<noteq> cps ''data_offsets''" "cps ''shape'' \<noteq> cps ''data_offsets''"
    by (simp_all add: cps_def)
  ultimately show ?case using Cons by (simp add: output_entry_def)
qed simp

lemma metadata_portable: "valid_text (fst metadata) \<and> portable (snd metadata)"
  by (simp add: metadata_def valid_text_def valid_char_def cps_def)

lemma read_written_entry:
  assumes "parse_header fr out = Inr (JObj header, start)"
    and "map_of header key = Some (output_entry t sh (int a) (int n))"
    and "drop start out = data" and "start \<le> length out" and "a + n \<le> length data"
  shows "tensor_of fr out key = Some (t, sh, take n (drop a data))"
proof -
  have "cps ''dtype'' \<noteq> cps ''shape''" "cps ''dtype'' \<noteq> cps ''data_offsets''" "cps ''shape'' \<noteq> cps ''data_offsets''"
    by (simp_all add: cps_def)
  moreover have "length data = length out - start" using assms(3) by auto
  moreover have "take n (drop (start + a) out) = take n (drop a data)"
    by (simp add: assms(3) [symmetric] add.commute)
  ultimately show ?thesis
    using assms(4,5) by (auto simp: tensor_of_def assms(1,2) json_item_def output_entry_def interval_def)
qed

lemma planned_keys:
  assumes "map (\<lambda>e. (source_path e, entry_key e)) es = concat (map (\<lambda>(p, keys). map (Pair p) keys) sources)"
  shows "map entry_key es = concat (map snd sources)"
proof -
  have "map snd (concat (map (\<lambda>(p, keys). map (Pair p) keys) sources)) = concat (map snd sources)"
    by (induction sources) (auto simp: comp_def)
  then show ?thesis using arg_cong [OF assms, of "map snd"] by (simp add: comp_def)
qed

lemma planned_away:
  assumes "map (\<lambda>e. (source_path e, entry_key e)) es = concat (map (\<lambda>(p, keys). map (Pair p) keys) sources)"
    and "output \<notin> fst ` set sources"
  shows "\<forall>e\<in>set es. source_path e \<noteq> output"
proof -
  have "fst ` set (concat (map (\<lambda>(p, keys). map (Pair p) keys) sources)) \<subseteq> fst ` set sources" by force
  then have "source_path ` set es \<subseteq> fst ` set sources"
    using arg_cong [OF assms(1), of "\<lambda>xs. fst ` set xs"] by (simp add: image_image)
  then show ?thesis using assms(2) by auto
qed

lemma build_success:
  assumes "build_draft_safetensors fr output sources d = (Inr sizes, d')"
    and keys: "distinct (concat (map snd sources))" and "fst metadata \<notin> set (concat (map snd sources))"
    and other: "output \<notin> fst ` set sources"
  obtains es header raw where
    "map (\<lambda>e. (source_path e, entry_key e)) es = concat (map (\<lambda>(p, keys). map (Pair p) keys) sources)"
    "\<forall>e\<in>set es. planned fr d e" "map entry_key es = concat (map snd sources)"
    "sizes = map (\<lambda>e. (entry_key e, entry_length e)) es"
    "header_bytes (metadata # layout 0 es) = Inr header" "pack_u64 (length header) = Inr raw"
    "wrote output (raw @ header @ concat (map (entry_bytes d) es)) d d'"
    "\<forall>e\<in>set es. 0 \<le> entry_length e \<and> length (entry_bytes d e) = nat (entry_length e)"
proof -
  from assms(1) obtain plan header raw d1 where plan: "plan_sources fr sources plan_start d = (Inr plan, d1)"
    and header: "header_bytes (output_header plan) = Inr header" "pack_u64 (length header) = Inr raw"
    and copy: "copy_entries output (plan_entries plan)
       (put_file output (raw @ header) (put_file output raw (put_file output [] d1))) = (Inr (), d')"
    and sizes: "sizes = plan_sizes plan"
    unfolding build_draft_safetensors_def create_file_def append_file_def
    by (auto simp: io_success io_of_sum_success_iff split: if_splits)
  from plan_sources_success [OF plan] obtain es where es: "d1 = d" "plan = foldl add_entry plan_start es"
    "map (\<lambda>e. (source_path e, entry_key e)) es = concat (map (\<lambda>(p, keys). map (Pair p) keys) sources)"
    "\<forall>e\<in>set es. planned fr d e" by blast
  note all = planned_keys [OF es(3)] and away = planned_away [OF es(3) other]
  have "distinct (map fst (output_header plan_start) @ map entry_key es)" "distinct (map fst (plan_sizes plan_start) @ map entry_key es)"
    using keys assms(3) by (simp_all add: plan_start_def all)
  from foldl_add_entry [OF this] have built: "plan_entries plan = es" "output_header plan = metadata # layout 0 es"
    "sizes = map (\<lambda>e. (entry_key e, entry_length e)) es"
    by (simp_all add: es(2) sizes plan_start_def)
  let ?d = "put_file output (raw @ header) (put_file output raw (put_file output [] d))"
  have w: "wrote output (raw @ header) d ?d" by (simp add: wrote_def)
  have same: "entry_bytes ?d e = entry_bytes d e" if "e \<in> set es" for e
    using entry_bytes_wrote [OF w] away that by simp
  from copy_entries_success [OF copy [unfolded es(1) built(1)] wrote_at [OF w] away]
  have written: "wrote output ((raw @ header) @ concat (map (entry_bytes ?d) es)) ?d d'"
    and lengths: "\<forall>e\<in>set es. 0 \<le> entry_length e \<and> length (entry_bytes ?d e) = nat (entry_length e)" by blast+
  show thesis
  proof (rule that [OF es(3,4) all built(3) _ header(2)])
    show "header_bytes (metadata # layout 0 es) = Inr header" using header(1) by (simp add: built(2))
    show "wrote output (raw @ header @ concat (map (entry_bytes d) es)) d d'"
      using wrote_trans [OF w written] same by (simp cong: map_cong)
    show "\<forall>e\<in>set es. 0 \<le> entry_length e \<and> length (entry_bytes d e) = nat (entry_length e)"
      using lengths same by simp
  qed
qed

section \<open>Building\<close>

lemma plan_key_returns:
  assumes "parse_header fr data = Inr (h, start)" and "tensor_of fr data key = Some x"
  shows "\<exists>plan'. plan_key p h start key plan d = (Inr plan', d)"
proof -
  from assms obtain entry t sh offsets a b where
    steps: "json_item h key = Inr entry" "json_item entry (cps ''dtype'') = Inr t" "json_item entry (cps ''shape'') = Inr sh"
      "json_item entry (cps ''data_offsets'') = Inr offsets" "interval offsets = Some (a, b)"
    by (auto simp: tensor_of_def split: sum.splits option.splits if_splits)
  then have "json_contains h key = Inr True"
    by (auto simp: json_item_def json_contains_def split: json.splits option.splits)
  then show ?thesis
    using steps interval_unpack [OF steps(5)]
    by (simp add: plan_key_def io_bind_def io_of_sum_def io_return_def as_int_def Let_def)
qed

lemma plan_keys_returns:
  assumes "parse_header fr data = Inr (h, start)" and "\<forall>key\<in>set keys. tensor_of fr data key \<noteq> None"
  shows "\<exists>plan'. plan_keys p h start keys plan d = (Inr plan', d)"
  using assms(2)
proof (induction keys arbitrary: plan)
  case (Cons key keys)
  then obtain plan1 where "plan_key p h start key plan d = (Inr plan1, d)"
    using plan_key_returns [OF assms(1)] by (meson list.set_intros(1) not_None_eq)
  with Cons show ?case by (simp add: io_simps)
qed (simp add: io_simps)

text \<open>The tensors a build is asked for.\<close>

definition requested :: "(codes \<Rightarrow> codes) \<Rightarrow> disk \<Rightarrow> (path \<times> codes list) list \<Rightarrow> bool" where
  "requested fr d sources \<longleftrightarrow>
     (\<forall>(p, keys) \<in> set sources. p \<notin> set (dirs d) \<and> (\<exists>data h. file_at p d = Some data \<and> parse_header fr data = Inr h) \<and>
       (\<forall>key\<in>set keys. valid_text key \<and> (\<exists>t sh bs. tensor_at fr d p key = Some (t, sh, bs) \<and> portable t \<and> portable sh)))"

lemma plan_sources_returns:
  assumes "requested fr d sources"
  shows "\<exists>plan'. plan_sources fr sources plan d = (Inr plan', d)"
  using assms
proof (induction sources arbitrary: plan)
  case (Cons source sources)
  obtain p keys where source: "source = (p, keys)" by fastforce
  with Cons.prems obtain data h start where data: "p \<notin> set (dirs d)" "file_at p d = Some data" "parse_header fr data = Inr (h, start)"
    and keys: "\<forall>key\<in>set keys. tensor_of fr data key \<noteq> None"
    by (fastforce simp: requested_def tensor_at_def)
  then have "read_safetensors_header fr p d = (Inr (h, start), d)" by (simp add: read_header_success)
  moreover obtain plan1 where "plan_keys p h start keys plan d = (Inr plan1, d)"
    using plan_keys_returns [OF data(3) keys] by blast
  moreover have "requested fr d sources" using Cons.prems by (simp add: requested_def)
  ultimately show ?case using Cons.IH by (simp add: source io_simps)
qed (simp add: io_simps)

lemma copy_entry_returns:
  assumes "0 \<le> source_offset e" and "source_path e \<notin> set (dirs d)" and "file_at (source_path e) d \<noteq> None"
    and "entry_length e = int (length (entry_bytes d e))" and "file_at output d = Some c"
  shows "\<exists>d'. copy_entry output e d = (Inr (), d')"
proof -
  obtain data where data: "file_at (source_path e) d = Some data" using assms(3) by auto
  with assms(4) have "nat (entry_length e) \<le> length (drop (nat (source_offset e)) data)" and "0 \<le> entry_length e"
    by (auto simp: entry_bytes_def)
  then show ?thesis
    using copy_exact_outcome [OF assms(5), of "drop (nat (source_offset e)) data" "entry_length e"] assms(1,2) data
    by (auto simp: copy_entry_def read_bytes_def io_simps)
qed

lemma copy_entries_returns:
  assumes "\<forall>e\<in>set es. 0 \<le> source_offset e \<and> source_path e \<notin> set (dirs d) \<and> file_at (source_path e) d \<noteq> None \<and>
      source_path e \<noteq> output \<and> entry_length e = int (length (entry_bytes d e))" and "file_at output d = Some c"
  shows "\<exists>d'. copy_entries output es d = (Inr (), d')"
  using assms
proof (induction es arbitrary: c d)
  case (Cons e es)
  then obtain d1 where first: "copy_entry output e d = (Inr (), d1)"
    using copy_entry_returns by (metis list.set_intros(1))
  from copy_entry_success [OF this Cons.prems(2)] have w: "wrote output (c @ entry_bytes d e) d d1" by blast
  have "\<forall>e\<in>set es. 0 \<le> source_offset e \<and> source_path e \<notin> set (dirs d1) \<and> file_at (source_path e) d1 \<noteq> None \<and>
      source_path e \<noteq> output \<and> entry_length e = int (length (entry_bytes d1 e))"
    using Cons.prems(1) w entry_bytes_wrote [OF w] by (auto simp: wrote_def)
  from Cons.IH [OF this wrote_at [OF w]] first show ?case by (simp add: io_simps io_then_bind)
qed (simp add: io_simps)


lemma requested_entry:
  assumes "requested fr d sources"
    and "map (\<lambda>e. (source_path e, entry_key e)) es = concat (map (\<lambda>(p, keys). map (Pair p) keys) sources)"
    and "\<forall>e\<in>set es. planned fr d e" and "e \<in> set es"
  shows "\<exists>t sh bs. tensor_at fr d (source_path e) (entry_key e) = Some (t, sh, bs) \<and> valid_text (entry_key e) \<and>
    portable t \<and> portable sh \<and> entry_field e ''dtype'' = t \<and> entry_field e ''shape'' = sh \<and> entry_bytes d e = bs \<and>
    0 \<le> source_offset e \<and> entry_length e = int (length bs)"
proof -
  have "(source_path e, entry_key e) \<in> set (concat (map (\<lambda>(p, keys). map (Pair p) keys) sources))"
    using assms(4) unfolding assms(2) [symmetric] by force
  then obtain keys where "(source_path e, keys) \<in> set sources" "entry_key e \<in> set keys" by auto
  with assms(1) obtain t sh bs where "valid_text (entry_key e)" "portable t" "portable sh"
    and tensor: "tensor_at fr d (source_path e) (entry_key e) = Some (t, sh, bs)"
    by (fastforce simp: requested_def)
  moreover note planned_tensor [OF bspec [OF assms(3,4)] tensor]
  ultimately show ?thesis by blast
qed

lemma header_portable:
  assumes "\<forall>e\<in>set es. valid_text (entry_key e) \<and> portable (entry_field e ''dtype'') \<and> portable (entry_field e ''shape'')"
    and "distinct (map entry_key es)" and "fst metadata \<notin> set (map entry_key es)"
  shows "portable (JObj (metadata # layout 0 es))"
  using assms layout_portable [of es 0] metadata_portable by simp

lemma header_bytes_returns: "portable (JObj header) \<Longrightarrow> \<exists>b. header_bytes header = Inr b"
  unfolding header_bytes_def by (subst ascii_encode [OF dumps_ascii(1)]) simp_all

lemma build_returns:
  assumes "requested fr d sources" and "distinct (concat (map snd sources))" and "fst metadata \<notin> set (concat (map snd sources))"
    and "output \<notin> fst ` set sources" and "output \<notin> set (dirs d)" and "butlast output \<in> set (dirs d)"
  obtains es header where
    "map (\<lambda>e. (source_path e, entry_key e)) es = concat (map (\<lambda>(p, keys). map (Pair p) keys) sources)"
    "\<forall>e\<in>set es. planned fr d e" "header_bytes (metadata # layout 0 es) = Inr header"
    "length header < 2 ^ 64 \<Longrightarrow> \<exists>sizes d'. build_draft_safetensors fr output sources d = (Inr sizes, d')"
    "\<not> length header < 2 ^ 64 \<Longrightarrow>
      build_draft_safetensors fr output sources d = (Inl (Exn StructError ''int too large to convert''), put_file output [] d)"
proof -
  obtain plan where plan: "plan_sources fr sources plan_start d = (Inr plan, d)"
    using plan_sources_returns [OF assms(1)] by blast
  from plan_sources_success [OF plan] obtain es where es: "plan = foldl add_entry plan_start es"
    "map (\<lambda>e. (source_path e, entry_key e)) es = concat (map (\<lambda>(p, keys). map (Pair p) keys) sources)"
    "\<forall>e\<in>set es. planned fr d e" by blast
  note all = planned_keys [OF es(2)]
  have built: "plan_entries plan = es" "output_header plan = metadata # layout 0 es"
    using foldl_add_entry [of plan_start es] assms(2,3) by (simp_all add: es(1) plan_start_def all)
  have "portable (JObj (metadata # layout 0 es))"
    using requested_entry [OF assms(1) es(2,3)] assms(2,3) by (intro header_portable) (fastforce simp: all)+
  then obtain header where header: "header_bytes (metadata # layout 0 es) = Inr header"
    using header_bytes_returns by blast
  let ?d = "\<lambda>raw. put_file output (raw @ header) (put_file output raw (put_file output [] d))"
  have copies: "\<exists>d'. copy_entries output es (?d raw) = (Inr (), d')" for raw
  proof (rule copy_entries_returns)
    have "wrote output (raw @ header) d (?d raw)" by (simp add: wrote_def)
    note same = entry_bytes_wrote [OF this]
    show "\<forall>e\<in>set es. 0 \<le> source_offset e \<and> source_path e \<notin> set (dirs (?d raw)) \<and> file_at (source_path e) (?d raw) \<noteq> None \<and>
      source_path e \<noteq> output \<and> entry_length e = int (length (entry_bytes (?d raw) e))"
    proof
      fix e assume e: "e \<in> set es"
      with planned_away [OF es(2) assms(4)] have "source_path e \<noteq> output" by simp
      with requested_entry [OF assms(1) es(2,3) e] bspec [OF es(3) e] same [of e]
      show "0 \<le> source_offset e \<and> source_path e \<notin> set (dirs (?d raw)) \<and> file_at (source_path e) (?d raw) \<noteq> None \<and>
        source_path e \<noteq> output \<and> entry_length e = int (length (entry_bytes (?d raw) e))"
        by (auto simp: planned_def)
    qed
    show "file_at output (?d raw) = Some (raw @ header)" by simp
  qed
  show thesis
  proof (rule that [OF es(2,3) header])
    assume "length header < 2 ^ 64"
    then show "\<exists>sizes d'. build_draft_safetensors fr output sources d = (Inr sizes, d')"
      using copies [of "le_bytes 8 (length header)"] assms(5,6)
      by (auto simp: build_draft_safetensors_def create_file_def append_file_def io_simps io_then_bind plan built header pack_u64_def)
  next
    assume "\<not> length header < 2 ^ 64"
    then show "build_draft_safetensors fr output sources d =
        (Inl (Exn StructError ''int too large to convert''), put_file output [] d)"
      using assms(5,6) by (simp add: build_draft_safetensors_def create_file_def io_simps io_then_bind plan built header pack_u64_def)
  qed
qed

section \<open>A drafter of one tensor\<close>

definition sample_header :: "(codes \<times> json) list" where
  "sample_header = [([119], output_entry (JStr [70, 51]) (JList [JInt 3]) 0 3)]"

definition sample_text :: codes where
  "sample_text = (case header_bytes sample_header of Inr b \<Rightarrow> b | Inl _ \<Rightarrow> [])"

definition sample_disk :: disk where
  "sample_disk = \<lparr>files = [([''src'', ''m''], le_bytes 8 (length sample_text) @ sample_text @ [7, 8, 9])],
     dirs = [[''src''], [''out'']], console = []\<rparr>"

abbreviation sample_sources :: "(path \<times> codes list) list" where
  "sample_sources \<equiv> [([''src'', ''m''], [[119]])]"

lemma header_bytes_length:
  assumes "header_bytes header = Inr b" and "portable (JObj header)"
  shows "length b \<le> length (dumps (JObj header)) + 7"
proof -
  have "nat ((- int (length (dumps (JObj header)))) mod 8) \<le> 7" by linarith
  then show ?thesis
    using assms ascii_encode [OF dumps_ascii(1) [OF assms(2)]] by (auto simp: header_bytes_def)
qed

lemma sample_portable: "portable (JObj sample_header)"
  by (simp add: sample_header_def output_entry_def valid_text_def valid_char_def cps_def)

lemma sample_written: "header_bytes sample_header = Inr sample_text"
  using header_bytes_returns [OF sample_portable] by (auto simp: sample_text_def)

lemma small_number: "n < 10 \<Longrightarrow> length (py_str (int n)) = 1"
  by (simp add: py_str_def py_str_nat.simps [of n])

lemma sample_length: "length sample_text < 100"
  using header_bytes_length [OF sample_written sample_portable] small_number [of 3] small_number [of 0]
  by (simp add: sample_header_def output_entry_def quote_def escape_char_def cps_def)

lemma sample_parsed:
  "parse_header fr (le_bytes 8 (length sample_text) @ sample_text @ [7, 8, 9]) = Inr (JObj sample_header, 8 + length sample_text)"
  by (rule parse_written_header [OF sample_portable sample_written])
    (use sample_length in \<open>simp_all add: pack_u64_def\<close>)

lemma sample_tensor: "tensor_at fr sample_disk [''src'', ''m''] [119] = Some (JStr [70, 51], JList [JInt 3], [7, 8, 9])"
  using read_written_entry [OF sample_parsed, of "[119]" "JStr [70, 51]" "JList [JInt 3]" 0 3 "[7, 8, 9]" fr]
  by (simp add: tensor_at_def sample_disk_def file_at_def sample_header_def)

lemma sample_requested: "requested fr sample_disk sample_sources"
  using sample_tensor [of fr] sample_parsed [of fr]
  by (simp add: requested_def sample_disk_def file_at_def valid_text_def valid_char_def)

lemma sample_small:
  assumes "map (\<lambda>e. (source_path e, entry_key e)) es = concat (map (\<lambda>(p, keys). map (Pair p) keys) sample_sources)"
    and "\<forall>e\<in>set es. planned fr sample_disk e" and "header_bytes (metadata # layout 0 es) = Inr header"
  shows "length header < 1000 \<and> concat (map (entry_bytes sample_disk) es) = [7, 8, 9]"
proof -
  from assms(1) obtain e where e: "es = [e]" "source_path e = [''src'', ''m'']" "entry_key e = [119]" by (cases es) auto
  then have entry: "entry_field e ''dtype'' = JStr [70, 51]" "entry_field e ''shape'' = JList [JInt 3]"
      "entry_length e = 3" "entry_bytes sample_disk e = [7, 8, 9]"
    using planned_tensor [of fr sample_disk e] assms(2) sample_tensor [of fr] by simp_all
  have "portable (JObj (metadata # layout 0 es))"
    by (rule header_portable) (simp_all add: e entry valid_text_def valid_char_def metadata_def cps_def)
  from header_bytes_length [OF assms(3) this] show ?thesis
    using small_number [of 3] small_number [of 0]
    by (simp add: e entry metadata_def output_entry_def quote_def escape_char_def cps_def)
qed

lemma sample_keys: "distinct (concat (map snd sample_sources))" "fst metadata \<notin> set (concat (map snd sample_sources))"
    "[''out'', ''m''] \<notin> fst ` set sample_sources"
  by (simp_all add: metadata_def cps_def)

lemma sample_run:
  obtains sizes d' out where
    "build_draft_safetensors fr [''out'', ''m''] sample_sources sample_disk = (Inr sizes, d')"
    "file_at [''out'', ''m''] d' = Some out" "length out < 2 ^ 63"
proof -
  obtain es header where es: "map (\<lambda>e. (source_path e, entry_key e)) es = concat (map (\<lambda>(p, keys). map (Pair p) keys) sample_sources)"
      "\<forall>e\<in>set es. planned fr sample_disk e" "header_bytes (metadata # layout 0 es) = Inr header"
    and run: "length header < 2 ^ 64 \<Longrightarrow>
      \<exists>sizes d'. build_draft_safetensors fr [''out'', ''m''] sample_sources sample_disk = (Inr sizes, d')"
    by (rule build_returns [OF sample_requested sample_keys, of fr]) (simp_all add: sample_disk_def)
  then obtain sizes d' where built: "build_draft_safetensors fr [''out'', ''m''] sample_sources sample_disk = (Inr sizes, d')"
    using sample_small [OF es] by auto
  show thesis
  proof (rule build_success [OF built sample_keys])
    fix es header raw
    assume es: "map (\<lambda>e. (source_path e, entry_key e)) es = concat (map (\<lambda>(p, keys). map (Pair p) keys) sample_sources)"
        "\<forall>e\<in>set es. planned fr sample_disk e" "header_bytes (metadata # layout 0 es) = Inr header"
      and raw: "pack_u64 (length header) = Inr raw"
      and w: "wrote [''out'', ''m''] (raw @ header @ concat (map (entry_bytes sample_disk) es)) sample_disk d'"
    have "length (raw @ header @ concat (map (entry_bytes sample_disk) es)) < 2 ^ 63"
      using sample_small [OF es] raw by (auto simp: pack_u64_def split: if_splits)
    then show thesis by (rule that [OF built wrote_at [OF w]])
  qed
qed

text \<open>Reading an entry of a written file: its type, its shape and its bytes, in the length the plan gives.\<close>

lemma entry_returned:
  assumes "wrote output (raw @ header @ concat (map (entry_bytes d) es)) d d'"
    and header: "header_bytes (metadata # layout 0 es) = Inr header" "pack_u64 (length header) = Inr raw" "length header < 2 ^ 63"
    and "portable (JObj (metadata # layout 0 es))"
    and lengths: "\<forall>e\<in>set es. 0 \<le> entry_length e \<and> length (entry_bytes d e) = nat (entry_length e)"
    and unique: "distinct (map entry_key es)" and fresh: "fst metadata \<notin> set (map entry_key es)"
    and e: "e \<in> set es"
  shows "tensor_at fr d' output (entry_key e) = Some (entry_field e ''dtype'', entry_field e ''shape'', entry_bytes d e) \<and>
    map_of (map (\<lambda>e. (entry_key e, entry_length e)) es) (entry_key e) = Some (int (length (entry_bytes d e)))"
proof -
  let ?data = "concat (map (entry_bytes d) es)"
  note parsed = parse_written_header [OF assms(5) header(1,3,2), of fr ?data]
  have raw: "length raw = 8" using header(2) by (auto simp: pack_u64_def split: if_splits)
  obtain a where a: "map_of (layout 0 es) (entry_key e) =
      Some (output_entry (entry_field e ''dtype'') (entry_field e ''shape'') (int a) (entry_length e))"
    "take (nat (entry_length e)) (drop a ?data) = entry_bytes d e" "a + nat (entry_length e) \<le> length ?data"
    using layout_slice [OF e unique lengths, of 0] by auto
  have "entry_key e \<noteq> fst metadata" using fresh e by (metis image_eqI image_set)
  then have "map_of (metadata # layout 0 es) (entry_key e) =
      Some (output_entry (entry_field e ''dtype'') (entry_field e ''shape'') (int a) (int (nat (entry_length e))))"
    using a(1) lengths e by (cases metadata) simp
  from read_written_entry [OF parsed this _ _ a(3)] have
    "tensor_of fr (raw @ header @ ?data) (entry_key e) = Some (entry_field e ''dtype'', entry_field e ''shape'', entry_bytes d e)"
    by (simp add: raw a(2))
  moreover have "map_of (map (\<lambda>e. (entry_key e, entry_length e)) es) (entry_key e) = Some (entry_length e)"
    using e unique by (intro map_of_is_SomeI) (auto simp: comp_def)
  ultimately show ?thesis using wrote_at [OF assms(1)] lengths e by (simp add: tensor_at_def)
qed

text \<open>C27: when the drafter is built, reading it gives every requested tensor of every source back: the same type, the same
  shape and the same bytes, the number of bytes is what \<open>sizes\<close> says, and no other file has changed. The sources' tensors
  are well formed, no key is asked for twice, and the file is shorter than the largest index.
\<close>

theorem drafter_round_trip:
  assumes "build_draft_safetensors fr output sources d = (Inr sizes, d')"
    and "distinct (concat (map snd sources))" and "fst metadata \<notin> set (concat (map snd sources))"
    and "output \<notin> fst ` set sources"
    and requested: "requested fr d sources"
    and bounded: "\<And>out. file_at output d' = Some out \<Longrightarrow> length out < 2 ^ 63"
  shows "(\<forall>q. q \<noteq> output \<longrightarrow> file_at q d' = file_at q d) \<and>
    (\<forall>(p, keys) \<in> set sources. \<forall>key \<in> set keys. \<exists>t sh bs. tensor_at fr d p key = Some (t, sh, bs) \<and>
      tensor_at fr d' output key = Some (t, sh, bs) \<and> map_of sizes key = Some (int (length bs)))"
proof -
  obtain es header raw where
    es: "map (\<lambda>e. (source_path e, entry_key e)) es = concat (map (\<lambda>(p, keys). map (Pair p) keys) sources)"
      "\<forall>e\<in>set es. planned fr d e" and all: "map entry_key es = concat (map snd sources)"
    and sizes: "sizes = map (\<lambda>e. (entry_key e, entry_length e)) es"
    and header: "header_bytes (metadata # layout 0 es) = Inr header" "pack_u64 (length header) = Inr raw"
    and w: "wrote output (raw @ header @ concat (map (entry_bytes d) es)) d d'"
    and lengths: "\<forall>e\<in>set es. 0 \<le> entry_length e \<and> length (entry_bytes d e) = nat (entry_length e)"
    using build_success [OF assms(1-4)] by blast
  have unique: "distinct (map entry_key es)" and fresh: "fst metadata \<notin> set (map entry_key es)"
    unfolding all by (rule assms(2), rule assms(3))
  have small: "length header < 2 ^ 63" using bounded [OF wrote_at [OF w]] by simp
  note entry = requested_entry [OF requested es]
  have "portable (JObj (metadata # layout 0 es))"
  proof -
    have "\<forall>e\<in>set es. valid_text (entry_key e) \<and> portable (entry_field e ''dtype'') \<and> portable (entry_field e ''shape'')"
      using entry by metis
    then show ?thesis using layout_portable [of es 0] metadata_portable unique fresh by simp
  qed
  note returned = entry_returned [OF w header small this lengths unique fresh, folded sizes, of _ fr]
  show ?thesis
  proof (intro conjI ballI)
    show "\<forall>q. q \<noteq> output \<longrightarrow> file_at q d' = file_at q d" using w by (simp add: wrote_def)
  next
    fix source assume source: "source \<in> set sources"
    obtain p keys where pk: "source = (p, keys)" by fastforce
    show "case source of (p, keys) \<Rightarrow> \<forall>key\<in>set keys. \<exists>t sh bs. tensor_at fr d p key = Some (t, sh, bs) \<and>
      tensor_at fr d' output key = Some (t, sh, bs) \<and> map_of sizes key = Some (int (length bs))"
      unfolding pk prod.case
    proof
      fix key assume "key \<in> set keys"
      with source pk have "(p, key) \<in> set (map (\<lambda>e. (source_path e, entry_key e)) es)" unfolding es(1) by force
      then obtain e where "e \<in> set es" "source_path e = p" "entry_key e = key" by auto
      with entry returned show "\<exists>t sh bs. tensor_at fr d p key = Some (t, sh, bs) \<and>
        tensor_at fr d' output key = Some (t, sh, bs) \<and> map_of sizes key = Some (int (length bs))" by metis
    qed
  qed
qed



lemma drafter_round_trip_witness:
  "\<exists>sizes d'. build_draft_safetensors id [''out'', ''m''] sample_sources sample_disk = (Inr sizes, d') \<and>
     tensor_at id d' [''out'', ''m''] [119] = Some (JStr [70, 51], JList [JInt 3], [7, 8, 9]) \<and> map_of sizes [119] = Some 3"
proof -
  obtain sizes d' out where run: "build_draft_safetensors id [''out'', ''m''] sample_sources sample_disk = (Inr sizes, d')"
    "file_at [''out'', ''m''] d' = Some out" "length out < 2 ^ 63" by (rule sample_run)
  have "fst metadata \<notin> set (concat (map snd sample_sources))" by (simp add: metadata_def cps_def)
  from drafter_round_trip [OF run(1) _ this _ sample_requested] run(2,3) sample_tensor [of id] run(1)
  show ?thesis by auto
qed



text \<open>C29: copying ends for every length, negative ones included, and copies exactly the asked number of bytes when the source
  has them; otherwise it raises \<open>EOFError\<close> after everything the source had. Nothing else on the disk changes.
\<close>

theorem copy_exact_whole:
  assumes "file_at p d = Some c"
  shows "\<exists>d'. copy_exact source p n d =
      ((if 0 \<le> n \<and> n \<le> int (length source) then Inr () else Inl (Exn EOFError ''Unexpected end of safetensors data'')), d') \<and>
    wrote p (c @ (if 0 \<le> n \<and> n \<le> int (length source) then take (nat n) source else source)) d d'"
  by (rule copy_exact_outcome [OF assms])

lemma copy_exact_whole_witness:
  "\<exists>d'. copy_exact [7, 8, 9] [''m''] 2 \<lparr>files = [([''m''], [1])], dirs = [[]], console = []\<rparr> = (Inr (), d') \<and>
     wrote [''m''] [1, 7, 8] \<lparr>files = [([''m''], [1])], dirs = [[]], console = []\<rparr> d'"
  using copy_exact_whole [of "[''m'']" "\<lparr>files = [([''m''], [1])], dirs = [[]], console = []\<rparr>" "[1]" "[7, 8, 9]" 2]
  by (simp add: file_at_def)

section \<open>Hashing\<close>

lemma feed_all: "feed fed source = fed @ source"
proof (induction fed source rule: feed.induct)
  case (1 fed source)
  show ?case
  proof (cases "stream_read chunk_size source = []")
    case True
    then have "source = []" by (simp add: stream_read_def chunk_size_def)
    then show ?thesis by (subst feed.simps) simp
  next
    case False
    have "stream_read chunk_size source @ drop (length (stream_read chunk_size source)) source = source"
      by (simp add: stream_read_def chunk_size_def min_def)
    with 1 [OF refl False] False show ?thesis by (subst feed.simps) (simp add: Let_def)
  qed
qed

lemma sha256_whole: "sha256 h p d = (if p \<in> set (dirs d) then Inl (Exn OSError ''is a directory'')
    else case file_at p d of None \<Rightarrow> Inl (Exn FileNotFoundError ''no such file'') | Some data \<Rightarrow> Inr (h data), d)"
  by (simp add: sha256_def read_bytes_def feed_all io_simps io_bind_def split: option.split)

end
