(* ===== verification/Exchange_Benchmark.thy ===== *)
theory Exchange_Benchmark
  imports D3d12_Transfer Rank_Launch
begin

text \<open>
  \<open>probes/benchmark_d3d12_cross_adapter.py\<close>: two processes send each other the same payload again and again, each through a
  heap of its own. One exchange is the stream protocol of the D3D12 collective with a copy out of the peer's heap in place of
  the addition, so its results are those of \<open>D3d12_Protocol\<close> for the operation that keeps the peer's payload. The clock, the
  rates computed from it and the printed summary are not modelled.
\<close>

section \<open>Settings\<close>

record exchange_config =
  ec_size :: int
  ec_iterations :: int
  ec_warmup :: int

definition exchange_config_of :: "pyenv \<Rightarrow> exn + exchange_config" where
  "exchange_config_of pe =
     (case env_int pe ''WAVMG_D3D12_SIZE_BYTES'' (64 * 1024 * 1024) of Inl e \<Rightarrow> Inl e | Inr n \<Rightarrow>
     (case env_int pe ''WAVMG_D3D12_ITERATIONS'' 100 of Inl e \<Rightarrow> Inl e | Inr iterations \<Rightarrow>
     (case env_int pe ''WAVMG_D3D12_WARMUP_ITERATIONS'' 10 of Inl e \<Rightarrow> Inl e | Inr warmup \<Rightarrow>
      Inr \<lparr>ec_size = n, ec_iterations = iterations, ec_warmup = warmup\<rparr>)))"

section \<open>One rank\<close>

record exchange_record =
  xb_rank :: int
  xb_opened :: bool
  xb_correct :: bool
  xb_error :: "exn option"
  xb_close_errors :: "exn list"

record exchange_rank =
  xo_own :: "d3d12_buffer option"
  xo_peer :: "d3d12_buffer option"
  xo_record :: exchange_record

definition start_exchange :: "int \<Rightarrow> exchange_rank" where
  "start_exchange rank = \<lparr>xo_own = None, xo_peer = None, xo_record = \<lparr>xb_rank = rank, xb_opened = False, xb_correct = False,
     xb_error = None, xb_close_errors = []\<rparr>\<rparr>"

definition with_own :: "d3d12_buffer \<Rightarrow> ('w, d3d12_buffer, 'a) meth \<Rightarrow> ('w, exchange_rank, 'a) meth" where
  "with_own b m = on_field (\<lambda>_. b) (\<lambda>b s. s\<lparr>xo_own := Some b\<rparr>) m"

definition with_peer :: "d3d12_buffer \<Rightarrow> ('w, d3d12_buffer, 'a) meth \<Rightarrow> ('w, exchange_rank, 'a) meth" where
  "with_peer b m = on_field (\<lambda>_. b) (\<lambda>b s. s\<lparr>xo_peer := Some b\<rparr>) m"

definition exchange_once ::
  "'w extern \<Rightarrow> int \<Rightarrow> int \<Rightarrow> d3d12_buffer \<Rightarrow> d3d12_buffer \<Rightarrow> tensor \<Rightarrow> tensor \<Rightarrow> nat \<Rightarrow> ('w, exchange_rank, unit) meth" where
  "exchange_once env n stream own peer outgoing incoming iteration =
     (let ready_value = int iteration * 2 + 1; consumed_value = ready_value + 1 in
      io_then (on_world (memcpy_async env (buf_pointer own) (t_ptr outgoing) n HIP_MEMCPY_DEFAULT stream))
     (io_then (with_own own (shared_signal env ready_value stream))
     (io_then (with_peer peer (shared_wait env ready_value stream))
     (io_then (on_world (memcpy_async env (t_ptr incoming) (buf_pointer peer) n HIP_MEMCPY_DEFAULT stream))
     (io_then (with_peer peer (shared_signal env consumed_value stream))
     (with_own own (shared_wait env consumed_value stream)))))))"

definition exchange_connect :: "'w extern \<Rightarrow> pyenv \<Rightarrow> exchange_config \<Rightarrow> string \<Rightarrow> int \<Rightarrow> ('w, exchange_rank, d3d12_buffer \<times> d3d12_buffer) meth" where
  "exchange_connect env pe c base_name rank =
     io_bind (on_world (shared_new env pe (base_name @ ''.rank'' @ py_str rank) (ec_size c) rank True None)) (\<lambda>own.
     io_then (update_self (\<lambda>s. s\<lparr>xo_own := Some own\<rparr>))
    (io_then (on_world (event_set env (''creator_ready'' @ py_str rank)))
    (io_then (on_world (event_wait env (''creator_ready'' @ py_str (1 - rank)) ''peer did not create its D3D12 heap''))
    (io_bind (on_world (shared_new env pe (base_name @ ''.rank'' @ py_str (1 - rank)) (ec_size c) rank False None)) (\<lambda>peer.
     io_then (update_self (\<lambda>s. s\<lparr>xo_peer := Some peer\<rparr>))
    (io_return (own, peer)))))))"

definition exchange_run ::
  "'w extern \<Rightarrow> torch_api \<Rightarrow> exchange_config \<Rightarrow> int \<Rightarrow> int \<Rightarrow> d3d12_buffer \<Rightarrow> d3d12_buffer \<Rightarrow> ('w, exchange_rank, bool) meth" where
  "exchange_run env T c rank stream own peer =
     (let warmup = nat (ec_warmup c); iterations = nat (ec_iterations c) in
      io_bind (on_world (full env T (nat (ec_size c div 4)) (float_text (rank + 1)) Float32 (cuda rank))) (\<lambda>outgoing.
      io_bind (on_world (empty_like env T outgoing)) (\<lambda>incoming.
      io_then (io_each (exchange_once env (ec_size c) stream own peer outgoing incoming) [0..<warmup])
     (io_then (on_world (stream_synchronize env stream))
     (io_then (on_world (os_do env ''barrier_wait'' [''180'']))
     (io_then (io_each (exchange_once env (ec_size c) stream own peer outgoing incoming) [warmup..<warmup + iterations])
     (io_then (on_world (stream_synchronize env stream))
     (on_world (all_equal env incoming (float_text (2 - rank)))))))))))"

definition exchange_body :: "'w extern \<Rightarrow> pyenv \<Rightarrow> torch_api \<Rightarrow> exchange_config \<Rightarrow> string \<Rightarrow> int \<Rightarrow> ('w, exchange_rank, unit) meth" where
  "exchange_body env pe T c base_name rank =
     io_then (on_world (torch_do env ''set_device'' [PyInt rank]))
    (io_bind (on_world (hip_init env pe None [])) (\<lambda>_.
     io_bind (exchange_connect env pe c base_name rank) (\<lambda>(own, peer).
     io_bind (on_world (current_stream env (cuda rank))) (\<lambda>stream.
     io_bind (exchange_run env T c rank stream own peer) (\<lambda>correct.
     update_self (\<lambda>s. s\<lparr>xo_record := (xo_record s)\<lparr>xb_opened := True, xb_correct := correct\<rparr>\<rparr>))))))"

text \<open>A failing rank releases a peer that waits for an event or at the barrier.\<close>

definition exchange_failed :: "'w extern \<Rightarrow> exn \<Rightarrow> ('w, exchange_rank, unit) meth" where
  "exchange_failed env e =
     io_then (update_self (\<lambda>s. s\<lparr>xo_record := (xo_record s)\<lparr>xb_opened := False, xb_correct := False, xb_error := Some e\<rparr>\<rparr>))
    (io_then (on_world (event_set env ''creator_ready0''))
    (io_then (on_world (event_set env ''creator_ready1''))
    (io_catch (on_world (os_do env ''barrier_abort'' [])) (\<lambda>_. io_return ()))))"

definition note_close_error :: "exn \<Rightarrow> exchange_rank \<Rightarrow> exchange_rank" where
  "note_close_error e s = s\<lparr>xo_record := (xo_record s)\<lparr>xb_close_errors := xb_close_errors (xo_record s) @ [e]\<rparr>\<rparr>"

definition exchange_close :: "'w extern \<Rightarrow> int \<Rightarrow> ('w, exchange_rank, unit) meth" where
  "exchange_close env rank =
     io_then (io_catch (on_world (torch_do env ''synchronize'' [PyInt rank])) (\<lambda>_. io_return ()))
    (io_bind self (\<lambda>s.
     io_then (case xo_peer s of None \<Rightarrow> io_return () | Some b \<Rightarrow> note_failure (with_peer b (shared_close env)) note_close_error)
    (case xo_own s of None \<Rightarrow> io_return () | Some b \<Rightarrow> note_failure (with_own b (shared_close env)) note_close_error)))"

definition exchange_main :: "'w extern \<Rightarrow> pyenv \<Rightarrow> torch_api \<Rightarrow> exchange_config \<Rightarrow> string \<Rightarrow> int \<Rightarrow> ('w world, exchange_record) io" where
  "exchange_main env pe T c base_name rank =
     report_of (io_finally (io_catch (exchange_body env pe T c base_name rank) (exchange_failed env)) (exchange_close env rank))
       (start_exchange rank) xo_record"

definition exchange_passed :: "exchange_record list \<Rightarrow> bool" where
  "exchange_passed records \<longleftrightarrow> length records = 2 \<and> list_all xb_opened records \<and> list_all xb_correct records"

definition exchange_launch ::
  "'w extern \<Rightarrow> exchange_config \<Rightarrow> (int \<Rightarrow> exchange_record) \<Rightarrow> ('w world, exchange_record list \<times> int) io" where
  "exchange_launch env c unpickle =
     (if ec_size c \<le> 0 \<or> ec_size c mod 4 \<noteq> 0
        then io_raise ValueError ''WAVMG_D3D12_SIZE_BYTES must be a positive multiple of four''
      else if ec_iterations c < 1 \<or> ec_warmup c < 0 then io_raise ValueError ''iteration counts are invalid''
      else
        io_bind (call_ext env (Os ''uuid4'' [])) (\<lambda>(_, outs).
        let base_name = ''Local'' @ [char_of (92::nat)] @ ''wavmg-benchmark-'' @ (case out_str outs of None \<Rightarrow> [] | Some h \<Rightarrow> h)
        in launch env unpickle xb_rank exchange_passed 180 10 [base_name] 2))"

section \<open>The stream of a rank\<close>

definition exchange_block :: "nat \<Rightarrow> nat \<Rightarrow> 'a \<Rightarrow> 'a cmd list" where
  "exchange_block rank i x =
     [StoreBegin rank, StoreEnd rank x, Signal rank (i * 2 + 1), WaitGe (1 - rank) (i * 2 + 1),
      ReadBegin (1 - rank), LoadEnd, Signal (1 - rank) (i * 2 + 2), WaitGe rank (i * 2 + 2)]"

definition exchange_stream :: "nat \<Rightarrow> nat \<Rightarrow> 'a \<Rightarrow> 'a cmd list" where
  "exchange_stream rank n x = concat (map (\<lambda>i. exchange_block rank i x) [0..<n])"

text \<open>A copy is an addition that keeps only what it reads, so the protocol of the collective covers the exchange.\<close>

fun as_copy :: "'a cmd \<Rightarrow> 'a cmd" where
  "as_copy (AddEnd x) = LoadEnd"
| "as_copy (StoreBegin b) = StoreBegin b"
| "as_copy (StoreEnd b x) = StoreEnd b x"
| "as_copy (Signal f v) = Signal f v"
| "as_copy (WaitGe f v) = WaitGe f v"
| "as_copy (ReadBegin b) = ReadBegin b"
| "as_copy LoadEnd = LoadEnd"

lemma exec_as_copy: "exec add r (as_copy c) s = exec (\<lambda>_ y. y) r c s"
  by (cases c) (simp_all add: option.map_ident)

lemma gpu_step_as_copy: "gpu_step add (\<lambda>r. map as_copy (progs r)) s t \<longleftrightarrow> gpu_step (\<lambda>_ y. y) progs s t"
  by (auto simp: exec_as_copy elim!: gpu_stepE intro: gpu_step_exec
      intro!: gpu_step.intros [where progs = "\<lambda>r. map as_copy (progs r)", simplified exec_as_copy length_map])

lemma exchange_block_as_copy: "map as_copy (d3d12_block rank (Suc i) x) = exchange_block rank i x"
  by (simp add: d3d12_block_def exchange_block_def ready_value_def consumed_value_def)

lemma exchange_stream_as_copy: "map as_copy (d3d12_stream rank (replicate n x)) = exchange_stream rank n x"
  by (simp add: d3d12_stream_def exchange_stream_def map_concat comp_def exchange_block_as_copy)
    (rule arg_cong [of _ _ concat], simp)

definition exchange_progs :: "nat \<Rightarrow> 'a \<Rightarrow> 'a \<Rightarrow> nat \<Rightarrow> 'a cmd list" where
  "exchange_progs n x y = two_streams (exchange_stream 0 n x) (exchange_stream 1 n y)"

lemma exchange_progs_as_copy: "exchange_progs n x y = (\<lambda>r. map as_copy (d3d12_run (replicate n (x, y)) r))"
  by (auto simp: exchange_progs_def two_streams_def d3d12_progs_def fun_eq_iff exchange_stream_as_copy)

lemma exchange_step: "gpu_step add (exchange_progs n x y) = gpu_step (\<lambda>_ y. y) (d3d12_run (replicate n (x, y)))"
  by (simp add: exchange_progs_as_copy gpu_step_as_copy fun_eq_iff)

lemma exchange_done: "gpu_done (exchange_progs n x y) = gpu_done (d3d12_run (replicate n (x, y)))"
  by (simp add: gpu_done_def exchange_progs_as_copy fun_eq_iff)

interpretation exchange: two_stream_protocol add "exchange_progs n x y"
  "d3d12_inv (\<lambda>_ y. y) (map fst (replicate n (x, y))) (map snd (replicate n (x, y)))"
  for add :: "'a \<Rightarrow> 'a \<Rightarrow> 'a" and n :: nat and x y :: 'a
proof unfold_locales
  fix s t :: "'a gpu" and r
  let ?inv = "d3d12_inv (\<lambda>_ y. y) (map fst (replicate n (x, y))) (map snd (replicate n (x, y)))"
  show "gpu_init s \<Longrightarrow> ?inv s" by (rule d3d12.start)
  show "?inv s \<Longrightarrow> gpu_step add (exchange_progs n x y) s t \<Longrightarrow> ?inv t" unfolding exchange_step by (rule d3d12.keep)
  show "?inv s \<Longrightarrow> \<not> gpu_done (exchange_progs n x y) [0, 1] s \<Longrightarrow> \<exists>t. gpu_step add (exchange_progs n x y) s t"
    unfolding exchange_step exchange_done by (rule d3d12.moves)
  show "exchange_progs n x y r \<noteq> [] \<Longrightarrow> r = 0 \<or> r = Suc 0" by (simp add: exchange_progs_def two_streams_def split: if_splits)
qed

lemma exchange_results:
  assumes "reach gpu_init (gpu_step add (exchange_progs n x y)) s" and "gpu_done (exchange_progs n x y) [0, 1] s"
  shows "outs s 0 = replicate n (Some y) \<and> outs s 1 = replicate n (Some x)"
  using d3d12.results [of "\<lambda>_ y. y" "replicate n (x, y)" s] assms by (simp add: exchange_step exchange_done)

section \<open>From the calls to the streams\<close>

text \<open>A native call of one rank as commands of its stream \<open>st\<close>: a copy into the own heap stores the payload, a copy out of the
peer's loads, and a fence belongs to the rank whose context is named.\<close>

definition exchange_commands :: "d3d12_buffer \<Rightarrow> d3d12_buffer \<Rightarrow> nat \<Rightarrow> u64 \<Rightarrow> 'a \<Rightarrow> ecall \<Rightarrow> 'a cmd list" where
  "exchange_commands own peer rank st x c =
     (case c of
        Native fn vs \<Rightarrow>
          (if fn = ''hipMemcpyAsync'' then
             (case vs of [VPtr dst, VPtr src, _, _, VPtr h] \<Rightarrow>
                (if h \<noteq> st then []
                 else if dst = word_of_int (buf_pointer own) then [StoreBegin rank, StoreEnd rank x]
                 else if src = word_of_int (buf_pointer peer) then [ReadBegin (1 - rank), LoadEnd]
                 else [])
              | _ \<Rightarrow> [])
           else if fn = ''wavmg_d3d12_signal'' then
             (case vs of [VPtr k, VU64 v, VPtr h] \<Rightarrow> (if h = st then [Signal (fence_rank own rank k) (unat v)] else []) | _ \<Rightarrow> [])
           else if fn = ''wavmg_d3d12_wait'' then
             (case vs of [VPtr k, VU64 v, VPtr h] \<Rightarrow> (if h = st then [WaitGe (fence_rank own rank k) (unat v)] else []) | _ \<Rightarrow> [])
           else [])
      | _ \<Rightarrow> [])"

lemma exchange_commands_simps [simp]:
  "exchange_commands own peer rank st x (Torch f args) = []"
  "exchange_commands own peer rank st x (Os f ss) = []"
  "exchange_commands own peer rank st x (Native ''hipStreamSynchronize'' vs) = []"
  "exchange_commands own peer rank st x (Native ''wavmg_d3d12_signal'' [VPtr k, VU64 v, VPtr h]) =
     (if h = st then [Signal (fence_rank own rank k) (unat v)] else [])"
  "exchange_commands own peer rank st x (Native ''wavmg_d3d12_wait'' [VPtr k, VU64 v, VPtr h]) =
     (if h = st then [WaitGe (fence_rank own rank k) (unat v)] else [])"
  "exchange_commands own peer rank st x (Native ''hipMemcpyAsync'' [VPtr dst, VPtr src, n, k', VPtr h]) =
     (if h \<noteq> st then []
      else if dst = word_of_int (buf_pointer own) then [StoreBegin rank, StoreEnd rank x]
      else if src = word_of_int (buf_pointer peer) then [ReadBegin (1 - rank), LoadEnd]
      else [])"
  by (simp_all add: exchange_commands_def)

lemma exchange_once_block:
  assumes "distinct_buffers own peer" and "(word_of_int (t_ptr incoming) :: u64) \<noteq> word_of_int (buf_pointer own)"
    and "int i < 2 ^ 62" and "exchange_once env n st own peer outgoing incoming i u = (Inr (), u')"
  shows "\<exists>cs. wlog (fst u') = wlog (fst u) @ cs \<and>
    concat (map (exchange_commands own peer rank (word_of_int st) x) cs) = exchange_block rank i x"
proof -
  have val: "unat (word_of_int (int i * 2 + 1) :: u64) = i * 2 + 1" "unat (word_of_int (2 + int i * 2) :: u64) = i * 2 + 2"
    using assms(3) by (subst fence_value; simp)+
  show ?thesis
    using assms(1,2,4)
    apply (clarsimp simp: exchange_once_def Let_def with_own_def with_peer_def method_success)
    apply (drule memcpy_async_success shared_signal_success shared_wait_success)+
    apply (clarsimp simp: exchange_block_def val simp del: of_int_add of_int_mult)
    done
qed

lemma io_each_blocks:
  assumes "\<And>i u u'. i \<in> set xs \<Longrightarrow> f i u = (Inr (), u') \<Longrightarrow> \<exists>cs. wlog (fst u') = wlog (fst u) @ cs \<and> concat (map g cs) = block i"
    and "io_each f xs u = (Inr (), u')"
  shows "\<exists>cs. wlog (fst u') = wlog (fst u) @ cs \<and> concat (map g cs) = concat (map block xs)"
  using assms
proof (induction xs arbitrary: u)
  case (Cons i xs)
  from Cons.prems(2) obtain v where one: "f i u = (Inr (), v)" and more: "io_each f xs v = (Inr (), u')"
    by (auto simp: io_success)
  obtain cs where "wlog (fst v) = wlog (fst u) @ cs" "concat (map g cs) = block i"
    using Cons.prems(1) [OF _ one] by auto
  moreover obtain ds where "wlog (fst u') = wlog (fst v) @ ds" "concat (map g ds) = concat (map block xs)"
    using Cons.IH [OF Cons.prems(1) more] by auto
  ultimately show ?case by (intro exI [of _ "cs @ ds"]) simp
qed (auto simp: io_success)

definition exchange_count :: "exchange_config \<Rightarrow> nat" where
  "exchange_count c = nat (ec_warmup c) + nat (ec_iterations c)"

lemma os_do_success: "os_do env what args w = (Inr (), w') \<Longrightarrow> wlog w' = wlog w @ [Os what args]"
  by (auto simp: os_do_def io_success call_ext_success_iff)

lemma exchange_run_block:
  assumes T: "torch_ok T" and bufs: "distinct_buffers own peer" "outside_heap env own"
    and count: "int (exchange_count c) < 2 ^ 62" and run: "exchange_run env T c rank st own peer u = (Inr ok, u')"
  shows "\<exists>cs. wlog (fst u') = wlog (fst u) @ cs \<and>
    concat (map (exchange_commands own peer r (word_of_int st) x) cs) = exchange_stream r (exchange_count c) x"
proof -
  let ?g = "exchange_commands own peer r (word_of_int st) x"
  let ?w = "nat (ec_warmup c)" and ?n = "nat (ec_warmup c) + nat (ec_iterations c)"
  from run obtain outgoing incoming a b d e f h where
    full: "full env T (nat (ec_size c div 4)) (float_text (rank + 1)) Float32 (cuda rank) (fst u) = (Inr outgoing, fst a)"
    and like: "empty_like env T outgoing (fst a) = (Inr incoming, fst b)"
    and warm: "io_each (exchange_once env (ec_size c) st own peer outgoing incoming) [0..<?w] b = (Inr (), d)"
    and sync1: "stream_synchronize env st (fst d) = (Inr (), fst e)"
    and barrier: "os_do env ''barrier_wait'' [''180''] (fst e) = (Inr (), fst f)"
    and timed: "io_each (exchange_once env (ec_size c) st own peer outgoing incoming) [?w..<?n] f = (Inr (), h)"
    and rest: "io_then (on_world (stream_synchronize env st)) (on_world (all_equal env incoming (float_text (2 - rank)))) h = (Inr ok, u')"
    by (auto simp: exchange_run_def Let_def method_success)
  have incoming: "(word_of_int (t_ptr incoming) :: u64) \<noteq> word_of_int (buf_pointer own)"
    using tensor_success(3) [OF T bufs(2) like] by blast
  have small: "int i < 2 ^ 62" if "i < ?n" for i
    by (rule less_trans [OF _ count]) (simp only: exchange_count_def of_nat_less_iff that)
  have once: "\<exists>cs. wlog (fst v') = wlog (fst v) @ cs \<and> concat (map ?g cs) = exchange_block r i x"
    if "i < ?n" "exchange_once env (ec_size c) st own peer outgoing incoming i v = (Inr (), v')" for i v v'
    by (rule exchange_once_block [OF bufs(1) incoming small [OF that(1)] that(2)])
  obtain c1 where c1: "wlog (fst b) = wlog (fst u) @ c1" "concat (map ?g c1) = []"
    using tensor_success(1) [OF T bufs(2) full] tensor_success(3) [OF T bufs(2) like] by auto
  obtain c2 where c2: "wlog (fst d) = wlog (fst b) @ c2" "concat (map ?g c2) = concat (map (\<lambda>i. exchange_block r i x) [0..<?w])"
    using io_each_blocks [OF _ warm, of ?g "\<lambda>i. exchange_block r i x"] once by auto
  obtain c3 where c3: "wlog (fst f) = wlog (fst d) @ c3" "concat (map ?g c3) = []"
    using stream_synchronize_success [OF sync1] os_do_success [OF barrier] by auto
  obtain c4 where c4: "wlog (fst h) = wlog (fst f) @ c4" "concat (map ?g c4) = concat (map (\<lambda>i. exchange_block r i x) [?w..<?n])"
    using io_each_blocks [OF _ timed, of ?g "\<lambda>i. exchange_block r i x"] once by auto
  obtain c5 where c5: "wlog (fst u') = wlog (fst h) @ c5" "concat (map ?g c5) = []"
    using rest by (auto simp: method_success dest!: stream_synchronize_success tensor_success(5) [OF T bufs(2)])
  have "[0..<?n] = [0..<?w] @ [?w..<?n]" by (rule upt_add_eq_append) simp
  then have "exchange_stream r (exchange_count c) x = concat (map ?g (c1 @ c2 @ c3 @ c4 @ c5))"
    by (simp only: exchange_stream_def exchange_count_def map_append concat_append c1(2) c2(2) c3(2) c4(2) c5(2)
        append_Nil append_Nil2)
  then show ?thesis
    using c1(1) c2(1) c3(1) c4(1) c5(1) by (intro exI [of _ "c1 @ c2 @ c3 @ c4 @ c5"]) simp
qed


text \<open>A run of two exchanges on either rank.\<close>

definition sample_exchange :: exchange_config where
  "sample_exchange = \<lparr>ec_size = 4, ec_iterations = 1, ec_warmup = 1\<rparr>"

definition tensors_at :: "int \<Rightarrow> nat extern" where
  "tensors_at p = (\<lambda>c n. (Inr (case c of Torch f as \<Rightarrow> p | _ \<Rightarrow> 0, []), Suc n))"

lemma exchange_run_returns:
  assumes "obliging env"
  shows "io_post (exchange_run env T c rank st own peer) (\<lambda>_ _. True) (\<lambda>_ _. False) u"
proof -
  have each: "io_post (io_each (exchange_once env n st own peer a b) is) Q (\<lambda>_ _. False) v" if "\<And>z. Q () z" for n a b "is" Q v
    using that
  proof (induction "is" arbitrary: v)
    case (Cons i "is")
    then show ?case
      by (auto simp: exchange_once_def Let_def with_own_def with_peer_def memcpy_async_def wp handle_ok_def
        intro!: hip_do_returns [OF assms] shared_signal_returns [OF assms] shared_wait_returns [OF assms])
  qed (simp add: wp)
  show ?thesis
    unfolding exchange_run_def Let_def full_def empty_like_def all_equal_def os_do_def stream_synchronize_def wp
    by (intro obliging_call [OF assms] hip_do_returns [OF assms] each; simp add: handle_ok_def)
qed


end
