(* ===== verification/Gloo_Probe.thy ===== *)
theory Gloo_Probe
  imports Vllm_Communicator Rank_Launch
begin

text \<open>
  \<open>probes/two_rank_gloo.py\<close>: every collective of the host-staged and of the mapped-host communicator on two ranks. The script
  warns that a GPU tensor handed to Gloo kills the process; that it never does so is the theorem here. A value read back from
  a tensor is the text Python shows for it. The printed summary is not modelled.
\<close>

section \<open>One rank\<close>

text \<open>The record is a dictionary from keys to shown values; \<open>None\<close> is the value \<open>None\<close>.\<close>

record gloo_record =
  gl_rank :: int
  gl_values :: "(string \<times> string option) list"
  gl_passed :: bool
  gl_error :: "exn option"

record gloo_rank =
  go_staged :: "staged option"
  go_fast :: "shm_ar option"
  go_record :: gloo_record

definition start_gloo :: "int \<Rightarrow> gloo_rank" where
  "start_gloo rank = \<lparr>go_staged = None, go_fast = None,
     go_record = \<lparr>gl_rank = rank, gl_values = [], gl_passed = False, gl_error = None\<rparr>\<rparr>"

definition note_value :: "string \<Rightarrow> string option \<Rightarrow> ('w, gloo_rank, unit) meth" where
  "note_value key v = update_self (\<lambda>s. s\<lparr>go_record := (go_record s)\<lparr>gl_values := gl_values (go_record s) @ [(key, v)]\<rparr>\<rparr>)"

definition using_staged :: "('w, staged, 'a) meth \<Rightarrow> ('w, gloo_rank, 'a) meth" where
  "using_staged m = io_bind self (\<lambda>s. case go_staged s of
       None \<Rightarrow> io_raise AttributeError ''NoneType''
     | Some c \<Rightarrow> on_field (\<lambda>_. c) (\<lambda>c s. s\<lparr>go_staged := Some c\<rparr>) m)"

definition using_fast :: "('w, shm_ar, 'a) meth \<Rightarrow> ('w, gloo_rank, 'a) meth" where
  "using_fast m = io_bind self (\<lambda>s. case go_fast s of
       None \<Rightarrow> io_raise AttributeError ''NoneType''
     | Some c \<Rightarrow> on_field (\<lambda>_. c) (\<lambda>c s. s\<lparr>go_fast := Some c\<rparr>) m)"

definition dtype_label :: "dtype \<Rightarrow> string" where
  "dtype_label d = (case d of Float32 \<Rightarrow> ''torch.float32'' | Float16 \<Rightarrow> ''torch.float16'' | _ \<Rightarrow> ''torch.bfloat16'')"

definition gloo_start :: "'w extern \<Rightarrow> torch_api \<Rightarrow> int \<Rightarrow> int \<Rightarrow> ('w, gloo_rank, unit) meth" where
  "gloo_start env T rank port =
     io_then (on_world (torch_do env ''set_device'' [PyInt rank]))
    (io_then (on_world (start_group env port rank 2 45))
    (io_bind (on_world (literal env T [float_text (rank + 1)] Float32 cpu)) (\<lambda>cpu_value.
     io_then (on_world (dist_do env ''all_reduce'' [tensor_arg cpu_value, PyStr ''SUM'']))
    (io_bind (on_world (show_value env [] ''item'' (t_ptr cpu_value))) (\<lambda>v. note_value ''cpu_all_reduce'' (Some v))))))"

definition fast_value :: "'w extern \<Rightarrow> torch_api \<Rightarrow> int \<Rightarrow> dtype \<Rightarrow> ('w, gloo_rank, string) meth" where
  "fast_value env T rank d =
     io_bind (on_world (literal env T [float_text (rank + 1)] d (cuda rank))) (\<lambda>typed_value.
     io_bind (using_fast (shm_all_reduce env T typed_value)) (\<lambda>fast_reduced.
     on_world (show_value env [''float'', ''cpu''] ''item'' (t_ptr fast_reduced))))"

definition gloo_reduce :: "'w extern \<Rightarrow> torch_api \<Rightarrow> pyenv \<Rightarrow> int \<Rightarrow> ('w, gloo_rank, unit) meth" where
  "gloo_reduce env T pe rank =
     io_bind (construct (staged_init env T None (Some (DeviceIndex rank))) blank_staged) (\<lambda>communicator.
     io_then (update_self (\<lambda>s. s\<lparr>go_staged := Some communicator\<rparr>))
    (io_bind (on_world (literal env T [float_text (rank + 1)] Float32 (cuda rank))) (\<lambda>gpu_value.
     io_bind (using_staged (staged_all_reduce env ''SUM'' gpu_value)) (\<lambda>reduced.
     io_bind (on_world (show_value env [''cpu''] ''item'' (t_ptr reduced))) (\<lambda>v.
     io_then (note_value ''host_staged_gpu_all_reduce'' (Some v))
    (io_bind (construct (shm_init env T pe None (DeviceIndex rank) (Some (1024 * 1024))) blank_shm) (\<lambda>fast_all_reduce.
     io_then (update_self (\<lambda>s. s\<lparr>go_fast := Some fast_all_reduce\<rparr>))
    (io_bind (io_list (fast_value env T rank) [Float32, Float16, BFloat16]) (\<lambda>values.
     io_each (\<lambda>(d, v). note_value (''shared_memory_gpu_all_reduce.'' @ dtype_label d) (Some v))
       (zip [Float32, Float16, BFloat16] values))))))))))"

definition gloo_gathers :: "'w extern \<Rightarrow> torch_api \<Rightarrow> int \<Rightarrow> ('w, gloo_rank, unit) meth" where
  "gloo_gathers env T rank =
     io_bind (on_world (literal env T [float_text (rank * 2 + 1), float_text (rank * 2 + 2)] Float32 (cuda rank))) (\<lambda>gather_input.
     io_bind (using_staged (staged_all_gather env T gather_input 0)) (\<lambda>gathered.
     io_bind (on_world (show_value env [''cpu''] ''tolist'' (t_ptr gathered))) (\<lambda>v.
     io_then (note_value ''host_staged_gpu_all_gather'' (Some v))
    (io_bind (using_staged (staged_gather env T gather_input 0 0)) (\<lambda>gathered_to_zero.
     io_then (case gathered_to_zero of
         None \<Rightarrow> note_value ''host_staged_gpu_gather'' None
       | Some g \<Rightarrow> io_bind (on_world (show_value env [''cpu''] ''tolist'' (t_ptr g))) (\<lambda>v. note_value ''host_staged_gpu_gather'' (Some v)))
    (io_bind (on_world (full env T 4 (float_text (rank + 1)) Float32 (cuda rank))) (\<lambda>scatter_input.
     io_bind (using_staged (staged_reduce_scatter env T ''SUM'' scatter_input 0)) (\<lambda>scattered.
     io_bind (on_world (show_value env [''cpu''] ''tolist'' (t_ptr scattered))) (\<lambda>v.
     note_value ''host_staged_gpu_reduce_scatter'' (Some v))))))))))"

definition gloo_moves :: "'w extern \<Rightarrow> torch_api \<Rightarrow> int \<Rightarrow> ('w, gloo_rank, unit) meth" where
  "gloo_moves env T rank =
     io_bind (on_world (literal env T [if rank = 0 then float_text 7 else ''-1.0''] Float32 (cuda rank))) (\<lambda>broadcast_value.
     io_bind (using_staged (staged_broadcast env broadcast_value 0)) (\<lambda>_.
     io_bind (on_world (show_value env [''cpu''] ''item'' (t_ptr broadcast_value))) (\<lambda>v.
     io_then (note_value ''host_staged_gpu_broadcast'' (Some v))
    (io_bind
      (if rank = 0 then
         io_bind (on_world (literal env T [float_text 11] Float32 (cuda 0))) (\<lambda>t.
         io_then (using_staged (staged_send env t 1)) (io_return (float_text 11)))
       else
         io_bind (using_staged (staged_recv env T [1] Float32 0)) (\<lambda>t.
         on_world (show_value env [''cpu''] ''item'' (t_ptr t)))) (\<lambda>point_to_point.
     io_then (using_staged (staged_barrier env))
    (io_then (note_value ''host_staged_gpu_point_to_point'' (Some point_to_point))
    (using_fast (shm_destroy env))))))))"

definition gloo_expected :: "int \<Rightarrow> (string \<times> string option) list" where
  "gloo_expected rank =
     [(''cpu_all_reduce'', Some ''3.0''), (''host_staged_gpu_all_reduce'', Some ''3.0''),
      (''shared_memory_gpu_all_reduce.torch.float32'', Some ''3.0''), (''shared_memory_gpu_all_reduce.torch.float16'', Some ''3.0''),
      (''shared_memory_gpu_all_reduce.torch.bfloat16'', Some ''3.0''), (''host_staged_gpu_all_gather'', Some ''[1.0, 2.0, 3.0, 4.0]''),
      (''host_staged_gpu_gather'', if rank = 0 then Some ''[1.0, 2.0, 3.0, 4.0]'' else None),
      (''host_staged_gpu_reduce_scatter'', Some ''[3.0, 3.0]''), (''host_staged_gpu_broadcast'', Some ''7.0''),
      (''host_staged_gpu_point_to_point'', Some ''11.0'')]"

definition gloo_judge :: "int \<Rightarrow> ('w, gloo_rank, unit) meth" where
  "gloo_judge rank = update_self (\<lambda>s. s\<lparr>go_record := (go_record s)\<lparr>gl_passed :=
     list_all (\<lambda>(key, v). map_of (gl_values (go_record s)) key = Some v) (gloo_expected rank)\<rparr>\<rparr>)"

definition gloo_body :: "'w extern \<Rightarrow> torch_api \<Rightarrow> pyenv \<Rightarrow> int \<Rightarrow> int \<Rightarrow> ('w, gloo_rank, unit) meth" where
  "gloo_body env T pe rank port =
     io_then (gloo_start env T rank port) (io_then (gloo_reduce env T pe rank)
       (io_then (gloo_gathers env T rank) (io_then (gloo_moves env T rank) (gloo_judge rank))))"

definition gloo_failed :: "exn \<Rightarrow> ('w, gloo_rank, unit) meth" where
  "gloo_failed e = update_self (\<lambda>s. s\<lparr>go_record := (go_record s)\<lparr>gl_passed := False, gl_error := Some e\<rparr>\<rparr>)"

definition gloo_main :: "'w extern \<Rightarrow> torch_api \<Rightarrow> pyenv \<Rightarrow> int \<Rightarrow> int \<Rightarrow> ('w world, gloo_record) io" where
  "gloo_main env T pe rank port =
     report_of (io_finally (io_catch (gloo_body env T pe rank port) gloo_failed) (on_world (end_group env))) (start_gloo rank) go_record"

definition gloo_launch :: "'w extern \<Rightarrow> (int \<Rightarrow> gloo_record) \<Rightarrow> ('w world, gloo_record list \<times> int) io" where
  "gloo_launch env unpickle =
     io_bind (unused_local_port env) (\<lambda>port.
     launch env unpickle gl_rank (ranks_passed 2 gl_passed) (45 + 15) 5 [py_str port] 2)"

section \<open>No GPU tensor reaches Gloo\<close>

definition gloo_ok :: "'w world \<times> gloo_rank \<Rightarrow> bool" where
  "gloo_ok u \<longleftrightarrow> log_clean (fst u) \<and> (case go_staged (snd u) of None \<Rightarrow> True | Some c \<Rightarrow> cache_ok c)"

lemma gloo_world [clean]: "keeps log_clean m \<Longrightarrow> keeps gloo_ok (on_world m)"
  by (rule keeps_postI, unfold wp) (auto simp: gloo_ok_def elim!: keeps_post)

lemma gloo_note [clean]: "keeps gloo_ok (note_value key v)"
  by (simp add: note_value_def keeps_def wp gloo_ok_def)

lemma gloo_using_staged [clean]:
  assumes "keeps staged_ok m" shows "keeps gloo_ok (using_staged m)"
proof (rule keeps_postI)
  fix u :: "'a world \<times> gloo_rank" assume ok: "gloo_ok u"
  show "io_post (using_staged m) (\<lambda>_. gloo_ok) (\<lambda>_. gloo_ok) u"
  proof (cases "go_staged (snd u)")
    case (Some c)
    with ok have "staged_ok (fst u, c)" by (simp add: gloo_ok_def staged_ok_def log_clean_def)
    with Some show ?thesis
      unfolding using_staged_def wp
      by (auto simp: gloo_ok_def staged_ok_def log_clean_def intro!: keeps_post [OF assms])
  qed (use ok in \<open>simp add: using_staged_def wp\<close>)
qed

lemma gloo_using_fast [clean]:
  assumes "keeps obj_clean m" shows "keeps gloo_ok (using_fast m)"
  unfolding using_fast_def
  by (intro clean, rule keeps_postI, unfold wp) (auto simp: gloo_ok_def obj_clean_def intro!: keeps_post [OF assms])

lemma clean_gloo_calls [clean]:
  "keeps log_clean (full env T m v d dev)" "keeps log_clean (literal env T vs d dev)" "keeps log_clean (show_value env steps l p)"
  "keeps log_clean (start_group env port rank k n)" "keeps log_clean (end_group env)"
proof -
  show "keeps log_clean (show_value env steps l p)" by (induction steps arbitrary: p) (auto intro!: clean)
qed (auto simp: full_def literal_def start_group_def end_group_def dist_do_def intro!: clean)

text \<open>The one tensor the script itself hands to Gloo is on the host.\<close>

lemma literal_device:
  assumes "torch_ok T" and "log_clean w"
  shows "io_post (literal env T vs d dev) (\<lambda>t w. t_device t = dev \<and> log_clean w) (\<lambda>_. log_clean) w"
  unfolding literal_def wp using assms(2) torch_ok_contiguous(1) [OF assms(1)]
  by (auto simp: same_kind_def log_clean_def intro!: io_post_call_ext)

lemma cpu_sum_clean: "t_device t = cpu \<Longrightarrow> keeps gloo_ok (on_world (dist_do env ''all_reduce'' [tensor_arg t, PyStr ''SUM'']))"
  by (auto simp: dist_do_def intro!: clean)

lemma gloo_start_ok [clean]:
  assumes "torch_ok T" shows "keeps gloo_ok (gloo_start env T rank port)"
proof -
  have sum: "keeps gloo_ok (io_bind (on_world (literal env T vs d cpu)) (\<lambda>t.
      io_then (on_world (dist_do env ''all_reduce'' [tensor_arg t, PyStr ''SUM''])) (g t)))"
    if "\<And>t. keeps gloo_ok (g t)" for vs d and g :: "tensor \<Rightarrow> ('a, gloo_rank, unit) meth"
  proof (rule keeps_postI)
    fix u :: "'a world \<times> gloo_rank" assume ok: "gloo_ok u"
    then have "log_clean (fst u)" by (simp add: gloo_ok_def)
    then show "io_post (io_bind (on_world (literal env T vs d cpu)) (\<lambda>t.
      io_then (on_world (dist_do env ''all_reduce'' [tensor_arg t, PyStr ''SUM''])) (g t))) (\<lambda>_. gloo_ok) (\<lambda>_. gloo_ok) u"
      unfolding io_post_bind io_post_on_world [of "literal env T vs d cpu"]
      by (intro io_post_mono [OF literal_device [OF assms]])
        (use ok in \<open>auto simp: gloo_ok_def intro!: keeps_post [OF keeps_then [OF cpu_sum_clean that]]\<close>)
  qed
  show ?thesis
    unfolding gloo_start_def by (rule keeps_then, fast intro: clean, rule keeps_then, fast intro: clean, rule sum, intro clean)
qed

text \<open>The communicators the rank constructs.\<close>

lemma gloo_new_staged:
  assumes "\<And>c. keeps gloo_ok (g c)"
  shows "keeps gloo_ok (io_bind (construct (staged_init env T pg d) blank_staged) (\<lambda>c.
    io_then (update_self (\<lambda>s. s\<lparr>go_staged := Some c\<rparr>)) (g c)))"
proof (rule keeps_postI)
  fix u :: "'a world \<times> gloo_rank" assume ok: "gloo_ok u"
  let ?I = "\<lambda>_. gloo_ok"
  have made: "io_post (construct (staged_init env T pg d) blank_staged) Q E (fst u, snd u)"
    if "\<And>c w'. log_clean w' \<Longrightarrow> hs_buffers c = [] \<Longrightarrow> Q c (w', snd u)" "\<And>e w'. log_clean w' \<Longrightarrow> E e (w', snd u)" for Q E
  proof (rule construct_post [where P = "\<lambda>c. hs_buffers c = []" and Q = Q and E = E, OF staged_init_clean _ _ that])
    show "log_clean (fst u)" using ok by (simp add: gloo_ok_def)
    then show "io_post (staged_init env T pg d) (\<lambda>_ u. hs_buffers (snd u) = []) (\<lambda>_ _. True) (fst u, blank_staged)"
      by (intro io_post_mono [OF staged_init_post]) simp_all
  qed
  have "io_post (io_bind (construct (staged_init env T pg d) blank_staged) (\<lambda>c.
    io_then (update_self (\<lambda>s. s\<lparr>go_staged := Some c\<rparr>)) (g c))) ?I ?I (fst u, snd u)"
    unfolding io_post_bind io_post_then io_post_update_self
    by (rule made) (use ok in \<open>auto simp: gloo_ok_def cache_ok_def intro!: keeps_post [OF assms]\<close>)
  then show "io_post (io_bind (construct (staged_init env T pg d) blank_staged) (\<lambda>c.
    io_then (update_self (\<lambda>s. s\<lparr>go_staged := Some c\<rparr>)) (g c))) ?I ?I u" by simp
qed

lemma gloo_new_fast:
  assumes "\<And>c. keeps gloo_ok (g c)"
  shows "keeps gloo_ok (io_bind (construct (shm_init env T pe pg d mx) blank_shm) (\<lambda>c.
    io_then (update_self (\<lambda>s. s\<lparr>go_fast := Some c\<rparr>)) (g c)))"
proof -
  have "keeps gloo_ok (construct (shm_init env T pe pg d mx) blank_shm :: ('a, gloo_rank, shm_ar) meth)"
    unfolding construct_def by (intro gloo_world clean_new clean)
  moreover have "keeps gloo_ok (update_self (\<lambda>s. s\<lparr>go_fast := Some c\<rparr>))" for c
    by (simp add: keeps_def wp gloo_ok_def)
  ultimately show ?thesis using assms by (intro clean)
qed

lemma gloo_lists [clean]:
  "(\<And>x. keeps gloo_ok (f x)) \<Longrightarrow> keeps gloo_ok (io_each f xs)" "(\<And>x. keeps gloo_ok (h x)) \<Longrightarrow> keeps gloo_ok (io_list h ys)"
proof -
  show "(\<And>x. keeps gloo_ok (f x)) \<Longrightarrow> keeps gloo_ok (io_each f xs)" by (induction xs) (auto intro!: clean)
  show "(\<And>x. keeps gloo_ok (h x)) \<Longrightarrow> keeps gloo_ok (io_list h ys)" by (induction ys) (auto intro!: clean)
qed

lemma gloo_reduce_ok: "keeps gloo_ok (gloo_reduce env T pe rank)"
  unfolding gloo_reduce_def fast_value_def
  by (intro gloo_new_staged gloo_new_fast clean keeps_all_reduce gloo_lists)

lemma gloo_gathers_ok: "torch_ok T \<Longrightarrow> keeps gloo_ok (gloo_gathers env T rank)"
  unfolding gloo_gathers_def by (intro clean keeps_all_gather keeps_gather keeps_reduce_scatter)

lemma gloo_moves_ok: "torch_ok T \<Longrightarrow> keeps gloo_ok (gloo_moves env T rank)"
  unfolding gloo_moves_def by (intro clean keeps_broadcast keeps_send keeps_recv keeps_barrier)

text \<open>The safety the script promises: whatever the environment answers and wherever a rank fails, no call it makes to
\<open>torch.distributed\<close>, on its own or through the communicators, in their construction or in their collectives, mentions a
GPU tensor.\<close>

lemma gloo_probe_safe:
  assumes "torch_ok T" and "gloo_main env T pe rank port \<lparr>wext = x, wlog = []\<rparr> = (result, w)"
  shows "list_all gpu_free (wlog w)"
proof -
  have "keeps gloo_ok (gloo_judge rank)" "keeps gloo_ok (gloo_failed e)" for e
    by (simp_all add: gloo_judge_def gloo_failed_def keeps_def wp gloo_ok_def)
  then have "keeps gloo_ok (io_finally (io_catch (gloo_body env T pe rank port) gloo_failed) (on_world (end_group env)))"
    unfolding gloo_body_def
    by (intro keeps_finally keeps_catch keeps_then gloo_start_ok gloo_reduce_ok gloo_gathers_ok gloo_moves_ok assms(1) clean)
  moreover have "gloo_ok (\<lparr>wext = x, wlog = []\<rparr>, start_gloo rank)" by (simp add: gloo_ok_def log_clean_def start_gloo_def)
  ultimately have "gloo_ok (snd (io_finally (io_catch (gloo_body env T pe rank port) gloo_failed) (on_world (end_group env))
      (\<lparr>wext = x, wlog = []\<rparr>, start_gloo rank)))"
    by (rule keeps_after)
  with assms(2) show ?thesis
    by (auto simp: gloo_main_def report_of_def gloo_ok_def log_clean_def list_all_iff split: prod.splits sum.splits)
qed

text \<open>Rank 1, which gets through every collective.\<close>

definition gloo_answers :: "nat extern" where
  "gloo_answers = (\<lambda>c n. (Inr (case c of
       Dist fn args \<Rightarrow>
         (if fn = ''get_backend'' then (0, [VStr ''gloo''])
          else if fn = ''get_world_size'' then (2, [])
          else if fn = ''broadcast_object_list'' then (1048576, [VStr ''map'', VStr ''ev''])
          else (1, []))
     | Native fn vs \<Rightarrow>
         (if fn = ''CreateEventW'' then (5, []) else if fn = ''SetEvent'' then (1, [])
          else if fn = ''hipDeviceGetAttribute'' then (0, [VI32 1]) else (0, [VPtr 4096]))
     | Os fn args \<Rightarrow> (2101248, [VStr ''map'', VPtr 65536])
     | Torch fn args \<Rightarrow> (1, [VStr ''3.0''])), Suc n))"

lemma gloo_probe_safe_witness:
  "\<exists>r w. gloo_main gloo_answers sample_torch sample_env 1 7 \<lparr>wext = 0, wlog = []\<rparr> = (Inr r, w) \<and>
     gl_error r = None \<and> list_all gpu_free (wlog w)"
proof -
  have "case gloo_main gloo_answers sample_torch sample_env 1 7 \<lparr>wext = 0, wlog = []\<rparr> of
      (Inl e, w) \<Rightarrow> False | (Inr r, w) \<Rightarrow> gl_error r = None"
    by code_simp
  then obtain r w where run: "gloo_main gloo_answers sample_torch sample_env 1 7 \<lparr>wext = 0, wlog = []\<rparr> = (Inr r, w)"
    and ended: "gl_error r = None"
    by (auto split: prod.splits sum.splits)
  from gloo_probe_safe [OF sample_torch_ok run] have "list_all gpu_free (wlog w)" .
  with run ended show ?thesis by (intro exI conjI)
qed

end
