(* ===== verification/Host_Path_Protocol.thy ===== *)
theory Host_Path_Protocol
  imports D3d12_Protocol
begin

text \<open>
  The host path of the shared-memory collective (\<open>shared_memory_all_reduce.py\<close>, lines 184-199) as
  the two processes see it: copy the payload into the own slot, cross the barrier, add the two slots,
  cross the barrier again. The barrier is \<open>Win32PairBarrier.wait\<close> of \<open>win32_barrier.py\<close>: set the own
  auto-reset event, then wait for the peer's, which resets it. An event is one bit, so setting an
  event that is already set is not remembered. The 30 second timeout is left out of the steps: a
  process that waits for ever here is one that raises \<open>TimeoutError\<close> there.
\<close>

datatype 'a hcmd = PutBegin | PutEnd 'a | SetOwn | AwaitPeer | SumBegin | SumEnd

record 'a host =
  hpc :: "nat \<Rightarrow> nat"
  event :: "nat \<Rightarrow> bool"
  slot :: "nat \<Rightarrow> 'a option"
  summing :: "nat \<Rightarrow> 'a option option"
  sums :: "nat \<Rightarrow> 'a option list"

definition slot_sum :: "('a \<Rightarrow> 'a \<Rightarrow> 'a) \<Rightarrow> 'a host \<Rightarrow> 'a option" where
  "slot_sum add s = (case slot s 0 of None \<Rightarrow> None | Some x \<Rightarrow> map_option (add x) (slot s 1))"

text \<open>Writing a slot while a sum is being computed makes that sum worthless.\<close>

fun hexec :: "('a \<Rightarrow> 'a \<Rightarrow> 'a) \<Rightarrow> nat \<Rightarrow> 'a hcmd \<Rightarrow> 'a host \<Rightarrow> 'a host option" where
  "hexec add r PutBegin s =
     Some (s\<lparr>slot := (slot s)(r := None), summing := (\<lambda>q. map_option (\<lambda>_. None) (summing s q))\<rparr>)"
| "hexec add r (PutEnd x) s = Some (s\<lparr>slot := (slot s)(r := Some x)\<rparr>)"
| "hexec add r SetOwn s = Some (s\<lparr>event := (event s)(r := True)\<rparr>)"
| "hexec add r AwaitPeer s =
     (if event s (1 - r) then Some (s\<lparr>event := (event s)(1 - r := False)\<rparr>) else None)"
| "hexec add r SumBegin s = Some (s\<lparr>summing := (summing s)(r := Some (slot_sum add s))\<rparr>)"
| "hexec add r SumEnd s =
     Some (s\<lparr>sums := (sums s)(r := sums s r @ [case summing s r of None \<Rightarrow> None | Some v \<Rightarrow> v]),
             summing := (summing s)(r := None)\<rparr>)"

inductive host_step ::
  "('a \<Rightarrow> 'a \<Rightarrow> 'a) \<Rightarrow> (nat \<Rightarrow> 'a hcmd list) \<Rightarrow> 'a host \<Rightarrow> 'a host \<Rightarrow> bool"
  for add :: "'a \<Rightarrow> 'a \<Rightarrow> 'a" and progs :: "nat \<Rightarrow> 'a hcmd list" where
  host_step_exec: "hpc s r < length (progs r) \<Longrightarrow> hexec add r (progs r ! hpc s r) s = Some t \<Longrightarrow>
     host_step add progs s (t\<lparr>hpc := (hpc s)(r := Suc (hpc s r))\<rparr>)"

definition host_init :: "'a host \<Rightarrow> bool" where
  "host_init s \<longleftrightarrow> hpc s = (\<lambda>_. 0) \<and> event s = (\<lambda>_. False) \<and> summing s = (\<lambda>_. None) \<and> sums s = (\<lambda>_. [])"

text \<open>One collective, and the calls of one rank.\<close>

definition barrier_cmds :: "'a hcmd list" where
  "barrier_cmds = [SetOwn, AwaitPeer]"

definition host_block :: "'a \<Rightarrow> 'a hcmd list" where
  "host_block x = [PutBegin, PutEnd x] @ barrier_cmds @ [SumBegin, SumEnd] @ barrier_cmds"

definition payload :: "('a \<times> 'a) list \<Rightarrow> nat \<Rightarrow> nat \<Rightarrow> 'a" where
  "payload calls r i = (if r = 0 then fst (calls ! i) else snd (calls ! i))"

definition host_progs :: "('a \<times> 'a) list \<Rightarrow> nat \<Rightarrow> 'a hcmd list" where
  "host_progs calls r =
     (if r = 0 \<or> r = 1 then concat (map (\<lambda>i. host_block (payload calls r i)) [0..<length calls]) else [])"

lemma length_host_progs: "r = 0 \<or> r = 1 \<Longrightarrow> length (host_progs calls r) = 8 * length calls"
  by (auto simp: host_progs_def concat_blocks_length host_block_def barrier_cmds_def)

lemma host_progs_at:
  assumes "r = 0 \<or> r = 1" and "e < length calls" and "k < 8"
  shows "host_progs calls r ! at_pos 8 e k =
    [PutBegin, PutEnd (payload calls r e), SetOwn, AwaitPeer, SumBegin, SumEnd, SetOwn, AwaitPeer] ! k"
  using assms unfolding host_progs_def
  by (simp, subst concat_blocks_nth [where k = 8])
     (simp_all add: host_block_def barrier_cmds_def at_pos_div at_pos_mod)

section \<open>The invariant\<close>

text \<open>
  The waits a rank has left, plus one if the peer's event is set, never exceed the times the peer has
  set it: lost signals only make the difference larger.
\<close>

definition host_half :: "('a \<Rightarrow> 'a \<Rightarrow> 'a) \<Rightarrow> ('a \<times> 'a) list \<Rightarrow> 'a host \<Rightarrow> nat \<Rightarrow> nat \<Rightarrow> bool" where
  "host_half add calls s r q \<longleftrightarrow>
     hpc s r \<le> 8 * length calls \<and>
     passed 8 4 (hpc s q) + epoch_of 8 (hpc s q) + (if event s r then 1 else 0) \<le>
       passed 8 3 (hpc s r) + passed 8 7 (hpc s r) \<and>
     (phase_of 8 (hpc s r) \<noteq> 1 \<and> passed 8 2 (hpc s r) \<noteq> 0 \<longrightarrow>
        slot s r = Some (payload calls r (passed 8 2 (hpc s r) - 1))) \<and>
     (phase_of 8 (hpc s r) = 5 \<longrightarrow>
        summing s r = Some (Some (add (payload calls 0 (epoch_of 8 (hpc s r)))
                                      (payload calls 1 (epoch_of 8 (hpc s r)))))) \<and>
     sums s r = map (\<lambda>i. Some (add (payload calls 0 i) (payload calls 1 i))) [0..<passed 8 6 (hpc s r)]"

definition host_inv :: "('a \<Rightarrow> 'a \<Rightarrow> 'a) \<Rightarrow> ('a \<times> 'a) list \<Rightarrow> 'a host \<Rightarrow> bool" where
  "host_inv add calls s \<longleftrightarrow>
     d3d12_order (hpc s 0) (hpc s 1) \<and> d3d12_order (hpc s 1) (hpc s 0) \<and>
     host_half add calls s 0 1 \<and> host_half add calls s 1 0"

lemma host_inv_init: "host_init s \<Longrightarrow> host_inv add calls s"
  by (simp add: host_init_def host_inv_def host_half_def d3d12_order_def passed_def epoch_of_def phase_of_def)

text \<open>Sums of progress counts compare as the counts do.\<close>

lemma host_order_of_counts:
  assumes "passed 8 4 p + epoch_of 8 p \<le> passed 8 3 q + passed 8 7 q"
  shows "d3d12_order p q"
proof -
  have "passed 8 4 p = epoch_of 8 p \<or> passed 8 4 p = Suc (epoch_of 8 p)"
    and "passed 8 3 q = passed 8 7 q \<or> passed 8 3 q = Suc (passed 8 7 q)"
    by (auto simp: passed_def)
  with assms show ?thesis unfolding d3d12_order_def by (elim disjE) auto
qed

lemma host_half_step:
  assumes rq: "r = 0 \<and> q = 1 \<or> r = 1 \<and> q = (0::nat)"
    and ord: "d3d12_order (hpc s r) (hpc s q)" "d3d12_order (hpc s q) (hpc s r)"
    and half: "host_half add calls s r q" "host_half add calls s q r"
    and lt: "hpc s r < 8 * length calls"
    and ex: "hexec add r (host_progs calls r ! hpc s r) s = Some u"
    and t: "t = u\<lparr>hpc := (hpc s)(r := Suc (hpc s r))\<rparr>"
  shows "host_half add calls t r q \<and> host_half add calls t q r"
proof -
  obtain e k where p: "hpc s r = at_pos 8 e k" "k < 8" by (rule at_cases [of 8]) auto
  from lt p have e: "e < length calls" by simp
  have q: "q \<noteq> r" "1 - r = q" using rq by auto
  have ex': "hexec add r ([PutBegin, PutEnd (payload calls r e), SetOwn, AwaitPeer, SumBegin, SumEnd,
      SetOwn, AwaitPeer] ! k) s = Some u"
    using ex host_progs_at [of r e calls k] rq e p by auto
  note c = passed_chain [of "hpc s q"]
  have five: "k = 0 \<longrightarrow> phase_of 8 (hpc s q) \<noteq> 5"
    using c(6) ord p by (auto simp: d3d12_order_def split: if_splits)
  have "slot_sum add s = Some (add (payload calls 0 e) (payload calls 1 e))" if "k = 4"
  proof -
    have "phase_of 8 (hpc s q) \<noteq> 1" and "passed 8 2 (hpc s q) = Suc e"
      using that c ord p by (auto simp: d3d12_order_def)
    with half that p have "slot s q = Some (payload calls q e)" "slot s r = Some (payload calls r e)"
      by (simp_all add: host_half_def)
    with rq show ?thesis by (auto simp: slot_sum_def)
  qed
  then have four: "k = 4 \<longrightarrow> slot_sum add s = Some (add (payload calls 0 e) (payload calls 1 e))" by blast
  show ?thesis using less_8_cases [OF p(2)]
    by (elim disjE; use half p(1) e ex' t q five four in
        \<open>clarsimp simp: host_half_def split: if_split_asm\<close>)
qed

lemma host_inv_step:
  assumes "host_inv add calls s" and "host_step add (host_progs calls) s t"
  shows "host_inv add calls t"
  using assms(2)
proof (cases rule: host_step.cases)
  case (host_step_exec r u)
  then have "r = 0 \<or> r = 1" by (auto simp: host_progs_def split: if_splits)
  then have "host_half add calls t 0 1 \<and> host_half add calls t 1 0"
  proof
    assume "r = 0"
    with host_step_exec assms(1) show ?thesis
      using host_half_step [of 0 1 s add calls u t] length_host_progs [of 0 calls]
      by (simp add: host_inv_def)
  next
    assume "r = 1"
    with host_step_exec assms(1) show ?thesis
      using host_half_step [of 1 0 s add calls u t] length_host_progs [of 1 calls]
      by (simp add: host_inv_def)
  qed
  then show ?thesis
    by (auto simp: host_inv_def host_half_def intro!: host_order_of_counts)
qed

interpretation host: invariant_system host_init "host_step add (host_progs calls)" "host_inv add calls"
  for add :: "'a \<Rightarrow> 'a \<Rightarrow> 'a" and calls
  by unfold_locales (auto intro: host_inv_init host_inv_step)

abbreviation host_reach :: "('a \<Rightarrow> 'a \<Rightarrow> 'a) \<Rightarrow> ('a \<times> 'a) list \<Rightarrow> 'a host \<Rightarrow> bool" where
  "host_reach add calls \<equiv> reach host_init (host_step add (host_progs calls))"

section \<open>What holds of every run\<close>

text \<open>C12: the barrier separates generations and the sums are right: in every reachable state a rank that
  has left its \<open>n\<close>-th barrier wait finds that its peer has entered its own \<open>n\<close>-th wait (the counts are
  those of the events waited for and set), and every sum computed so far is the sum of both payloads of
  its call, never torn and never mixed between calls.\<close>

theorem host_path_safe:
  assumes "host_reach add calls s" and "r = 0 \<and> q = 1 \<or> r = 1 \<and> q = 0"
  shows "passed 8 4 (hpc s q) + epoch_of 8 (hpc s q) \<le> passed 8 3 (hpc s r) + passed 8 7 (hpc s r) \<and>
    sums s r = map (\<lambda>(x, y). Some (add x y)) (take (passed 8 6 (hpc s r)) calls)"
proof -
  have inv: "host_half add calls s r q"
    using host.reach_inv [OF assms(1)] assms(2) by (auto simp: host_inv_def)
  then have "passed 8 6 (hpc s r) \<le> length calls"
    by (auto simp: host_half_def intro: d3d12_served)
  then have "map (\<lambda>i. Some (add (payload calls 0 i) (payload calls 1 i))) [0..<passed 8 6 (hpc s r)] =
      map (\<lambda>(x, y). Some (add x y)) (take (passed 8 6 (hpc s r)) calls)"
    by (intro nth_equalityI) (auto simp: payload_def split_beta)
  with inv show ?thesis by (auto simp: host_half_def)
qed

section \<open>A lost signal\<close>

text \<open>Executing a schedule: the rank that moves at each step.\<close>

fun run_schedule ::
  "('a \<Rightarrow> 'a \<Rightarrow> 'a) \<Rightarrow> (nat \<Rightarrow> 'a hcmd list) \<Rightarrow> nat list \<Rightarrow> 'a host \<Rightarrow> 'a host option" where
  "run_schedule add progs [] s = Some s"
| "run_schedule add progs (r # rs) s =
     (if hpc s r < length (progs r)
      then (case hexec add r (progs r ! hpc s r) s of
              None \<Rightarrow> None
            | Some t \<Rightarrow> run_schedule add progs rs (t\<lparr>hpc := (hpc s)(r := Suc (hpc s r))\<rparr>))
      else None)"

lemma run_schedule_reach:
  "run_schedule add progs rs s = Some t \<Longrightarrow> reach host_init (host_step add progs) s \<Longrightarrow>
     reach host_init (host_step add progs) t"
  by (induction rs arbitrary: s) (auto split: if_splits option.splits intro: reach_step host_step_exec)

definition host_start :: "'a host" where
  "host_start = \<lparr>hpc = (\<lambda>_. 0), event = (\<lambda>_. False), slot = (\<lambda>_. None), summing = (\<lambda>_. None), sums = (\<lambda>_. [])\<rparr>"

lemma host_path_safe_witness:
  "\<exists>s. host_reach (+) [(3::nat, 4)] s \<and> sums s 0 = [Some 7]"
proof -
  have "\<exists>s. run_schedule (+) (host_progs [(3::nat, 4)]) [0, 0, 0, 1, 1, 1, 0, 0, 0] host_start = Some s \<and> hpc s 0 = 6"
    by (simp add: host_start_def host_progs_def host_block_def barrier_cmds_def)
  then obtain s where s: "run_schedule (+) (host_progs [(3::nat, 4)]) [0, 0, 0, 1, 1, 1, 0, 0, 0] host_start = Some s"
    and pc: "hpc s 0 = 6" by blast
  have r: "host_reach (+) [(3, 4)] s"
    using s by (rule run_schedule_reach) (rule reach_init, simp add: host_start_def host_init_def)
  have "passed 8 6 6 = 1" by (simp add: passed_def epoch_of_def phase_of_def)
  with host_path_safe [OF r, of 0 1] r pc show ?thesis by auto
qed

text \<open>Rank 0 crosses the first barrier and sets its event for the second one before rank 1, which has
  set its own event, has waited for the first: the second signal of rank 0 is lost.\<close>

definition lossy_schedule :: "nat list" where
  "lossy_schedule = [0, 0, 0, 1, 1, 1, 0, 0, 0, 0, 1, 1, 1, 1, 0]"

lemma lossy_run:
  "\<exists>s. run_schedule add (host_progs [(x, y)]) lossy_schedule host_start = Some s \<and>
     hpc s 0 = 8 \<and> hpc s 1 = 7 \<and> \<not> event s 0 \<and> \<not> event s 1"
  by (simp add: lossy_schedule_def host_start_def host_progs_def host_block_def barrier_cmds_def payload_def)

text \<open>C13: the barrier can lose a signal, and then its second use does not complete: one collective (two
  barrier waits per rank) can reach a state in which rank 0 has returned, rank 1 is in its second wait
  with both events unset, and no step is possible. The documented claim that a successful wait makes
  the next generation safe holds for the data (see the previous theorem) but not for progress.\<close>

theorem barrier_loses_signal:
  "\<exists>s. host_reach add [(x, y)] s \<and> hpc s 0 = 8 \<and> hpc s 1 = 7 \<and>
     host_progs [(x, y)] 1 ! 7 = AwaitPeer \<and> \<not> (\<exists>t. host_step add (host_progs [(x, y)]) s t)"
proof -
  obtain s where s: "run_schedule add (host_progs [(x, y)]) lossy_schedule host_start = Some s"
    and pc: "hpc s 0 = 8" "hpc s 1 = 7" and ev: "\<not> event s 0" "\<not> event s 1"
    using lossy_run [of add x y] by blast
  have at: "host_progs [(x, y)] 1 ! 7 = AwaitPeer"
    using host_progs_at [of 1 0 "[(x, y)]" 7] by (simp add: at_pos_def)
  have "host_reach add [(x, y)] s"
    using s by (rule run_schedule_reach) (rule reach_init, simp add: host_start_def host_init_def)
  moreover have "\<not> host_step add (host_progs [(x, y)]) s t" for t
  proof
    assume "host_step add (host_progs [(x, y)]) s t"
    then show False
    proof (cases rule: host_step.cases)
      case (host_step_exec r u)
      then have "r = 0 \<or> r = 1" by (auto simp: host_progs_def split: if_splits)
      with host_step_exec pc ev at show False
        using length_host_progs [of 0 "[(x, y)]"] by auto
    qed
  qed
  ultimately show ?thesis using pc at by blast
qed

end
