(* ===== verification/Hybrid_Probe.thy ===== *)
theory Hybrid_Probe
  imports Vllm_Communicator Rank_Launch
begin

text \<open>
  \<open>probes/hybrid_all_reduce_probe.py\<close>: each rank owns a D3D12 and an RCCL communicator and reduces a small and a large
  tensor; \<open>can_handle\<close> decides which communicator gets the tensor. The printed summary is not modelled.
\<close>

definition D3D12_LIMIT :: int where
  "D3D12_LIMIT = 64 * 1024 * 1024"

definition SMALL_BYTES :: int where
  "SMALL_BYTES = 1024 * 1024"

definition OVERFLOW_BYTES :: int where
  "OVERFLOW_BYTES = 80 * 1024 * 1024"

section \<open>One rank\<close>

record hybrid_case =
  hc_bytes :: int
  hc_backend :: string
  hc_correct :: bool

record hybrid_record =
  hy_rank :: int
  hy_cases :: "hybrid_case list option"
  hy_passed :: bool
  hy_error :: "exn option"
  hy_d3d12_error :: "exn option"
  hy_rccl_error :: "exn option"

record hybrid_rank =
  ho_d3d12 :: "d3d12_ar option"
  ho_rccl :: "rccl option"
  ho_record :: hybrid_record

definition start_hybrid :: "int \<Rightarrow> hybrid_rank" where
  "start_hybrid rank = \<lparr>ho_d3d12 = None, ho_rccl = None, ho_record = \<lparr>hy_rank = rank, hy_cases = None, hy_passed = False,
     hy_error = None, hy_d3d12_error = None, hy_rccl_error = None\<rparr>\<rparr>"

text \<open>A method of one of the two communicators; \<open>None\<close> has none.\<close>

definition using_d3d12 :: "('w, d3d12_ar, 'a) meth \<Rightarrow> ('w, hybrid_rank, 'a) meth" where
  "using_d3d12 m = io_bind self (\<lambda>s. case ho_d3d12 s of
       None \<Rightarrow> io_raise AttributeError ''NoneType''
     | Some d \<Rightarrow> on_field (\<lambda>_. d) (\<lambda>d s. s\<lparr>ho_d3d12 := Some d\<rparr>) m)"

definition using_rccl :: "('w, rccl, 'a) meth \<Rightarrow> ('w, hybrid_rank, 'a) meth" where
  "using_rccl m = io_bind self (\<lambda>s. case ho_rccl s of
       None \<Rightarrow> io_raise AttributeError ''NoneType''
     | Some r \<Rightarrow> on_field (\<lambda>_. r) (\<lambda>r s. s\<lparr>ho_rccl := Some r\<rparr>) m)"

definition hybrid_case_run :: "'w extern \<Rightarrow> torch_api \<Rightarrow> int \<Rightarrow> int \<Rightarrow> int \<Rightarrow> ('w, hybrid_rank, hybrid_case) meth" where
  "hybrid_case_run env T rank stream size_bytes =
     io_bind (on_world (full env T (nat (size_bytes div 2)) (float_text (rank + 1)) Float16 (cuda rank))) (\<lambda>source.
     io_then (on_world (torch_do env ''synchronize'' [PyInt rank]))
    (io_bind (using_d3d12 (io_bind self (\<lambda>d. io_return (can_handle T d source)))) (\<lambda>use_d3d12.
     io_bind (on_stream env stream
       (if use_d3d12 then using_d3d12 (ar_all_reduce env T source) else using_rccl (rccl_all_reduce env T source))) (\<lambda>output.
     io_then (on_world (torch_do env ''stream_synchronize'' [PyInt stream]))
    (io_bind (on_world (float_equal env output (float_text 3))) (\<lambda>correct.
     io_return \<lparr>hc_bytes = size_bytes, hc_backend = if use_d3d12 then ''d3d12'' else ''rccl-overflow'', hc_correct = correct\<rparr>))))))"

definition hybrid_body :: "'w extern \<Rightarrow> torch_api \<Rightarrow> pyenv \<Rightarrow> int \<Rightarrow> int \<Rightarrow> ('w, hybrid_rank, unit) meth" where
  "hybrid_body env T pe rank port =
     io_then (on_world (torch_do env ''set_num_threads'' [PyInt 1]))
    (io_then (on_world (torch_do env ''set_device'' [PyInt rank]))
    (io_then (on_world (start_group env port rank 2 180))
    (io_bind (construct (ar_init env T pe None (DeviceIndex rank) (Some D3D12_LIMIT) None) blank_ar) (\<lambda>d3d12.
     io_then (update_self (\<lambda>s. s\<lparr>ho_d3d12 := Some d3d12\<rparr>))
    (io_bind (construct (rccl_init env T pe None (DeviceIndex rank)) blank_rccl) (\<lambda>rccl.
     io_then (update_self (\<lambda>s. s\<lparr>ho_rccl := Some rccl\<rparr>))
    (io_bind (on_world (new_stream env (cuda rank))) (\<lambda>stream.
     io_bind (io_list (hybrid_case_run env T rank stream) [SMALL_BYTES, OVERFLOW_BYTES]) (\<lambda>cases.
     update_self (\<lambda>s. s\<lparr>ho_record := (ho_record s)\<lparr>hy_cases := Some cases,
       hy_passed := hc_backend (cases ! 0) = ''d3d12'' \<and> hc_backend (cases ! 1) = ''rccl-overflow'' \<and> list_all hc_correct cases\<rparr>\<rparr>))))))))))"

definition hybrid_failed :: "exn \<Rightarrow> ('w, hybrid_rank, unit) meth" where
  "hybrid_failed e = update_self (\<lambda>s. s\<lparr>ho_record := (ho_record s)\<lparr>hy_passed := False, hy_error := Some e\<rparr>\<rparr>)"

definition hybrid_cleanup :: "'w extern \<Rightarrow> ('w, hybrid_rank, unit) meth" where
  "hybrid_cleanup env =
     io_bind self (\<lambda>s.
     io_then (if ho_d3d12 s = None then io_return () else note_failure (using_d3d12 (ar_destroy env))
       (\<lambda>e s. s\<lparr>ho_record := (ho_record s)\<lparr>hy_d3d12_error := Some e, hy_passed := False\<rparr>\<rparr>))
    (io_then (if ho_rccl s = None then io_return () else note_failure (using_rccl (rccl_destroy env))
       (\<lambda>e s. s\<lparr>ho_record := (ho_record s)\<lparr>hy_rccl_error := Some e, hy_passed := False\<rparr>\<rparr>))
    (on_world (end_group env))))"

definition hybrid_main :: "'w extern \<Rightarrow> torch_api \<Rightarrow> pyenv \<Rightarrow> int \<Rightarrow> int \<Rightarrow> ('w world, hybrid_record) io" where
  "hybrid_main env T pe rank port =
     report_of (io_finally (io_catch (hybrid_body env T pe rank port) hybrid_failed) (hybrid_cleanup env)) (start_hybrid rank) ho_record"

text \<open>The program.\<close>

definition hybrid_launch :: "'w extern \<Rightarrow> (int \<Rightarrow> hybrid_record) \<Rightarrow> ('w world, hybrid_record list \<times> int) io" where
  "hybrid_launch env unpickle =
     io_bind (unused_local_port env) (\<lambda>port.
     launch env unpickle hy_rank (ranks_passed 2 hy_passed) (180 + 30) 10 [py_str port] 2)"

section \<open>The route of a tensor\<close>

text \<open>The limits of a constructed communicator, which a collective keeps.\<close>

definition hybrid_limits :: "int \<Rightarrow> d3d12_ar \<Rightarrow> bool" where
  "hybrid_limits m d \<longleftrightarrow> ar_min d = m \<and> ar_max d = D3D12_LIMIT"

lemma limits_connect: "keeps_object (hybrid_limits m) (ar_connect env pe)"
  unfolding ar_connect_def create_own_def open_peer_def agree_or_raise_def close_buffers_def close_peer_def close_own_def
    on_own_def on_peer_def
  by (intro object_kept) (simp_all add: hybrid_limits_def)

lemma limits_init:
  "io_post (ar_init env T pe None dev (Some D3D12_LIMIT) None)
     (\<lambda>_ u. \<exists>m. env_int pe ''WAVMG_D3D12_MIN_BYTES'' (32 * 1024) = Inr m \<and> hybrid_limits m (snd u)) (\<lambda>_ _. True) u0"
proof -
  have "io_post (ar_configure env T pe None dev (Some D3D12_LIMIT) None)
     (\<lambda>_ u. \<exists>m. env_int pe ''WAVMG_D3D12_MIN_BYTES'' (32 * 1024) = Inr m \<and> hybrid_limits m (snd u)) (\<lambda>_ _. True) u0"
    by (auto simp: ar_configure_def wp Let_def hybrid_limits_def intro!: any_world split: sum.splits)
  then show ?thesis
    unfolding ar_init_def wp
    by (rule io_post_mono) (auto intro: object_kept_post [OF limits_connect])
qed

lemma limits_all_reduce: "keeps_object (hybrid_limits m) (ar_all_reduce env T t)"
  unfolding ar_all_reduce_def ar_enqueue_def on_own_def on_peer_def
  by (intro object_kept | simp split: option.split | rule conjI allI impI | simp add: hybrid_limits_def)+

definition hybrid_route :: "int \<Rightarrow> int \<Rightarrow> string" where
  "hybrid_route m bytes = (if m \<le> bytes \<and> bytes \<le> D3D12_LIMIT then ''d3d12'' else ''rccl-overflow'')"

lemma full_post:
  assumes "torch_ok T" and "\<And>t w'. same_kind \<lparr>t_shape = [n], t_stride = [], t_dtype = d, t_device = dev, t_ptr = 0\<rparr> t \<Longrightarrow> Q t w'"
    and "\<And>e w'. E e w'"
  shows "io_post (full env T n v d dev) Q E w"
  unfolding full_def wp using assms torch_ok_contiguous(1) [OF assms(1)] by (auto intro!: io_post_call_ext)

lemma half_tensor_handled:
  assumes "same_kind \<lparr>t_shape = [nat (bytes div 2)], t_stride = [], t_dtype = Float16, t_device = dev, t_ptr = 0\<rparr> t"
    and "element_size T Float16 = 2" and "0 < bytes" and "even bytes" and "hybrid_limits m d"
  shows "can_handle T d t \<longleftrightarrow> m \<le> bytes \<and> bytes \<le> D3D12_LIMIT"
proof -
  from assms(1) have "t_dtype t = Float16" "t_shape t = [nat (bytes div 2)]" by (simp_all add: same_kind_def)
  with assms(2-4) have "size_bytes_of T t = bytes" by (auto simp: size_bytes_of_def numel_def)
  with \<open>t_dtype t = Float16\<close> assms(3,5) show ?thesis
    by (simp add: can_handle_def hybrid_limits_def supported_dtypes_def)
qed

text \<open>The D3D12 communicator of a rank has the limits, and the record is untouched.\<close>

definition hybrid_ready :: "int \<Rightarrow> hybrid_record \<Rightarrow> hybrid_rank \<Rightarrow> bool" where
  "hybrid_ready m r s \<longleftrightarrow> ho_record s = r \<and> (case ho_d3d12 s of None \<Rightarrow> True | Some d \<Rightarrow> hybrid_limits m d)"

lemma ready_d3d12:
  assumes "keeps_object (hybrid_limits m) n"
  shows "keeps_object (hybrid_ready m r) (using_d3d12 n)"
  unfolding keeps_object_def
proof (rule keeps_postI)
  fix u :: "'a world \<times> hybrid_rank"
  assume ready: "hybrid_ready m r (snd u)"
  show "io_post (using_d3d12 n) (\<lambda>_ u. hybrid_ready m r (snd u)) (\<lambda>_ u. hybrid_ready m r (snd u)) u"
  proof (cases "ho_d3d12 (snd u)")
    case None
    with ready show ?thesis by (simp add: using_d3d12_def wp)
  next
    case (Some d)
    with ready have "hybrid_limits m d" by (simp add: hybrid_ready_def)
    with Some ready show ?thesis
      unfolding using_d3d12_def wp by (auto simp: hybrid_ready_def intro!: object_kept_post [OF assms])
  qed
qed

lemma ready_rccl: "keeps_object (hybrid_ready m r) (using_rccl n)"
  unfolding using_rccl_def by (intro object_kept) (simp add: hybrid_ready_def)

lemma ready_reduce: "keeps_object (hybrid_ready m r) (on_stream env stream
    (if b then using_d3d12 (ar_all_reduce env T t) else using_rccl (rccl_all_reduce env T t)))"
  by (intro object_kept ready_d3d12 limits_all_reduce ready_rccl)

lemma route_decided:
  assumes "hybrid_ready m r (snd u)"
    and "\<And>d. hybrid_limits m d \<Longrightarrow> can_handle T d t \<longleftrightarrow> b"
  shows "io_post (using_d3d12 (io_bind self (\<lambda>d. io_return (can_handle T d t))))
    (\<lambda>use v. hybrid_ready m r (snd v) \<and> use = b) (\<lambda>_ v. hybrid_ready m r (snd v)) u"
  using assms by (cases "ho_d3d12 (snd u)") (auto simp: using_d3d12_def wp hybrid_ready_def)

lemma any_torch:
  "(\<And>w'. Q () w') \<Longrightarrow> (\<And>e w'. E e w') \<Longrightarrow> io_post (torch_do env fn args) Q E w"
  "(\<And>b w'. R b w') \<Longrightarrow> (\<And>e w'. E e w') \<Longrightarrow> io_post (float_equal env t v) R E w"
  by (rule io_post_any; simp)+

lemma hybrid_case_post:
  assumes T: "torch_ok T" "element_size T Float16 = 2" and bytes: "0 < bytes" "even bytes" and ready: "hybrid_ready m r (snd u)"
  shows "io_post (hybrid_case_run env T rank stream bytes)
    (\<lambda>c t. hybrid_ready m r (snd t) \<and> hc_bytes c = bytes \<and> hc_backend c = hybrid_route m bytes)
    (\<lambda>_ t. hybrid_ready m r (snd t)) u"
  unfolding hybrid_case_run_def wp
proof (rule full_post [OF T(1)], goal_cases)
  case (1 t w)
  note decided = route_decided [of m r _ T t "m \<le> bytes \<and> bytes \<le> D3D12_LIMIT"]
  from half_tensor_handled [OF 1 T(2) bytes] ready show ?case
    by (auto intro!: any_torch io_post_mono [OF decided] object_kept_post [OF ready_reduce] simp: hybrid_route_def)
qed (use ready in simp)

section \<open>The report\<close>

text \<open>What a record says when it has cases: both sizes in order, each with its route, and a verdict that follows from them.\<close>

definition hybrid_told :: "int \<Rightarrow> hybrid_record \<Rightarrow> bool" where
  "hybrid_told m r \<longleftrightarrow>
     (case hy_cases r of
        None \<Rightarrow> \<not> hy_passed r
      | Some cs \<Rightarrow> map (\<lambda>c. (hc_bytes c, hc_backend c)) cs = [(SMALL_BYTES, hybrid_route m SMALL_BYTES), (OVERFLOW_BYTES, ''rccl-overflow'')] \<and>
          (hy_passed r \<longrightarrow> m \<le> SMALL_BYTES \<and> list_all hc_correct cs))"

lemma sizes_route: "hybrid_route m OVERFLOW_BYTES = ''rccl-overflow''"
  "hybrid_route m SMALL_BYTES = ''d3d12'' \<longleftrightarrow> m \<le> SMALL_BYTES"
  by (simp_all add: hybrid_route_def OVERFLOW_BYTES_def SMALL_BYTES_def D3D12_LIMIT_def)

lemma construct_any:
  assumes "io_post m (\<lambda>_ u. P (snd u)) (\<lambda>_ _. True) (fst u, blank)"
    and "\<And>ob w. P ob \<Longrightarrow> Q ob (w, snd u)" and "\<And>e w. E e (w, snd u)"
  shows "io_post (construct m blank) Q E u"
  using assms by (auto simp: construct_def wp io_post_def split: prod.splits sum.splits)

lemma hybrid_body_post:
  assumes T: "torch_ok T" "element_size T Float16 = 2" and m: "env_int pe ''WAVMG_D3D12_MIN_BYTES'' (32 * 1024) = Inr m"
    and start: "ho_d3d12 s = None" "hy_cases (ho_record s) = None" "\<not> hy_passed (ho_record s)"
  shows "io_post (hybrid_body env T pe rank port) (\<lambda>_ t. hybrid_told m (ho_record (snd t))) (\<lambda>_ t. hybrid_told m (ho_record (snd t))) (w, s)"
proof -
  have told: "hybrid_ready m (ho_record s) t \<Longrightarrow> hybrid_told m (ho_record t)" for t
    using start by (simp add: hybrid_ready_def hybrid_told_def)
  have start': "hybrid_told m (ho_record s)" using start by (simp add: hybrid_told_def)
  have bytes: "0 < SMALL_BYTES" "even SMALL_BYTES" "0 < OVERFLOW_BYTES" "even OVERFLOW_BYTES"
    by (simp_all add: SMALL_BYTES_def OVERFLOW_BYTES_def)
  note case_post = hybrid_case_post [OF T bytes(1,2), of m "ho_record s"] hybrid_case_post [OF T bytes(3,4), of m "ho_record s"]
  have limits: "io_post (ar_init env T pe None dev (Some D3D12_LIMIT) None) (\<lambda>_ u. hybrid_limits m (snd u)) (\<lambda>_ _. True) u0" for dev u0
    by (rule io_post_mono [OF limits_init]) (use m in auto)
  have cases: "io_post (io_list (hybrid_case_run env T rank stream) [SMALL_BYTES, OVERFLOW_BYTES])
      (\<lambda>cs t. hybrid_ready m (ho_record s) (snd t) \<and>
         map (\<lambda>c. (hc_bytes c, hc_backend c)) cs = [(SMALL_BYTES, hybrid_route m SMALL_BYTES), (OVERFLOW_BYTES, ''rccl-overflow'')])
      (\<lambda>_ t. hybrid_told m (ho_record (snd t))) u" if "hybrid_ready m (ho_record s) (snd u)" for stream u
    using that by (auto simp: wp sizes_route intro!: io_post_mono [OF case_post(1)] io_post_mono [OF case_post(2)] told)
  let ?told = "\<lambda>_ t. hybrid_told m (ho_record (snd t))"
  have tail: "io_post (io_bind (on_world (new_stream env (cuda rank))) (\<lambda>stream.
       io_bind (io_list (hybrid_case_run env T rank stream) [SMALL_BYTES, OVERFLOW_BYTES]) (\<lambda>cases.
       update_self (\<lambda>s. s\<lparr>ho_record := (ho_record s)\<lparr>hy_cases := Some cases,
         hy_passed := hc_backend (cases ! 0) = ''d3d12'' \<and> hc_backend (cases ! 1) = ''rccl-overflow'' \<and> list_all hc_correct cases\<rparr>\<rparr>))))
      ?told ?told (v, t)" if "hybrid_ready m (ho_record s) t" for v t
    unfolding wp
    by (rule io_post_any, rule io_post_mono [OF cases])
      (use that told in \<open>auto simp: hybrid_told_def sizes_route\<close>)
  have group: "io_post (start_group env port rank 2 180) Q E v" if "\<And>w. Q () w" "\<And>e w. E e w" for Q E v
    by (rule io_post_any) (use that in simp_all)
  show ?thesis
    unfolding hybrid_body_def io_post_then io_post_bind io_post_on_world io_post_update_self
    by (intro any_torch group construct_any [where P = "hybrid_limits m", OF limits] construct_any [where P = "\<lambda>_. True", OF io_post_any]
        tail [unfolded io_post_bind io_post_on_world io_post_update_self])
      (simp_all add: start' hybrid_ready_def)
qed

lemma told_end: "keeps_object (\<lambda>s. hybrid_told m (ho_record s)) (hybrid_cleanup env)"
  unfolding hybrid_cleanup_def note_failure_def using_d3d12_def using_rccl_def
  by (intro object_kept) (auto simp: hybrid_told_def split: option.splits)


text \<open>When every call succeeds, a rank gets through its cases.\<close>

definition hybrid_live :: "int \<Rightarrow> hybrid_rank \<Rightarrow> bool" where
  "hybrid_live rank s \<longleftrightarrow> (\<exists>d r. ho_d3d12 s = Some d \<and> ho_rccl s = Some r \<and> ar_own d \<noteq> None \<and> ar_peer d \<noteq> None \<and>
     ar_device d = cuda rank \<and> rc_device r = cuda rank)"

lemma float_equal_returns: "obliging env \<Longrightarrow> (\<And>b w'. Q b w') \<Longrightarrow> io_post (float_equal env t v) Q E w"
  by (simp add: float_equal_def all_equal_def wp obliging_call)

lemma hybrid_case_returns:
  assumes "torch_ok T" and "obliging env" and "hybrid_live rank (snd u)"
  shows "io_post (hybrid_case_run env T rank stream bytes) (\<lambda>_ t. hybrid_live rank (snd t)) (\<lambda>_ _. False) u"
proof -
  let ?kind = "same_kind \<lparr>t_shape = [nat (bytes div 2)], t_stride = [], t_dtype = Float16, t_device = cuda rank, t_ptr = 0\<rparr>"
  obtain d r own peer where parts: "ho_d3d12 (snd u) = Some d" "ho_rccl (snd u) = Some r" "ar_own d = Some own"
    "ar_peer d = Some peer" "ar_device d = cuda rank" "rc_device r = cuda rank"
    using assms(3) by (auto simp: hybrid_live_def)
  have full: "io_post (full env T (nat (bytes div 2)) v Float16 (cuda rank)) Q E w" if "\<And>t w'. ?kind t \<Longrightarrow> Q t w'" for v Q E w
    unfolding full_def wp by (intro obliging_call [OF assms(2)]) (simp add: that torch_ok_contiguous(1) [OF assms(1)])
  have d3d12: "io_post (ar_all_reduce env T t) (\<lambda>_ q. snd q = d\<lparr>ar_epoch := ar_epoch d + 1\<rparr>) (\<lambda>_ _. False) (w, d)"
    if "?kind t" "can_handle T d t" for t w
  proof -
    have "t_device t = ar_device d" "dev_index (ar_device d) = Some rank" using that(1) parts(5) by (simp_all add: same_kind_def cuda_def)
    from handled_tensor_reduces [OF assms(1,2) that(2) parts(3,4) this, of w]
    show ?thesis by (elim exE conjE) (simp add: io_post_def)
  qed
  have rccl: "io_post (rccl_all_reduce env T t) (\<lambda>_ q. snd q = r) (\<lambda>_ _. False) (w, r)" if "?kind t" for t w
    by (rule rccl_all_reduce_returns [OF assms(1,2), where d = 6]) (use that parts(6) in \<open>simp_all add: same_kind_def rccl_dtype_def\<close>)
  show ?thesis
    using parts
    by (auto simp: hybrid_case_run_def wp using_d3d12_def using_rccl_def on_stream_def hybrid_live_def
        intro!: full torch_calls_return [OF assms(2)] float_equal_returns [OF assms(2)] io_post_mono [OF d3d12] io_post_mono [OF rccl])
qed

text \<open>Rank 0 of two, with both libraries built.\<close>

definition two_ranks :: "unit extern" where
  "two_ranks = (\<lambda>c n. (Inr (case c of
       Dist fn args \<Rightarrow>
         (if fn = ''is_initialized'' then (1, [])
          else if fn = ''get_world_size'' then (2, [])
          else if fn = ''broadcast_object_list'' then (0, [case args of PyStruct _ bs # _ \<Rightarrow> VBlob bs | _ \<Rightarrow> VStr ''heap''])
          else if fn = ''all_reduce'' then (case args of PyInt k # _ \<Rightarrow> (k, []) | _ \<Rightarrow> (0, []))
          else (0, []))
     | Native fn vs \<Rightarrow> (0, [VPtr 7, VPtr 4096])
     | _ \<Rightarrow> (1, [VStr ''c0ffee''])), n))"

lemma two_ranks_obliging: "obliging two_ranks"
  by (auto simp: obliging_def two_ranks_def split: ecall.split)

definition built_env :: pyenv where
  "built_env = sample_env\<lparr>is_file := (\<lambda>_. True)\<rparr>"

lemma built_min: "env_int built_env ''WAVMG_D3D12_MIN_BYTES'' (32 * 1024) = Inr 32768"
  by (simp add: env_int_def built_env_def sample_env_def py_int_str)

lemma two_ranks_d3d12:
  "io_post (ar_init two_ranks sample_torch built_env None (DeviceIndex 0) (Some D3D12_LIMIT) None)
     (\<lambda>_ u. ar_own (snd u) \<noteq> None \<and> ar_peer (snd u) \<noteq> None \<and> ar_device (snd u) = cuda 0) (\<lambda>_ _. False) (w, blank_ar)"
proof -
  let ?s = "blank_ar\<lparr>ar_world := 2, ar_device := \<lparr>dev_type = ''cuda'', dev_index = Some 0\<rparr>, ar_max := 67108864, ar_min := 32768\<rparr>"
  have configured: "io_post (ar_configure two_ranks sample_torch built_env None (DeviceIndex 0) (Some D3D12_LIMIT) None)
     (\<lambda>_ u. snd u = ?s) (\<lambda>_ _. False) (w, blank_ar)"
    by (simp add: io_post_def ar_configure_def io_bind_def on_world_apply dist_int_def call_ext_def two_ranks_def D3D12_LIMIT_def
        io_return_def group_args_def as_device_def io_of_sum_def env_int_def py_int_str built_env_def sample_env_def
        update_self_def blank_ar_def)
  have connected: "io_post (ar_connect two_ranks built_env)
     (\<lambda>_ u. ar_own (snd u) \<noteq> None \<and> ar_peer (snd u) \<noteq> None \<and> ar_device (snd u) = cuda 0) (\<lambda>_ _. False) (v, ?s)" for v
    unfolding io_post_def by code_simp
  show ?thesis
    unfolding ar_init_def wp
  proof (rule io_post_mono [OF configured])
    fix t :: "unit world \<times> d3d12_ar" assume "snd t = ?s"
    then show "io_post (ar_connect two_ranks built_env)
     (\<lambda>_ u. ar_own (snd u) \<noteq> None \<and> ar_peer (snd u) \<noteq> None \<and> ar_device (snd u) = cuda 0) (\<lambda>_ _. False) t"
      using connected [of "fst t"] by (cases t) simp
  qed simp_all
qed

lemma two_ranks_rccl:
  "io_post (rccl_init two_ranks sample_torch built_env None (DeviceIndex 0)) (\<lambda>_ u. rc_device (snd u) = cuda 0) (\<lambda>_ _. False) (w, blank_rccl)"
  unfolding io_post_def by code_simp

lemma two_ranks_body:
  "io_post (hybrid_body two_ranks sample_torch built_env 0 29500) (\<lambda>_ t. hy_cases (ho_record (snd t)) \<noteq> None) (\<lambda>_ _. False)
     (w, start_hybrid 0)"
proof -
  have made: "io_post (construct m blank) Q E u"
    if "\<And>w. io_post m (\<lambda>_ u. P (snd u)) (\<lambda>_ _. False) (w, blank)" "\<And>ob w. P ob \<Longrightarrow> Q ob (w, snd u)"
    for m :: "(unit, 'o, unit) meth" and blank P Q E and u :: "unit world \<times> hybrid_rank"
    using that(1) [of "fst u"] that(2) by (auto simp: construct_def wp io_post_def split: prod.splits sum.splits)
  note calls = torch_calls_return [OF two_ranks_obliging] obliging_call [OF two_ranks_obliging]
  note cases = hybrid_case_returns [OF sample_torch_ok two_ranks_obliging]
  show ?thesis
    unfolding hybrid_body_def start_group_def dist_do_def new_stream_def io_list.simps wp
    by (intro calls made [OF two_ranks_d3d12] made [OF two_ranks_rccl] io_post_mono [OF cases])
      (auto simp: hybrid_live_def)
qed


end
