(* ===== verification/Ipc_Probe.thy ===== *)
theory Ipc_Probe
  imports Rank_Launch
begin

text \<open>
  \<open>probes/hip_ipc_probe.py\<close>: one process exports an allocation through a HIP IPC handle, a second one maps it and reads it
  back. The two processes alternate: the importer starts when a message is there, the exporter waits for the importer's
  record before it frees the allocation, so a run is the exporter up to its message, the importer, and the rest of the
  exporter. The pipe is reliable and no process is terminated in such a run; the argument parser and the printed summary are not
  modelled.
\<close>

definition IPC_BYTES :: int where
  "IPC_BYTES = 4096"

definition PATTERN :: "nat list" where
  "PATTERN = map (\<lambda>index. nat ((index * 17 + 31) mod 256)) [0..IPC_BYTES - 1]"

section \<open>The importer\<close>

record import_record =
  ir_device :: int
  ir_succeeded :: bool
  ir_correct :: bool
  ir_error :: "exn option"
  ir_close_error :: "exn option"

record importer =
  im_runtime :: bool
  im_pointer :: int
  im_record :: import_record

definition start_importer :: "int \<Rightarrow> importer" where
  "start_importer device = \<lparr>im_runtime = False, im_pointer = 0, im_record = \<lparr>ir_device = device, ir_succeeded = False,
     ir_correct = False, ir_error = None, ir_close_error = None\<rparr>\<rparr>"

record ipc_arguments =
  ia_runtime :: "path option"
  ia_dependencies :: "path list"
  ia_export :: int
  ia_import :: int

definition importer_read :: "'w extern \<Rightarrow> pyenv \<Rightarrow> ipc_arguments \<Rightarrow> nat list \<Rightarrow> ('w, importer, unit) meth" where
  "importer_read env pe a handle =
     (if handle = [] then io_raise RuntimeError ''exporter could not create a HIP IPC handle''
      else
        io_bind (on_world (hip_init env pe (ia_runtime a) (ia_dependencies a))) (\<lambda>_.
        io_then (update_self (\<lambda>l. l\<lparr>im_runtime := True\<rparr>))
       (io_then (on_world (set_device env (ia_import a)))
       (io_bind (on_world (ipc_open_mem_handle env handle)) (\<lambda>p.
        io_then (update_self (\<lambda>l. l\<lparr>im_pointer := p, im_record := (im_record l)\<lparr>ir_succeeded := True\<rparr>\<rparr>))
       (io_bind (on_world (host_array env ''c_ubyte'' [] IPC_BYTES)) (\<lambda>destination.
        io_then (on_world (memcpy env destination p IPC_BYTES HIP_MEMCPY_DEVICE_TO_HOST))
       (io_bind (on_world (read_buffer env destination IPC_BYTES)) (\<lambda>received.
        update_self (\<lambda>l. l\<lparr>im_record := (im_record l)\<lparr>ir_correct := received = PATTERN\<rparr>\<rparr>))))))))))"

definition importer_failed :: "exn \<Rightarrow> ('w, importer, unit) meth" where
  "importer_failed e = update_self (\<lambda>l. l\<lparr>im_record := (im_record l)\<lparr>ir_succeeded := False, ir_correct := False,
     ir_error := Some e\<rparr>\<rparr>)"

definition importer_run :: "'w extern \<Rightarrow> pyenv \<Rightarrow> ipc_arguments \<Rightarrow> nat list \<Rightarrow> ('w, importer, unit) meth" where
  "importer_run env pe a handle = io_catch (importer_read env pe a handle) importer_failed"

definition importer_close :: "'w extern \<Rightarrow> ('w, importer, unit) meth" where
  "importer_close env =
     io_bind self (\<lambda>l.
     if im_pointer l \<noteq> 0 \<and> im_runtime l
     then io_catch (on_world (ipc_close_mem_handle env (im_pointer l)))
       (\<lambda>e. update_self (\<lambda>l. l\<lparr>im_record := (im_record l)\<lparr>ir_close_error := Some e\<rparr>\<rparr>))
     else io_return ())"

definition importer_main :: "'w extern \<Rightarrow> pyenv \<Rightarrow> ipc_arguments \<Rightarrow> nat list \<Rightarrow> ('w world, import_record) io" where
  "importer_main env pe a handle = (\<lambda>w.
     case io_finally (importer_run env pe a handle) (importer_close env) (w, start_importer (ia_import a)) of
       (Inl e, (w', _)) \<Rightarrow> (Inl e, w')
     | (Inr _, (w', l)) \<Rightarrow> (Inr (im_record l), w'))"

section \<open>The exporter\<close>

record export_record =
  xr_device :: int
  xr_succeeded :: bool
  xr_handle_size :: "nat option"
  xr_reply :: "import_record option"
  xr_error :: "exn option"
  xr_free_error :: "exn option"

record exporter =
  ex_runtime :: bool
  ex_pointer :: int
  ex_record :: export_record

definition start_exporter :: "int \<Rightarrow> exporter" where
  "start_exporter device = \<lparr>ex_runtime = False, ex_pointer = 0, ex_record = \<lparr>xr_device = device, xr_succeeded = False,
     xr_handle_size = None, xr_reply = None, xr_error = None, xr_free_error = None\<rparr>\<rparr>"

definition exporter_offer :: "'w extern \<Rightarrow> pyenv \<Rightarrow> ipc_arguments \<Rightarrow> ('w, exporter, nat list) meth" where
  "exporter_offer env pe a =
     io_bind (on_world (hip_init env pe (ia_runtime a) (ia_dependencies a))) (\<lambda>_.
     io_then (update_self (\<lambda>l. l\<lparr>ex_runtime := True\<rparr>))
    (io_then (on_world (set_device env (ia_export a)))
    (io_bind (on_world (malloc env IPC_BYTES)) (\<lambda>p.
     io_then (update_self (\<lambda>l. l\<lparr>ex_pointer := p\<rparr>))
    (io_bind (on_world (host_array env ''c_ubyte'' PATTERN IPC_BYTES)) (\<lambda>source.
     io_then (on_world (memcpy env p source IPC_BYTES HIP_MEMCPY_HOST_TO_DEVICE))
    (io_bind (on_world (ipc_get_mem_handle env p)) (\<lambda>handle.
     io_then (update_self (\<lambda>l. l\<lparr>ex_record := (ex_record l)\<lparr>xr_succeeded := True, xr_handle_size := Some (length handle)\<rparr>\<rparr>))
    (io_return handle)))))))))"

definition exporter_failed :: "exn \<Rightarrow> ('w, exporter, unit) meth" where
  "exporter_failed e = update_self (\<lambda>l. l\<lparr>ex_record := (ex_record l)\<lparr>xr_succeeded := False, xr_error := Some e\<rparr>\<rparr>)"

text \<open>The message sent, and whether the exporter waits for a reply: after a failure it sends an empty message and ends.\<close>

definition exporter_start :: "'w extern \<Rightarrow> pyenv \<Rightarrow> ipc_arguments \<Rightarrow> ('w, exporter, nat list \<times> bool) meth" where
  "exporter_start env pe a =
     io_catch (io_bind (exporter_offer env pe a) (\<lambda>handle. io_return (handle, True)))
       (\<lambda>e. io_then (exporter_failed e) (io_return ([], False)))"

definition exporter_finish :: "'w extern \<Rightarrow> bool \<Rightarrow> import_record \<Rightarrow> ('w, exporter, unit) meth" where
  "exporter_finish env waits reply =
     io_then (io_when waits (update_self (\<lambda>l. l\<lparr>ex_record := (ex_record l)\<lparr>xr_reply := Some reply\<rparr>\<rparr>)))
    (io_bind self (\<lambda>l.
     if ex_pointer l \<noteq> 0 \<and> ex_runtime l
     then io_catch (on_world (free env (ex_pointer l)))
       (\<lambda>e. update_self (\<lambda>l. l\<lparr>ex_record := (ex_record l)\<lparr>xr_free_error := Some e\<rparr>\<rparr>))
     else io_return ()))"

section \<open>A run and its verdict\<close>

definition ipc_run :: "'w extern \<Rightarrow> pyenv \<Rightarrow> ipc_arguments \<Rightarrow> ('w world, export_record \<times> import_record) io" where
  "ipc_run env pe a = (\<lambda>w.
     case exporter_start env pe a (w, start_exporter (ia_export a)) of
       (Inl e, (w', _)) \<Rightarrow> (Inl e, w')
     | (Inr (handle, waits), (w1, x)) \<Rightarrow>
         (case importer_main env pe a handle w1 of
            (Inl e, w') \<Rightarrow> (Inl e, w')
          | (Inr reply, w2) \<Rightarrow>
              (case exporter_finish env waits reply (w2, x) of
                 (Inl e, (w', _)) \<Rightarrow> (Inl e, w')
               | (Inr _, (w3, x')) \<Rightarrow> (Inr (ex_record x', reply), w3))))"

text \<open>What a process puts on the queue, with its rank: the exporter is rank 0, the importer rank 1.\<close>

type_synonym ipc_report = "export_record + import_record"

definition ipc_rank :: "ipc_report \<Rightarrow> int" where
  "ipc_rank = case_sum (\<lambda>_. 0) (\<lambda>_. 1)"

definition ipc_passed :: "ipc_report list \<Rightarrow> bool" where
  "ipc_passed records \<longleftrightarrow>
     (case records of [Inl x, Inr r] \<Rightarrow> xr_succeeded x \<and> ir_succeeded r \<and> ir_correct r | _ \<Rightarrow> False)"

text \<open>\<open>main\<close>, from the parsed arguments on, which every process gets: it closes its own ends of the pipe once the
processes have theirs.\<close>

definition ipc_process_args :: "ipc_arguments \<Rightarrow> nat \<Rightarrow> string list" where
  "ipc_process_args a r =
     (case ia_runtime a of None \<Rightarrow> [] | Some p \<Rightarrow> p) @ concat (ia_dependencies a) @ [py_str (if r = 0 then ia_export a else ia_import a)]"

definition ipc_main :: "'w extern \<Rightarrow> (int \<Rightarrow> ipc_report) \<Rightarrow> ipc_arguments \<Rightarrow> ('w world, ipc_report list \<times> int) io" where
  "ipc_main env unpickle a =
     io_then (os_do env ''pipe'' [])
    (io_then (start_ranks env (ipc_process_args a) 2)
    (io_then (os_do env ''close'' [''exporter_connection''])
    (io_then (os_do env ''close'' [''importer_connection''])
    (io_bind (await_ranks env unpickle ipc_rank 30 5 2) (\<lambda>ran. io_return (judge ipc_passed ran))))))"

section \<open>What is released, and when\<close>

definition releases :: "ecall \<Rightarrow> bool" where
  "releases c \<longleftrightarrow> is_free c \<or> (\<exists>vs. c = Native ''hipIpcCloseMemHandle'' vs)"

definition hip_unmap :: "int \<Rightarrow> ecall" where
  "hip_unmap p = Native ''hipIpcCloseMemHandle'' [VPtr (word_of_int p)]"

lemma releases_simps [simp]: "releases (hip_free p)" "releases (hip_unmap p)" "\<not> releases (Torch f as)" "\<not> releases (Os f ss)"
  "releases (Native fn vs) \<longleftrightarrow> fn = ''hipFree'' \<or> fn = ''hipIpcCloseMemHandle''"
  by (auto simp: releases_def hip_unmap_def is_free_def hip_free_def)

lemma unmap_typed: "call_native env hip_sigs ''hipIpcCloseMemHandle'' [PyVoidP p] = call_ext env (hip_unmap p)"
  by (simp add: call_native_def hip_sigs_def hip_argtypes_def hip_unmap_def)

text \<open>Neither process releases anything before its last step.\<close>

lemma kept_importer_run: "keeps (\<lambda>u. grew releases w [] (fst u)) (importer_run env pe a handle)"
  unfolding importer_run_def importer_read_def importer_failed_def set_device_def memcpy_def ipc_open_mem_handle_def
  by (auto intro!: kept)

lemma kept_exporter_start: "keeps (\<lambda>u. grew releases w [] (fst u)) (exporter_start env pe a)"
  unfolding exporter_start_def exporter_offer_def exporter_failed_def set_device_def memcpy_def malloc_def ipc_get_mem_handle_def
  by (auto intro!: kept)

lemma free_releases: "grew releases w [hip_free p] (snd (free env p w))"
  unfolding free_def by (rule hip_do_grew) (simp_all add: free_typed)

lemma unmap_releases: "grew releases w [hip_unmap p] (snd (ipc_close_mem_handle env p w))"
  unfolding ipc_close_mem_handle_def by (rule hip_do_grew) (simp_all add: unmap_typed)

definition mapped_by :: "importer \<Rightarrow> int list" where
  "mapped_by l = (if im_pointer l \<noteq> 0 \<and> im_runtime l then [im_pointer l] else [])"

definition owned_by :: "exporter \<Rightarrow> int list" where
  "owned_by l = (if ex_pointer l \<noteq> 0 \<and> ex_runtime l then [ex_pointer l] else [])"

lemma importer_close_outcome:
  "\<exists>v m. importer_close env (w, l) = (Inr (), (v, m)) \<and> grew releases w (map hip_unmap (mapped_by l)) v"
  using unmap_releases [of w "im_pointer l" env]
  by (cases "ipc_close_mem_handle env (im_pointer l) w"; cases "fst (ipc_close_mem_handle env (im_pointer l) w)")
    (auto simp: importer_close_def mapped_by_def io_bind_def self_apply io_catch_def on_world_apply update_self_def io_return_def)

lemma exporter_finish_outcome:
  "\<exists>v m. exporter_finish env waits reply (w, l) = (Inr (), (v, m)) \<and> grew releases w (map hip_free (owned_by l)) v"
  using free_releases [of w "ex_pointer l" env]
  by (cases waits; cases "free env (ex_pointer l) w"; cases "fst (free env (ex_pointer l) w)")
    (auto simp: exporter_finish_def owned_by_def io_then_bind io_bind_def io_when_def self_apply io_catch_def on_world_apply
      update_self_def io_return_def)

lemma exporter_start_returns: "\<exists>handle waits u. exporter_start env pe a v = (Inr (handle, waits), u) \<and> (waits \<or> handle = [])"
  by (cases "io_bind (exporter_offer env pe a) (\<lambda>handle. io_return (handle, True)) v";
      cases "fst (io_bind (exporter_offer env pe a) (\<lambda>handle. io_return (handle, True)) v)")
    (auto simp: exporter_start_def io_catch_def exporter_failed_def io_then_bind io_bind_def update_self_def io_return_def
      split: prod.splits sum.splits)

lemma importer_run_returns: "\<exists>u. importer_run env pe a handle v = (Inr (), u)"
  by (cases "importer_read env pe a handle v"; cases "fst (importer_read env pe a handle v)")
    (auto simp: importer_run_def io_catch_def importer_failed_def update_self_def split: prod.splits)


end
