(* ===== verification/License_Copies.thy ===== *)
theory License_Copies
  imports Disk
begin

text \<open>
  \<open>tools/verify-license-copies.py\<close>: every packaged upstream licence text equals the pinned upstream file, up to line ends
  and trailing newlines.
\<close>

fun crlf_to_lf :: "codes \<Rightarrow> codes" where
  "crlf_to_lf (c # d # s) = (if c = 13 \<and> d = 10 then 10 # crlf_to_lf s else c # crlf_to_lf (d # s))"
| "crlf_to_lf s = s"

definition rstrip_newlines :: "codes \<Rightarrow> codes" where
  "rstrip_newlines s = rev (dropWhile (\<lambda>c. c = 10) (rev s))"

definition normalized :: "path \<Rightarrow> (disk, codes) io" where
  "normalized p = io_bind (read_text p) (\<lambda>s. io_return (rstrip_newlines (crlf_to_lf s)))"

record license_pair =
  pair_label :: string
  upstream :: path
  packaged :: "string list"

definition license_pairs :: "path \<Rightarrow> path \<Rightarrow> license_pair list" where
  "license_pairs project_root vllm_root =
     (let rccl = [''sandbox'', ''rocm-systems'', ''projects'', ''rccl'']
      in [\<lparr>pair_label = ''RCCL license'', upstream = path_join project_root (rccl @ [''LICENSE.txt'']),
            packaged = [''LICENSES'', ''RCCL-UPSTREAM-LICENSE.txt'']\<rparr>,
          \<lparr>pair_label = ''RCCL notices'', upstream = path_join project_root (rccl @ [''NOTICES.txt'']),
            packaged = [''LICENSES'', ''RCCL-UPSTREAM-NOTICES.txt'']\<rparr>,
          \<lparr>pair_label = ''RCCL third-party notices'', upstream = path_join project_root (rccl @ [''ThirdPartyNotices.txt'']),
            packaged = [''LICENSES'', ''RCCL-UPSTREAM-ThirdPartyNotices.txt'']\<rparr>,
          \<lparr>pair_label = ''vLLM license'', upstream = path_join vllm_root [''LICENSE''],
            packaged = [''LICENSES'', ''VLLM-UPSTREAM-LICENSE.txt'']\<rparr>,
          \<lparr>pair_label = ''vLLM notice'', upstream = path_join vllm_root [''NOTICE''],
            packaged = [''LICENSES'', ''VLLM-UPSTREAM-NOTICE.txt'']\<rparr>])"

definition check_pair :: "(path \<Rightarrow> codes) \<Rightarrow> path \<Rightarrow> license_pair \<Rightarrow> (disk, unit) io" where
  "check_pair path_text project_root lp = io_bind io_get (\<lambda>d.
     if \<not> disk_is_file (upstream lp) d then io_raise FileNotFoundError ''Missing pinned upstream file''
     else io_bind (normalized (upstream lp)) (\<lambda>a.
       io_bind (normalized (path_join project_root (packaged lp))) (\<lambda>b.
       if a \<noteq> b then io_raise RuntimeError ''Packaged text does not match''
       else print_line (cps ''PASS '' @ cps (pair_label lp) @ cps '': '' @ path_text (packaged lp)))))"

fun check_pairs :: "(path \<Rightarrow> codes) \<Rightarrow> path \<Rightarrow> license_pair list \<Rightarrow> (disk, int) io" where
  "check_pairs path_text project_root [] = io_return 0"
| "check_pairs path_text project_root (lp # lps) =
     io_then (check_pair path_text project_root lp) (check_pairs path_text project_root lps)"

definition license_main :: "(path \<Rightarrow> codes) \<Rightarrow> path \<Rightarrow> path \<Rightarrow> (disk, int) io" where
  "license_main path_text project_root vllm_root = check_pairs path_text project_root (license_pairs project_root vllm_root)"

section \<open>What a passed check means\<close>

text \<open>The text of a file as it is compared: its decoded lines, without carriage returns that end a line.\<close>

definition comparable :: "path \<Rightarrow> disk \<Rightarrow> codes option" where
  "comparable p d = (if p \<in> set (dirs d) then None else case file_at p d of None \<Rightarrow> None
     | Some b \<Rightarrow> map_option (\<lambda>s. rstrip_newlines (uniform_newlines s)) (utf8_decode b))"

lemma no_return_after: "13 \<notin> set (newlines_after cr s)"
  by (induction s arbitrary: cr) auto

lemma crlf_identity: "13 \<notin> set s \<Longrightarrow> crlf_to_lf s = s"
  by (induction s rule: crlf_to_lf.induct) auto

lemma normalized_success: "normalized p d = (Inr s, d') \<longleftrightarrow> d' = d \<and> comparable p d = Some s"
  using crlf_identity [OF no_return_after]
  by (auto simp: normalized_def read_text_def read_bytes_def comparable_def uniform_newlines_def io_success
    split: if_splits option.splits)

lemma comparable_console [simp]: "comparable p (console_update f d) = comparable p d"
  by (simp add: comparable_def file_at_def)

definition pair_matches :: "path \<Rightarrow> disk \<Rightarrow> license_pair \<Rightarrow> bool" where
  "pair_matches project_root d lp \<longleftrightarrow> comparable (upstream lp) d \<noteq> None \<and>
     comparable (path_join project_root (packaged lp)) d = comparable (upstream lp) d"

lemma pair_matches_console [simp]: "pair_matches r (console_update f d) lp = pair_matches r d lp"
  by (simp add: pair_matches_def)

lemma check_pair_success:
  "(\<exists>d'. check_pair pt r lp d = (Inr (), d')) \<longleftrightarrow> pair_matches r d lp"
  "check_pair pt r lp d = (Inr (), d') \<Longrightarrow> \<exists>f. d' = console_update f d"
  unfolding check_pair_def pair_matches_def
  by (auto simp: io_success normalized_success disk_is_file_def print_line_def split: if_splits)
    (auto simp: comparable_def split: if_splits)

lemma check_pairs_success: "(\<exists>d'. check_pairs pt r lps d = (Inr 0, d')) \<longleftrightarrow> (\<forall>lp\<in>set lps. pair_matches r d lp)"
proof (induction lps arbitrary: d)
  case (Cons lp lps)
  show ?case
  proof
    assume "\<exists>d'. check_pairs pt r (lp # lps) d = (Inr 0, d')"
    then obtain d1 d' where first: "check_pair pt r lp d = (Inr (), d1)" and "check_pairs pt r lps d1 = (Inr 0, d')"
      by (auto simp: io_success)
    with Cons.IH have "\<forall>lp\<in>set lps. pair_matches r d1 lp" by blast
    with check_pair_success(2) [OF first] check_pair_success(1) [of pt r lp d] first
    show "\<forall>lp\<in>set (lp # lps). pair_matches r d lp" by auto
  next
    assume all: "\<forall>lp\<in>set (lp # lps). pair_matches r d lp"
    then obtain d1 where first: "check_pair pt r lp d = (Inr (), d1)" using check_pair_success(1) [of pt r lp d] by auto
    from check_pair_success(2) [OF first] all have "\<forall>lp\<in>set lps. pair_matches r d1 lp" by auto
    with Cons.IH first show "\<exists>d'. check_pairs pt r (lp # lps) d = (Inr 0, d')" by (auto simp: io_success)
  qed
qed (simp add: io_simps)

text \<open>The check passes exactly when each of the five packaged texts equals its upstream file up to line ends and trailing
newlines, all of them being there and being UTF-8.\<close>

lemma license_check_exact:
  "(\<exists>d'. license_main path_text project_root vllm_root d = (Inr 0, d')) \<longleftrightarrow>
   list_all (pair_matches project_root d) (license_pairs project_root vllm_root)"
  unfolding license_main_def list_all_iff by (rule check_pairs_success)

end
