(* ===== verification/Mapping_Probes.thy ===== *)
theory Mapping_Probes
  imports Shm_All_Reduce Rank_Launch
begin

text \<open>
  The three scripts that register one shared mapping with HIP in both ranks: \<open>probes/hip_shared_memory_probe.py\<close>,
  \<open>probes/benchmark_hip_shared_memory.py\<close> and \<open>probes/benchmark_mapped_peer_kernel.py\<close>. What they share is the life of the
  mapping in a rank: open, register, use, unregister, close. The clock, the rates computed from it, the argument parser and
  the printed summaries are not modelled.
\<close>

section \<open>The life of a mapping\<close>

record mapping_case =
  mc_bytes :: int
  mc_iterations :: nat
  mc_correct :: bool

record mapping_record =
  mr_rank :: int
  mr_results :: "mapping_case list"
  mr_registered :: bool
  mr_correct :: bool
  mr_peer_correct :: bool
  mr_passed :: bool
  mr_error :: "exn option"
  mr_unregister_error :: "exn option"

record mapping_rank =
  mo_mapping :: "string option"
  mo_registered :: bool
  mo_base :: int
  mo_barrier :: "barrier option"
  mo_record :: mapping_record

definition start_mapping :: "int \<Rightarrow> mapping_rank" where
  "start_mapping rank = \<lparr>mo_mapping = None, mo_registered = False, mo_base = 0, mo_barrier = None,
     mo_record = \<lparr>mr_rank = rank, mr_results = [], mr_registered = False, mr_correct = False, mr_peer_correct = False,
       mr_passed = False, mr_error = None, mr_unregister_error = None\<rparr>\<rparr>"

text \<open>Open the mapping by name and register all of it; the answer is its address.\<close>

definition mapping_open :: "'w extern \<Rightarrow> string \<Rightarrow> int \<Rightarrow> ('w, mapping_rank, int) meth" where
  "mapping_open env name flags =
     io_bind (on_world (shm_object env ''SharedMemory.open'' [name])) (\<lambda>(len, n, base).
     io_then (update_self (\<lambda>s. s\<lparr>mo_mapping := Some name, mo_base := base\<rparr>))
    (io_then (on_world (host_register env base len flags))
    (io_then (update_self (\<lambda>s. s\<lparr>mo_registered := True\<rparr>))
    (io_return base))))"

text \<open>\<open>torch.frombuffer\<close> of the two slots.\<close>

definition mapping_slots :: "'w extern \<Rightarrow> int \<Rightarrow> int \<Rightarrow> int \<Rightarrow> ('w, mapping_rank, int \<times> int) meth" where
  "mapping_slots env base count slot_bytes =
     io_then (on_world (torch_do env ''frombuffer'' [PyInt base, PyInt count]))
    (io_then (on_world (torch_do env ''frombuffer'' [PyInt (base + slot_bytes), PyInt count]))
    (io_return (base, base + slot_bytes)))"

definition mapping_barrier :: "'w extern \<Rightarrow> string \<Rightarrow> int \<Rightarrow> ('w, mapping_rank, unit) meth" where
  "mapping_barrier env event_prefix rank =
     io_bind (on_world (\<lambda>w. case barrier_init env event_prefix rank 120000 (w, blank_barrier) of
         (Inl e, (w', _)) \<Rightarrow> (Inl e, w') | (Inr _, (w', b)) \<Rightarrow> (Inr b, w'))) (\<lambda>b.
     update_self (\<lambda>s. s\<lparr>mo_barrier := Some b\<rparr>))"

definition using_barrier :: "('w, barrier, 'a) meth \<Rightarrow> ('w, mapping_rank, 'a) meth" where
  "using_barrier m = io_bind self (\<lambda>s. case mo_barrier s of
       None \<Rightarrow> io_raise AttributeError ''NoneType''
     | Some b \<Rightarrow> on_field (\<lambda>_. b) (\<lambda>b s. s\<lparr>mo_barrier := Some b\<rparr>) m)"

definition mapping_failed :: "exn \<Rightarrow> ('w, mapping_rank, unit) meth" where
  "mapping_failed e = update_self (\<lambda>s. s\<lparr>mo_record := (mo_record s)\<lparr>mr_correct := False, mr_passed := False, mr_error := Some e\<rparr>\<rparr>)"

text \<open>The \<open>finally\<close> block, from the barrier on.\<close>

definition mapping_release :: "'w extern \<Rightarrow> ('w, mapping_rank, unit) meth" where
  "mapping_release env =
     io_bind self (\<lambda>s.
     io_then (if mo_registered s then note_failure (on_world (host_unregister env (mo_base s)))
         (\<lambda>e s. s\<lparr>mo_record := (mo_record s)\<lparr>mr_unregister_error := Some e\<rparr>\<rparr>) else io_return ())
    (case mo_mapping s of None \<Rightarrow> io_return () | Some name \<Rightarrow> on_world (os_do env ''SharedMemory.close'' [name])))"

definition mapping_close :: "'w extern \<Rightarrow> ('w, mapping_rank, unit) meth" where
  "mapping_close env =
     io_bind self (\<lambda>s.
     io_then (if mo_barrier s = None then io_return () else using_barrier (barrier_close env)) (mapping_release env))"

definition mapping_run :: "'w extern \<Rightarrow> int \<Rightarrow> ('w, mapping_rank, unit) meth \<Rightarrow> ('w world, mapping_record) io" where
  "mapping_run env rank body = report_of (io_finally (io_catch body mapping_failed) (mapping_close env)) (start_mapping rank) mo_record"

text \<open>\<open>main\<close> creates the mapping, prepares the processes, and then removes the mapping however the ranks end.\<close>

definition with_mapping :: "'w extern \<Rightarrow> int \<Rightarrow> ('w world, 'p) io \<Rightarrow> (string \<Rightarrow> 'p \<Rightarrow> ('w world, 'a) io) \<Rightarrow> ('w world, 'a) io" where
  "with_mapping env n prepare body =
     io_bind (shm_object env ''SharedMemory.create'' [py_str n]) (\<lambda>(len, name, base).
     io_bind prepare (\<lambda>p.
     io_finally (body name p)
       (io_then (os_do env ''SharedMemory.close'' [name]) (os_do env ''SharedMemory.unlink'' [name]))))"

section \<open>The registration probe\<close>

definition MAPPED_BYTES :: int where
  "MAPPED_BYTES = 1024 * 1024"

definition registration_body :: "'w extern \<Rightarrow> pyenv \<Rightarrow> torch_api \<Rightarrow> string \<Rightarrow> int \<Rightarrow> ('w, mapping_rank, unit) meth" where
  "registration_body env pe T name rank =
     (let count = nat (MAPPED_BYTES div 4) in
      io_then (on_world (torch_do env ''set_device'' [PyInt rank]))
     (io_bind (on_world (hip_init env pe None [])) (\<lambda>_.
      io_bind (mapping_open env name HIP_HOST_REGISTER_MAPPED) (\<lambda>base.
      io_bind (on_world (host_get_device_pointer env base)) (\<lambda>mapped.
      io_bind (mapping_slots env base (int count) MAPPED_BYTES) (\<lambda>(slot0, slot1).
      io_bind (on_world (full env T count (float_text (rank + 1)) Float32 (cuda rank))) (\<lambda>source.
      io_bind (on_world (empty_like env T source)) (\<lambda>destination.
      io_bind (on_world (empty env T [count] Float32 cpu)) (\<lambda>local_sum.
      io_then (on_world (memcpy env (if rank = 0 then slot0 else slot1) (t_ptr source) MAPPED_BYTES HIP_MEMCPY_DEVICE_TO_HOST))
     (io_then (on_world (os_do env ''barrier_wait'' [''45'']))
     (io_bind (on_world (empty_like env T source)) (\<lambda>peer_copy.
      io_then (on_world (memcpy env (t_ptr peer_copy) (mapped + (1 - rank) * MAPPED_BYTES) MAPPED_BYTES HIP_MEMCPY_DEFAULT))
     (io_then (on_world (torch_do env ''add'' [PyInt slot0, PyInt slot1, PyInt (t_ptr local_sum)]))
     (io_then (on_world (memcpy env (t_ptr destination) (t_ptr local_sum) MAPPED_BYTES HIP_MEMCPY_HOST_TO_DEVICE))
     (io_then (on_world (torch_do env ''synchronize'' [PyInt rank]))
     (io_bind (on_world (all_equal env destination (float_text 3))) (\<lambda>correct.
      io_then (update_self (\<lambda>s. s\<lparr>mo_record := (mo_record s)\<lparr>mr_correct := correct\<rparr>\<rparr>))
     (io_bind (on_world (all_equal env peer_copy (float_text (if rank = 0 then 2 else 1)))) (\<lambda>peer_correct.
      io_then (update_self (\<lambda>s. s\<lparr>mo_record := (mo_record s)\<lparr>mr_peer_correct := peer_correct, mr_registered := True\<rparr>\<rparr>))
     (on_world (os_do env ''barrier_wait'' [''45''])))))))))))))))))))))"

definition registration_main :: "'w extern \<Rightarrow> pyenv \<Rightarrow> torch_api \<Rightarrow> string \<Rightarrow> int \<Rightarrow> ('w world, mapping_record) io" where
  "registration_main env pe T name rank = mapping_run env rank (registration_body env pe T name rank)"

definition registration_passed :: "mapping_record list \<Rightarrow> bool" where
  "registration_passed records \<longleftrightarrow> length records = 2 \<and> list_all mr_registered records \<and> list_all mr_correct records \<and>
     list_all mr_peer_correct records"

definition registration_launch :: "'w extern \<Rightarrow> (int \<Rightarrow> mapping_record) \<Rightarrow> ('w world, mapping_record list \<times> int) io" where
  "registration_launch env unpickle =
     with_mapping env (MAPPED_BYTES * 2) (io_return ()) (\<lambda>name _. launch env unpickle mr_rank registration_passed (45 + 15) 5 [name] 2)"

section \<open>The two benchmarks\<close>

definition mapping_iterations :: "int \<Rightarrow> nat" where
  "mapping_iterations size_bytes = (if size_bytes \<le> 64 * 1024 then 100 else if size_bytes \<le> 1024 * 1024 then 30 else 10)"

definition mapped_iterations :: "int \<Rightarrow> nat" where
  "mapped_iterations size_bytes = (if size_bytes \<le> 64 * 1024 then 100 else if size_bytes \<le> 1024 * 1024 then 30 else 10)"

definition note_case :: "mapping_case \<Rightarrow> ('w, mapping_rank, unit) meth" where
  "note_case c = update_self (\<lambda>s. s\<lparr>mo_record := (mo_record s)\<lparr>mr_results := mr_results (mo_record s) @ [c]\<rparr>\<rparr>)"

definition judge_cases :: "('w, mapping_rank, unit) meth" where
  "judge_cases = update_self (\<lambda>s. s\<lparr>mo_record := (mo_record s)\<lparr>mr_passed := list_all mc_correct (mr_results (mo_record s))\<rparr>\<rparr>)"

text \<open>The sum is computed on the host, from both slots.\<close>

definition host_sum :: "'w extern \<Rightarrow> int \<Rightarrow> int \<times> int \<Rightarrow> int \<Rightarrow> tensor \<Rightarrow> tensor \<Rightarrow> tensor \<Rightarrow> ('w, mapping_rank, unit) meth" where
  "host_sum env rank slots n source local_sum destination =
     io_then (on_world (memcpy env (if rank = 0 then fst slots else snd slots) (t_ptr source) n HIP_MEMCPY_DEVICE_TO_HOST))
    (io_then (using_barrier (barrier_wait env))
    (io_then (on_world (torch_do env ''add'' [PyInt (fst slots), PyInt (snd slots), PyInt (t_ptr local_sum)]))
    (io_then (on_world (memcpy env (t_ptr destination) (t_ptr local_sum) n HIP_MEMCPY_HOST_TO_DEVICE))
    (using_barrier (barrier_wait env)))))"

definition host_sum_case :: "'w extern \<Rightarrow> torch_api \<Rightarrow> int \<Rightarrow> int \<times> int \<Rightarrow> int \<Rightarrow> ('w, mapping_rank, unit) meth" where
  "host_sum_case env T rank slots n =
     (let count = nat (max 1 (n div 4)); iterations = mapping_iterations n in
      io_bind (on_world (full env T count (float_text (rank + 1)) Float32 (cuda rank))) (\<lambda>source.
      io_bind (on_world (empty_like env T source)) (\<lambda>destination.
      io_bind (on_world (empty env T [count] Float32 cpu)) (\<lambda>local_sum.
      io_then (io_repeat 3 (host_sum env rank slots n source local_sum destination))
     (io_then (on_world (torch_do env ''synchronize'' [PyInt rank]))
     (io_then (using_barrier (barrier_wait env))
     (io_then (io_repeat iterations (host_sum env rank slots n source local_sum destination))
     (io_then (on_world (torch_do env ''synchronize'' [PyInt rank]))
     (io_then (using_barrier (barrier_wait env))
     (io_bind (on_world (all_equal env destination (float_text 3))) (\<lambda>correct.
      note_case \<lparr>mc_bytes = n, mc_iterations = iterations, mc_correct = correct\<rparr>)))))))))))"

definition host_sum_body :: "'w extern \<Rightarrow> pyenv \<Rightarrow> torch_api \<Rightarrow> string \<Rightarrow> string \<Rightarrow> int \<Rightarrow> int list \<Rightarrow> int \<Rightarrow> ('w, mapping_rank, unit) meth" where
  "host_sum_body env pe T name event_prefix max_size sizes rank =
     io_then (on_world (torch_do env ''set_num_threads'' [PyInt 1]))
    (io_then (on_world (torch_do env ''set_device'' [PyInt rank]))
    (io_bind (on_world (hip_init env pe None [])) (\<lambda>_.
     io_bind (mapping_open env name 0) (\<lambda>base.
     io_then (mapping_barrier env event_prefix rank)
    (io_bind (mapping_slots env base max_size max_size) (\<lambda>slots.
     io_then (io_each (host_sum_case env T rank slots) sizes)
     judge_cases))))))"

definition host_sum_main :: "'w extern \<Rightarrow> pyenv \<Rightarrow> torch_api \<Rightarrow> string \<Rightarrow> string \<Rightarrow> int \<Rightarrow> int list \<Rightarrow> int \<Rightarrow> ('w world, mapping_record) io" where
  "host_sum_main env pe T name event_prefix max_size sizes rank = mapping_run env rank (host_sum_body env pe T name event_prefix max_size sizes rank)"

text \<open>The sum is computed by a kernel that reads the peer's slot.\<close>

definition kernel_sum :: "'w extern \<Rightarrow> torch_api \<Rightarrow> int \<Rightarrow> int \<times> int \<Rightarrow> int \<Rightarrow> int \<Rightarrow> tensor \<Rightarrow> tensor \<Rightarrow> ('w, mapping_rank, unit) meth" where
  "kernel_sum env T rank slots peer_slot_pointer n source destination =
     io_then (on_world (memcpy env (if rank = 0 then fst slots else snd slots) (t_ptr source) n HIP_MEMCPY_DEVICE_TO_HOST))
    (io_then (using_barrier (barrier_wait env))
    (io_then (on_world (add_float32 env T source peer_slot_pointer destination))
    (using_barrier (barrier_wait env))))"

definition kernel_sum_case :: "'w extern \<Rightarrow> torch_api \<Rightarrow> int \<Rightarrow> int \<times> int \<Rightarrow> int \<Rightarrow> int \<Rightarrow> int \<Rightarrow> ('w, mapping_rank, unit) meth" where
  "kernel_sum_case env T rank slots mapped max_size n =
     (let count = nat (max 1 (n div 4)); iterations = mapped_iterations n; peer_slot_pointer = mapped + (1 - rank) * max_size in
      io_bind (on_world (full env T count (float_text (rank + 1)) Float32 (cuda rank))) (\<lambda>source.
      io_bind (on_world (empty_like env T source)) (\<lambda>destination.
      io_then (io_repeat 3 (kernel_sum env T rank slots peer_slot_pointer n source destination))
     (io_then (using_barrier (barrier_wait env))
     (io_then (io_repeat iterations (kernel_sum env T rank slots peer_slot_pointer n source destination))
     (io_then (using_barrier (barrier_wait env))
     (io_bind (on_world (all_equal env destination (float_text 3))) (\<lambda>correct.
      note_case \<lparr>mc_bytes = n, mc_iterations = iterations, mc_correct = correct\<rparr>))))))))"

definition kernel_sum_body :: "'w extern \<Rightarrow> pyenv \<Rightarrow> torch_api \<Rightarrow> string \<Rightarrow> string \<Rightarrow> int \<Rightarrow> int list \<Rightarrow> int \<Rightarrow> ('w, mapping_rank, unit) meth" where
  "kernel_sum_body env pe T name event_prefix max_size sizes rank =
     io_then (on_world (torch_do env ''set_num_threads'' [PyInt 1]))
    (io_then (on_world (torch_do env ''set_device'' [PyInt rank]))
    (io_bind (on_world (hip_init env pe None [])) (\<lambda>_.
     io_bind (on_world (kernel_init env pe None)) (\<lambda>_.
     io_bind (mapping_open env name HIP_HOST_REGISTER_MAPPED) (\<lambda>base.
     io_bind (on_world (host_get_device_pointer env base)) (\<lambda>mapped.
     io_then (mapping_barrier env event_prefix rank)
    (io_bind (mapping_slots env base max_size max_size) (\<lambda>slots.
     io_then (io_each (kernel_sum_case env T rank slots mapped max_size) sizes)
     judge_cases))))))))"

definition kernel_sum_main :: "'w extern \<Rightarrow> pyenv \<Rightarrow> torch_api \<Rightarrow> string \<Rightarrow> string \<Rightarrow> int \<Rightarrow> int list \<Rightarrow> int \<Rightarrow> ('w world, mapping_record) io" where
  "kernel_sum_main env pe T name event_prefix max_size sizes rank = mapping_run env rank (kernel_sum_body env pe T name event_prefix max_size sizes rank)"

text \<open>\<open>main\<close> of either benchmark, from the parsed sizes on.\<close>

definition sizes_rejected :: "int list \<Rightarrow> bool" where
  "sizes_rejected sizes \<longleftrightarrow> sizes = [] \<or> list_ex (\<lambda>n. n \<le> 0 \<or> n mod 4 \<noteq> 0) sizes"

definition benchmark_launch ::
  "'w extern \<Rightarrow> (int \<Rightarrow> mapping_record) \<Rightarrow> int \<Rightarrow> int \<Rightarrow> int list \<Rightarrow> ('w world, mapping_record list \<times> int) io" where
  "benchmark_launch env unpickle timeout grace sizes =
     (if sizes_rejected sizes then io_raise SystemExit ''sizes must be positive multiples of four bytes''
      else
        with_mapping env (Max (set sizes) * 2)
          (io_bind (call_ext env (Os ''uuid4'' [])) (\<lambda>(_, outs). io_return (''WAVMG_'' @ (case out_str outs of None \<Rightarrow> [] | Some h \<Rightarrow> h))))
          (\<lambda>name event_prefix.
           launch env unpickle mr_rank (ranks_passed 2 mr_passed) timeout grace
             ([name, event_prefix, py_str (Max (set sizes))] @ map py_str sizes) 2))"

definition host_sum_launch :: "'w extern \<Rightarrow> (int \<Rightarrow> mapping_record) \<Rightarrow> int list \<Rightarrow> ('w world, mapping_record list \<times> int) io" where
  "host_sum_launch env unpickle = benchmark_launch env unpickle (120 + 30) 5"

definition kernel_sum_launch :: "'w extern \<Rightarrow> (int \<Rightarrow> mapping_record) \<Rightarrow> int list \<Rightarrow> ('w world, mapping_record list \<times> int) io" where
  "kernel_sum_launch env unpickle = benchmark_launch env unpickle (120 + 30) 5"

section \<open>What is given back\<close>

definition given_back :: "ecall \<Rightarrow> bool" where
  "given_back c \<longleftrightarrow> (\<exists>vs. c = Native ''hipHostUnregister'' vs) \<or> (\<exists>ss. c = Os ''SharedMemory.close'' ss)"

definition hip_unregister :: "int \<Rightarrow> ecall" where
  "hip_unregister p = Native ''hipHostUnregister'' [VPtr (word_of_int p)]"

lemma given_back_simps [simp]: "given_back (hip_unregister p)" "given_back (Os ''SharedMemory.close'' ss)" "\<not> given_back (Torch f as)"
  "\<not> given_back (Dist f as)" "given_back (Native fn vs) \<longleftrightarrow> fn = ''hipHostUnregister''"
  "given_back (Os f ss) \<longleftrightarrow> f = ''SharedMemory.close''"
  by (auto simp: given_back_def hip_unregister_def)

definition owed :: "mapping_rank \<Rightarrow> ecall list" where
  "owed l = (if mo_registered l then [hip_unregister (mo_base l)] else []) @
     (case mo_mapping l of None \<Rightarrow> [] | Some name \<Rightarrow> [Os ''SharedMemory.close'' [name]])"

text \<open>The calls that can keep the clean-up from ending answer.\<close>

definition closes :: "'w extern \<Rightarrow> bool" where
  "closes env \<longleftrightarrow> (\<forall>vs x. \<exists>a y. env (Native ''CloseHandle'' vs) x = (Inr a, y)) \<and>
     (\<forall>ss x. \<exists>a y. env (Os ''SharedMemory.close'' ss) x = (Inr a, y))"

lemma unregister_grew: "grew given_back w [hip_unregister p] (snd (host_unregister env p w))"
  unfolding host_unregister_def
  by (rule hip_do_grew) (simp_all add: call_native_def hip_sigs_def hip_argtypes_def hip_unregister_def)

lemma kept_loading [kept]:
  "keeps (grew given_back w []) (hip_init env pe rp dd)" "keeps (grew given_back w []) (kernel_init env pe lp)"
proof -
  have symbols: "keeps (grew given_back w []) (bind_symbols pe lib fs)" for lib fs
    by (induction fs) (auto intro!: kept)
  have checked: "keeps (grew given_back w []) (add_checked_directories env pe ds)" for ds
    by (induction ds) (auto intro!: kept)
  have added: "keeps (grew given_back w []) (add_dll_directories env ds)" for ds
    by (induction ds) (auto intro!: kept)
  show "keeps (grew given_back w []) (hip_init env pe rp dd)"
    by (auto simp: hip_init_def intro!: kept symbols checked)
  show "keeps (grew given_back w []) (kernel_init env pe lp)"
    by (auto simp: kernel_init_def load_library_def intro!: kept symbols added)
qed

lemma kept_mapping_calls [kept]:
  "keeps (grew given_back w []) (torch_do env f as)" "keeps (grew given_back w []) (full env T n v d dev)"
  "keeps (grew given_back w []) (empty_like env T t)" "keeps (grew given_back w []) (empty env T sh d dev)"
  "keeps (grew given_back w []) (all_equal env t v)" "keeps (grew given_back w []) (memcpy env a b k kind)"
  "keeps (grew given_back w []) (host_register env a k flags)" "keeps (grew given_back w []) (host_get_device_pointer env a)"
  "keeps (grew given_back w []) (add_float32 env T t p u)"
  "f \<noteq> ''SharedMemory.close'' \<Longrightarrow> keeps (grew given_back w []) (os_do env f ss)"
  "f \<noteq> ''SharedMemory.close'' \<Longrightarrow> keeps (grew given_back w []) (shm_object env f ss)"
  by (auto simp: torch_do_def full_def empty_like_def empty_def all_equal_def memcpy_def host_register_def host_get_device_pointer_def
      add_float32_def kernel_call_def kernel_check_def os_do_def shm_object_def intro!: kept kept_native split: option.split)

lemma kept_on_field [kept]: "keeps (\<lambda>u. I (fst u)) m \<Longrightarrow> keeps (\<lambda>u. I (fst u)) (on_field g p m)"
  by (rule keeps_postI, unfold wp) (auto elim!: keeps_post)

lemma kept_new [kept]:
  assumes "keeps (\<lambda>u. I (fst u)) m"
  shows "keeps I (\<lambda>w. case m (w, b) of (Inl e, (w', _)) \<Rightarrow> (Inl e, w') | (Inr _, (w', b)) \<Rightarrow> (Inr b, w'))"
proof (rule keeps_postI)
  fix w assume "I w"
  with assms have "io_post m (\<lambda>_ u. I (fst u)) (\<lambda>_ u. I (fst u)) (w, b)" by (simp add: keeps_def)
  then show "io_post (\<lambda>w. case m (w, b) of (Inl e, (w', _)) \<Rightarrow> (Inl e, w') | (Inr _, (w', b)) \<Rightarrow> (Inr b, w')) (\<lambda>_. I) (\<lambda>_. I) w"
    by (auto simp: io_post_def split: prod.splits sum.splits)
qed

lemma kept_barrier [kept]:
  "keeps (\<lambda>u. grew given_back w [] (fst u)) (barrier_wait env)"
  "keeps (\<lambda>u. grew given_back w [] (fst u)) (barrier_init env prefix rank t)"
proof -
  show "keeps (\<lambda>u. grew given_back w [] (fst u)) (barrier_wait env)"
    by (auto simp: barrier_wait_def win_error_def intro!: kept kept_native)
  have "keeps (\<lambda>u. grew given_back w [] (fst u)) (create_events env prefix rs)" for rs
    by (induction rs) (auto simp: win_error_def intro!: kept kept_native)
  then show "keeps (\<lambda>u. grew given_back w [] (fst u)) (barrier_init env prefix rank t)"
    unfolding barrier_init_def by (intro kept) simp
qed

lemma kept_loops [kept]:
  "(\<And>x. keeps I (f x)) \<Longrightarrow> keeps I (io_each f xs)" "keeps I m \<Longrightarrow> keeps I (io_repeat k m)"
proof -
  show "(\<And>x. keeps I (f x)) \<Longrightarrow> keeps I (io_each f xs)" by (induction xs) (auto intro!: kept)
  show "keeps I m \<Longrightarrow> keeps I (io_repeat k m)" by (induction k) (auto intro!: kept)
qed

lemma kept_mapping_steps [kept]:
  "keeps (\<lambda>u. grew given_back w [] (fst u)) (mapping_open env name flags)"
  "keeps (\<lambda>u. grew given_back w [] (fst u)) (mapping_slots env base count slot_bytes)"
  "keeps (\<lambda>u. grew given_back w [] (fst u)) (mapping_barrier env prefix rank)"
  "keeps (\<lambda>u. grew given_back w [] (fst u)) (using_barrier (barrier_wait env))"
  "keeps (\<lambda>u. grew given_back w [] (fst u)) (note_case c)" "keeps (\<lambda>u. grew given_back w [] (fst u)) judge_cases"
  "keeps (\<lambda>u. grew given_back w [] (fst u)) (mapping_failed e)"
  by (auto simp: mapping_open_def mapping_slots_def mapping_barrier_def using_barrier_def note_case_def judge_cases_def
      mapping_failed_def intro!: kept)

lemma kept_sums [kept]:
  "keeps (\<lambda>u. grew given_back w [] (fst u)) (host_sum env rank slots n a b c)"
  "keeps (\<lambda>u. grew given_back w [] (fst u)) (kernel_sum env T rank slots q n a c)"
  by (auto simp: host_sum_def kernel_sum_def intro!: kept)

lemma kept_cases [kept]:
  "keeps (\<lambda>u. grew given_back w [] (fst u)) (host_sum_case env T rank slots n)"
  "keeps (\<lambda>u. grew given_back w [] (fst u)) (kernel_sum_case env T rank slots mapped max_size n)"
  by (auto simp: host_sum_case_def kernel_sum_case_def Let_def intro!: kept)

lemma kept_bodies:
  "keeps (\<lambda>u. grew given_back w [] (fst u)) (registration_body env pe T name rank)"
  "keeps (\<lambda>u. grew given_back w [] (fst u)) (host_sum_body env pe T name prefix m sizes rank)"
  "keeps (\<lambda>u. grew given_back w [] (fst u)) (kernel_sum_body env pe T name prefix m sizes rank)"
  by (auto simp: registration_body_def host_sum_body_def kernel_sum_body_def Let_def intro!: kept)

lemma barrier_close_quiet:
  assumes "closes env" and "grew given_back w [] v"
  shows "\<exists>v' b'. barrier_close env (v, b) = (Inr (), (v', b')) \<and> grew given_back w [] v'"
proof -
  have close: "io_post (call_native env kernel32_sigs ''CloseHandle'' [PyInt h]) Q (\<lambda>_ _. False) v"
    if "\<And>a v'. grew given_back w [] v' \<Longrightarrow> Q a v'" "grew given_back w [] v" for h Q v
  proof -
    obtain a y where "env (Native ''CloseHandle'' [VPtr (word_of_int h)]) (wext v) = (Inr a, y)"
      using assms(1) by (auto simp: closes_def) metis
    moreover have "grew given_back w [] \<lparr>wext = y, wlog = wlog v @ [Native ''CloseHandle'' [VPtr (word_of_int h)]]\<rparr>"
      using grew_then [OF that(2) grew_call [of given_back v "Native ''CloseHandle'' [VPtr (word_of_int h)]" y]] by simp
    ultimately show ?thesis using that(1) by (simp add: kernel32_typed io_post_def call_ext_def)
  qed
  have "io_post (close_handles env n) (\<lambda>_ u. grew given_back w [] (fst u)) (\<lambda>_ _. False) (v, b)" if "grew given_back w [] v" for n v b
    using that by (induction n arbitrary: v b) (auto simp: wp intro!: close)
  from this [OF assms(2)] show ?thesis by (auto simp: barrier_close_def io_bind_def self_apply io_post_returns)
qed

lemma mapping_release_outcome:
  assumes "closes env"
  shows "\<exists>v m. mapping_release env (w, l) = (Inr (), (v, m)) \<and> grew given_back w (owed l) v"
proof -
  let ?unregister = "if mo_registered l then [hip_unregister (mo_base l)] else []"
  have "io_post (if mo_registered l then note_failure (on_world (host_unregister env (mo_base l)))
         (\<lambda>e s. s\<lparr>mo_record := (mo_record s)\<lparr>mr_unregister_error := Some e\<rparr>\<rparr>) else io_return ())
      (\<lambda>_ u. grew given_back w ?unregister (fst u)) (\<lambda>_ _. False) (w, l)"
    using unregister_grew [of w "mo_base l" env]
    by (cases "host_unregister env (mo_base l) w"; cases "fst (host_unregister env (mo_base l) w)")
      (auto simp: note_failure_def wp io_post_def io_catch_def on_world_apply update_self_def)
  moreover have "io_post (case mo_mapping l of None \<Rightarrow> io_return () | Some name \<Rightarrow> on_world (os_do env ''SharedMemory.close'' [name]))
      (\<lambda>_ u. grew given_back w (owed l) (fst u)) (\<lambda>_ _. False) u" if before: "grew given_back w ?unregister (fst u)" for u
  proof (cases "mo_mapping l")
    case (Some name)
    obtain a y where "env (Os ''SharedMemory.close'' [name]) (wext (fst u)) = (Inr a, y)"
      using assms by (auto simp: closes_def) metis
    then show ?thesis
      using grew_trans [OF before grew_call [of given_back "fst u" "Os ''SharedMemory.close'' [name]" y]] Some
      by (cases a) (simp add: owed_def os_do_def wp io_post_def call_ext_def io_bind_def io_return_def)
  qed (use before in \<open>simp add: wp owed_def\<close>)
  ultimately have "io_post (mapping_release env) (\<lambda>_ u. grew given_back w (owed l) (fst u)) (\<lambda>_ _. False) (w, l)"
    unfolding mapping_release_def io_post_bind io_post_self io_post_then snd_conv by (rule io_post_mono) simp_all
  then show ?thesis by (auto simp: io_post_returns)
qed

text \<open>What a rank is to do with its mapping, when \<open>body\<close> is what it does between start and clean-up: it reports, and of the calls
that give something back it makes exactly those it owes, in their order.\<close>

definition hands_back :: "'w extern \<Rightarrow> int \<Rightarrow> ('w, mapping_rank, unit) meth \<Rightarrow> ('w world, mapping_record) io \<Rightarrow> 'w world \<Rightarrow> bool" where
  "hands_back env rank body main w \<longleftrightarrow>
     (\<exists>w1 l r w2. io_catch body mapping_failed (w, start_mapping rank) = (Inr (), (w1, l)) \<and> main w = (Inr r, w2) \<and>
        grew given_back w (owed l) w2)"

lemma mapping_run_hands_back:
  assumes "closes env" and "\<And>w. keeps (\<lambda>u. grew given_back w [] (fst u)) body"
  shows "hands_back env rank body (mapping_run env rank body) w"
proof -
  have kept_work: "keeps (\<lambda>u. grew given_back w [] (fst u)) (io_catch body mapping_failed)" for w
    by (intro keeps_catch assms(2) kept_mapping_steps)
  obtain w1 l where ran: "io_catch body mapping_failed (w, start_mapping rank) = (Inr (), (w1, l))"
    by (cases "body (w, start_mapping rank)"; cases "fst (body (w, start_mapping rank))")
      (auto simp: io_catch_def mapping_failed_def update_self_def split: prod.splits)
  have none: "grew given_back w [] w1"
    using keeps_after [OF kept_work, of w "(w, start_mapping rank)"] ran by simp
  have "\<exists>w2 m. mapping_close env (w1, l) = (Inr (), (w2, m)) \<and> grew given_back w (owed l) w2"
  proof (cases "mo_barrier l")
    case None
    then show ?thesis
      using mapping_release_outcome [OF assms(1), of w1 l] grew_then [OF none]
      by (auto simp: mapping_close_def io_then_bind io_bind_def self_apply io_return_def)
  next
    case (Some b)
    obtain v b' where closed: "barrier_close env (w1, b) = (Inr (), (v, b'))" "grew given_back w [] v"
      using barrier_close_quiet [OF assms(1) none] by blast
    have "owed (l\<lparr>mo_barrier := Some b'\<rparr>) = owed l" by (simp add: owed_def)
    moreover obtain w2 m where "mapping_release env (v, l\<lparr>mo_barrier := Some b'\<rparr>) = (Inr (), (w2, m))"
      "grew given_back v (owed (l\<lparr>mo_barrier := Some b'\<rparr>)) w2"
      using mapping_release_outcome [OF assms(1)] by blast
    ultimately show ?thesis
      using Some closed grew_then [OF closed(2)]
      by (auto simp: mapping_close_def using_barrier_def io_then_bind io_bind_def self_apply on_field_apply)
  qed
  then obtain w2 m where "mapping_close env (w1, l) = (Inr (), (w2, m))" "grew given_back w (owed l) w2" by (elim exE conjE)
  with ran show ?thesis unfolding hands_back_def by (simp add: mapping_run_def report_of_def io_finally_def)
qed


text \<open>A rank that registers the mapping and then gets no device pointer for it.\<close>

definition unmapped_env :: "nat extern" where
  "unmapped_env = (\<lambda>c n. (Inr (0, case c of Os f ss \<Rightarrow> [VStr ''map'', VPtr 65536] | _ \<Rightarrow> []), Suc n))"


end
