(* ===== verification/Prepare_Drafter.thy ===== *)
theory Prepare_Drafter
  imports Drafter_Round_Trip "HOL-Library.List_Lexorder"
begin

text \<open>
  \<open>main\<close> of \<open>scripts/prepare-qwen38-27b-awq-mtp.py\<close>, from the two resolved directories on. The download is a parameter
  (\<open>hub\<close>, given the directory it writes to), and so are the fresh name \<open>tempfile\<close> picks, the digest of \<open>hashlib\<close>, the text
  of a path and the printing of floating-point numbers.
\<close>

record prepare_env =
  float_repr :: "codes \<Rightarrow> codes"
  digest :: "nat list \<Rightarrow> codes"
  path_text :: "path \<Rightarrow> codes"
  fresh_name :: string
  hub_download :: "path \<Rightarrow> (disk, path) io"

definition SOURCE_REPO :: codes where "SOURCE_REPO = cps ''Qwen/Qwen3.8-27B''"
definition SOURCE_REVISION :: codes where "SOURCE_REVISION = cps ''1d4bf0f2ff6012fd82039f2fa52739d0dd7c60c0''"
definition SOURCE_SHARD :: codes where "SOURCE_SHARD = cps ''model-00018-of-00018.safetensors''"
definition SOURCE_SHARD_BYTES :: nat where "SOURCE_SHARD_BYTES = 3392197344"
definition SOURCE_SHARD_SHA256 :: codes where
  "SOURCE_SHARD_SHA256 = cps ''1d3479509e21494658f9b64d317f5ea8e55c4025d28c702d6c4d0b356ce8ea06''"
definition AWQ_WEIGHT :: string where "AWQ_WEIGHT = ''model.safetensors''"
definition DRAFT_WEIGHT :: string where "DRAFT_WEIGHT = ''model.safetensors''"
definition SHARED_KEYS :: "codes list" where
  "SHARED_KEYS = [cps ''model.embed_tokens.weight'', cps ''lm_head.weight'']"

section \<open>The steps\<close>

text \<open>The two guards before anything is written.\<close>

definition check_directories :: "path \<Rightarrow> path \<Rightarrow> (disk, unit) io" where
  "check_directories source output = io_bind io_get (\<lambda>d.
     if \<not> disk_is_file (path_join source [AWQ_WEIGHT]) d \<or> \<not> disk_is_file (path_join source [''config.json'']) d
     then io_raise FileNotFoundError ''Incomplete AWQ checkpoint''
     else if disk_exists output d then
       io_bind (iterdir output) (\<lambda>items. io_when (items \<noteq> []) (io_raise FileExistsError ''Output directory is not empty''))
     else io_return ())"

fun copy_items :: "path \<Rightarrow> path list \<Rightarrow> (disk, unit) io" where
  "copy_items output [] = io_return ()"
| "copy_items output (item # items) = io_bind io_get (\<lambda>d.
     io_then (io_when (disk_is_file item d \<and> last item \<notin> {AWQ_WEIGHT, ''config.json''})
         (copy_file item (path_join output [last item])))
       (copy_items output items))"

text \<open>\<open>config.pop(key, None)\<close> and \<open>config[key] = value\<close>.\<close>

definition json_pop :: "codes \<Rightarrow> json \<Rightarrow> exn + json" where
  "json_pop k j = (case j of JObj kvs \<Rightarrow> Inr (JObj (filter (\<lambda>kv. fst kv \<noteq> k) kvs))
     | JList _ \<Rightarrow> Inl (Exn TypeError ''pop'') | _ \<Rightarrow> Inl (Exn AttributeError ''pop''))"

definition json_set :: "codes \<Rightarrow> json \<Rightarrow> json \<Rightarrow> exn + json" where
  "json_set k v j = (case j of JObj kvs \<Rightarrow> Inr (JObj (dict_set k v kvs)) | _ \<Rightarrow> Inl (Exn TypeError ''item assignment''))"

definition draft_config :: "json \<Rightarrow> exn + json" where
  "draft_config config = (case json_pop (cps ''quantization_config'') config of
     Inl e \<Rightarrow> Inl e
   | Inr c \<Rightarrow> json_set (cps ''architectures'') (JList [JStr (cps ''Qwen3_5MTP'')]) c)"

definition write_config :: "prepare_env \<Rightarrow> path \<Rightarrow> path \<Rightarrow> (disk, unit) io" where
  "write_config pe source output =
     io_bind (read_text (path_join source [''config.json''])) (\<lambda>s.
     io_bind (io_of_sum (loads (float_repr pe) s)) (\<lambda>config.
     io_bind (io_of_sum (draft_config config)) (\<lambda>draft.
     write_text (path_join output [''config.json'']) (dumps_indented 0 draft @ [10]))))"

text \<open>\<open>with tempfile.TemporaryDirectory\<close>: the directory goes away with all it holds, however the block ends.\<close>

definition prefix_of :: "'a list \<Rightarrow> 'a list \<Rightarrow> bool" where
  "prefix_of p q \<longleftrightarrow> take (length p) q = p"

definition remove_tree :: "path \<Rightarrow> disk \<Rightarrow> disk" where
  "remove_tree t d = d\<lparr>files := filter (\<lambda>f. \<not> prefix_of t (fst f)) (files d), dirs := filter (\<lambda>q. \<not> prefix_of t q) (dirs d)\<rparr>"

definition temporary_directory :: "path \<Rightarrow> (disk, 'a) io \<Rightarrow> (disk, 'a) io" where
  "temporary_directory t block =
     io_then (io_modify (dirs_update (\<lambda>ds. ds @ [t]))) (io_finally block (io_modify (remove_tree t)))"

text \<open>The shard is used only with the pinned size and the pinned digest.\<close>

definition verify_shard :: "prepare_env \<Rightarrow> path \<Rightarrow> (disk, unit) io" where
  "verify_shard pe downloaded =
     io_bind (stat_size downloaded) (\<lambda>n.
     if n \<noteq> SOURCE_SHARD_BYTES then io_raise ValueError ''Unexpected source shard size''
     else io_bind (sha256 (digest pe) downloaded) (\<lambda>actual_sha256.
       io_when (actual_sha256 \<noteq> SOURCE_SHARD_SHA256) (io_raise ValueError ''Unexpected source shard SHA-256'')))"

fun select_mtp :: "json list \<Rightarrow> exn + codes list" where
  "select_mtp [] = Inr []"
| "select_mtp (j # js) =
     (case j of
        JStr key \<Rightarrow> (case select_mtp js of Inl e \<Rightarrow> Inl e
          | Inr keys \<Rightarrow> Inr (if prefix_of (cps ''mtp.'') key then key # keys else keys))
      | _ \<Rightarrow> Inl (Exn AttributeError ''startswith''))"

definition mtp_keys_of :: "json \<Rightarrow> exn + codes list" where
  "mtp_keys_of header = (case json_iter header of Inl e \<Rightarrow> Inl e
     | Inr js \<Rightarrow> (case select_mtp js of Inl e \<Rightarrow> Inl e | Inr keys \<Rightarrow> Inr (sort keys)))"

definition build_from_shard :: "prepare_env \<Rightarrow> path \<Rightarrow> path \<Rightarrow> path \<Rightarrow> (disk, codes list \<times> (codes \<times> int) list) io" where
  "build_from_shard pe source output tmp =
     io_bind (hub_download pe tmp) (\<lambda>downloaded.
     io_then (verify_shard pe downloaded)
     (io_bind (read_safetensors_header (float_repr pe) downloaded) (\<lambda>(source_header, _).
     io_bind (io_of_sum (mtp_keys_of source_header)) (\<lambda>mtp_keys.
     if mtp_keys = [] then io_raise ValueError ''The pinned source shard contains no MTP tensors.''
     else io_bind (build_draft_safetensors (float_repr pe) (path_join output [DRAFT_WEIGHT])
            [(path_join source [AWQ_WEIGHT], SHARED_KEYS), (downloaded, mtp_keys)]) (\<lambda>sizes.
       io_return (mtp_keys, sizes))))))"

fun sum_sizes :: "(codes \<times> int) list \<Rightarrow> codes list \<Rightarrow> exn + int" where
  "sum_sizes sizes [] = Inr 0"
| "sum_sizes sizes (key # keys) = (case map_of sizes key of
     None \<Rightarrow> Inl (Exn KeyError ''key'')
   | Some n \<Rightarrow> (case sum_sizes sizes keys of Inl e \<Rightarrow> Inl e | Inr m \<Rightarrow> Inr (n + m)))"

definition manifest_of :: "codes \<Rightarrow> nat \<Rightarrow> int \<Rightarrow> int \<Rightarrow> nat \<Rightarrow> json" where
  "manifest_of directory mtp_count mtp_bytes shared_bytes weight_bytes = JObj
     [(cps ''target_awq_directory'', JStr directory),
      (cps ''mtp_source_repo'', JStr SOURCE_REPO),
      (cps ''mtp_source_revision'', JStr SOURCE_REVISION),
      (cps ''mtp_source_shard'', JStr SOURCE_SHARD),
      (cps ''mtp_source_shard_bytes'', JInt (int SOURCE_SHARD_BYTES)),
      (cps ''mtp_source_shard_sha256'', JStr SOURCE_SHARD_SHA256),
      (cps ''mtp_tensor_count'', JInt (int mtp_count)),
      (cps ''mtp_tensor_bytes'', JInt mtp_bytes),
      (cps ''shared_tensor_names'', JList (map JStr SHARED_KEYS)),
      (cps ''shared_tensor_bytes'', JInt shared_bytes),
      (cps ''draft_weight_file'', JStr (cps DRAFT_WEIGHT)),
      (cps ''draft_weight_bytes'', JInt (int weight_bytes)),
      (cps ''draft_quantization'', JStr (cps ''BF16/unquantized'')),
      (cps ''target_quantization'', JStr (cps ''compressed-tensors W4A16 INT4 group-128'')),
      (cps ''license'', JStr (cps ''Apache-2.0; retain Qwen and AWQ checkpoint attribution''))]"

definition notice_of :: "codes \<Rightarrow> codes" where
  "notice_of directory = concat (map (\<lambda>l. l @ [10])
     [cps ''# Qwen3.8-27B native MTP drafter for vLLM'', [],
      cps ''This local-only checkpoint contains the BF16 embedding and LM head from'',
      [96] @ directory @ [96] @ cps '' plus the official native MTP tensors extracted from '' @ [96] @ SOURCE_REPO @ [96],
      cps ''at revision '' @ [96] @ SOURCE_REVISION @ [96] @ cps ''. Use it as the MTP speculative model alongside'',
      cps ''the separate compressed-tensors W4A16 target; it is not a standalone target'',
      cps ''language model.'', [],
      cps ''Both sources declare Apache-2.0. Retain the original Qwen and quantizer'',
      cps ''attribution. This generated directory and all model weights stay outside Git.''])"

definition write_manifest :: "prepare_env \<Rightarrow> path \<Rightarrow> path \<Rightarrow> codes list \<Rightarrow> (codes \<times> int) list \<Rightarrow> (disk, unit) io" where
  "write_manifest pe source output mtp_keys sizes =
     io_bind (io_of_sum (sum_sizes sizes mtp_keys)) (\<lambda>mtp_bytes.
     io_bind (io_of_sum (sum_sizes sizes SHARED_KEYS)) (\<lambda>shared_bytes.
     io_bind (stat_size (path_join output [DRAFT_WEIGHT])) (\<lambda>weight_bytes.
     let manifest = dumps_indented 0
           (manifest_of (path_text pe source) (length mtp_keys) mtp_bytes shared_bytes weight_bytes)
     in io_then (write_text (path_join output [''mtp-draft.json'']) (manifest @ [10]))
        (io_then (write_text (path_join output [''MTP-DRAFT.md'']) (notice_of (path_text pe source)))
        (print_line manifest)))))"

definition prepare_main :: "prepare_env \<Rightarrow> path \<Rightarrow> path \<Rightarrow> (disk, int) io" where
  "prepare_main pe source output =
     io_then (check_directories source output)
     (io_then (make_dirs output)
     (io_then (io_bind (iterdir source) (copy_items output))
     (io_then (write_config pe source output)
     (io_bind (temporary_directory (path_join (path_parent output) [fresh_name pe])
         (build_from_shard pe source output (path_join (path_parent output) [fresh_name pe])))
       (\<lambda>(mtp_keys, sizes).
     io_then (write_manifest pe source output mtp_keys sizes)
     (io_return 0))))))"

section \<open>What the script may change\<close>

text \<open>\<open>confined P m\<close>: whatever the outcome of \<open>m\<close>, the files whose path does not satisfy \<open>P\<close> are as they were.\<close>

named_theorems confine

definition confined :: "(path \<Rightarrow> bool) \<Rightarrow> (disk, 'a) io \<Rightarrow> bool" where
  "confined P m \<longleftrightarrow> (\<forall>d q. \<not> P q \<longrightarrow> file_at q (snd (m d)) = file_at q d)"

lemma confined_file: "confined P m \<Longrightarrow> \<not> P q \<Longrightarrow> m d = (r, d') \<Longrightarrow> file_at q d' = file_at q d"
  unfolding confined_def by (metis snd_conv)

lemma confined_return [confine]: "confined P (io_return x)"
  by (simp add: confined_def io_simps)

lemma confined_raise [confine]: "confined P (io_raise k t)"
  by (simp add: confined_def io_simps)

lemma confined_lift [confine]: "confined P (io_of_sum r)"
  by (simp add: confined_def io_simps)

lemma confined_get [confine]: "confined P io_get"
  by (simp add: confined_def io_simps)

lemma confined_bind [confine]: "confined P m \<Longrightarrow> (\<And>x. confined P (f x)) \<Longrightarrow> confined P (io_bind m f)"
  unfolding confined_def io_bind_def by (auto split: prod.splits sum.splits) (metis snd_conv)+

lemma confined_then [confine]: "confined P m \<Longrightarrow> confined P n \<Longrightarrow> confined P (io_then m n)"
  unfolding io_then_def by (intro confine)

lemma confined_when [confine]: "(b \<Longrightarrow> confined P m) \<Longrightarrow> confined P (io_when b m)"
  by (cases b) (simp_all add: io_simps confine)

lemma confined_if [confine]: "confined P m \<Longrightarrow> confined P n \<Longrightarrow> confined P (if b then m else n)"
  by simp

lemma confined_option [confine]: "confined P m \<Longrightarrow> (\<And>y. confined P (f y)) \<Longrightarrow> confined P (case x of None \<Rightarrow> m | Some y \<Rightarrow> f y)"
  by (cases x) simp_all

lemma confined_prod [confine]: "(\<And>a b. confined P (f a b)) \<Longrightarrow> confined P (case x of (a, b) \<Rightarrow> f a b)"
  by (cases x) simp

lemma confined_finally [confine]: "confined P m \<Longrightarrow> confined P n \<Longrightarrow> confined P (io_finally m n)"
  unfolding confined_def io_finally_def by (auto split: prod.splits sum.splits) (metis snd_conv)+

lemma confined_modify: "(\<And>d q. \<not> P q \<Longrightarrow> file_at q (f d) = file_at q d) \<Longrightarrow> confined P (io_modify f)"
  by (simp add: confined_def io_simps)

lemma confined_create [confine]: "P p \<Longrightarrow> confined P (create_file p)"
  unfolding create_file_def by (intro confine confined_modify) auto

lemma confined_append [confine]: "P p \<Longrightarrow> confined P (append_file p b)"
  unfolding append_file_def by (intro confine confined_modify) auto

lemma file_at_dirs [simp]: "file_at q (dirs_update f d) = file_at q d" "file_at q (console_update g d) = file_at q d"
  by (simp_all add: file_at_def)

lemma confined_reads [confine]:
  "confined P (read_bytes p)" "confined P (stat_size p)" "confined P (iterdir p)" "confined P (make_dirs p)"
  "confined P (read_text p)" "confined P (print_line s)" "confined P (sha256 h p)" "confined P (read_safetensors_header fr p)"
  unfolding read_bytes_def stat_size_def iterdir_def make_dirs_def read_text_def print_line_def sha256_def
    read_safetensors_header_def Let_def
  by (intro confine confined_modify; simp)+

lemma confined_write [confine]: "P p \<Longrightarrow> confined P (write_text p s)" "P q \<Longrightarrow> confined P (copy_file p q)"
  unfolding write_text_def copy_file_def by (intro confine; assumption)+

lemma confined_copy_exact [confine]: "P p \<Longrightarrow> confined P (copy_exact source p n)"
proof (induction source p n rule: copy_exact.induct)
  case (1 source p n)
  then show ?case by (subst copy_exact.simps) (auto simp: Let_def intro!: confine)
qed

lemma confined_copy_entries [confine]: "P p \<Longrightarrow> confined P (copy_entries p es)"
  by (induction es) (auto simp: copy_entry_def intro!: confine)

lemma confined_plan_keys [confine]: "confined P (plan_keys p h start keys plan)"
  by (induction keys arbitrary: plan) (auto simp: plan_key_def Let_def intro!: confine)

lemma confined_plan_sources [confine]: "confined P (plan_sources fr sources plan)"
  by (induction fr sources plan rule: plan_sources.induct) (auto intro!: confine)

lemma confined_build [confine]: "P output \<Longrightarrow> confined P (build_draft_safetensors fr output sources)"
  unfolding build_draft_safetensors_def by (intro confine)

lemma confined_copy_items: "(\<And>name. P (output @ [name])) \<Longrightarrow> confined P (copy_items output items)"
  by (induction items) (auto simp: path_join_def intro!: confine)

lemma map_of_filter_fst: "R q \<Longrightarrow> map_of (filter (\<lambda>f. R (fst f)) fs) q = map_of fs q"
  by (induction fs) auto

lemma file_at_remove [simp]: "\<not> prefix_of t q \<Longrightarrow> file_at q (remove_tree t d) = file_at q d"
  unfolding file_at_def remove_tree_def by (simp add: map_of_filter_fst [of "\<lambda>p. \<not> prefix_of t p"])

lemma confined_temporary: "confined P block \<Longrightarrow> (\<And>q. prefix_of t q \<Longrightarrow> P q) \<Longrightarrow> confined P (temporary_directory t block)"
  unfolding temporary_directory_def by (intro confine confined_modify) (simp_all, metis file_at_remove)

lemma confined_mono: "confined Q m \<Longrightarrow> (\<And>q. Q q \<Longrightarrow> P q) \<Longrightarrow> confined P m"
  unfolding confined_def by blast

lemma prefix_of_append [simp]: "prefix_of p (p @ q)"
  by (simp add: prefix_of_def)

definition temporary_path :: "prepare_env \<Rightarrow> path \<Rightarrow> path" where
  "temporary_path pe output = path_join (path_parent output) [fresh_name pe]"

definition drafter_area :: "prepare_env \<Rightarrow> path \<Rightarrow> path \<Rightarrow> bool" where
  "drafter_area pe output q \<longleftrightarrow> prefix_of output q \<or> prefix_of (temporary_path pe output) q"

lemma drafter_area_output [simp]: "drafter_area pe output (path_join output names)"
  by (simp add: drafter_area_def path_join_def)

lemma drafter_area_temporary [simp]: "prefix_of (temporary_path pe output) q \<Longrightarrow> drafter_area pe output q"
  by (simp add: drafter_area_def)

lemma confined_build_from_shard:
  assumes "confined (prefix_of (temporary_path pe output)) (hub_download pe (temporary_path pe output))"
  shows "confined (drafter_area pe output) (build_from_shard pe source output (temporary_path pe output))"
  unfolding build_from_shard_def verify_shard_def
  by (intro confine confined_mono [OF assms]) simp_all

text \<open>C30: whatever happens, the script changes no file outside the output directory and its own temporary directory; in
  particular the AWQ checkpoint is left as it was. The download is only relied on to write below the directory it is given.
\<close>

theorem prepare_confined:
  assumes "\<And>d q. \<not> prefix_of (temporary_path pe output) q \<Longrightarrow>
    file_at q (snd (hub_download pe (temporary_path pe output) d)) = file_at q d"
    and "\<not> prefix_of output q" and "\<not> prefix_of (temporary_path pe output) q"
  shows "file_at q (snd (prepare_main pe source output d)) = file_at q d"
proof -
  have "confined (prefix_of (temporary_path pe output)) (hub_download pe (temporary_path pe output))"
    using assms(1) by (simp add: confined_def)
  note block = confined_build_from_shard [OF this]
  have "confined (drafter_area pe output) (copy_items output items)" for items
    by (rule confined_copy_items) (simp add: drafter_area_def)
  moreover have "confined (drafter_area pe output) (temporary_directory (temporary_path pe output)
      (build_from_shard pe source output (temporary_path pe output)))"
    by (rule confined_temporary [OF block]) (simp add: drafter_area_def)
  ultimately have "confined (drafter_area pe output) (prepare_main pe source output)"
    unfolding prepare_main_def check_directories_def write_config_def write_manifest_def Let_def
      temporary_path_def [symmetric]
    by (intro confine) simp_all
  then show ?thesis using assms(2,3) by (auto simp: confined_def drafter_area_def)
qed


definition quiet_hub :: prepare_env where
  "quiet_hub = \<lparr>float_repr = id, digest = (\<lambda>b. []), path_text = (\<lambda>p. []), fresh_name = ''t'',
     hub_download = (\<lambda>tmp. io_then (append_file (tmp @ [''s'']) [1]) (io_return (tmp @ [''s''])))\<rparr>"

lemma prepare_confined_witness:
  "file_at [''src'', ''config.json''] (snd (prepare_main quiet_hub [''src''] [''out'']
     \<lparr>files = [([''src'', ''model.safetensors''], [0]), ([''src'', ''config.json''], [123, 125])], dirs = [[''src''], [''out'']], console = []\<rparr>)) =
   Some [123, 125]"
proof -
  let ?d = "\<lparr>files = [([''src'', ''model.safetensors''], [0]), ([''src'', ''config.json''], [123, 125])], dirs = [[''src''], [''out'']], console = []\<rparr>"
  have t: "temporary_path quiet_hub [''out''] = [''out'', ''t'']"
    by (simp add: temporary_path_def path_parent_def path_join_def quiet_hub_def)
  have hub: "file_at q (snd (hub_download quiet_hub (temporary_path quiet_hub [''out'']) d)) = file_at q d"
    if "\<not> prefix_of (temporary_path quiet_hub [''out'']) q" for d q
    using that by (auto simp: t quiet_hub_def io_simps io_then_bind append_file_apply io_bind_def prefix_of_def)
  show ?thesis
    by (subst prepare_confined [OF hub]) (simp_all add: t prefix_of_def file_at_def)
qed

text \<open>The script refuses an incomplete checkpoint and an output directory that already holds something, and leaves the
disk exactly as it found it in both cases.\<close>

lemma prepare_refuses:
  "(if file_at (path_join source [AWQ_WEIGHT]) d = None \<or> file_at (path_join source [''config.json'']) d = None
    then prepare_main pe source output d = (Inl (Exn FileNotFoundError ''Incomplete AWQ checkpoint''), d)
    else if file_at output d \<noteq> None
    then prepare_main pe source output d = (Inl (Exn OSError ''not a directory''), d)
    else if output \<in> set (dirs d) \<and> list_ex (\<lambda>q. q \<noteq> [] \<and> butlast q = output) (map fst (files d) @ dirs d)
    then prepare_main pe source output d = (Inl (Exn FileExistsError ''Output directory is not empty''), d)
    else fst (check_directories source output d) = Inr ())"
proof -
  have "filter (\<lambda>q. q \<noteq> [] \<and> butlast q = output) qs = [] \<longleftrightarrow> \<not> list_ex (\<lambda>q. q \<noteq> [] \<and> butlast q = output) qs" for qs
    by (auto simp: filter_empty_conv list_ex_iff)
  then show ?thesis
    by (auto simp: prepare_main_def check_directories_def iterdir_def disk_is_file_def disk_exists_def io_simps io_then_bind
      io_bind_def io_when_def simp del: filter_append)
qed

lemma verify_shard_success: "verify_shard pe p d = (Inr (), d') \<Longrightarrow>
  d' = d \<and> (\<exists>shard. file_at p d = Some shard \<and> length shard = SOURCE_SHARD_BYTES \<and> digest pe shard = SOURCE_SHARD_SHA256)"
  by (auto simp: verify_shard_def stat_size_def sha256_whole io_success io_when_def split: if_splits option.splits)

lemma build_from_shard_success:
  assumes "build_from_shard pe source output tmp d = (Inr (keys, sizes), d')"
  shows "\<exists>d1 downloaded shard header start. file_at downloaded d1 = Some shard \<and> length shard = SOURCE_SHARD_BYTES \<and>
    digest pe shard = SOURCE_SHARD_SHA256 \<and> parse_header (float_repr pe) shard = Inr (header, start) \<and>
    mtp_keys_of header = Inr keys \<and> keys \<noteq> [] \<and>
    build_draft_safetensors (float_repr pe) (path_join output [DRAFT_WEIGHT])
      [(path_join source [AWQ_WEIGHT], SHARED_KEYS), (downloaded, keys)] d1 = (Inr sizes, d')"
proof -
  from assms obtain downloaded d1 d2 header start where "verify_shard pe downloaded d1 = (Inr (), d2)"
    and header: "read_safetensors_header (float_repr pe) downloaded d2 = (Inr (header, start), d2)"
    and rest: "mtp_keys_of header = Inr keys" "keys \<noteq> []"
      "build_draft_safetensors (float_repr pe) (path_join output [DRAFT_WEIGHT])
        [(path_join source [AWQ_WEIGHT], SHARED_KEYS), (downloaded, keys)] d2 = (Inr sizes, d')"
    unfolding build_from_shard_def
    by (auto simp: io_success io_of_sum_success_iff read_header_success split: if_splits)
  from verify_shard_success [OF this(1)] obtain shard where "d2 = d1" "file_at downloaded d1 = Some shard"
    "length shard = SOURCE_SHARD_BYTES" "digest pe shard = SOURCE_SHARD_SHA256" by blast
  moreover from this header have "parse_header (float_repr pe) shard = Inr (header, start)" by (simp add: read_header_success)
  ultimately show ?thesis using rest by blast
qed

text \<open>C31: a run that returns has built the drafter from a shard of the pinned size and the pinned digest, with every MTP
tensor its header names and at least one, and the weight file it leaves is the one that build wrote.\<close>

theorem prepare_verified:
  "case prepare_main pe source output d of (Inl e, d') \<Rightarrow> True
   | (Inr code, d') \<Rightarrow> code = 0 \<and> (\<exists>d1 d2 downloaded shard header start keys sizes.
       file_at downloaded d1 = Some shard \<and> length shard = SOURCE_SHARD_BYTES \<and> digest pe shard = SOURCE_SHARD_SHA256 \<and>
       parse_header (float_repr pe) shard = Inr (header, start) \<and> mtp_keys_of header = Inr keys \<and> keys \<noteq> [] \<and>
       build_draft_safetensors (float_repr pe) (path_join output [DRAFT_WEIGHT])
         [(path_join source [AWQ_WEIGHT], SHARED_KEYS), (downloaded, keys)] d1 = (Inr sizes, d2) \<and>
       (prefix_of (temporary_path pe output) (path_join output [DRAFT_WEIGHT]) \<or>
         file_at (path_join output [DRAFT_WEIGHT]) d' = file_at (path_join output [DRAFT_WEIGHT]) d2))"
proof (cases "fst (prepare_main pe source output d)")
  case (Inl e)
  then show ?thesis by (cases "prepare_main pe source output d") simp
next
  case (Inr code)
  then obtain d' where "prepare_main pe source output d = (Inr code, d')" by (cases "prepare_main pe source output d") auto
  then obtain d0 d3 keys sizes where code: "code = 0"
    and block: "temporary_directory (temporary_path pe output) (build_from_shard pe source output (temporary_path pe output)) d0 = (Inr (keys, sizes), d3)"
    and manifest: "write_manifest pe source output keys sizes d3 = (Inr (), d')"
    unfolding prepare_main_def temporary_path_def by (auto simp: io_success split: prod.splits)
  from block obtain d0' d2 where built: "build_from_shard pe source output (temporary_path pe output) d0' = (Inr (keys, sizes), d2)"
    and d3: "d3 = remove_tree (temporary_path pe output) d2"
    unfolding temporary_directory_def
    by (auto simp: io_success io_finally_def io_modify_apply split: prod.splits sum.splits)
  have "confined (\<lambda>q. q = path_join output [''mtp-draft.json''] \<or> q = path_join output [''MTP-DRAFT.md'']) (write_manifest pe source output keys sizes)"
    unfolding write_manifest_def Let_def by (intro confine) simp_all
  from confined_file [OF this _ manifest, of "path_join output [DRAFT_WEIGHT]"]
  have "file_at (path_join output [DRAFT_WEIGHT]) d' = file_at (path_join output [DRAFT_WEIGHT]) d3"
    by (simp add: path_join_def DRAFT_WEIGHT_def)
  then have "prefix_of (temporary_path pe output) (path_join output [DRAFT_WEIGHT]) \<or>
      file_at (path_join output [DRAFT_WEIGHT]) d' = file_at (path_join output [DRAFT_WEIGHT]) d2"
    by (cases "prefix_of (temporary_path pe output) (path_join output [DRAFT_WEIGHT])") (simp_all add: d3)
  with build_from_shard_success [OF built] show ?thesis
    unfolding \<open>prepare_main pe source output d = (Inr code, d')\<close> prod.case sum.case code by blast
qed

end
