(* ===== verification/Model_Downloads.thy ===== *)
theory Model_Downloads
  imports Prepare_Drafter
begin

text \<open>
  The three download scripts: \<open>download-large-test-model.py\<close>, \<open>download-qwen38-27b-awq.py\<close> and
  \<open>download-qwen38-27b-dflash2.py\<close>, with the validation of a snapshot and \<open>main\<close>. The Hugging Face client and the
  operating system's part of \<open>pathlib\<close> and \<open>shutil\<close> are parameters.
\<close>

datatype model_card = NoCard | DictCard "(codes \<times> json) list" | ObjectCard "json option"

record hub_info =
  info_sha :: codes
  card_data :: model_card
  siblings :: "(codes \<times> nat option) list"

record hub_env =
  number_repr :: "codes \<Rightarrow> codes"
  text_of_path :: "path \<Rightarrow> codes"
  model_info :: "codes \<Rightarrow> codes \<Rightarrow> exn + hub_info"
  snapshot_download :: "codes \<Rightarrow> codes \<Rightarrow> path \<Rightarrow> bool \<Rightarrow> (disk, path) io"
  free_space :: "path \<Rightarrow> disk \<Rightarrow> nat"

section \<open>Reading a configuration\<close>

text \<open>\<open>actual == expected\<close>, where the expected value is a string, an integer, a truth value or \<open>None\<close>.\<close>

definition py_equal :: "json \<Rightarrow> json \<Rightarrow> bool" where
  "py_equal actual expected =
     (case as_int expected of
        Inl _ \<Rightarrow> actual = expected
      | Inr i \<Rightarrow> as_int actual = Inr i \<or> actual = JFloat (cps (py_str i @ ''.0'')))"

definition mismatches :: "(json \<times> json) list \<Rightarrow> (json \<times> json) list" where
  "mismatches pairs = filter (\<lambda>(actual, expected). \<not> py_equal actual expected) pairs"

text \<open>\<open>(value or [None])[0]\<close>.\<close>

definition first_or_none :: "json \<Rightarrow> exn + json" where
  "first_or_none j = (case j of
       JNull \<Rightarrow> Inr JNull
     | JBool b \<Rightarrow> if b then Inl (Exn TypeError ''not subscriptable'') else Inr JNull
     | JInt i \<Rightarrow> if i = 0 then Inr JNull else Inl (Exn TypeError ''not subscriptable'')
     | JFloat f \<Rightarrow> if f = cps ''0.0'' \<or> f = cps ''-0.0'' then Inr JNull else Inl (Exn TypeError ''not subscriptable'')
     | JStr s \<Rightarrow> Inr (case s of [] \<Rightarrow> JNull | c # _ \<Rightarrow> JStr [c])
     | JList vs \<Rightarrow> Inr (case vs of [] \<Rightarrow> JNull | v # _ \<Rightarrow> v)
     | JObj kvs \<Rightarrow> if kvs = [] then Inr JNull else Inl (Exn KeyError ''0''))"

definition read_config :: "hub_env \<Rightarrow> path \<Rightarrow> (disk, json) io" where
  "read_config he model_path = io_bind (read_text (path_join model_path [''config.json''])) (\<lambda>s. io_of_sum (loads (number_repr he) s))"

text \<open>\<open>model_path.glob(prefix*suffix)\<close>, without regard to case, and the sizes \<open>stat\<close> gives.\<close>

definition glob_match :: "string \<Rightarrow> string \<Rightarrow> string \<Rightarrow> bool" where
  "glob_match first rest name \<longleftrightarrow> length first + length rest \<le> length name \<and>
     prefix_of (py_lower first) (py_lower name) \<and> prefix_of (rev (py_lower rest)) (rev (py_lower name))"

definition glob :: "path \<Rightarrow> string \<Rightarrow> string \<Rightarrow> disk \<Rightarrow> path list" where
  "glob p first rest d = filter (\<lambda>q. q \<noteq> [] \<and> butlast q = p \<and> glob_match first rest (last q)) (map fst (files d) @ dirs d)"

definition total_size :: "path list \<Rightarrow> disk \<Rightarrow> nat" where
  "total_size ps d = sum_list (map (\<lambda>p. case file_at p d of None \<Rightarrow> 0 | Some b \<Rightarrow> length b) ps)"

text \<open>The name of the licence on the model card; one that is neither a string nor missing is printed as JSON.\<close>

definition license_of :: "model_card \<Rightarrow> json" where
  "license_of mc = (case mc of NoCard \<Rightarrow> JNull
     | DictCard kvs \<Rightarrow> (case map_of kvs (cps ''license'') of None \<Rightarrow> JNull | Some v \<Rightarrow> v)
     | ObjectCard l \<Rightarrow> (case l of None \<Rightarrow> JNull | Some v \<Rightarrow> v))"

definition license_text :: "json \<Rightarrow> codes" where
  "license_text j = (case j of JStr s \<Rightarrow> s | JNull \<Rightarrow> cps ''None'' | _ \<Rightarrow> dumps j)"

section \<open>The large test model\<close>

definition LARGE_WEIGHT_BYTES :: nat where "LARGE_WEIGHT_BYTES = 14234370648"

definition cache_root :: "pyenv \<Rightarrow> path \<Rightarrow> string option \<Rightarrow> path" where
  "cache_root pe home cache_dir =
     (case cache_dir of
        Some (c # cs) \<Rightarrow> resolve pe (expanduser pe (path_of pe (c # cs)))
      | _ \<Rightarrow> (case configured pe ''HF_HOME'' of
            Some hf_home \<Rightarrow> path_join (resolve pe (expanduser pe (path_of pe hf_home))) [''hub'']
          | None \<Rightarrow> path_join home [''.cache'', ''huggingface'', ''hub'']))"

definition large_quant :: "json \<Rightarrow> exn + (json \<times> json) list" where
  "large_quant config = (case json_get config (cps ''quantization_config'') (JObj []) of Inl e \<Rightarrow> Inl e
     | Inr quant \<Rightarrow>
         (case quant of JObj _ \<Rightarrow>
            (let get = (\<lambda>k. case json_get quant (cps k) JNull of Inl _ \<Rightarrow> JNull | Inr v \<Rightarrow> v)
             in Inr [(get ''quant_method'', JStr (cps ''awq'')), (get ''bits'', JInt 4), (get ''group_size'', JInt 128),
                     (get ''zero_point'', JBool True), (get ''version'', JStr (cps ''gemm''))])
          | _ \<Rightarrow> Inl (Exn AttributeError ''get'')))"

definition validate_large :: "hub_env \<Rightarrow> path \<Rightarrow> (disk, unit) io" where
  "validate_large he model_path = io_bind io_get (\<lambda>d.
     let shards = glob model_path ''model-'' ''.safetensors'' d
     in if length shards \<noteq> 3 \<or> \<not> disk_is_file (path_join model_path [''config.json'']) d \<or>
           \<not> disk_is_file (path_join model_path [''model.safetensors.index.json'']) d
        then io_raise RuntimeError ''Incomplete model snapshot''
        else if total_size shards d \<noteq> LARGE_WEIGHT_BYTES then io_raise RuntimeError ''Expected weight bytes''
        else io_bind (read_config he model_path) (\<lambda>config.
             io_bind (io_of_sum (large_quant config)) (\<lambda>pairs.
             io_when (mismatches pairs \<noteq> []) (io_raise RuntimeError ''Unexpected AWQ configuration''))))"

definition print_path :: "hub_env \<Rightarrow> string \<Rightarrow> path \<Rightarrow> (disk, unit) io" where
  "print_path he label p = print_line (cps label @ [61] @ text_of_path he p)"

definition GIB :: nat where "GIB = 1024 ^ 3"

text \<open>The snapshot, its validation and the report, which \<open>main\<close> does once offline and once online.\<close>

definition large_fetch :: "hub_env \<Rightarrow> pyenv \<Rightarrow> codes \<Rightarrow> codes \<Rightarrow> path \<Rightarrow> bool \<Rightarrow> (disk, int) io" where
  "large_fetch he pe repo revision root local_files_only =
     io_bind (snapshot_download he repo revision root local_files_only) (\<lambda>p.
     io_then (validate_large he p)
     (io_then (print_path he ''WAVMG_MODEL_PATH'' (resolve pe p)) (io_return 0)))"

definition large_main ::
  "hub_env \<Rightarrow> pyenv \<Rightarrow> path \<Rightarrow> codes \<Rightarrow> codes \<Rightarrow> string option \<Rightarrow> bool \<Rightarrow> (disk, int) io" where
  "large_main he pe home repo revision cache_dir local_files_only =
     (let root = cache_root pe home cache_dir;
          fetch = large_fetch he pe repo revision root
      in io_then (make_dirs root)
         (io_catch (fetch True) (\<lambda>e.
           if exn_kind_of e \<noteq> LocalEntryNotFoundError \<or> local_files_only then io_of_sum (Inl e)
           else io_bind io_get (\<lambda>d.
             if free_space he root d < LARGE_WEIGHT_BYTES + 5 * GIB then io_raise RuntimeError ''disk space''
             else io_bind (io_of_sum (model_info he repo revision)) (\<lambda>info.
               if info_sha info \<noteq> revision then io_raise RuntimeError ''unexpected commit''
               else io_then (print_line (cps ''Downloading '' @ repo @ [64] @ revision @ cps '' (license='' @
                        license_text (license_of (card_data info)) @ cps '', weights=13.3 GiB, format=AWQ W4A16 G128)''))
                    (fetch local_files_only))))))"

section \<open>The two pinned checkpoints\<close>

definition AWQ_WEIGHT_BYTES :: nat where "AWQ_WEIGHT_BYTES = 17646863912"
definition DFLASH_WEIGHT_BYTES :: nat where "DFLASH_WEIGHT_BYTES = 3848817896"

text \<open>\<open>value.get(key, {})\<close> four levels down, then the fields of \<open>actual\<close> beside those of \<open>expected\<close>, in that order.\<close>

definition sum_bind :: "exn + 'a \<Rightarrow> ('a \<Rightarrow> exn + 'b) \<Rightarrow> exn + 'b" where
  "sum_bind r f = (case r of Inl e \<Rightarrow> Inl e | Inr y \<Rightarrow> f y)"

definition awq_fields :: "json \<Rightarrow> exn + (json \<times> json) list" where
  "awq_fields config =
     sum_bind (json_get config (cps ''quantization_config'') (JObj [])) (\<lambda>quant.
     sum_bind (json_get quant (cps ''config_groups'') (JObj [])) (\<lambda>groups.
     sum_bind (json_get groups (cps ''group_0'') (JObj [])) (\<lambda>g.
     sum_bind (json_get g (cps ''weights'') (JObj [])) (\<lambda>weights.
     sum_bind (json_get config (cps ''architectures'') JNull) (\<lambda>architectures.
     sum_bind (first_or_none architectures) (\<lambda>architecture.
     sum_bind (json_get quant (cps ''quant_method'') JNull) (\<lambda>quant_method.
     sum_bind (json_get quant (cps ''format'') JNull) (\<lambda>fmt.
     sum_bind (json_get weights (cps ''num_bits'') JNull) (\<lambda>weight_bits.
     sum_bind (json_get weights (cps ''group_size'') JNull) (\<lambda>group_size.
     sum_bind (json_get weights (cps ''symmetric'') JNull) (\<lambda>symmetric.
     sum_bind (json_get weights (cps ''type'') JNull) (\<lambda>weight_type.
     sum_bind (json_get g (cps ''input_activations'') JNull) (\<lambda>activation.
     Inr [(architecture, JStr (cps ''Qwen3_5ForCausalLM'')), (quant_method, JStr (cps ''compressed-tensors'')),
          (fmt, JStr (cps ''pack-quantized'')), (weight_bits, JInt 4), (group_size, JInt 128),
          (symmetric, JBool True), (weight_type, JStr (cps ''int'')), (activation, JNull)])))))))))))))"

definition dflash_fields :: "json \<Rightarrow> exn + (json \<times> json) list" where
  "dflash_fields config =
     sum_bind (json_get config (cps ''dflash_config'') (JObj [])) (\<lambda>dflash.
     sum_bind (json_get config (cps ''architectures'') JNull) (\<lambda>architectures.
     sum_bind (first_or_none architectures) (\<lambda>architecture.
     sum_bind (json_get dflash (cps ''block_size'') JNull) (\<lambda>block_size.
     sum_bind (json_get dflash (cps ''selector_top_k'') JNull) (\<lambda>selector_top_k.
     Inr [(architecture, JStr (cps ''DFlash2DraftModel'')), (block_size, JInt 8),
          ((case as_int block_size of Inr n \<Rightarrow> JInt (n - 1) | Inl _ \<Rightarrow> JNull), JInt 7),
          (selector_top_k, JInt 16)])))))"

definition validate_files :: "hub_env \<Rightarrow> string list \<Rightarrow> nat \<Rightarrow> (json \<Rightarrow> exn + (json \<times> json) list) \<Rightarrow> path \<Rightarrow> (disk, unit) io" where
  "validate_files he required weight_bytes pairs_of model_path = io_bind io_get (\<lambda>d.
     if \<not> list_all (\<lambda>name. disk_is_file (path_join model_path [name]) d) required
     then io_raise RuntimeError ''Incomplete model snapshot''
     else io_bind (stat_size (path_join model_path [''model.safetensors''])) (\<lambda>n.
       if n \<noteq> weight_bytes then io_raise RuntimeError ''Expected weight bytes''
       else io_bind (read_config he model_path) (\<lambda>config.
            io_bind (io_of_sum (pairs_of config)) (\<lambda>pairs.
            io_when (mismatches pairs \<noteq> []) (io_raise RuntimeError ''Unexpected configuration'')))))"

definition validate_awq :: "hub_env \<Rightarrow> path \<Rightarrow> (disk, unit) io" where
  "validate_awq he = validate_files he [''config.json'', ''model.safetensors'', ''tokenizer.json''] AWQ_WEIGHT_BYTES awq_fields"

definition validate_dflash :: "hub_env \<Rightarrow> path \<Rightarrow> (disk, unit) io" where
  "validate_dflash he = validate_files he [''config.json'', ''model.safetensors''] DFLASH_WEIGHT_BYTES dflash_fields"

text \<open>The size the hub states for the weights.\<close>

definition remote_weight_bytes :: "(codes \<times> nat option) list \<Rightarrow> nat option" where
  "remote_weight_bytes sibs = (case map_of (rev sibs) (cps ''model.safetensors'') of None \<Rightarrow> None | Some n \<Rightarrow> n)"

definition download_checked ::
  "hub_env \<Rightarrow> nat \<Rightarrow> nat \<Rightarrow> (path \<Rightarrow> (disk, unit) io) \<Rightarrow> string \<Rightarrow> string \<Rightarrow> codes \<Rightarrow> codes \<Rightarrow> path \<Rightarrow> (disk, int) io" where
  "download_checked he weight_bytes reserve validate label description repo revision model_path =
     io_bind (io_of_sum (model_info he repo revision)) (\<lambda>info.
     if info_sha info \<noteq> revision then io_raise RuntimeError ''Revision resolved to unexpected commit''
     else if license_of (card_data info) \<noteq> JStr (cps ''apache-2.0'') then io_raise RuntimeError ''Unexpected model license''
     else if remote_weight_bytes (siblings info) \<noteq> Some weight_bytes then io_raise RuntimeError ''Remote model.safetensors''
     else io_then (make_dirs model_path)
       (io_bind io_get (\<lambda>d.
        let bytes_left = weight_bytes - total_size (glob model_path [] ''.safetensors'' d) d
        in if free_space he model_path d < bytes_left + reserve then io_raise RuntimeError ''Download needs more space''
           else io_then (print_line (cps ''Downloading '' @ repo @ [64] @ revision @ cps '' to '' @ text_of_path he model_path @ cps description))
                (io_bind (snapshot_download he repo revision model_path False) (\<lambda>_.
                 io_then (validate model_path)
                 (io_then (print_path he label model_path) (io_return 0)))))))"

definition local_main ::
  "hub_env \<Rightarrow> nat \<Rightarrow> nat \<Rightarrow> (path \<Rightarrow> (disk, unit) io) \<Rightarrow> string \<Rightarrow> string \<Rightarrow> codes \<Rightarrow> codes \<Rightarrow> path \<Rightarrow> bool \<Rightarrow> (disk, int) io" where
  "local_main he weight_bytes reserve validate label description repo revision model_path local_files_only =
     (let download = download_checked he weight_bytes reserve validate label description repo revision model_path
      in io_bind io_get (\<lambda>d.
         if disk_exists model_path d then
           io_catch (io_then (validate model_path) (io_then (print_path he label model_path) (io_return 0))) (\<lambda>e.
             if exn_kind_of e \<noteq> RuntimeError \<or> local_files_only then io_of_sum (Inl e) else download)
         else if local_files_only then io_raise RuntimeError ''No local checkpoint exists''
         else download))"

definition awq_main :: "hub_env \<Rightarrow> codes \<Rightarrow> codes \<Rightarrow> path \<Rightarrow> bool \<Rightarrow> (disk, int) io" where
  "awq_main he = local_main he AWQ_WEIGHT_BYTES (5 * GIB) (validate_awq he) ''WAVMG_MODEL_PATH''
    '' (Apache-2.0, SafeTensors compressed-tensors W4A16 INT4 G128)''"

definition dflash_main :: "hub_env \<Rightarrow> codes \<Rightarrow> codes \<Rightarrow> path \<Rightarrow> bool \<Rightarrow> (disk, int) io" where
  "dflash_main he = local_main he DFLASH_WEIGHT_BYTES (3 * GIB) (validate_dflash he) ''WAVMG_DFLASH2_MODEL_PATH''
    '' (Apache-2.0, official SafeTensors DFlash2 drafter)''"

section \<open>What a validated snapshot is\<close>

definition valid_snapshot :: "hub_env \<Rightarrow> string list \<Rightarrow> nat \<Rightarrow> (json \<Rightarrow> exn + (json \<times> json) list) \<Rightarrow> path \<Rightarrow> disk \<Rightarrow> bool" where
  "valid_snapshot he required weight_bytes pairs_of p d \<longleftrightarrow>
     (\<forall>name\<in>set required. file_at (path_join p [name]) d \<noteq> None) \<and>
     (\<exists>b. file_at (path_join p [''model.safetensors'']) d = Some b \<and> length b = weight_bytes) \<and>
     (\<exists>b s config pairs. path_join p [''config.json''] \<notin> set (dirs d) \<and> file_at (path_join p [''config.json'']) d = Some b \<and>
        utf8_decode b = Some s \<and> loads (number_repr he) (uniform_newlines s) = Inr config \<and> pairs_of config = Inr pairs \<and>
        (\<forall>(actual, expected)\<in>set pairs. py_equal actual expected))"

lemma mismatches_empty: "mismatches pairs = [] \<longleftrightarrow> (\<forall>(actual, expected)\<in>set pairs. py_equal actual expected)"
  by (auto simp: mismatches_def filter_empty_conv)

lemma read_config_success: "read_config he p d = (Inr config, d') \<longleftrightarrow> d' = d \<and> path_join p [''config.json''] \<notin> set (dirs d) \<and>
   (\<exists>b s. file_at (path_join p [''config.json'']) d = Some b \<and> utf8_decode b = Some s \<and>
     loads (number_repr he) (uniform_newlines s) = Inr config)"
  by (auto simp: read_config_def read_text_def read_bytes_def io_success io_of_sum_success_iff split: if_splits option.splits)

lemma validate_files_success:
  "validate_files he required n pairs_of p d = (Inr (), d') \<longleftrightarrow> d' = d \<and> valid_snapshot he required n pairs_of p d"
  unfolding validate_files_def valid_snapshot_def
  by (auto simp: io_success io_of_sum_success_iff read_config_success stat_size_def disk_is_file_def list_all_iff
    mismatches_empty io_when_def split: if_splits option.splits)

lemma valid_snapshot_console [simp]: "valid_snapshot he required n pairs_of p (console_update f d) = valid_snapshot he required n pairs_of p d"
  by (simp add: valid_snapshot_def)

lemma local_main_success:
  assumes "local_main he n reserve (validate_files he required n pairs_of) label description repo revision p local d = (Inr code, d')"
  shows "code = 0 \<and> valid_snapshot he required n pairs_of p d' \<and> last (console d') = cps label @ [61] @ text_of_path he p"
  using assms unfolding local_main_def download_checked_def
  by (auto simp: io_success io_of_sum_success_iff validate_files_success io_catch_def print_path_def print_line_def Let_def
    split: if_splits prod.splits sum.splits)

definition valid_large :: "hub_env \<Rightarrow> path \<Rightarrow> disk \<Rightarrow> bool" where
  "valid_large he p d \<longleftrightarrow>
     length (glob p ''model-'' ''.safetensors'' d) = 3 \<and> total_size (glob p ''model-'' ''.safetensors'' d) d = LARGE_WEIGHT_BYTES \<and>
     file_at (path_join p [''model.safetensors.index.json'']) d \<noteq> None \<and>
     (\<exists>b s config pairs. file_at (path_join p [''config.json'']) d = Some b \<and> utf8_decode b = Some s \<and>
        loads (number_repr he) (uniform_newlines s) = Inr config \<and> large_quant config = Inr pairs \<and>
        (\<forall>(actual, expected)\<in>set pairs. py_equal actual expected))"

lemma validate_large_success: "validate_large he p d = (Inr (), d') \<Longrightarrow> d' = d \<and> valid_large he p d"
  unfolding validate_large_def valid_large_def
  by (auto simp: io_success io_of_sum_success_iff read_config_success disk_is_file_def mismatches_empty io_when_def Let_def
    split: if_splits)

lemma glob_console [simp]: "glob p a b (console_update f d) = glob p a b d" "total_size ps (console_update f d) = total_size ps d"
  by (simp_all add: glob_def total_size_def)

lemma valid_large_console [simp]: "valid_large he p (console_update f d) = valid_large he p d"
  by (simp add: valid_large_def)

lemma io_catch_success_iff:
  "io_catch m h s = (Inr y, u) \<longleftrightarrow> m s = (Inr y, u) \<or> (\<exists>e t. m s = (Inl e, t) \<and> h e t = (Inr y, u))"
  by (auto simp: io_catch_def split: prod.splits sum.splits)

lemma large_fetch_success:
  assumes "large_fetch he pe repo revision root local d = (Inr code, d')"
  shows "code = 0 \<and> (\<exists>p. valid_large he p d' \<and> last (console d') = cps ''WAVMG_MODEL_PATH'' @ 61 # text_of_path he (resolve pe p))"
  using assms unfolding large_fetch_def print_path_def print_line_def
  by (auto simp: io_success dest!: validate_large_success)

lemma large_main_success:
  assumes "large_main he pe home repo revision cache_dir local d = (Inr code, d')"
  shows "code = 0 \<and> (\<exists>p. valid_large he p d' \<and> last (console d') = cps ''WAVMG_MODEL_PATH'' @ 61 # text_of_path he (resolve pe p))"
  using assms unfolding large_main_def Let_def
  by (auto simp: io_success io_of_sum_success_iff io_catch_success_iff dest: large_fetch_success split: if_splits)

text \<open>C32: when a download script reports a checkpoint, whether it found it or downloaded it, the reported directory is a valid
snapshot: every required file is there, the weights have exactly the pinned size, and the configuration decodes and has
every expected field.\<close>

theorem downloads_validated:
  "(case awq_main he repo revision p local d of (Inl e, d') \<Rightarrow> True
    | (Inr code, d') \<Rightarrow> code = 0 \<and> last (console d') = cps ''WAVMG_MODEL_PATH='' @ text_of_path he p \<and>
        valid_snapshot he [''config.json'', ''model.safetensors'', ''tokenizer.json''] AWQ_WEIGHT_BYTES awq_fields p d') \<and>
   (case dflash_main he repo revision p local d of (Inl e, d') \<Rightarrow> True
    | (Inr code, d') \<Rightarrow> code = 0 \<and> last (console d') = cps ''WAVMG_DFLASH2_MODEL_PATH='' @ text_of_path he p \<and>
        valid_snapshot he [''config.json'', ''model.safetensors''] DFLASH_WEIGHT_BYTES dflash_fields p d') \<and>
   (case large_main he pe home repo revision cache_dir local d of (Inl e, d') \<Rightarrow> True
    | (Inr code, d') \<Rightarrow> code = 0 \<and> (\<exists>q. valid_large he q d' \<and>
        last (console d') = cps ''WAVMG_MODEL_PATH='' @ text_of_path he (resolve pe q)))"
  using local_main_success [where he = he and repo = repo and revision = revision and p = p and local = local and d = d]
    large_main_success [of he pe home repo revision cache_dir local d]
  unfolding awq_main_def dflash_main_def validate_awq_def validate_dflash_def
  by (auto split: prod.splits sum.splits simp: cps_def)

section \<open>When a download may happen\<close>

lemma confined_catch [confine]: "confined P m \<Longrightarrow> (\<And>e. confined P (h e)) \<Longrightarrow> confined P (io_catch m h)"
  unfolding confined_def io_catch_def by (auto split: prod.splits sum.splits) (metis snd_conv)+

lemma confined_read_config [confine]: "confined P (read_config he p)"
  unfolding read_config_def by (intro confine)

lemma confined_validate [confine]: "confined P (validate_files he required n pairs_of p)"
  unfolding validate_files_def by (intro confine)

lemma confined_print_path [confine]: "confined P (print_path he label p)"
  unfolding print_path_def by (intro confine)

text \<open>The revision, the licence, the stated size of the weights and the room on the disk, as the hub and the system give them.\<close>

definition download_allowed :: "hub_env \<Rightarrow> nat \<Rightarrow> nat \<Rightarrow> codes \<Rightarrow> codes \<Rightarrow> path \<Rightarrow> disk \<Rightarrow> bool" where
  "download_allowed he n reserve repo revision p d \<longleftrightarrow>
     (case model_info he repo revision of
        Inl e \<Rightarrow> False
      | Inr info \<Rightarrow> info_sha info = revision \<and> license_of (card_data info) = JStr (cps ''apache-2.0'') \<and>
          remote_weight_bytes (siblings info) = Some n \<and>
          (case make_dirs p d of (Inl e, d') \<Rightarrow> False
           | (Inr u, d') \<Rightarrow> n - total_size (glob p [] ''.safetensors'' d') d' + reserve \<le> free_space he p d'))"

lemma download_checked_gated:
  assumes "\<not> download_allowed he n reserve repo revision p d"
  shows "file_at q (snd (download_checked he n reserve v label description repo revision p d)) = file_at q d"
proof (cases "model_info he repo revision")
  case (Inl e)
  then show ?thesis by (simp add: download_checked_def io_simps io_bind_def)
next
  case (Inr info)
  obtain r d1 where made: "make_dirs p d = (r, d1)" by fastforce
  then have "file_at q d1 = file_at q d"
    using confined_reads(4) [of "\<lambda>_. False" p] by (auto simp: confined_def) (metis snd_conv)
  then show ?thesis
    using Inr assms made
    by (auto simp: download_checked_def download_allowed_def io_simps io_bind_def io_then_def Let_def split: sum.splits)
qed

lemma validate_keeps: "snd (validate_files he required n pairs_of p d) = d"
  unfolding validate_files_def read_config_def read_text_def read_bytes_def stat_size_def
  by (auto simp: io_simps io_bind_def io_when_def split: option.splits sum.splits)

text \<open>The attempt with what is on the disk: it prints and returns, or raises and leaves everything as it was.\<close>

lemma report_cases:
  assumes "snd (v p d) = d"
  obtains (raised) e where "io_then (v p) (io_then (print_path he label p) (io_return (0::int))) d = (Inl e, d)"
    | (printed) f where "io_then (v p) (io_then (print_path he label p) (io_return (0::int))) d = (Inr 0, console_update f d)"
proof (cases "v p d")
  case (Pair r d')
  with assms have "v p d = (r, d)" by simp
  then show thesis
    using raised printed by (cases r) (simp_all add: io_then_def io_bind_def print_path_def print_line_def io_simps)
qed

lemma local_main_gated:
  assumes "local \<or> \<not> download_allowed he n reserve repo revision p d"
  shows "file_at q (snd (local_main he n reserve (validate_files he required m pairs_of) label description repo revision p local d)) =
    file_at q d"
proof -
  let ?v = "validate_files he required m pairs_of"
  have down: "file_at q (snd (download_checked he n reserve ?v label description repo revision p d)) = file_at q d" if "\<not> local"
    using download_checked_gated assms that by blast
  show ?thesis
    by (rule report_cases [of ?v p d he label, OF validate_keeps])
      (use down in \<open>simp_all add: local_main_def Let_def io_simps io_bind_Inr [OF io_get_apply] io_catch_def\<close>)
qed

lemma local_main_gate:
  "(local, download_allowed he n reserve repo revision p d) = (False, True) \<or>
   (\<forall>q. file_at q (snd (local_main he n reserve (validate_files he required m pairs_of) label description repo revision p local d)) =
     file_at q d)"
  using local_main_gated by (cases "local \<or> \<not> download_allowed he n reserve repo revision p d") auto

text \<open>A download script changes files only through a download that was allowed: not in local mode, and only when the hub
resolves the pinned revision to itself, the model card says Apache-2.0, the stated weights have the pinned size and the disk
has room for what is missing and the reserve.\<close>

lemma downloads_gated:
  "((local, download_allowed he AWQ_WEIGHT_BYTES (5 * GIB) repo revision p d) = (False, True) \<or>
     (\<forall>q. file_at q (snd (awq_main he repo revision p local d)) = file_at q d)) \<and>
   ((local, download_allowed he DFLASH_WEIGHT_BYTES (3 * GIB) repo revision p d) = (False, True) \<or>
     (\<forall>q. file_at q (snd (dflash_main he repo revision p local d)) = file_at q d))"
  unfolding awq_main_def dflash_main_def validate_awq_def validate_dflash_def
  by (intro conjI local_main_gate)

end
