(* ===== verification/Peer_Probe.thy ===== *)
theory Peer_Probe
  imports Host_Buffers
begin

text \<open>
  \<open>probes/hip_peer_access_probe.py\<close>: for both directions of two GPUs the probe records the advertised peer capability, the
  outcome of enabling it, and the outcome and the correctness of a peer copy, and derives a verdict. The clock, the
  argument parser and the printing of the report are not modelled; the fields of \<open>hip_memcpy_peer\<close> that the verdict reads
  are fields of the direction.
\<close>

section \<open>The outcome of an operation\<close>

record hip_outcome =
  ho_succeeded :: bool
  ho_code :: "int option"
  ho_error :: string

text \<open>\<open>text.split(sep, 1)\<close>: the parts before and after the first occurrence; \<open>None\<close> when there is none.\<close>

fun split_once :: "string \<Rightarrow> string \<Rightarrow> (string \<times> string) option" where
  "split_once sep [] = None"
| "split_once sep (c # cs) =
     (if take (length sep) (c # cs) = sep then Some ([], drop (length sep) (c # cs))
      else map_option (\<lambda>(a, b). (c # a, b)) (split_once sep cs))"

definition code_in :: "string \<Rightarrow> int option" where
  "code_in message =
     (case split_once ''HIP '' message of
        None \<Rightarrow> None
      | Some (_, rest) \<Rightarrow> py_int (case split_once '' '' rest of None \<Rightarrow> rest | Some (word, _) \<Rightarrow> word))"

definition is_runtime_error :: "exn_kind \<Rightarrow> bool" where
  "is_runtime_error k \<longleftrightarrow> k = RuntimeError \<or> k = NotImplementedError"

definition hip_status :: "('w world, unit) io \<Rightarrow> ('w world, hip_outcome) io" where
  "hip_status operation =
     io_catch (io_then operation (io_return \<lparr>ho_succeeded = True, ho_code = Some 0, ho_error = ''success''\<rparr>))
       (\<lambda>e. case e of Exn k message \<Rightarrow>
          if is_runtime_error k then io_return \<lparr>ho_succeeded = False, ho_code = code_in message, ho_error = message\<rparr>
          else io_raise k message)"

section \<open>One direction\<close>

definition PEER_BYTES :: int where
  "PEER_BYTES = 4 * 1024 * 1024"

record direction =
  di_source :: int
  di_destination :: int
  di_can_access :: bool
  di_enable :: "hip_outcome option"
  di_copy :: "hip_outcome option"
  di_correct :: "bool option"
  di_evidence :: "string option"

record direction_locals =
  dl_source_pointer :: int
  dl_destination_pointer :: int
  dl_enabled :: bool
  dl_record :: direction

definition start_direction :: "int \<Rightarrow> int \<Rightarrow> bool \<Rightarrow> direction_locals" where
  "start_direction source destination can = \<lparr>dl_source_pointer = 0, dl_destination_pointer = 0, dl_enabled = False,
     dl_record = \<lparr>di_source = source, di_destination = destination, di_can_access = can, di_enable = None,
       di_copy = None, di_correct = None, di_evidence = None\<rparr>\<rparr>"

definition peer_expected :: "int \<Rightarrow> nat list" where
  "peer_expected source = map (\<lambda>index. nat ((index * 29 + source * 17 + 11) mod 256)) [0..PEER_BYTES - 1]"

definition peer_prepare :: "'w extern \<Rightarrow> int \<Rightarrow> int \<Rightarrow> ('w, direction_locals, unit) meth" where
  "peer_prepare env source destination =
     io_then (on_world (set_device env source))
     (io_bind (on_world (hip_status (device_enable_peer_access env destination))) (\<lambda>enable.
      io_then (update_self (\<lambda>l. l\<lparr>dl_enabled := ho_succeeded enable, dl_record := (dl_record l)\<lparr>di_enable := Some enable\<rparr>\<rparr>))
     (io_then (on_world (set_device env source))
     (io_bind (on_world (malloc env PEER_BYTES)) (\<lambda>p.
      io_then (update_self (\<lambda>l. l\<lparr>dl_source_pointer := p\<rparr>))
     (io_then (on_world (set_device env destination))
     (io_bind (on_world (malloc env PEER_BYTES)) (\<lambda>q.
      update_self (\<lambda>l. l\<lparr>dl_destination_pointer := q\<rparr>)))))))))"

definition synchronize_both :: "'w extern \<Rightarrow> int \<Rightarrow> int \<Rightarrow> ('w world, unit) io" where
  "synchronize_both env source destination =
     io_then (set_device env source) (io_then (device_synchronize env)
     (io_then (set_device env destination) (device_synchronize env)))"

definition peer_evidence :: "direction_locals \<Rightarrow> string" where
  "peer_evidence l =
     (if di_can_access (dl_record l) \<and> dl_enabled l then ''peer_capability_enable_and_copy'' else ''copy_only_not_direct_p2p'')"

definition peer_exchange :: "'w extern \<Rightarrow> int \<Rightarrow> int \<Rightarrow> nat \<Rightarrow> ('w, direction_locals, unit) meth" where
  "peer_exchange env source destination iterations =
     (let expected = peer_expected source in
      io_bind self (\<lambda>l.
      let copy = memcpy_peer env (dl_destination_pointer l) destination (dl_source_pointer l) source PEER_BYTES in
      io_bind (on_world (host_array env ''c_ubyte'' expected PEER_BYTES)) (\<lambda>host_source.
      io_then (on_world (set_device env source))
     (io_then (on_world (memcpy env (dl_source_pointer l) host_source PEER_BYTES HIP_MEMCPY_HOST_TO_DEVICE))
     (io_bind (on_world (hip_status copy)) (\<lambda>peer_copy.
      io_then (update_self (\<lambda>l. l\<lparr>dl_record := (dl_record l)\<lparr>di_copy := Some peer_copy\<rparr>\<rparr>))
     (if \<not> ho_succeeded peer_copy then io_return ()
      else
        io_then (on_world (synchronize_both env source destination))
       (io_then (on_world (io_repeat iterations copy))
       (io_then (on_world (synchronize_both env source destination))
       (io_bind (on_world (host_array env ''c_ubyte'' [] PEER_BYTES)) (\<lambda>host_destination.
        io_then (on_world (set_device env destination))
       (io_then (on_world (memcpy env host_destination (dl_destination_pointer l) PEER_BYTES HIP_MEMCPY_DEVICE_TO_HOST))
       (io_bind (on_world (read_buffer env host_destination PEER_BYTES)) (\<lambda>received.
        update_self (\<lambda>l. l\<lparr>dl_record := (dl_record l)\<lparr>di_correct := Some (received = expected),
          di_evidence := Some (peer_evidence l)\<rparr>\<rparr>)))))))))))))))"

definition free_on :: "'w extern \<Rightarrow> int \<Rightarrow> int \<Rightarrow> ('w world, unit) io" where
  "free_on env device pointer = (if pointer = 0 then io_return () else io_then (set_device env device) (free env pointer))"

definition peer_cleanup :: "'w extern \<Rightarrow> int \<Rightarrow> int \<Rightarrow> ('w, direction_locals, unit) meth" where
  "peer_cleanup env source destination =
     io_bind self (\<lambda>l. on_world
      (io_then (free_on env source (dl_source_pointer l))
      (io_then (free_on env destination (dl_destination_pointer l))
      (io_when (dl_enabled l) (io_then (set_device env source) (device_disable_peer_access env destination))))))"

definition probe_direction :: "'w extern \<Rightarrow> nat \<Rightarrow> int \<Rightarrow> int \<Rightarrow> ('w world, direction) io" where
  "probe_direction env iterations source destination =
     io_bind (device_can_access_peer env source destination) (\<lambda>can w.
       case io_finally (io_then (peer_prepare env source destination) (peer_exchange env source destination iterations))
              (peer_cleanup env source destination) (w, start_direction source destination can) of
         (Inl e, (w', l)) \<Rightarrow> (Inl e, w')
       | (Inr _, (w', l)) \<Rightarrow> (Inr (dl_record l), w'))"

section \<open>The verdict\<close>

record peer_arguments =
  pa_runtime :: "path option"
  pa_dependencies :: "path list"
  pa_iterations :: int
  pa_fail_closed :: bool

record peer_report =
  pe_runtime :: path
  pe_version :: int
  pe_count :: int
  pe_directions :: "direction list"
  pe_advertised :: bool
  pe_enabled :: bool
  pe_correct :: bool
  pe_proven :: bool

definition enable_succeeded :: "direction \<Rightarrow> bool" where
  "enable_succeeded d = (case di_enable d of None \<Rightarrow> False | Some s \<Rightarrow> ho_succeeded s)"

definition peer_verdict :: "bool \<Rightarrow> path \<Rightarrow> int \<Rightarrow> int \<Rightarrow> direction list \<Rightarrow> peer_report" where
  "peer_verdict fail_closed runtime version count directions =
     (let advertised = list_all di_can_access directions;
          enabled = list_all enable_succeeded directions;
          correct = list_all (\<lambda>d. di_correct d = Some True) directions
      in \<lparr>pe_runtime = runtime, pe_version = version, pe_count = count, pe_directions = directions,
          pe_advertised = advertised, pe_enabled = enabled, pe_correct = correct,
          pe_proven = (fail_closed \<and> advertised \<and> enabled \<and> correct)\<rparr>)"

definition peer_main :: "'w extern \<Rightarrow> pyenv \<Rightarrow> peer_arguments \<Rightarrow> ('w world, peer_report \<times> int) io" where
  "peer_main env pe a =
     (if pa_iterations a < 1 then io_raise ValueError ''--iterations must be at least 1''
      else
        io_bind (hip_init env pe (pa_runtime a) (pa_dependencies a)) (\<lambda>runtime.
        io_bind (get_device_count env) (\<lambda>count.
        io_bind (runtime_version env) (\<lambda>version.
        if count < 2
        then io_return (\<lparr>pe_runtime = runtime, pe_version = version, pe_count = count, pe_directions = [],
               pe_advertised = False, pe_enabled = False, pe_correct = False, pe_proven = False\<rparr>, 2)
        else
          io_bind (probe_direction env (nat (pa_iterations a)) 0 1) (\<lambda>there.
          io_bind (probe_direction env (nat (pa_iterations a)) 1 0) (\<lambda>back_again.
          let report = peer_verdict (pa_fail_closed a) runtime version count [there, back_again]
          in io_return (report, if pe_proven report then 0 else 1)))))))"

section \<open>The code in the message\<close>

lemma split_once_char: "c \<notin> set a \<Longrightarrow> split_once [c] (a @ c # b) = Some (a, b)"
  by (induction a) auto

lemma py_str_no_space: "CHR '' '' \<notin> set (py_str i)"
proof -
  have "CHR '' '' \<notin> set (py_str_nat n)" for n
    using py_str_nat_all_digits [of "CHR '' ''" n] digit_not_special(3) by (force simp: is_space_def)
  then show ?thesis by (simp add: py_str_def)
qed

text \<open>No label contains the marker, so the first occurrence is the one \<open>check\<close> wrote.\<close>

lemma split_label: "split_once ''HIP '' (hip_label m @ '' failed: HIP '' @ rest) = Some (hip_label m @ '' failed: '', rest)"
  by (cases m) (simp_all add: hip_label_def)

lemma code_in_message: "code_in (hip_label m @ '' failed: HIP '' @ py_str code @ '' ('' @ message @ '')'') = Some code"
proof -
  have "split_once '' '' (py_str code @ '' ('' @ message @ '')'') = Some (py_str code, ''('' @ message @ '')'')"
    using split_once_char [OF py_str_no_space, of code "''('' @ message @ '')''"] by simp
  then show ?thesis
    unfolding code_in_def split_label by (simp add: py_int_str)
qed

lemma hip_do_outcome:
  assumes "answers env" and "handle_ok m"
  shows "\<exists>vs code outs x. env (Native (fst (hip_request m)) vs) (wext w) = (Inr (code, outs), x) \<and>
     (if code = 0 then \<exists>v. hip_do env m w = (Inr (), v)
      else \<exists>message v. hip_do env m w =
        (Inl (Exn RuntimeError (hip_label m @ '' failed: HIP '' @ py_str code @ '' ('' @ message @ '')'')), v))"
proof -
  obtain vs where vs: "\<And>env :: 'a extern. call_native env hip_sigs (fst (hip_request m)) (snd (hip_request m)) =
      call_ext env (Native (fst (hip_request m)) vs)"
    using assms(2) by (rule hip_request_native) blast
  obtain a x where a: "env (Native (fst (hip_request m)) vs) (wext w) = (Inr a, x)"
    and run: "call_ext env (Native (fst (hip_request m)) vs) w =
      (Inr a, \<lparr>wext = x, wlog = wlog w @ [Native (fst (hip_request m)) vs]\<rparr>)"
    using assms(1) by (rule call_ext_answers)
  obtain code outs where co: "a = (code, outs)" by (cases a)
  let ?w = "\<lparr>wext = x, wlog = wlog w @ [Native (fst (hip_request m)) vs]\<rparr>"
  obtain b y where "call_ext env (Native ''hipGetErrorString'' [VI32 (word_of_int code)]) ?w = (Inr b, y)"
    using assms(1) by (rule call_ext_answers)
  then obtain message where "error_string env code ?w = (Inr message, y)"
    by (cases b) (auto simp: error_string_def error_string_native io_bind_def io_return_def)
  then show ?thesis
    using a run co
    by (intro exI [of _ vs] exI [of _ code] exI [of _ outs] exI [of _ x])
      (auto simp: hip_do_def hip_run_def vs io_bind_def io_then_def io_return_def hip_check_def io_raise_def)
qed

text \<open>The outcome the probe records for a HIP method is exactly what the runtime returned: it succeeded when the
returned code is 0, and otherwise the recorded code, which the probe parses out of the text of the exception, is that very
code, whatever the error text of the runtime contains.\<close>

lemma status_exact:
  assumes "answers env" and "handle_ok m"
  shows "\<exists>vs code outs x. env (Native (fst (hip_request m)) vs) (wext w) = (Inr (code, outs), x) \<and>
     (\<exists>outcome v. hip_status (hip_do env m) w = (Inr outcome, v) \<and>
        ho_succeeded outcome = (code = 0) \<and> ho_code outcome = Some code)"
proof -
  obtain vs code outs x where call: "env (Native (fst (hip_request m)) vs) (wext w) = (Inr (code, outs), x)"
    and run: "if code = 0 then \<exists>v. hip_do env m w = (Inr (), v)
      else \<exists>message v. hip_do env m w =
        (Inl (Exn RuntimeError (hip_label m @ '' failed: HIP '' @ py_str code @ '' ('' @ message @ '')'')), v)"
    using hip_do_outcome [OF assms, of w] by blast
  have "\<exists>outcome v. hip_status (hip_do env m) w = (Inr outcome, v) \<and>
        ho_succeeded outcome = (code = 0) \<and> ho_code outcome = Some code"
  proof (cases "code = 0")
    case True
    with run show ?thesis by (auto simp: hip_status_def io_catch_def io_then_def io_bind_def io_return_def)
  next
    case False
    with run obtain message v where "hip_do env m w =
        (Inl (Exn RuntimeError (hip_label m @ '' failed: HIP '' @ py_str code @ '' ('' @ message @ '')'')), v)" by auto
    with False show ?thesis
      by (simp add: hip_status_def io_catch_def io_then_def io_bind_def io_return_def is_runtime_error_def code_in_message
        del: append.simps append_assoc)
  qed
  with call show ?thesis by blast
qed

text \<open>A runtime that refuses peer access with code 217 and a text that itself contains the marker.\<close>

definition refusing :: "nat extern" where
  "refusing = (\<lambda>c n. case c of
     Native fn vs \<Rightarrow> (Inr (if fn = ''hipDeviceEnablePeerAccess'' then 217 else 0,
       if fn = ''hipGetErrorString'' then [VStr ''see HIP 999 here''] else []), Suc n)
   | _ \<Rightarrow> (Inr (0, []), Suc n))"

lemma status_exact_witness:
  "\<exists>outcome v. hip_status (hip_do refusing (DeviceEnablePeerAccess 1)) \<lparr>wext = 0, wlog = []\<rparr> = (Inr outcome, v) \<and>
     \<not> ho_succeeded outcome \<and> ho_code outcome = Some 217"
proof -
  have "answers refusing" by (auto simp: answers_def refusing_def split: ecall.split)
  from status_exact [OF this, of "DeviceEnablePeerAccess 1" "\<lparr>wext = 0, wlog = []\<rparr>"] show ?thesis
    by (auto simp: handle_ok_def refusing_def)
qed

section \<open>The verdict and its evidence\<close>

definition direction_ok :: "direction \<Rightarrow> bool" where
  "direction_ok d \<longleftrightarrow> di_evidence d = (if di_correct d = None then None
     else Some (if di_can_access d \<and> enable_succeeded d then ''peer_capability_enable_and_copy'' else ''copy_only_not_direct_p2p''))"

definition locals_ok :: "int \<Rightarrow> int \<Rightarrow> direction_locals \<Rightarrow> bool" where
  "locals_ok source destination l \<longleftrightarrow> dl_enabled l = enable_succeeded (dl_record l) \<and> direction_ok (dl_record l) \<and>
     di_source (dl_record l) = source \<and> di_destination (dl_record l) = destination"

lemma peer_prepare_ok:
  "locals_ok s d l \<Longrightarrow> di_correct (dl_record l) = None \<Longrightarrow>
     io_post (peer_prepare env s d) (\<lambda>_ u. locals_ok s d (snd u)) (\<lambda>_ _. True) (w, l)"
  unfolding peer_prepare_def wp fst_conv snd_conv
  by (intro io_post_any) (auto simp: locals_ok_def direction_ok_def enable_succeeded_def intro!: io_post_any)

lemma peer_exchange_ok:
  "locals_ok s d l \<Longrightarrow> io_post (peer_exchange env s d n) (\<lambda>_ u. locals_ok s d (snd u)) (\<lambda>_ _. True) (w, l)"
  unfolding peer_exchange_def Let_def wp fst_conv snd_conv
  by (intro io_post_any) (auto simp: locals_ok_def direction_ok_def enable_succeeded_def peer_evidence_def wp intro!: io_post_any)

lemma io_post_bind_any: "(\<And>x v. io_post (f x) Q E v) \<Longrightarrow> (\<And>e v. E e v) \<Longrightarrow> io_post (io_bind m f) Q E w"
  by (simp add: io_post_bind io_post_any)

lemma probe_direction_ok:
  "io_post (probe_direction env n s d) (\<lambda>r _. di_source r = s \<and> di_destination r = d \<and> direction_ok r) (\<lambda>_ _. True) w"
proof -
  have start: "locals_ok s d (start_direction s d can)" for can
    by (simp add: locals_ok_def start_direction_def direction_ok_def enable_succeeded_def)
  have "io_post (io_finally (io_then (peer_prepare env s d) (peer_exchange env s d n)) (peer_cleanup env s d))
      (\<lambda>_ u. locals_ok s d (snd u)) (\<lambda>_ _. True) (v, start_direction s d can)" for v can
  proof -
    have tidy: "io_post (peer_cleanup env s d) (\<lambda>_ u. locals_ok s d (snd u)) (\<lambda>_ _. True) u" if "locals_ok s d (snd u)" for u
      unfolding peer_cleanup_def wp using that by (auto intro!: io_post_any)
    show ?thesis
      unfolding io_post_finally io_post_then
    proof (rule io_post_mono [OF peer_prepare_ok [OF start]])
      fix y :: unit and u :: "'a world \<times> direction_locals"
      assume "locals_ok s d (snd u)"
      then show "io_post (peer_exchange env s d n) (\<lambda>_. io_post (peer_cleanup env s d) (\<lambda>_ v. locals_ok s d (snd v)) (\<lambda>_ _. True))
          (\<lambda>e. io_post (peer_cleanup env s d) (\<lambda>_ _. True) (\<lambda>_ _. True)) u"
        by (cases u) (auto intro: io_post_mono [OF peer_exchange_ok] tidy io_post_any)
    qed (simp_all add: start_direction_def io_post_any)
  qed
  note run = this
  show ?thesis
    unfolding probe_direction_def
  proof (rule io_post_bind_any)
    fix can v
    let ?m = "io_finally (io_then (peer_prepare env s d) (peer_exchange env s d n)) (peer_cleanup env s d)"
    show "io_post (\<lambda>w. case ?m (w, start_direction s d can) of (Inl e, (w', l)) \<Rightarrow> (Inl e, w') | (Inr _, (w', l)) \<Rightarrow> (Inr (dl_record l), w'))
        (\<lambda>r _. di_source r = s \<and> di_destination r = d \<and> direction_ok r) (\<lambda>_ _. True) v"
      using run [of v can]
      by (cases "?m (v, start_direction s d can)"; cases "fst (?m (v, start_direction s d can))") (auto simp: io_post_def locals_ok_def)
  qed simp
qed

text \<open>The probe's exit code is 0 exactly when the run was declared fail-closed and both directions, from GPU 0 to 1 and
back, ended with a correct copy whose recorded evidence is the peer capability together with its enabling: a copy that
succeeds without them never counts.\<close>

lemma peer_proven_exact:
  "io_post (peer_main env pe a)
     (\<lambda>(report, code) _. (code = 0) =
        (pa_fail_closed a \<and> map (\<lambda>d. (di_source d, di_destination d)) (pe_directions report) = [(0, 1), (1, 0)] \<and>
         list_all (\<lambda>d. di_correct d = Some True \<and> di_evidence d = Some ''peer_capability_enable_and_copy'') (pe_directions report)))
     (\<lambda>_ _. True) w"
proof -
  let ?Q = "\<lambda>(report :: peer_report, code :: int) (_ :: 'a world). (code = 0) =
        (pa_fail_closed a \<and> map (\<lambda>d. (di_source d, di_destination d)) (pe_directions report) = [(0, 1), (1, 0)] \<and>
         list_all (\<lambda>d. di_correct d = Some True \<and> di_evidence d = Some ''peer_capability_enable_and_copy'') (pe_directions report))"
  have both: "io_post (io_bind (probe_direction env n 0 1) (\<lambda>there. io_bind (probe_direction env n 1 0) (\<lambda>back_again.
      let report = peer_verdict (pa_fail_closed a) runtime version count [there, back_again]
      in io_return (report, if pe_proven report then 0 else 1)))) ?Q (\<lambda>_ _. True) v" for n runtime version count v
    unfolding Let_def io_post_bind io_post_return
    by (rule io_post_mono [OF probe_direction_ok], rule io_post_mono [OF probe_direction_ok])
      (auto simp: peer_verdict_def Let_def direction_ok_def split: if_splits)
  show ?thesis
  proof (cases "pa_iterations a < 1")
    case False
    have rest: "io_post (if count < 2
        then io_return (\<lparr>pe_runtime = runtime, pe_version = version, pe_count = count, pe_directions = [],
               pe_advertised = False, pe_enabled = False, pe_correct = False, pe_proven = False\<rparr>, 2)
        else io_bind (probe_direction env (nat (pa_iterations a)) 0 1) (\<lambda>there.
          io_bind (probe_direction env (nat (pa_iterations a)) 1 0) (\<lambda>back_again.
          let report = peer_verdict (pa_fail_closed a) runtime version count [there, back_again]
          in io_return (report, if pe_proven report then 0 else 1)))) ?Q (\<lambda>_ _. True) v" for runtime version count v
      using both by (cases "count < 2") (simp_all add: io_post_return)
    from False show ?thesis
      unfolding peer_main_def by (auto intro!: io_post_bind_any rest simp only: if_False)
  qed (simp add: peer_main_def io_post_raise)
qed

section \<open>An unfinished clean-up\<close>

text \<open>A runtime whose \<open>hipFree\<close> fails.\<close>

definition unfreeable :: "nat extern" where
  "unfreeable = (\<lambda>c n. (Inr (case c of Native fn vs \<Rightarrow> if fn = ''hipFree'' then 1 else 0 | _ \<Rightarrow> 0, []), Suc n))"

text \<open>When freeing the source buffer fails, the destination buffer is not freed and peer access stays enabled.\<close>

lemma cleanup_stops_at_failure:
  "wlog (fst (snd (peer_cleanup unfreeable 0 1
      (\<lparr>wext = 0, wlog = []\<rparr>, (start_direction 0 1 True)\<lparr>dl_source_pointer := 8, dl_destination_pointer := 9, dl_enabled := True\<rparr>)))) =
    [Native ''hipSetDevice'' [VI32 0], hip_free 8, Native ''hipGetErrorString'' [VI32 1]]"
  by (simp add: peer_cleanup_def io_bind_def self_apply on_world_apply free_on_def io_then_bind set_device_def free_def hip_do_def
    hip_run_def hip_check_def error_string_native error_string_def free_typed call_native_def hip_sigs_def hip_argtypes_def
    call_ext_def unfreeable_def io_return_def io_raise_def start_direction_def hip_free_def out_str_def)

end
