(* ===== verification/Scalar_Codec.thy ===== *)
theory Scalar_Codec
  imports Py_Text Byte_Order
begin

text \<open>
  \<open>_encode_scalar\<close> and \<open>_decode_scalar\<close> of \<open>probes/rccl_two_rank_all_reduce.py\<close>: the little-endian bytes of a number in
  binary32, binary16 or bfloat16. The numbers encoded are natural numbers that a double holds exactly (below \<open>2 ^ 53\<close>); a
  decoded number is a pair of a significand and a power of two, \<open>None\<close> for an infinity or a NaN.
\<close>

datatype scalar_type = F16 | F32 | BF16

section \<open>Encoding\<close>

fun bit_exp :: "nat \<Rightarrow> nat" where
  "bit_exp n = (if n < 2 then 0 else Suc (bit_exp (n div 2)))"

declare bit_exp.simps [simp del]

definition round_half_even :: "nat \<Rightarrow> nat \<Rightarrow> nat" where
  "round_half_even n k =
     (let q = n div 2 ^ k; r = n mod 2 ^ k
      in if 2 ^ k < 2 * r \<or> 2 * r = 2 ^ k \<and> odd q then Suc q else q)"

text \<open>The bits of a natural number with \<open>m\<close> bits of mantissa; a carry out of the rounding moves to the exponent.\<close>

definition ieee_bits :: "nat \<Rightarrow> nat \<Rightarrow> nat \<Rightarrow> nat" where
  "ieee_bits m bias n =
     (if n = 0 then 0
      else (let e = bit_exp n
        in (e + bias) * 2 ^ m + ((if e \<le> m then n * 2 ^ (m - e) else round_half_even n (e - m)) - 2 ^ m)))"

text \<open>\<open>struct.pack("<f")\<close> and \<open>struct.pack("<e")\<close>.\<close>

definition pack_f32 :: "nat \<Rightarrow> exn + nat" where
  "pack_f32 n = (let b = ieee_bits 23 127 n in if b < 255 * 2 ^ 23 then Inr b else Inl (Exn OverflowError ''float too large to pack with f format''))"

definition pack_f16 :: "nat \<Rightarrow> exn + nat" where
  "pack_f16 n = (let b = ieee_bits 10 15 n in if b < 31 * 2 ^ 10 then Inr b else Inl (Exn OverflowError ''float too large to pack with e format''))"

text \<open>The rounding to bfloat16: half of the last place minus one, plus the bit that makes ties go to even.\<close>

definition bf16_bits :: "nat \<Rightarrow> nat" where
  "bf16_bits bits = (bits + (0x7FFF + bits div 0x10000 mod 2)) div 0x10000 mod 0x10000"

definition encode_scalar :: "scalar_type \<Rightarrow> nat \<Rightarrow> exn + nat list" where
  "encode_scalar t n =
     (case t of
        F32 \<Rightarrow> (case pack_f32 n of Inl e \<Rightarrow> Inl e | Inr b \<Rightarrow> Inr (le_bytes 4 b))
      | F16 \<Rightarrow> (case pack_f16 n of Inl e \<Rightarrow> Inl e | Inr b \<Rightarrow> Inr (le_bytes 2 b))
      | BF16 \<Rightarrow> (case pack_f32 n of Inl e \<Rightarrow> Inl e | Inr b \<Rightarrow> Inr (le_bytes 2 (bf16_bits b))))"

section \<open>Decoding\<close>

definition ieee_value :: "nat \<Rightarrow> nat \<Rightarrow> nat \<Rightarrow> nat \<Rightarrow> (int \<times> int) option" where
  "ieee_value m x bias b =
     (let sign = (if b div 2 ^ (m + x) mod 2 = 1 then -1 else 1);
          ex = b div 2 ^ m mod 2 ^ x;
          man = b mod 2 ^ m
      in if ex = 2 ^ x - 1 then None
         else if ex = 0 then Some (sign * int man, 1 - int bias - int m)
         else Some (sign * int (2 ^ m + man), int ex - int bias - int m))"

definition scalar_size :: "scalar_type \<Rightarrow> nat" where
  "scalar_size t = (case t of F32 \<Rightarrow> 4 | F16 \<Rightarrow> 2 | BF16 \<Rightarrow> 2)"

definition decode_scalar :: "scalar_type \<Rightarrow> nat list \<Rightarrow> exn + (int \<times> int) option" where
  "decode_scalar t raw =
     (if length raw \<noteq> scalar_size t then Inl (Exn StructError (''unpack requires a buffer of '' @ py_str (int (scalar_size t)) @ '' bytes''))
      else Inr (case t of
          F32 \<Rightarrow> ieee_value 23 8 127 (le_value raw)
        | F16 \<Rightarrow> ieee_value 10 5 15 (le_value raw)
        | BF16 \<Rightarrow> ieee_value 23 8 127 (le_value raw * 0x10000)))"

text \<open>The pair stands for a natural number.\<close>

definition stands_for :: "int \<times> int \<Rightarrow> nat \<Rightarrow> bool" where
  "stands_for d n \<longleftrightarrow> (if 0 \<le> snd d then fst d * 2 ^ nat (snd d) = int n else fst d = int n * 2 ^ nat (- snd d))"

section \<open>Exact numbers come back\<close>

lemma bit_exp_bounds: "0 < n \<Longrightarrow> 2 ^ bit_exp n \<le> n \<and> n < 2 ^ Suc (bit_exp n)"
proof (induction n rule: bit_exp.induct)
  case (1 n)
  show ?case
  proof (cases "n < 2")
    case True
    with 1(2) show ?thesis by (simp add: bit_exp.simps [of n])
  next
    case False
    with 1(1) have "2 ^ bit_exp (n div 2) \<le> n div 2 \<and> n div 2 < 2 ^ Suc (bit_exp (n div 2))" by simp
    with False show ?thesis by (auto simp: bit_exp.simps [of n])
  qed
qed

lemma exact_mantissa:
  assumes "0 < n" and "n < 2 ^ Suc m"
  shows "bit_exp n \<le> m \<and> 2 ^ m \<le> n * 2 ^ (m - bit_exp n) \<and> n * 2 ^ (m - bit_exp n) < 2 ^ Suc m"
proof -
  note b = bit_exp_bounds [OF assms(1)]
  then have "(2::nat) ^ bit_exp n < 2 ^ Suc m" using assms(2) by linarith
  then have e: "bit_exp n \<le> m" by (simp add: power_strict_increasing_iff less_Suc_eq_le del: power_Suc)
  then have "(2::nat) ^ m = 2 ^ bit_exp n * 2 ^ (m - bit_exp n)" by (simp flip: power_add)
  moreover have "2 ^ bit_exp n * 2 ^ (m - bit_exp n) \<le> n * 2 ^ (m - bit_exp n)"
    and "n * 2 ^ (m - bit_exp n) < 2 * 2 ^ bit_exp n * 2 ^ (m - bit_exp n)"
    using b by simp_all
  ultimately show ?thesis using e by simp
qed

lemma ieee_value_bits:
  assumes "0 < ex" and "ex < 2 ^ x - 1" and "man < 2 ^ m"
  shows "ieee_value m x bias (ex * 2 ^ m + man) = Some (int (2 ^ m + man), int ex - int bias - int m)"
proof -
  have "(ex * 2 ^ m + man) div 2 ^ m = ex" and "(ex * 2 ^ m + man) mod 2 ^ m = man" using assms(3) by simp_all
  moreover have "(ex * 2 ^ m + man) div 2 ^ (m + x) = 0"
  proof -
    have "ex * 2 ^ m + man < Suc ex * 2 ^ m" using assms(3) by simp
    also have "\<dots> \<le> 2 ^ x * 2 ^ m" using assms(2) by (intro mult_le_mono1) linarith
    finally show ?thesis by (simp add: power_add mult.commute)
  qed
  ultimately show ?thesis using assms by (simp add: ieee_value_def Let_def)
qed

lemma ieee_bits_exact:
  assumes "0 < n" and "n < 2 ^ Suc m"
  shows "ieee_bits m bias n = (bit_exp n + bias) * 2 ^ m + (n * 2 ^ (m - bit_exp n) - 2 ^ m)"
  using assms exact_mantissa [OF assms] by (simp add: ieee_bits_def Let_def)

text \<open>A number that fits the mantissa is encoded exactly.\<close>

lemma ieee_exact:
  assumes "0 < n" and "n < 2 ^ Suc m" and "0 < bias" and "m + bias < 2 ^ x - 1"
  shows "\<exists>d. ieee_value m x bias (ieee_bits m bias n) = Some d \<and> stands_for d n"
    and "ieee_bits m bias n < (2 ^ x - 1) * 2 ^ m"
proof -
  let ?e = "bit_exp n" and ?man = "n * 2 ^ (m - bit_exp n) - 2 ^ m"
  note man = exact_mantissa [OF assms(1,2)]
  then have small: "?man < 2 ^ m" unfolding power_Suc by linarith
  have ex: "0 < ?e + bias" "?e + bias < 2 ^ x - 1" using assms(3,4) man by simp_all
  have "2 ^ m + ?man = n * 2 ^ (m - ?e)" using man by simp
  then have "ieee_value m x bias (ieee_bits m bias n) = Some (int (n * 2 ^ (m - ?e)), int ?e - int m)"
    unfolding ieee_bits_exact [OF assms(1,2)] ieee_value_bits [OF ex small] by simp
  moreover have "stands_for (int (n * 2 ^ (m - ?e)), int ?e - int m) n"
    using man by (auto simp: stands_for_def nat_diff_distrib' simp flip: of_nat_diff)
  ultimately show "\<exists>d. ieee_value m x bias (ieee_bits m bias n) = Some d \<and> stands_for d n" by blast
  have "ieee_bits m bias n < Suc (?e + bias) * 2 ^ m"
    using small by (simp add: ieee_bits_exact [OF assms(1,2)])
  also have "\<dots> \<le> (2 ^ x - 1) * 2 ^ m" using ex(2) by (intro mult_le_mono1) linarith
  finally show "ieee_bits m bias n < (2 ^ x - 1) * 2 ^ m" .
qed

text \<open>Rounding leaves a pattern whose low half is zero alone.\<close>

lemma bf16_exact: "b mod 0x10000 = 0 \<Longrightarrow> b < 2 ^ 32 \<Longrightarrow> bf16_bits b * 0x10000 = b"
proof -
  assume "b mod 0x10000 = 0" and "b < 2 ^ 32"
  then obtain q where q: "b = q * 0x10000" "q < 0x10000" by (auto elim!: dvdE simp: mod_eq_0_iff_dvd mult.commute)
  define r where "r = 0x7FFF + q mod 2"
  have "q mod 2 \<le> 1" by linarith
  then have "r < 0x10000" unfolding r_def by linarith
  then have "(r + q * 0x10000) div 0x10000 = q" by simp
  moreover have "q * 0x10000 div 0x10000 = q" by simp
  ultimately have "bf16_bits b = q mod 0x10000"
    unfolding bf16_bits_def q(1) r_def by (metis add.commute)
  then show "bf16_bits b * 0x10000 = b" using q by simp
qed

text \<open>The numbers below which every natural number is exact: one more bit than the mantissa.\<close>

definition exact_limit :: "scalar_type \<Rightarrow> nat" where
  "exact_limit t = (case t of F32 \<Rightarrow> 2 ^ 24 | F16 \<Rightarrow> 2 ^ 11 | BF16 \<Rightarrow> 2 ^ 8)"

lemma ieee_zero: "0 < m \<Longrightarrow> 1 < x \<Longrightarrow> ieee_value m x bias 0 = Some (0, 1 - int bias - int m)"
  using power_strict_increasing [of 1 x "2::nat"] by (simp add: ieee_value_def)

lemma ieee_round_trip:
  assumes "n < 2 ^ Suc m" and "0 < m" and "0 < bias" and "m + bias < 2 ^ x - 1"
  shows "\<exists>d. ieee_value m x bias (ieee_bits m bias n) = Some d \<and> stands_for d n"
    and "ieee_bits m bias n < (2 ^ x - 1) * 2 ^ m"
proof -
  have x: "1 < x" using assms(2-4) by (cases "x = 0 \<or> x = 1") auto
  show "\<exists>d. ieee_value m x bias (ieee_bits m bias n) = Some d \<and> stands_for d n"
  proof (cases "n = 0")
    case True
    then show ?thesis using ieee_zero [OF assms(2) x, of bias] assms(2,3) by (simp add: ieee_bits_def stands_for_def)
  next
    case False
    then show ?thesis using ieee_exact(1) [OF _ assms(1,3,4)] by simp
  qed
  show "ieee_bits m bias n < (2 ^ x - 1) * 2 ^ m"
  proof (cases "n = 0")
    case True
    then show ?thesis using assms(4) by (simp add: ieee_bits_def)
  next
    case False
    then show ?thesis using ieee_exact(2) [OF _ assms(1,3,4)] by simp
  qed
qed

lemma short_mantissa: "n < 2 ^ 8 \<Longrightarrow> ieee_bits 23 127 n mod 0x10000 = 0"
proof (cases "n = 0")
  case False
  assume n: "n < 2 ^ 8"
  then have e: "bit_exp n \<le> 7" using exact_mantissa [of n 7] False by simp
  then have "23 - bit_exp n = (7 - bit_exp n) + 16" by simp
  then have "n * 2 ^ (23 - bit_exp n) = n * 2 ^ (7 - bit_exp n) * 2 ^ 16" by (simp only: power_add mult.assoc)
  then have "2 ^ 16 dvd n * 2 ^ (23 - bit_exp n)" by (metis dvd_triv_right)
  moreover have "(2::nat) ^ 16 dvd (bit_exp n + 127) * 2 ^ 23" and "(2::nat) ^ 16 dvd 2 ^ 23"
    by (simp_all add: le_imp_power_dvd dvd_mult)
  ultimately have "2 ^ 16 dvd (bit_exp n + 127) * 2 ^ 23 + (n * 2 ^ (23 - bit_exp n) - 2 ^ 23)"
    by (intro dvd_add dvd_diff_nat)
  then show ?thesis
    using False n by (subst ieee_bits_exact) (simp_all add: mod_eq_0_iff_dvd)
qed (simp add: ieee_bits_def)

text \<open>Encoding a natural number below the exact range of the type (24, 11 or 8 bits) and decoding its bytes gives the
number back, in as many bytes as the type has; so the probe's comparison of payloads is exact for every such number of
ranks.\<close>

lemma scalar_round_trip:
  assumes "n < exact_limit t"
  shows "\<exists>raw d. encode_scalar t n = Inr raw \<and> length raw = scalar_size t \<and> decode_scalar t raw = Inr (Some d) \<and> stands_for d n"
proof (cases t)
  case F16
  then have "n < 2 ^ Suc 10" using assms by (simp add: exact_limit_def)
  from ieee_round_trip [OF this, of 15 5] show ?thesis
    by (auto simp: F16 encode_scalar_def decode_scalar_def pack_f16_def scalar_size_def Let_def le_value_bytes)
next
  case F32
  then have "n < 2 ^ Suc 23" using assms by (simp add: exact_limit_def)
  from ieee_round_trip [OF this, of 127 8] show ?thesis
    by (auto simp: F32 encode_scalar_def decode_scalar_def pack_f32_def scalar_size_def Let_def le_value_bytes)
next
  case BF16
  then have n: "n < 2 ^ 8" using assms by (simp add: exact_limit_def)
  then have "n < 2 ^ Suc 23" by simp
  note f32 = ieee_round_trip [OF this, of 127 8]
  then have small: "ieee_bits 23 127 n < 255 * 2 ^ 23" by simp
  then have upper: "bf16_bits (ieee_bits 23 127 n) * 0x10000 = ieee_bits 23 127 n"
    by (intro bf16_exact short_mantissa n) simp
  have "bf16_bits (ieee_bits 23 127 n) < 256 ^ 2" by (simp add: bf16_bits_def)
  then show ?thesis
    using f32(1) small upper
    by (auto simp: BF16 encode_scalar_def decode_scalar_def pack_f32_def scalar_size_def Let_def le_value_bytes)
qed

lemma scalar_round_trip_witness:
  "\<exists>raw d. encode_scalar BF16 255 = Inr raw \<and> length raw = scalar_size BF16 \<and> decode_scalar BF16 raw = Inr (Some d) \<and> stands_for d 255"
  by (rule scalar_round_trip) (simp add: exact_limit_def)

text \<open>C33: the truncation to bfloat16 rounds to nearest, ties to even: the pattern kept is within half a unit of the last
place of the binary32 pattern, and even when the distance is exactly half. Only the patterns that would round past the
largest 16-bit one (all of them NaNs) are outside.\<close>

theorem bf16_nearest_even:
  assumes "b < 2 ^ 32 - 0x8000"
  shows "\<bar>int (bf16_bits b * 0x10000) - int b\<bar> \<le> 0x8000 \<and>
    (\<bar>int (bf16_bits b * 0x10000) - int b\<bar> = 0x8000 \<longrightarrow> even (bf16_bits b))"
proof -
  define q where "q = b div 0x10000"
  define r where "r = b mod 0x10000"
  have b: "b = q * 0x10000 + r" and r: "r < 0x10000" by (simp_all add: q_def r_def div_mult_mod_eq)
  define t where "t = r + (0x7FFF + q mod 2)"
  define up :: nat where "up = (if 0x10000 \<le> t then 1 else 0)"
  have low: "q mod 2 = 0 \<or> q mod 2 = 1" by linarith
  then have "t < 0x20000" using r unfolding t_def by linarith
  then have "t div 0x10000 = up" unfolding up_def by (cases "0x10000 \<le> t") (simp_all add: div_nat_eqI)
  then have "(t + q * 0x10000) div 0x10000 = q + up" by simp
  moreover have "t + q * 0x10000 = b + (0x7FFF + b div 0x10000 mod 2)" unfolding t_def q_def [symmetric] using b by linarith
  moreover have "q + up < 0x10000"
    using assms b r low unfolding up_def t_def by (auto split: if_splits)
  moreover have up: "0x10000 \<le> t \<longleftrightarrow> 0x8000 < r \<or> r = 0x8000 \<and> q mod 2 = 1"
    using low unfolding t_def by linarith
  ultimately have eq: "bf16_bits b = q + up" unfolding bf16_bits_def by (metis mod_less)
  show ?thesis
  proof (cases "0x10000 \<le> t")
    case True
    then have "up = 1" by (simp add: up_def)
    then have "int (bf16_bits b * 0x10000) - int b = 0x10000 - int r" using arg_cong [OF eq, of int] arg_cong [OF b, of int] by simp
    with True up r show ?thesis by (auto simp: eq \<open>up = 1\<close> odd_iff_mod_2_eq_one)
  next
    case False
    then have "up = 0" by (simp add: up_def)
    then have "int (bf16_bits b * 0x10000) - int b = - int r" using arg_cong [OF eq, of int] arg_cong [OF b, of int] by simp
    with False up r low show ?thesis by (auto simp: eq \<open>up = 0\<close> even_iff_mod_2_eq_zero)
  qed
qed

lemma bf16_nearest_even_witness:
  "\<bar>int (bf16_bits 0x3F808000 * 0x10000) - int 0x3F808000\<bar> = 0x8000 \<and> even (bf16_bits 0x3F808000)"
proof -
  have "\<bar>int (bf16_bits 0x3F808000 * 0x10000) - int 0x3F808000\<bar> = 0x8000" by (simp add: bf16_bits_def)
  with bf16_nearest_even [of "0x3F808000"] show ?thesis by simp
qed

end
