(* ===== verification/Rccl_Probe.thy ===== *)
theory Rccl_Probe
  imports Rccl Rank_Launch Scalar_Codec
begin

text \<open>
  \<open>probes/rccl_two_rank_all_reduce.py\<close>: one process per rank exercises a collective of RCCL and compares what it
  receives byte by byte. The settings are read when the module is loaded; a rank's local variables are the object of its
  methods. Host buffers, streams and the rank log belong to the environment; the clock, the fields of the report that come from
  it, and the printed summary are not modelled.
\<close>

section \<open>Settings\<close>

record probe_config =
  pc_count :: int
  pc_iterations :: int
  pc_warmup :: int
  pc_world :: int
  pc_operation :: string
  pc_dtype :: scalar_type

definition probe_dtype :: "string \<Rightarrow> scalar_type option" where
  "probe_dtype s = (if s = ''f16'' then Some F16 else if s = ''f32'' then Some F32 else if s = ''bf16'' then Some BF16 else None)"

definition nccl_data_type :: "scalar_type \<Rightarrow> int" where
  "nccl_data_type t = (case t of F16 \<Rightarrow> 6 | F32 \<Rightarrow> 7 | BF16 \<Rightarrow> 9)"

definition env_lower :: "pyenv \<Rightarrow> string \<Rightarrow> string \<Rightarrow> string" where
  "env_lower pe name dflt = py_lower (case getenv pe name of None \<Rightarrow> dflt | Some v \<Rightarrow> v)"

definition probe_config_of :: "pyenv \<Rightarrow> exn + probe_config" where
  "probe_config_of pe =
     (case env_int pe ''WAVMG_RCCL_COUNT'' (1024 * 1024) of Inl e \<Rightarrow> Inl e | Inr count \<Rightarrow>
     (case env_int pe ''WAVMG_RCCL_ITERATIONS'' 1 of Inl e \<Rightarrow> Inl e | Inr iterations \<Rightarrow>
      if iterations < 1 then Inl (Exn ValueError ''WAVMG_RCCL_ITERATIONS must be at least 1'') else
     (case env_int pe ''WAVMG_RCCL_WARMUP_ITERATIONS'' 0 of Inl e \<Rightarrow> Inl e | Inr warmup \<Rightarrow>
      if warmup < 0 then Inl (Exn ValueError ''WAVMG_RCCL_WARMUP_ITERATIONS cannot be negative'') else
     (case env_int pe ''WAVMG_RCCL_WORLD_SIZE'' 2 of Inl e \<Rightarrow> Inl e | Inr world \<Rightarrow>
      let operation = env_lower pe ''WAVMG_RCCL_OPERATION'' ''all_reduce'' in
      if operation \<notin> {''all_reduce'', ''all_gather'', ''reduce_scatter'', ''broadcast''}
      then Inl (Exn ValueError ''Unsupported WAVMG_RCCL_OPERATION'') else
     (case probe_dtype (env_lower pe ''WAVMG_RCCL_DTYPE'' ''f32'') of
        None \<Rightarrow> Inl (Exn ValueError ''Unsupported WAVMG_RCCL_DTYPE'')
      | Some t \<Rightarrow> Inr \<lparr>pc_count = count, pc_iterations = iterations, pc_warmup = warmup, pc_world = world,
          pc_operation = operation, pc_dtype = t\<rparr>)))))"

section \<open>The library\<close>

definition impl_symbol :: string where
  "impl_symbol = ''?ncclAllReduce_impl@@YA?AW4ncclResult_t@@PEBXPEAX_KW4ncclDataType_t@@W4ncclRedOp_t@@PEAUncclComm@@PEAUihipStream_t@@@Z''"

definition reduce_symbol :: "pyenv \<Rightarrow> string" where
  "reduce_symbol pe = (if getenv pe ''WAVMG_RCCL_DIRECT_IMPL'' = Some ''1'' then impl_symbol else ''ncclAllReduce'')"

definition probe_argtypes :: "pyenv \<Rightarrow> (string \<times> ctype list) list" where
  "probe_argtypes pe =
    [(''ncclGetUniqueId'', [T_pointer T_unique_id]),
     (''ncclCommInitRank'', [T_pointer T_void_p, T_int, T_unique_id, T_int]),
     (reduce_symbol pe, [T_void_p, T_void_p, T_size_t, T_int, T_int, T_void_p, T_void_p]),
     (''ncclAllGather'', [T_void_p, T_void_p, T_size_t, T_int, T_void_p, T_void_p]),
     (''ncclReduceScatter'', [T_void_p, T_void_p, T_size_t, T_int, T_int, T_void_p, T_void_p]),
     (''ncclBroadcast'', [T_void_p, T_void_p, T_size_t, T_int, T_int, T_void_p, T_void_p]),
     (''ncclCommDestroy'', [T_void_p]),
     (''ncclCommAbort'', [T_void_p]),
     (''ncclGetErrorString'', [T_int])]"

definition probe_sigs :: "pyenv \<Rightarrow> signatures" where
  "probe_sigs pe = map_of (probe_argtypes pe)"

definition probe_load :: "'w extern \<Rightarrow> pyenv \<Rightarrow> path \<Rightarrow> ('w world, path) io" where
  "probe_load env pe probe_file =
     io_bind (io_of_sum (path_parents (resolve pe probe_file) 1)) (\<lambda>root.
     let site = path_join root [''.venv'', ''Lib'', ''site-packages''];
         rccl_path = (case configured pe ''WAVMG_RCCL_DLL'' of
             Some v \<Rightarrow> resolve pe (expanduser pe (path_of pe v))
           | None \<Rightarrow> path_join root [''build'', ''rccl-windows'', ''rccl.dll''])
     in io_then (add_dll_directories env (filter (is_dir pe)
          [path_join site [''_rocm_sdk_devel'', ''bin''], path_join site [''torch'', ''lib'']]))
        (io_bind (call_ext env (Os ''CDLL'' rccl_path)) (\<lambda>_.
         io_then (bind_symbols pe rccl_path (map fst (probe_argtypes pe)))
         (io_return rccl_path))))"

definition probe_check :: "'w extern \<Rightarrow> pyenv \<Rightarrow> int \<Rightarrow> string \<Rightarrow> ('w world, unit) io" where
  "probe_check env pe result operation =
     (if result = 0 then io_return ()
      else io_bind (call_native env (probe_sigs pe) ''ncclGetErrorString'' [PyInt result]) (\<lambda>(_, outs).
        io_raise RuntimeError (operation @ '' failed: '' @ py_str result @ '' ('' @
          (case out_str outs of None \<Rightarrow> ''unknown RCCL error'' | Some m \<Rightarrow> if m = [] then ''unknown RCCL error'' else m) @ '')'')))"

definition launch_collective ::
  "'w extern \<Rightarrow> pyenv \<Rightarrow> probe_config \<Rightarrow> int \<Rightarrow> int \<Rightarrow> int \<Rightarrow> int \<Rightarrow> ('w world, int \<times> string) io" where
  "launch_collective env pe c send receive comm stream =
     (let buffers = [PyVoidP send, PyVoidP receive, PyInt (pc_count c), PyInt (nccl_data_type (pc_dtype c))];
          ends = [PyVoidP comm, PyVoidP stream];
          launch = (\<lambda>fn args name. io_bind (call_native env (probe_sigs pe) fn args) (\<lambda>(code, _). io_return (code, name)))
      in if pc_operation c = ''all_reduce'' then launch (reduce_symbol pe) (buffers @ [PyInt NCCL_SUM] @ ends) ''ncclAllReduce''
         else if pc_operation c = ''all_gather'' then launch ''ncclAllGather'' (buffers @ ends) ''ncclAllGather''
         else if pc_operation c = ''reduce_scatter''
           then launch ''ncclReduceScatter'' (buffers @ [PyInt NCCL_SUM] @ ends) ''ncclReduceScatter''
         else launch ''ncclBroadcast'' (buffers @ [PyInt 0] @ ends) ''ncclBroadcast'')"

section \<open>One rank\<close>

record rank_record =
  rr_rank :: int
  rr_device :: int
  rr_initialized :: bool
  rr_comm_allocated :: bool
  rr_collective_called :: bool
  rr_collective_returned :: bool
  rr_correct :: bool
  rr_first_value :: "(int \<times> int) option"
  rr_error :: "exn option"
  rr_memory_errors :: "exn list"
  rr_closed :: "(string \<times> int) option"
  rr_cleanup_error :: "exn option"

record rank_locals =
  lv_library :: "path option"
  lv_comm :: "int option"
  lv_initialized :: bool
  lv_called :: bool
  lv_successful :: bool
  lv_hip :: bool
  lv_send :: int
  lv_receive :: int
  lv_record :: rank_record

definition start_record :: "int \<Rightarrow> int \<Rightarrow> rank_record" where
  "start_record rank device = \<lparr>rr_rank = rank, rr_device = device, rr_initialized = False, rr_comm_allocated = False,
     rr_collective_called = False, rr_collective_returned = False, rr_correct = False, rr_first_value = None,
     rr_error = None, rr_memory_errors = [], rr_closed = None, rr_cleanup_error = None\<rparr>"

definition start_locals :: "int \<Rightarrow> int \<Rightarrow> rank_locals" where
  "start_locals rank device = \<lparr>lv_library = None, lv_comm = None, lv_initialized = False, lv_called = False,
     lv_successful = False, lv_hip = False, lv_send = 0, lv_receive = 0, lv_record = start_record rank device\<rparr>"

definition send_elements :: "probe_config \<Rightarrow> int" where
  "send_elements c = pc_count c * (if pc_operation c = ''reduce_scatter'' then pc_world c else 1)"

definition receive_elements :: "probe_config \<Rightarrow> int" where
  "receive_elements c = pc_count c * (if pc_operation c = ''all_gather'' then pc_world c else 1)"

text \<open>\<open>bytes * n\<close>, and \<open>ctypes.create_string_buffer\<close>.\<close>

definition repeat_bytes :: "nat list \<Rightarrow> int \<Rightarrow> nat list" where
  "repeat_bytes bs n = concat (replicate (nat n) bs)"

definition host_buffer :: "'w extern \<Rightarrow> nat list \<Rightarrow> int \<Rightarrow> ('w world, int) io" where
  "host_buffer env bs n =
     (if n < 0 then io_raise ValueError ''Array length must be >= 0'' else host_array env ''create_string_buffer'' bs n)"

text \<open>The bytes a rank must receive.\<close>

fun encode_peers :: "scalar_type \<Rightarrow> int \<Rightarrow> nat list \<Rightarrow> exn + nat list" where
  "encode_peers t count [] = Inr []"
| "encode_peers t count (peer # peers) =
     (case encode_scalar t (peer + 1) of Inl e \<Rightarrow> Inl e
      | Inr b \<Rightarrow> (case encode_peers t count peers of Inl e \<Rightarrow> Inl e | Inr bs \<Rightarrow> Inr (repeat_bytes b count @ bs)))"

definition expected_payload :: "probe_config \<Rightarrow> exn + nat list" where
  "expected_payload c =
     (let t = pc_dtype c; sum = nat (pc_world c * (pc_world c + 1) div 2) in
      if pc_operation c = ''all_gather'' then encode_peers t (pc_count c) [0..<nat (pc_world c)]
      else if pc_operation c = ''broadcast''
        then (case encode_scalar t 1 of Inl e \<Rightarrow> Inl e | Inr b \<Rightarrow> Inr (repeat_bytes b (pc_count c)))
      else (case encode_scalar t sum of Inl e \<Rightarrow> Inl e | Inr b \<Rightarrow> Inr (repeat_bytes b (receive_elements c))))"

fun launch_times ::
  "nat \<Rightarrow> 'w extern \<Rightarrow> pyenv \<Rightarrow> probe_config \<Rightarrow> int \<Rightarrow> int \<Rightarrow> int \<Rightarrow> int \<Rightarrow> ('w world, unit) io" where
  "launch_times 0 env pe c send receive comm stream = io_return ()"
| "launch_times (Suc n) env pe c send receive comm stream =
     io_bind (launch_collective env pe c send receive comm stream) (\<lambda>(result, name).
     io_then (probe_check env pe result name)
     (launch_times n env pe c send receive comm stream))"

text \<open>From the start of \<open>try\<close> to the created communicator.\<close>

definition rank_join ::
  "'w extern \<Rightarrow> pyenv \<Rightarrow> path \<Rightarrow> probe_config \<Rightarrow> int \<Rightarrow> int \<Rightarrow> nat list \<Rightarrow> ('w, rank_locals, unit) meth" where
  "rank_join env pe probe_file c rank device unique_id =
     io_then (on_world (case configured pe ''WAVMG_RCCL_RANK_LOG_DIR'' of
         None \<Rightarrow> io_return ()
       | Some v \<Rightarrow> io_bind (call_ext env (Os ''rank_log'' (resolve pe (path_of pe v)))) (\<lambda>_. io_return ())))
     (io_then (on_world (set_defaults env [(''NCCL_DEBUG'', ''INFO''), (''NCCL_RAS_ENABLE'', ''0'')]))
     (io_then (on_world (torch_do env ''set_device'' [PyInt device]))
     (io_bind (on_world (hip_init env pe None [])) (\<lambda>_.
      io_then (update_self (\<lambda>l. l\<lparr>lv_hip := True\<rparr>))
     (io_then (on_world (set_device env device))
     (io_bind (on_world (probe_load env pe probe_file)) (\<lambda>lib.
      io_then (update_self (\<lambda>l. l\<lparr>lv_library := Some lib\<rparr>))
     (if length unique_id < unique_id_bytes then io_raise ValueError ''Buffer size too small''
      else
        io_bind (on_world (call_native env (probe_sigs pe) ''ncclCommInitRank''
          [PyByref T_void_p, PyInt (pc_world c), PyStruct ''NcclUniqueId'' (take unique_id_bytes unique_id), PyInt rank]))
          (\<lambda>(code, outs).
        io_then (update_self (\<lambda>l. l\<lparr>lv_comm := out_ptr outs\<rparr>))
        (io_then (on_world (probe_check env pe code ''ncclCommInitRank''))
        (update_self (\<lambda>l. l\<lparr>lv_initialized := True\<rparr>))))))))))))"

text \<open>The rest of the block: the buffers, the collectives, the comparison.\<close>

definition rank_exchange ::
  "'w extern \<Rightarrow> pyenv \<Rightarrow> probe_config \<Rightarrow> (string \<Rightarrow> exn + bool) \<Rightarrow> int \<Rightarrow> int \<Rightarrow> ('w, rank_locals, nat list) meth" where
  "rank_exchange env pe c delay rank device =
     (let bytes = int (scalar_size (pc_dtype c)); send_bytes = send_elements c * bytes; receive_bytes = receive_elements c * bytes in
      io_bind (io_of_sum (delay (case getenv pe ''WAVMG_RCCL_PRE_ALLREDUCE_DELAY'' of None \<Rightarrow> ''0'' | Some v \<Rightarrow> v))) (\<lambda>wait_first.
      io_then (on_world (if wait_first then io_bind (call_ext env (Os ''sleep'' [])) (\<lambda>_. io_return ()) else io_return ()))
     (io_bind (io_of_sum (encode_scalar (pc_dtype c) (nat (rank + 1)))) (\<lambda>value.
      io_bind (on_world (host_buffer env (repeat_bytes value (send_elements c)) (int (length (repeat_bytes value (send_elements c)))))) (\<lambda>send_host.
      io_bind (on_world (host_buffer env [] receive_bytes)) (\<lambda>receive_host.
      io_bind (on_world (malloc env send_bytes)) (\<lambda>send.
      io_then (update_self (\<lambda>l. l\<lparr>lv_send := send\<rparr>))
     (io_bind (on_world (malloc env receive_bytes)) (\<lambda>receive.
      io_then (update_self (\<lambda>l. l\<lparr>lv_receive := receive\<rparr>))
     (io_then (on_world (memcpy env send send_host send_bytes HIP_MEMCPY_HOST_TO_DEVICE))
     (io_bind (on_world (call_ext env (Torch ''Stream'' [PyInt device]))) (\<lambda>(stream, _).
      io_then (update_self (\<lambda>l. l\<lparr>lv_called := True\<rparr>))
     (io_bind self (\<lambda>l. let comm = (case lv_comm l of None \<Rightarrow> 0 | Some p \<Rightarrow> p) in
      io_then (on_world (launch_times (nat (pc_warmup c)) env pe c send receive comm stream))
     (io_then (on_world (stream_synchronize env stream))
     (io_then (on_world (launch_times (nat (pc_iterations c)) env pe c send receive comm stream))
     (io_then (on_world (stream_synchronize env stream))
     (io_then (on_world (memcpy env receive_host receive receive_bytes HIP_MEMCPY_DEVICE_TO_HOST))
     (on_world (read_buffer env receive_host receive_bytes))))))))))))))))))))"

definition rank_compare :: "probe_config \<Rightarrow> nat list \<Rightarrow> ('w, rank_locals, unit) meth" where
  "rank_compare c received =
     io_bind (io_of_sum (expected_payload c)) (\<lambda>payload.
     io_bind (io_of_sum (decode_scalar (pc_dtype c) (take (scalar_size (pc_dtype c)) received))) (\<lambda>first_value.
     update_self (\<lambda>l. l\<lparr>lv_successful := received = payload,
       lv_record := (lv_record l)\<lparr>rr_initialized := True, rr_comm_allocated := True, rr_collective_returned := True,
         rr_correct := received = payload, rr_first_value := first_value\<rparr>\<rparr>)))"

definition rank_failed :: "exn \<Rightarrow> ('w, rank_locals, unit) meth" where
  "rank_failed e = update_self (\<lambda>l. l\<lparr>lv_record := (lv_record l)\<lparr>rr_initialized := lv_initialized l,
     rr_comm_allocated := lv_comm l \<noteq> None, rr_collective_called := lv_called l, rr_collective_returned := False,
     rr_correct := False, rr_error := Some e\<rparr>\<rparr>)"

text \<open>The \<open>finally\<close> block: free what was allocated, destroy or abort the communicator, and note every failure.\<close>

definition free_pointer :: "'w extern \<Rightarrow> int \<Rightarrow> ('w, rank_locals, unit) meth" where
  "free_pointer env pointer =
     (if pointer = 0 then io_return ()
      else io_catch (on_world (free env pointer))
        (\<lambda>e. update_self (\<lambda>l. l\<lparr>lv_record := (lv_record l)\<lparr>rr_memory_errors := rr_memory_errors (lv_record l) @ [e]\<rparr>\<rparr>)))"

definition close_comm :: "'w extern \<Rightarrow> pyenv \<Rightarrow> string \<Rightarrow> int \<Rightarrow> ('w, rank_locals, unit) meth" where
  "close_comm env pe fn comm =
     io_catch (io_bind (on_world (call_native env (probe_sigs pe) fn [PyVoidP comm])) (\<lambda>(code, _).
         update_self (\<lambda>l. l\<lparr>lv_record := (lv_record l)\<lparr>rr_closed := Some (fn, code)\<rparr>\<rparr>)))
       (\<lambda>e. update_self (\<lambda>l. l\<lparr>lv_record := (lv_record l)\<lparr>rr_cleanup_error := Some e\<rparr>\<rparr>))"

definition rank_cleanup :: "'w extern \<Rightarrow> pyenv \<Rightarrow> ('w, rank_locals, unit) meth" where
  "rank_cleanup env pe =
     io_bind self (\<lambda>l.
     io_then (if lv_hip l then io_then (free_pointer env (lv_receive l)) (free_pointer env (lv_send l)) else io_return ())
     (case (lv_library l, lv_comm l) of
        (Some lib, Some comm) \<Rightarrow> close_comm env pe (if lv_successful l then ''ncclCommDestroy'' else ''ncclCommAbort'') comm
      | _ \<Rightarrow> io_return ()))"

definition rank_run ::
  "'w extern \<Rightarrow> pyenv \<Rightarrow> path \<Rightarrow> probe_config \<Rightarrow> (string \<Rightarrow> exn + bool) \<Rightarrow> int \<Rightarrow> int \<Rightarrow> nat list \<Rightarrow> ('w, rank_locals, unit) meth" where
  "rank_run env pe probe_file c delay rank device unique_id =
     io_catch
       (io_then (rank_join env pe probe_file c rank device unique_id)
       (io_bind (rank_exchange env pe c delay rank device) (rank_compare c)))
       rank_failed"

definition rank_main ::
  "'w extern \<Rightarrow> pyenv \<Rightarrow> path \<Rightarrow> probe_config \<Rightarrow> (string \<Rightarrow> exn + bool) \<Rightarrow> int \<Rightarrow> nat list \<Rightarrow> ('w world, rank_record) io" where
  "rank_main env pe probe_file c delay rank unique_id = (\<lambda>w.
     case env_int pe ''WAVMG_RCCL_DEVICE'' rank of
       Inl e \<Rightarrow> (Inl e, w)
     | Inr device \<Rightarrow>
         (case io_finally (rank_run env pe probe_file c delay rank device unique_id) (rank_cleanup env pe)
                 (w, start_locals rank device) of
            (Inl e, (w', l)) \<Rightarrow> (Inl e, w')
          | (Inr _, (w', l)) \<Rightarrow> (Inr (lv_record l), w')))"

section \<open>The verdict\<close>

definition probe_passed :: "probe_config \<Rightarrow> rank_record list \<Rightarrow> bool" where
  "probe_passed c records \<longleftrightarrow>
     int (length records) = pc_world c \<and> list_all rr_initialized records \<and> list_all rr_collective_returned records \<and>
     list_all rr_correct records"

text \<open>\<open>main\<close>: every process gets the unique id.\<close>

definition probe_main ::
  "'w extern \<Rightarrow> pyenv \<Rightarrow> path \<Rightarrow> probe_config \<Rightarrow> (int \<Rightarrow> rank_record) \<Rightarrow> ('w world, rank_record list \<times> int) io" where
  "probe_main env pe probe_file c unpickle =
     io_then (set_defaults env [(''NCCL_DEBUG'', ''INFO''), (''NCCL_RAS_ENABLE'', ''0'')])
     (io_bind (probe_load env pe probe_file) (\<lambda>_.
      io_bind (call_native env (probe_sigs pe) ''ncclGetUniqueId'' [PyByref T_unique_id]) (\<lambda>(code, outs).
      io_then (probe_check env pe code ''ncclGetUniqueId'')
     (launch env unpickle rr_rank (probe_passed c) 180 10 [map char_of (out_blob unique_id_bytes outs)] (nat (pc_world c))))))"

section \<open>Cleaning up\<close>

text \<open>The calls that free memory or end a communicator.\<close>

definition gives_back :: "ecall \<Rightarrow> bool" where
  "gives_back c \<longleftrightarrow> is_free c \<or> (\<exists>vs. c = Native ''ncclCommDestroy'' vs \<or> c = Native ''ncclCommAbort'' vs)"

lemma gives_back_simps [simp]: "gives_back (hip_free p)" "\<not> gives_back (Native ''hipGetErrorString'' vs)"
  "gives_back (Native ''ncclCommDestroy'' vs)" "gives_back (Native ''ncclCommAbort'' vs)"
  by (simp_all add: gives_back_def)

lemma free_grew: "grew gives_back w [hip_free p] (snd (free env p w))"
  unfolding free_def by (rule hip_do_grew) (simp_all add: free_typed)

text \<open>The local variables the cleaning up looks at.\<close>

definition same_holdings :: "rank_locals \<Rightarrow> rank_locals \<Rightarrow> bool" where
  "same_holdings l m \<longleftrightarrow> lv_library m = lv_library l \<and> lv_comm m = lv_comm l \<and> lv_successful m = lv_successful l \<and>
     lv_hip m = lv_hip l \<and> lv_send m = lv_send l \<and> lv_receive m = lv_receive l \<and>
     rr_correct (lv_record m) = rr_correct (lv_record l)"

lemma free_pointer_outcome:
  "\<exists>v m. free_pointer env p (w, l) = (Inr (), (v, m)) \<and> same_holdings l m \<and> grew gives_back w (if p = 0 then [] else [hip_free p]) v"
proof (cases "p = 0")
  case True
  then show ?thesis by (simp add: free_pointer_def io_return_def same_holdings_def)
next
  case False
  then show ?thesis
    using free_grew [of w p env]
    by (cases "free env p w"; cases "fst (free env p w)")
      (auto simp: free_pointer_def io_catch_def on_world_apply update_self_def same_holdings_def)
qed

lemma close_typed:
  "fn \<in> {''ncclCommDestroy'', ''ncclCommAbort''} \<Longrightarrow>
     call_native env (probe_sigs pe) fn [PyVoidP p] = call_ext env (Native fn [VPtr (word_of_int p)])"
  by (auto simp: call_native_def probe_sigs_def probe_argtypes_def reduce_symbol_def impl_symbol_def)

lemma close_comm_outcome:
  assumes "fn \<in> {''ncclCommDestroy'', ''ncclCommAbort''}"
  shows "\<exists>v m. close_comm env pe fn p (w, l) = (Inr (), (v, m)) \<and> same_holdings l m \<and> grew gives_back w [Native fn [VPtr (word_of_int p)]] v"
  using assms
  by (cases "env (Native fn [VPtr (word_of_int p)]) (wext w)"; cases "fst (env (Native fn [VPtr (word_of_int p)]) (wext w))")
    (auto simp: close_comm_def close_typed io_catch_def io_bind_def on_world_apply call_ext_def update_self_def same_holdings_def grew_def)

text \<open>What a rank holds when its block ends, and the calls that give it back.\<close>

definition frees_of :: "rank_locals \<Rightarrow> ecall list" where
  "frees_of l = (if lv_hip l then map hip_free (filter (\<lambda>p. p \<noteq> 0) [lv_receive l, lv_send l]) else [])"

definition closes_of :: "rank_locals \<Rightarrow> ecall list" where
  "closes_of l = (case (lv_library l, lv_comm l) of
     (Some lib, Some comm) \<Rightarrow>
       [Native (if lv_successful l then ''ncclCommDestroy'' else ''ncclCommAbort'') [VPtr (word_of_int comm)]]
   | _ \<Rightarrow> [])"

lemma rank_cleanup_outcome:
  "\<exists>v m. rank_cleanup env pe (w, l) = (Inr (), (v, m)) \<and> same_holdings l m \<and> grew gives_back w (frees_of l @ closes_of l) v"
proof -
  obtain v1 l1 where first: "(if lv_hip l then io_then (free_pointer env (lv_receive l)) (free_pointer env (lv_send l)) else io_return ()) (w, l) =
      (Inr (), (v1, l1))" "same_holdings l l1" "grew gives_back w (frees_of l) v1"
  proof (cases "lv_hip l")
    case True
    obtain v2 l2 where r: "free_pointer env (lv_receive l) (w, l) = (Inr (), (v2, l2))" "same_holdings l l2"
      "grew gives_back w (if lv_receive l = 0 then [] else [hip_free (lv_receive l)]) v2" using free_pointer_outcome by blast
    obtain v3 l3 where s: "free_pointer env (lv_send l) (v2, l2) = (Inr (), (v3, l3))" "same_holdings l2 l3"
      "grew gives_back v2 (if lv_send l = 0 then [] else [hip_free (lv_send l)]) v3" using free_pointer_outcome by blast
    show thesis
      by (rule that [of v3 l3]) (use True r s grew_trans [OF r(3) s(3)] in
        \<open>auto simp: io_then_bind io_bind_def same_holdings_def frees_of_def\<close>)
  qed (use that in \<open>simp add: io_return_def same_holdings_def frees_of_def\<close>)
  show ?thesis
  proof (cases "lv_library l = None \<or> lv_comm l = None")
    case True
    then have "closes_of l = []" by (auto simp: closes_of_def split: option.split)
    with True first show ?thesis
      by (auto simp: rank_cleanup_def io_bind_def self_apply io_then_bind io_return_def split: option.split)
  next
    case False
    then obtain lib comm where held: "lv_library l = Some lib" "lv_comm l = Some comm" by auto
    define fn where "fn = (if lv_successful l then ''ncclCommDestroy'' else ''ncclCommAbort'')"
    then have "fn \<in> {''ncclCommDestroy'', ''ncclCommAbort''}" by simp
    from close_comm_outcome [OF this] obtain v2 l2 where c: "close_comm env pe fn comm (v1, l1) = (Inr (), (v2, l2))"
      "same_holdings l1 l2" "grew gives_back v1 [Native fn [VPtr (word_of_int comm)]] v2" by blast
    have "closes_of l = [Native fn [VPtr (word_of_int comm)]]" by (simp add: closes_of_def held fn_def)
    with grew_trans [OF first(3) c(3)] have "grew gives_back w (frees_of l @ closes_of l) v2" by simp
    moreover have "rank_cleanup env pe (w, l) = (Inr (), (v2, l2))"
      using first(1) c(1) held by (simp add: rank_cleanup_def io_bind_def self_apply io_then_bind fn_def)
    moreover have "same_holdings l l2" using first(2) c(2) by (simp add: same_holdings_def)
    ultimately show ?thesis by blast
  qed
qed

lemma rank_run_returns: "\<exists>v l. rank_run env pe f c delay rank device uid u = (Inr (), (v, l))"
  by (cases "io_then (rank_join env pe f c rank device uid) (io_bind (rank_exchange env pe c delay rank device) (rank_compare c)) u";
      cases "fst (io_then (rank_join env pe f c rank device uid) (io_bind (rank_exchange env pe c delay rank device) (rank_compare c)) u)")
    (auto simp: rank_run_def io_catch_def rank_failed_def update_self_def)


end
