(* ===== verification/Shm_Protocol.thy ===== *)
theory Shm_Protocol
  imports Gpu_Streams
begin

text \<open>
  The stream-ordered mapped-host collective. \<open>enqueue_all_reduce\<close> of
  \<open>native/mapped_peer_reduce.hip\<close> enqueues, for epoch \<open>e\<close>: from the second epoch on a wait until
  the peer has consumed epoch \<open>e - 1\<close>, the copy into the own slot, the own ready word, a wait for
  the peer's ready word, the sum with the peer's slot, and the peer's consumed word. Slot \<open>r\<close> is
  rank \<open>r\<close>'s payload slot; the words sit where \<open>shared_memory_all_reduce.py\<close> places them
  (\<open>_control_offset\<close>): ready words at indices 0 and 1, consumed words at indices 2 and 3.

  The first block lacks its wait, so the invariant speaks of the position shifted by one: with the
  missing wait counted, every block has eight commands.
\<close>

definition ready_word :: "nat \<Rightarrow> nat" where
  "ready_word rank = rank"

definition consumed_word :: "nat \<Rightarrow> nat" where
  "consumed_word rank = 2 + rank"

definition enqueue_all_reduce :: "nat \<Rightarrow> nat \<Rightarrow> 'a \<Rightarrow> 'a cmd list" where
  "enqueue_all_reduce rank epoch x =
     (if 1 < epoch then [WaitGe (consumed_word rank) (epoch - 1)] else []) @
     [StoreBegin rank, StoreEnd rank x,
      Signal (ready_word rank) epoch,
      WaitGe (ready_word (1 - rank)) epoch,
      ReadBegin (1 - rank), AddEnd x,
      Signal (consumed_word (1 - rank)) epoch]"

definition shm_stream :: "nat \<Rightarrow> 'a list \<Rightarrow> 'a cmd list" where
  "shm_stream rank xs =
     concat (map (\<lambda>i. enqueue_all_reduce rank (Suc i) (xs ! i)) [0..<length xs])"

definition shm_progs :: "'a list \<Rightarrow> 'a list \<Rightarrow> nat \<Rightarrow> 'a cmd list" where
  "shm_progs xs ys r = (if r = 0 then shm_stream 0 xs else if r = 1 then shm_stream 1 ys else [])"

text \<open>The block with the peer named and the wait always present.\<close>

definition shm_block :: "nat \<Rightarrow> nat \<Rightarrow> nat \<Rightarrow> 'a \<Rightarrow> 'a cmd list" where
  "shm_block r q e x =
     [WaitGe (2 + r) e, StoreBegin r, StoreEnd r x, Signal r (Suc e), WaitGe q (Suc e),
      ReadBegin q, AddEnd x, Signal (2 + q) (Suc e)]"

lemma enqueue_block:
  "1 - r = q \<Longrightarrow> enqueue_all_reduce r (Suc e) x =
     (if e = 0 then tl (shm_block r q e x) else shm_block r q e x)"
  by (simp add: enqueue_all_reduce_def shm_block_def ready_word_def consumed_word_def)

lemma shm_stream_padded:
  assumes "1 - r = q" and "xs \<noteq> []"
  shows "WaitGe (2 + r) 0 # shm_stream r xs =
     concat (map (\<lambda>e. shm_block r q e (xs ! e)) [0..<length xs])"
proof -
  have up: "[0..<length xs] = 0 # [1..<length xs]"
    using assms(2) by (simp add: upt_conv_Cons)
  have rest: "map (\<lambda>i. enqueue_all_reduce r (Suc i) (xs ! i)) [1..<length xs] =
      map (\<lambda>e. shm_block r q e (xs ! e)) [1..<length xs]"
    by (rule map_cong [OF refl]) (simp add: enqueue_block [OF assms(1)])
  have hd: "WaitGe (2 + r) 0 # enqueue_all_reduce r (Suc 0) (xs ! 0) = shm_block r q 0 (xs ! 0)"
    by (simp add: enqueue_block [OF assms(1)] shm_block_def)
  show ?thesis
    unfolding shm_stream_def up list.map concat.simps rest
    by (simp add: hd [symmetric])
qed

lemma length_shm_stream: "r = 0 \<or> r = 1 \<Longrightarrow> length (shm_stream r xs) = 8 * length xs - 1"
proof (cases "xs = []")
  case True
  then show ?thesis by (simp add: shm_stream_def)
next
  case False
  have "Suc (length (shm_stream r xs)) = 8 * length xs"
    using arg_cong [OF shm_stream_padded [OF refl False, of r], of length]
    by (simp add: concat_blocks_length shm_block_def)
  then show ?thesis by simp
qed

lemma shm_stream_at:
  assumes "1 - r = q" and "Suc p = at_pos 8 e k" and "k < 8" and "e < length xs"
  shows "shm_stream r xs ! p = shm_block r q e (xs ! e) ! k"
proof -
  have ne: "xs \<noteq> []" using assms(4) by auto
  have "shm_stream r xs ! p = (WaitGe (2 + r) 0 # shm_stream r xs) ! Suc p" by simp
  also have "\<dots> = concat (map (\<lambda>e. shm_block r q e (xs ! e)) [0..<length xs]) ! at_pos 8 e k"
    by (simp only: shm_stream_padded [OF assms(1) ne] assms(2))
  also have "\<dots> = shm_block r q e (xs ! e) ! k"
    using assms(3,4)
    by (subst concat_blocks_nth [where k = 8]) (simp_all add: at_pos_div at_pos_mod shm_block_def)
  finally show ?thesis .
qed

section \<open>The invariant\<close>

definition shm_order :: "nat \<Rightarrow> nat \<Rightarrow> bool" where
  "shm_order p q \<longleftrightarrow> passed 8 5 p \<le> passed 8 4 q \<and> passed 8 1 p \<le> Suc (epoch_of 8 q)"

definition shm_half :: "('a \<Rightarrow> 'a \<Rightarrow> 'a) \<Rightarrow> 'a list \<Rightarrow> 'a list \<Rightarrow> 'a gpu \<Rightarrow> nat \<Rightarrow> nat \<Rightarrow> bool" where
  "shm_half add xs ys s r q \<longleftrightarrow>
     pc s r \<le> 8 * length xs - 1 \<and>
     sem s r = passed 8 4 (Suc (pc s r)) \<and> sem s (2 + r) = epoch_of 8 (Suc (pc s q)) \<and>
     (phase_of 8 (Suc (pc s r)) \<noteq> 2 \<and> passed 8 3 (Suc (pc s r)) \<noteq> 0 \<longrightarrow>
        mem s r = Some (xs ! (passed 8 3 (Suc (pc s r)) - 1))) \<and>
     (phase_of 8 (Suc (pc s r)) = 6 \<longrightarrow>
        reading s r = Some (q, Some (ys ! epoch_of 8 (Suc (pc s r))))) \<and>
     outs s r = map (\<lambda>i. Some (add (xs ! i) (ys ! i))) [0..<passed 8 7 (Suc (pc s r))]"

definition shm_inv :: "('a \<Rightarrow> 'a \<Rightarrow> 'a) \<Rightarrow> 'a list \<Rightarrow> 'a list \<Rightarrow> 'a gpu \<Rightarrow> bool" where
  "shm_inv add xs ys s \<longleftrightarrow>
     shm_order (Suc (pc s 0)) (Suc (pc s 1)) \<and> shm_order (Suc (pc s 1)) (Suc (pc s 0)) \<and>
     shm_half add xs ys s 0 1 \<and> shm_half add ys xs s 1 0"

lemma shm_inv_init: "gpu_init s \<Longrightarrow> shm_inv add xs ys s"
  by (simp add: gpu_init_def shm_inv_def shm_order_def shm_half_def passed_def epoch_of_def phase_of_def)

lemma shm_chain:
  "epoch_of 8 q \<le> passed 8 7 q" "passed 8 7 q \<le> passed 8 5 q" "passed 8 5 q \<le> passed 8 4 q"
  "passed 8 4 q \<le> passed 8 3 q" "passed 8 3 q \<le> passed 8 1 q" "passed 8 1 q \<le> Suc (epoch_of 8 q)"
  "phase_of 8 q = 6 \<Longrightarrow> passed 8 5 q = Suc (epoch_of 8 q)"
  "phase_of 8 q = 2 \<Longrightarrow> passed 8 4 q = epoch_of 8 q \<and> passed 8 1 q = Suc (epoch_of 8 q)"
  by (simp_all add: passed_def)

lemma shm_half_step:
  assumes rq: "r = 0 \<and> q = 1 \<or> r = 1 \<and> q = (0::nat)"
    and len: "length xs = length ys"
    and ord: "shm_order (Suc (pc s r)) (Suc (pc s q))" "shm_order (Suc (pc s q)) (Suc (pc s r))"
    and half: "shm_half add xs ys s r q" "shm_half add ys xs s q r"
    and lt: "pc s r < 8 * length xs - 1"
    and ex: "exec add r (shm_stream r xs ! pc s r) s = Some u"
    and t: "t = u\<lparr>pc := (pc s)(r := Suc (pc s r))\<rparr>"
  shows "shm_order (Suc (pc t r)) (Suc (pc t q)) \<and> shm_order (Suc (pc t q)) (Suc (pc t r)) \<and>
         shm_half add xs ys t r q \<and> shm_half add ys xs t q r"
proof -
  obtain e k where p: "Suc (pc s r) = at_pos 8 e k" "k < 8" by (rule at_cases [of 8]) auto
  from lt have "Suc (pc s r) < 8 * length xs" by simp
  with p have e: "e < length xs" by simp
  have q: "q \<noteq> r" "2 + q \<noteq> r" "2 + r \<noteq> q" "1 - r = q" using rq by auto
  have ex': "exec add r (shm_block r q e (xs ! e) ! k) s = Some u"
    using ex shm_stream_at [OF q(4) p e] by simp
  note c = shm_chain [of "Suc (pc s q)"]
  have one: "k = 1 \<longrightarrow> phase_of 8 (Suc (pc s q)) \<noteq> 6"
    using c(7) ord p by (auto simp: shm_order_def split: if_splits)
  have "mem s q = Some (ys ! e)" if "k = 5"
  proof -
    have "phase_of 8 (Suc (pc s q)) \<noteq> 2" and "passed 8 3 (Suc (pc s q)) = Suc e"
      using that c ord p by (auto simp: shm_order_def)
    with half(2) show ?thesis by (simp add: shm_half_def)
  qed
  then have five: "k = 5 \<longrightarrow> mem s q = Some (ys ! e)" by blast
  show ?thesis using less_8_cases [OF p(2)]
    by (elim disjE; use len ord half p(1) e lt ex' t q(1-3) one five c(1-6) in
        \<open>clarsimp simp: shm_block_def shm_order_def shm_half_def split: if_split_asm\<close>)
qed

lemma shm_inv_step:
  assumes "length xs = length ys" and "shm_inv add xs ys s"
    and "gpu_step add (shm_progs xs ys) s t"
  shows "shm_inv add xs ys t"
  using assms(3)
proof (cases rule: gpu_step.cases)
  case (gpu_step_exec r u)
  then have "r = 0 \<or> r = 1" by (auto simp: shm_progs_def split: if_splits)
  then show ?thesis
  proof
    assume "r = 0"
    with gpu_step_exec assms(1,2) show ?thesis
      using shm_half_step [of 0 1 xs ys s add u t]
      by (simp add: shm_inv_def shm_progs_def length_shm_stream)
  next
    assume "r = 1"
    with gpu_step_exec assms(1,2) show ?thesis
      using shm_half_step [of 1 0 ys xs s add u t]
      by (simp add: shm_inv_def shm_progs_def length_shm_stream)
  qed
qed

lemma shm_behind_moves:
  assumes rq: "r = 0 \<and> q = 1 \<or> r = 1 \<and> q = (0::nat)"
    and half: "shm_half add xs ys s r q" "shm_half add ys xs s q r"
    and lt: "pc s r < 8 * length xs - 1" and behind: "pc s r \<le> pc s q"
  shows "exec add r (shm_stream r xs ! pc s r) s \<noteq> None"
proof -
  obtain e k where p: "Suc (pc s r) = at_pos 8 e k" "k < 8" by (rule at_cases [of 8]) auto
  obtain f j where pq: "Suc (pc s q) = at_pos 8 f j" "j < 8" by (rule at_cases [of 8]) auto
  from lt have "Suc (pc s r) < 8 * length xs" by simp
  with p have e: "e < length xs" by simp
  have q: "1 - r = q" using rq by auto
  from behind have "at_pos 8 e k \<le> at_pos 8 f j" using p(1) pq(1) by simp
  then have ef: "e < f \<or> e = f \<and> k \<le> j" by (rule at_pos_le [OF p(2) pq(2)])
  have sems: "sem s (2 + r) = f" "sem s q = (if 4 \<le> j then Suc f else f)"
    using half pq by (simp_all add: shm_half_def)
  show ?thesis using less_8_cases [OF p(2)] ef
    by (elim disjE) (simp_all add: shm_stream_at [OF q p e] shm_block_def sems sems(1) [simplified])
qed

lemma shm_progress:
  assumes len: "length xs = length ys" and inv: "shm_inv add xs ys s"
    and nd: "\<not> gpu_done (shm_progs xs ys) [0, 1] s"
  shows "\<exists>t. gpu_step add (shm_progs xs ys) s t"
proof (cases "pc s 0 \<le> pc s 1")
  case True
  with len inv nd have "pc s 0 < 8 * length xs - 1"
    by (auto simp: shm_inv_def shm_half_def gpu_done_def shm_progs_def length_shm_stream)
  with True inv show ?thesis
    by (intro gpu_can_step [of s 0])
       (simp_all add: shm_progs_def shm_inv_def length_shm_stream
          shm_behind_moves [of 0 1 _ _ ys, simplified])
next
  case False
  with len inv nd have "pc s 1 < 8 * length ys - 1"
    by (auto simp: shm_inv_def shm_half_def gpu_done_def shm_progs_def length_shm_stream)
  with False inv show ?thesis
    by (intro gpu_can_step [of s 1])
       (simp_all add: shm_progs_def shm_inv_def length_shm_stream
          shm_behind_moves [of 1 0 _ _ xs, simplified])
qed

section \<open>The protocol as a collective\<close>

abbreviation shm_run :: "('a \<times> 'a) list \<Rightarrow> nat \<Rightarrow> 'a cmd list" where
  "shm_run calls \<equiv> shm_progs (map fst calls) (map snd calls)"

abbreviation shm_reach :: "('a \<Rightarrow> 'a \<Rightarrow> 'a) \<Rightarrow> ('a \<times> 'a) list \<Rightarrow> 'a gpu \<Rightarrow> bool" where
  "shm_reach add calls \<equiv> reach gpu_init (gpu_step add (shm_run calls))"

text \<open>Eight commands per call, the first wait missing: the calls served at a position.\<close>

definition shm_served :: "nat \<Rightarrow> nat" where
  "shm_served p = passed 8 7 (Suc p)"

lemma shm_served_le: "p \<le> 8 * n - 1 \<Longrightarrow> shm_served p \<le> n"
proof (cases n)
  case 0
  assume "p \<le> 8 * n - 1"
  with 0 show ?thesis by (simp add: shm_served_def passed_def epoch_of_def phase_of_def)
next
  case (Suc m)
  assume "p \<le> 8 * n - 1"
  with Suc have "Suc p \<le> 8 * n" by simp
  from passed_mono [OF this, of 8 7] show ?thesis
    by (simp add: shm_served_def passed_def epoch_of_def phase_of_def)
qed

lemma shm_inv_outs:
  assumes "shm_inv add (map fst calls) (map snd calls) s"
  shows "outs s 0 = map (\<lambda>(x, y). Some (add x y)) (take (shm_served (pc s 0)) calls)"
    and "outs s 1 = map (\<lambda>(x, y). Some (add y x)) (take (shm_served (pc s 1)) calls)"
proof -
  from assms have h: "shm_half add (map fst calls) (map snd calls) s 0 1"
    "shm_half add (map snd calls) (map fst calls) s 1 0"
    by (simp_all add: shm_inv_def)
  then have "shm_served (pc s 0) \<le> length calls" "shm_served (pc s 1) \<le> length calls"
    by (auto simp: shm_half_def intro: shm_served_le)
  with h show "outs s 0 = map (\<lambda>(x, y). Some (add x y)) (take (shm_served (pc s 0)) calls)"
    and "outs s 1 = map (\<lambda>(x, y). Some (add y x)) (take (shm_served (pc s 1)) calls)"
    unfolding shm_half_def shm_served_def by (simp_all only: outs_zip)
qed

interpretation shm: collective_protocol add "shm_run calls"
  "shm_inv add (map fst calls) (map snd calls)" calls shm_served
  for add :: "'a \<Rightarrow> 'a \<Rightarrow> 'a" and calls :: "('a \<times> 'a) list"
proof unfold_locales
  fix s t :: "'a gpu" and r
  show "gpu_init s \<Longrightarrow> shm_inv add (map fst calls) (map snd calls) s"
    by (rule shm_inv_init)
  show "shm_inv add (map fst calls) (map snd calls) s \<Longrightarrow> gpu_step add (shm_run calls) s t \<Longrightarrow>
      shm_inv add (map fst calls) (map snd calls) t"
    by (rule shm_inv_step) simp_all
  show "shm_inv add (map fst calls) (map snd calls) s \<Longrightarrow>
      \<not> gpu_done (shm_run calls) [0, 1] s \<Longrightarrow> \<exists>t. gpu_step add (shm_run calls) s t"
    by (rule shm_progress) simp_all
  show "shm_run calls r \<noteq> [] \<Longrightarrow> r = 0 \<or> r = Suc 0"
    by (simp add: shm_progs_def split: if_splits)
  show "shm_inv add (map fst calls) (map snd calls) s \<Longrightarrow>
      outs s 0 = map (\<lambda>(x, y). Some (add x y)) (take (shm_served (pc s 0)) calls)"
    by (rule shm_inv_outs)
  show "shm_inv add (map fst calls) (map snd calls) s \<Longrightarrow>
      outs s 1 = map (\<lambda>(x, y). Some (add y x)) (take (shm_served (pc s 1)) calls)"
    by (rule shm_inv_outs)
  show "r = 0 \<or> r = 1 \<Longrightarrow> length calls \<le> shm_served (length (shm_run calls r))"
    by (cases calls) (auto simp: shm_progs_def length_shm_stream shm_served_def passed_def
        epoch_of_def phase_of_def)
qed

section \<open>What the two ranks obtain\<close>

text \<open>C2: in the mapped-host collective too, every schedule of the two streams gives each rank, for
  every call in order, its own payload plus the peer's payload of the same call: the slots are never
  overwritten before the peer has read them and never read before they are complete.\<close>

theorem shm_collectives_correct:
  assumes "shm_reach add calls s" and "gpu_done (shm_run calls) [0, 1] s"
  shows "outs s 0 = map (\<lambda>(x, y). Some (add x y)) calls \<and>
         outs s 1 = map (\<lambda>(x, y). Some (add y x)) calls"
  using assms by (rule shm.results)

lemma shm_collectives_correct_witness:
  "\<exists>s. gpu_done (shm_run [(1::nat, 2), (3, 4)]) [0, 1] s \<and>
       outs s 0 = [Some 3, Some 7] \<and> outs s 1 = [Some 3, Some 7]"
  using shm.completes [of "(+)" "[(1::nat, 2), (3, 4)]"]
    shm_collectives_correct [of "(+)" "[(1::nat, 2), (3, 4)]"] by fastforce

lemma shm_start_step: "\<exists>t. gpu_step (+) (shm_run [(1::nat, 2)]) gpu_start t"
  by (rule shm.first_step) (simp add: shm_progs_def shm_stream_def enqueue_all_reduce_def)

text \<open>C5: the mapped-host streams never deadlock, and every schedule executes at most sixteen
  commands per collective.\<close>

theorem shm_no_deadlock:
  assumes "shm_reach add calls s"
  shows "(gpu_done (shm_run calls) [0, 1] s \<or> (\<exists>t. gpu_step add (shm_run calls) s t)) \<and>
         (\<forall>n t. run_len (gpu_step add (shm_run calls)) n s t \<longrightarrow> n \<le> 16 * length calls)"
  using shm.no_deadlock [OF assms] shm.runs_bounded [OF assms]
  by (fastforce simp: shm_progs_def length_shm_stream)

lemma shm_no_deadlock_witness:
  "\<exists>t. gpu_step (+) (shm_run [(1::nat, 2)]) gpu_start t"
  using shm_no_deadlock [OF gpu_reach_start, where add = "(+)" and calls = "[(1::nat, 2)]"]
    shm_start_step by blast

end
