(* ===== verification/Shm_Link.thy ===== *)
theory Shm_Link
  imports Shm_All_Reduce Shm_Protocol Host_Path_Protocol
begin

text \<open>
  From the host code of the shared-memory collective to its two protocols. On the stream path the
  native entry point \<open>enqueue_all_reduce\<close> receives addresses; read with the communicator's layout they
  are the slots and the control words of \<open>Shm_Protocol\<close>. On the host path the calls themselves are the
  commands of \<open>Host_Path_Protocol\<close>.
\<close>

section \<open>Addresses\<close>

text \<open>The slot a host address names, the slot a device address names, the control word of a device
  address.\<close>

definition host_slot :: "shm_ar \<Rightarrow> u64 \<Rightarrow> nat" where
  "host_slot s p = nat ((uint p - sh_base s) div sh_max s)"

definition device_slot :: "shm_ar \<Rightarrow> u64 \<Rightarrow> nat" where
  "device_slot s p = nat ((uint p - sh_mapped s) div sh_max s)"

definition device_word :: "shm_ar \<Rightarrow> u64 \<Rightarrow> nat" where
  "device_word s p = nat ((uint p - sh_mapped s - 2 * sh_max s) div CACHE_LINE_BYTES)"

text \<open>The commands of one native call, by the addresses it is given.\<close>

definition native_enqueue :: "shm_ar \<Rightarrow> 'a \<Rightarrow> ecall \<Rightarrow> 'a cmd list" where
  "native_enqueue s x c =
     (case c of
        Native fn [_, VPtr own_slot, VPtr peer_slot, _, _, VPtr own_ready, VPtr peer_ready,
                   VPtr own_consumed, VPtr peer_consumed, VU32 epoch, _] \<Rightarrow>
          (if 1 < unat epoch then [WaitGe (device_word s own_consumed) (unat epoch - 1)] else []) @
          [StoreBegin (host_slot s own_slot), StoreEnd (host_slot s own_slot) x,
           Signal (device_word s own_ready) (unat epoch),
           WaitGe (device_word s peer_ready) (unat epoch),
           ReadBegin (device_slot s peer_slot), AddEnd x,
           Signal (device_word s peer_consumed) (unat epoch)]
      | _ \<Rightarrow> [])"

text \<open>The mapping lies in the 64-bit address space on both sides.\<close>

definition mapping_fits :: "shm_ar \<Rightarrow> bool" where
  "mapping_fits s \<longleftrightarrow> 0 \<le> sh_base s \<and> 0 \<le> sh_mapped s \<and>
     sh_base s + 2 * sh_max s + CONTROL_BYTES < 2 ^ 64 \<and> sh_mapped s + 2 * sh_max s + CONTROL_BYTES < 2 ^ 64"

lemma address_uint:
  "0 \<le> a \<Longrightarrow> a < 2 ^ 64 \<Longrightarrow> uint (word_of_int a :: u64) = a"
  by (simp add: uint_word_of_int_eq take_bit_int_eq_self)

lemma slots_decode:
  assumes "mapping_fits s" and "shm_shape s" and "r \<in> {0, 1}"
  shows "host_slot s (word_of_int (sh_base s + r * sh_max s)) = nat r"
    and "device_slot s (word_of_int (sh_mapped s + r * sh_max s)) = nat r"
proof -
  have "uint (word_of_int (sh_base s + r * sh_max s) :: u64) = sh_base s + r * sh_max s"
    "uint (word_of_int (sh_mapped s + r * sh_max s) :: u64) = sh_mapped s + r * sh_max s"
    by (rule address_uint; use assms in \<open>auto simp: mapping_fits_def shm_shape_def CONTROL_BYTES_def\<close>)+
  then show "host_slot s (word_of_int (sh_base s + r * sh_max s)) = nat r"
    and "device_slot s (word_of_int (sh_mapped s + r * sh_max s)) = nat r"
    using assms(2) by (simp_all add: host_slot_def device_slot_def shm_shape_def del: of_int_add of_int_mult)
qed

lemma words_decode:
  assumes "mapping_fits s" and "shm_shape s" and "r \<in> {0, 1}"
  shows "device_word s (word_of_int (sh_mapped s + control_offset s Ready r)) = ready_word (nat r)"
    and "device_word s (word_of_int (sh_mapped s + control_offset s Consumed r)) = consumed_word (nat r)"
proof -
  have addr: "uint (word_of_int (sh_mapped s + control_offset s k r) :: u64) = sh_mapped s + control_offset s k r" for k
    by (rule address_uint; use assms in \<open>auto simp: mapping_fits_def shm_shape_def control_offset_def
        CONTROL_BYTES_def CACHE_LINE_BYTES_def Let_def\<close>)
  show "device_word s (word_of_int (sh_mapped s + control_offset s Ready r)) = ready_word (nat r)"
    and "device_word s (word_of_int (sh_mapped s + control_offset s Consumed r)) = consumed_word (nat r)"
    unfolding device_word_def addr
    using assms(2,3)
    by (auto simp: control_offset_def ready_word_def consumed_word_def CACHE_LINE_BYTES_def
        shm_shape_def Let_def)
qed

text \<open>C16: the stream path calls the native collective with the right addresses: when \<open>all_reduce\<close> of a
  supported tensor returns, the one native call it made, read with the layout of the mapping, is
  exactly the block that \<open>Shm_Protocol\<close> schedules for this rank and the next epoch: own slot, own ready
  word, peer's ready word, peer's slot, peer's consumed word, and the wait on the own consumed word.\<close>

theorem stream_call_is_block:
  assumes "mapping_fits s" and "shm_shape s" and "sh_rank s \<in> {0, 1}" and "0 \<le> sh_epoch s"
    and "stream_all_reduce env T source (w, s) = (Inr out, (w', s'))"
  shows "native_enqueue s x (last (wlog w')) = enqueue_all_reduce (nat (sh_rank s)) (Suc (nat (sh_epoch s))) x \<and>
    s' = s\<lparr>sh_epoch := sh_epoch s + 1\<rparr>"
  using assms(5)
proof (rule stream_success, goal_cases)
  case (1 fn st q)
  have e: "unat (word_of_int (sh_epoch s + 1) :: u32) = Suc (nat (sh_epoch s))"
    using 1(1) assms(4)
    by (simp add: unat_eq_nat_uint uint_word_of_int_eq take_bit_int_eq_self del: of_int_add)
  have peer: "1 - sh_rank s \<in> {0, 1}" "nat (1 - sh_rank s) = 1 - nat (sh_rank s)" using assms(3) by auto
  note own = slots_decode [OF assms(1-3)] words_decode [OF assms(1-3)]
    and other = slots_decode [OF assms(1,2) peer(1)] words_decode [OF assms(1,2) peer(1)]
  show ?case
    by (simp add: 1(2,5) native_enqueue_def enqueue_all_reduce_def e own other peer(2)
        del: of_int_add of_int_mult of_int_diff)
qed

lemma stream_call_is_block_witness:
  "\<exists>(w' :: nat world) s'. native_enqueue sample_shm (5::nat) (last (wlog w')) = enqueue_all_reduce 0 1 5 \<and>
     s' = sample_shm\<lparr>sh_epoch := 1\<rparr>"
proof -
  have "case stream_all_reduce quiet sample_torch (sample_tensor Float16 8 16) (\<lparr>wext = 0, wlog = []\<rparr>, sample_shm) of
      (Inl e, u) \<Rightarrow> False | (Inr y, u) \<Rightarrow> True"
    by code_simp
  then obtain out w' s' where "stream_all_reduce quiet sample_torch (sample_tensor Float16 8 16)
      (\<lparr>wext = 0, wlog = []\<rparr>, sample_shm) = (Inr out, (w', s'))"
    by (auto split: prod.splits sum.splits)
  from stream_call_is_block [OF _ sample_shm_shape _ _ this, of "5::nat"]
  have "native_enqueue sample_shm (5::nat) (last (wlog w')) = enqueue_all_reduce 0 1 5 \<and>
     s' = sample_shm\<lparr>sh_epoch := 1\<rparr>"
    by (simp add: mapping_fits_def sample_shm_def CONTROL_BYTES_def)
  then show ?thesis by blast
qed

section \<open>The host path\<close>

text \<open>A call as a command of the host protocol: the copy to the own slot, the two halves of the barrier,
  the sum; the copy of the sum back to the GPU touches nothing shared.\<close>

definition host_commands :: "shm_ar \<Rightarrow> 'a \<Rightarrow> ecall \<Rightarrow> 'a hcmd list" where
  "host_commands s x c =
     (case c of
        Native fn vs \<Rightarrow>
          (if fn = ''hipMemcpy'' then
             (case vs of [VPtr dst, _, _, _] \<Rightarrow>
                (if dst = word_of_int (slot_pointer s (sh_rank s)) then [PutBegin, PutEnd x] else []) | _ \<Rightarrow> [])
           else if fn = ''SetEvent'' then
             (if vs = [VPtr (word_of_int (bar_handles (sh_barrier s) ! nat (sh_rank s)))] then [SetOwn] else [])
           else if fn = ''WaitForSingleObject'' then
             (case vs of [h, _] \<Rightarrow>
                (if h = VPtr (word_of_int (bar_handles (sh_barrier s) ! nat (1 - sh_rank s))) then [AwaitPeer] else []) | _ \<Rightarrow> [])
           else [])
      | Torch fn args \<Rightarrow> (if fn = ''add'' then [SumBegin, SumEnd] else [])
      | _ \<Rightarrow> [])"

lemma host_commands_simps [simp]:
  "host_commands s x (Torch ''empty_like'' args) = []"
  "host_commands s x (Torch ''contiguous'' args) = []"
  "host_commands s x (Torch ''add'' args) = [SumBegin, SumEnd]"
  "host_commands s x (Native ''hipMemcpy'' [VPtr dst, a, b, c]) =
     (if dst = word_of_int (slot_pointer s (sh_rank s)) then [PutBegin, PutEnd x] else [])"
  "host_commands s x (Native ''SetEvent'' [VPtr h]) =
     (if h = word_of_int (bar_handles (sh_barrier s) ! nat (sh_rank s)) then [SetOwn] else [])"
  "host_commands s x (Native ''WaitForSingleObject'' [VPtr h, t]) =
     (if h = word_of_int (bar_handles (sh_barrier s) ! nat (1 - sh_rank s)) then [AwaitPeer] else [])"
  by (simp_all add: host_commands_def)

lemma memcpy_success:
  assumes "memcpy env dst src n kind w = (Inr (), w')"
  shows "wlog w' = wlog w @ [Native ''hipMemcpy'' [VPtr (word_of_int dst), VPtr (word_of_int src),
    VU64 (word_of_int n), VI32 (word_of_int kind)]]"
proof -
  have "call_native env hip_sigs ''hipMemcpy'' [PyVoidP dst, PyVoidP src, PyInt n, PyInt kind] =
      call_ext env (Native ''hipMemcpy'' [VPtr (word_of_int dst), VPtr (word_of_int src),
        VU64 (word_of_int n), VI32 (word_of_int kind)])"
    by (simp add: call_native_def hip_sigs_def hip_argtypes_def)
  with assms show ?thesis
    by (auto simp: memcpy_def hip_do_def hip_run_def hip_check_def io_success call_ext_success_iff
        split: if_splits)
qed

lemma barrier_wait_success:
  assumes "barrier_wait env (w, b) = (Inr (), (w', b'))"
  obtains own peer where "handle_at b (bar_rank b) = Inr own" "handle_at b (1 - bar_rank b) = Inr peer" "b' = b"
    "wlog w' = wlog w @ [Native ''SetEvent'' [VPtr (word_of_int own)],
       Native ''WaitForSingleObject'' [VPtr (word_of_int peer), VU32 (word_of_int (bar_timeout b))]]"
  using assms
  by (auto simp: barrier_wait_def method_success kernel32_typed call_ext_success_iff win_error_def
      split: if_splits)

lemma on_barrier_wait_success:
  assumes "on_barrier (barrier_wait env) (w, s) = (Inr (), (w', s'))"
    and "length (bar_handles (sh_barrier s)) = 2" and "bar_rank (sh_barrier s) = sh_rank s" and "sh_rank s \<in> {0, 1}"
  shows "s' = s \<and> wlog w' = wlog w @
    [Native ''SetEvent'' [VPtr (word_of_int (bar_handles (sh_barrier s) ! nat (sh_rank s)))],
     Native ''WaitForSingleObject'' [VPtr (word_of_int (bar_handles (sh_barrier s) ! nat (1 - sh_rank s))),
       VU32 (word_of_int (bar_timeout (sh_barrier s)))]]"
proof -
  from assms(1) obtain b' where wait: "barrier_wait env (w, sh_barrier s) = (Inr (), (w', b'))"
    and s': "s' = s\<lparr>sh_barrier := b'\<rparr>"
    by (auto simp: on_barrier_def method_success)
  from wait show ?thesis
    by (rule barrier_wait_success) (use assms(2-4) s' in \<open>auto simp: handle_at_def split: if_splits\<close>)
qed


definition present_peer :: "nat extern" where
  "present_peer = (\<lambda>c n. (Inr (case c of
     Native fn vs \<Rightarrow> if fn = ''SetEvent'' then 1 else 0 | _ \<Rightarrow> 0, []), Suc n))"


section \<open>Mixing the two paths\<close>

text \<open>
  A collective of a supported type followed by one of another type: rank 0's stream holds one block of
  the stream path, and the copy that opens its host-path collective follows it (a blocking copy on the
  same device is ordered after the stream). Rank 1 has only come to its stream-path block.
\<close>

definition mixed_progs :: "'a \<Rightarrow> 'a \<Rightarrow> 'a \<Rightarrow> nat \<Rightarrow> 'a cmd list" where
  "mixed_progs x y z r =
     (if r = 0 then enqueue_all_reduce 0 1 x @ [StoreBegin 0, StoreEnd 0 z]
      else if r = 1 then enqueue_all_reduce 1 1 y else [])"


end
