(* ===== verification/Single_Process_Probes.thy ===== *)
theory Single_Process_Probes
  imports Rank_Launch Lifecycle
begin

text \<open>
  The remaining scripts of \<open>probes/\<close>, which ask one question of the machine each: \<open>hip_host_malloc_flags.py\<close>,
  \<open>environment_probe.py\<close>, \<open>probe_windows_gloo_single.py\<close>, \<open>probe_windows_engine_shutdown.py\<close> and \<open>vllm_tp_output.py\<close>.
  The clock, the argument parsers, version strings and printing are not modelled; vLLM is the environment.
\<close>

section \<open>Allocation flags\<close>

definition host_flags :: "(string \<times> int) list" where
  "host_flags =
     [(''default'', 0), (''portable'', 1), (''mapped'', 2), (''portable_mapped'', 3), (''write_combined'', 4),
      (''mapped_write_combined'', 6), (''uncached'', 0x10000000), (''mapped_uncached'', 0x10000002), (''coherent'', 0x40000000),
      (''mapped_coherent'', 0x40000002), (''noncoherent'', 0x80000000), (''mapped_noncoherent'', 0x80000002)]"

definition flag_sigs :: signatures where
  "flag_sigs = map_of
     [(''hipSetDevice'', [T_int]), (''hipHostMalloc'', [T_pointer T_void_p, T_size_t, T_uint]),
      (''hipHostFree'', [T_void_p]), (''hipHostGetDevicePointer'', [T_pointer T_void_p, T_void_p, T_uint])]"

record flag_result =
  fl_name :: string
  fl_flags :: int
  fl_alloc :: int
  fl_host :: "int option"
  fl_map :: "int option"
  fl_device :: "int option"
  fl_free :: "int option"

text \<open>A null \<open>c_void_p\<close> is passed on as the pointer 0.\<close>

definition void_p :: "int option \<Rightarrow> pyarg" where
  "void_p p = PyVoidP (case p of None \<Rightarrow> 0 | Some a \<Rightarrow> a)"

definition flag_case :: "'w extern \<Rightarrow> string \<times> int \<Rightarrow> ('w world, flag_result) io" where
  "flag_case env = (\<lambda>(name, value).
     io_bind (call_native env flag_sigs ''hipHostMalloc'' [PyByref T_void_p, PyInt 4096, PyInt value]) (\<lambda>(alloc_result, outs).
     let host_ptr = out_ptr outs;
         found = \<lparr>fl_name = name, fl_flags = value, fl_alloc = alloc_result, fl_host = host_ptr, fl_map = None, fl_device = None,
           fl_free = None\<rparr> in
     if alloc_result \<noteq> 0 then io_return found
     else
       io_bind (call_native env flag_sigs ''hipHostGetDevicePointer'' [PyByref T_void_p, void_p host_ptr, PyInt 0]) (\<lambda>(map_result, mapped).
       io_bind (call_native env flag_sigs ''hipHostFree'' [void_p host_ptr]) (\<lambda>(free_result, _).
       io_return (found\<lparr>fl_map := Some map_result, fl_device := out_ptr mapped, fl_free := Some free_result\<rparr>)))))"

definition flags_main :: "'w extern \<Rightarrow> pyenv \<Rightarrow> path \<Rightarrow> ('w world, flag_result list \<times> int) io" where
  "flags_main env pe repository =
     (let rocm_bin = repository @ [''.venv'', ''Lib'', ''site-packages'', ''_rocm_sdk_devel'', ''bin''] in
     io_bind (call_ext env (Torch ''is_available'' [])) (\<lambda>(available, _).
     if available = 0 then io_raise RuntimeError ''HIP device is not available''
     else
       io_then (load_library env pe [rocm_bin] (rocm_bin @ [''amdhip64_7.dll''])
         [''hipSetDevice'', ''hipHostMalloc'', ''hipHostFree'', ''hipHostGetDevicePointer''])
      (io_bind (call_native env flag_sigs ''hipSetDevice'' [PyInt 0]) (\<lambda>(set_device, _).
       if set_device \<noteq> 0 then io_raise RuntimeError (''hipSetDevice failed: '' @ py_str set_device)
       else io_bind (io_list (flag_case env) host_flags) (\<lambda>results. io_return (results, 0))))))"

section \<open>Capabilities\<close>

record capabilities =
  en_distributed :: bool
  en_gloo :: bool
  en_nccl :: bool
  en_devices :: "(int \<times> string \<times> string) list"
  en_peers :: "((int \<times> int) \<times> bool) list"

definition torch_yes :: "'w extern \<Rightarrow> string \<Rightarrow> pyarg list \<Rightarrow> ('w world, bool) io" where
  "torch_yes env fn args = io_bind (call_ext env (Torch fn args)) (\<lambda>(yes, _). io_return (yes \<noteq> 0))"

definition dist_yes :: "'w extern \<Rightarrow> string \<Rightarrow> ('w world, bool) io" where
  "dist_yes env fn = io_bind (dist_int env fn []) (\<lambda>yes. io_return (yes \<noteq> 0))"

text \<open>\<open>dist.f() if dist.is_available() else False\<close>\<close>

definition backend_available :: "'w extern \<Rightarrow> string \<Rightarrow> ('w world, bool) io" where
  "backend_available env fn =
     io_bind (dist_yes env ''is_available'') (\<lambda>available. if available then dist_yes env fn else io_return False)"

definition device_names :: "'w extern \<Rightarrow> int \<Rightarrow> ('w world, int \<times> string \<times> string) io" where
  "device_names env index =
     io_bind (show_value env [] ''get_device_name'' index) (\<lambda>name.
     io_bind (show_value env [''get_device_properties''] ''gcnArchName'' index) (\<lambda>arch.
     io_return (index, name, arch)))"

definition ordered_pairs :: "int \<Rightarrow> (int \<times> int) list" where
  "ordered_pairs n = filter (\<lambda>(s, t). s \<noteq> t) (List.product [0..n - 1] [0..n - 1])"

definition environment_main :: "'w extern \<Rightarrow> ('w world, capabilities \<times> int) io" where
  "environment_main env =
     io_bind (call_ext env (Torch ''device_count'' [])) (\<lambda>(device_count, _).
     io_bind (dist_yes env ''is_available'') (\<lambda>distributed.
     io_bind (backend_available env ''is_gloo_available'') (\<lambda>gloo.
     io_bind (backend_available env ''is_nccl_available'') (\<lambda>nccl.
     io_bind (io_list (device_names env) [0..device_count - 1]) (\<lambda>devices.
     io_bind (io_list (\<lambda>(s, t). io_bind (torch_yes env ''can_device_access_peer'' [PyInt s, PyInt t]) (\<lambda>yes. io_return ((s, t), yes)))
       (ordered_pairs device_count)) (\<lambda>peers.
     io_return (\<lparr>en_distributed = distributed, en_gloo = gloo, en_nccl = nccl, en_devices = devices, en_peers = peers\<rparr>,
       if distributed \<and> gloo \<and> 2 \<le> device_count then 0 else 2)))))))"

section \<open>One rank of Gloo\<close>

record gloo_arguments =
  ga_host :: string
  ga_interface :: string
  ga_timeout :: "int option"
  ga_cuda :: bool
  ga_accelerator :: bool
  ga_vllm :: bool

definition timeout_args :: "int option \<Rightarrow> string list" where
  "timeout_args t = (case t of None \<Rightarrow> [] | Some n \<Rightarrow> [py_str n])"

text \<open>A free port on the given host.\<close>

definition host_port :: "'w extern \<Rightarrow> string \<Rightarrow> ('w world, int) io" where
  "host_port env host =
     io_bind (os_int env ''socket'' []) (\<lambda>listener.
     io_finally
       (io_then (os_do env ''bind'' [py_str listener, host, ''0'']) (os_int env ''getsockname'' [py_str listener]))
       (os_do env ''close_socket'' [py_str listener]))"

definition touch_gpu :: "'w extern \<Rightarrow> bool \<Rightarrow> ('w world, unit) io" where
  "touch_gpu env accelerator =
     io_then (if accelerator then torch_do env ''set_device_index'' (device_args (cuda 0)) else torch_do env ''set_device'' [PyInt 0])
     (torch_do env ''empty'' [PyInt 1, PyStr ''cuda''])"

definition gloo_single :: "'w extern \<Rightarrow> gloo_arguments \<Rightarrow> ('w world, int) io" where
  "gloo_single env a =
     io_then (if ga_interface a = [] then os_do env ''unsetenv'' [''GLOO_SOCKET_IFNAME'']
        else os_do env ''setenv'' [''GLOO_SOCKET_IFNAME'', ga_interface a])
    (io_bind (host_port env (ga_host a)) (\<lambda>port.
     let init_method = ''tcp://'' @ ga_host a @ '':'' @ py_str port in
     io_then (if ga_cuda a then touch_gpu env (ga_accelerator a) else io_return ())
     (io_finally
       (io_then
         (if ga_vllm a
          then os_do env ''vllm.init_distributed_environment'' ([''1'', ''0'', init_method, ''0'', ''nccl''] @ timeout_args (ga_timeout a))
          else dist_do env ''init_process_group'' ([PyStr ''gloo'', PyStr init_method, PyInt 1, PyInt 0] @
            (case ga_timeout a of None \<Rightarrow> [] | Some n \<Rightarrow> [PyInt n])))
        (io_then (dist_do env ''get_backend'' []) (io_return 0)))
       (end_group env))))"

text \<open>In a process of its own the result, or the exception that ended the run, is put on the queue.\<close>

definition spawned_probe :: "'w extern \<Rightarrow> gloo_arguments \<Rightarrow> ('w world, exn + int) io" where
  "spawned_probe env a =
     io_catch (io_bind (gloo_single env a) (\<lambda>code. io_return (Inr code))) (\<lambda>e. io_return (Inl e))"

definition gloo_arguments_text :: "gloo_arguments \<Rightarrow> string list" where
  "gloo_arguments_text a = [ga_host a, ga_interface a] @ timeout_args (ga_timeout a) @
     map (\<lambda>b. if b then ''True'' else ''False'') [ga_cuda a, ga_accelerator a, ga_vllm a]"

definition await_probe :: "'w extern \<Rightarrow> (int \<Rightarrow> exn + int) \<Rightarrow> int \<Rightarrow> ('w world, int) io" where
  "await_probe env unpickle timeout =
     io_then (process_do env ''join'' [py_str (timeout + 10)] 0)
    (io_bind (call_ext env (process_call ''is_alive'' 0 [])) (\<lambda>(alive, _).
     if alive \<noteq> 0 then
       io_then (process_do env ''terminate'' [] 0)
      (io_then (process_do env ''join'' [''5''] 0) (io_raise TimeoutError ''spawned Gloo probe did not exit''))
     else
       io_bind (os_int env ''queue_empty'' []) (\<lambda>nothing.
       if nothing \<noteq> 0 then io_bind (exit_code env 0) (\<lambda>_. io_raise RuntimeError ''spawned probe exited without a result'')
       else
         io_bind (os_int env ''queue_get'' []) (\<lambda>k.
         if unpickle k = Inr 0 then io_return 0 else io_raise RuntimeError ''spawned probe failed''))))"

definition gloo_single_main ::
  "'w extern \<Rightarrow> (int \<Rightarrow> exn + int) \<Rightarrow> bool \<Rightarrow> bool \<Rightarrow> bool \<Rightarrow> int \<Rightarrow> gloo_arguments \<Rightarrow> ('w world, int) io" where
  "gloo_single_main env unpickle spawn parent_cuda no_timeout timeout a =
     (let a = a\<lparr>ga_timeout := if no_timeout then None else Some timeout\<rparr> in
      if \<not> spawn then gloo_single env a
      else
        io_then (if parent_cuda then touch_gpu env False else io_return ())
       (io_then (process_do env ''start'' (gloo_arguments_text a) 0) (await_probe env unpickle timeout)))"

section \<open>Cooperative shutdown\<close>

definition cooperative_child :: "'w extern \<Rightarrow> ('w world, unit) io" where
  "cooperative_child env =
     io_then (event_wait env ''shutdown'' ''parent did not request cooperative shutdown'') (os_do env ''sleep'' [''6''])"

definition shutdown_main :: "'w extern \<Rightarrow> string \<Rightarrow> ('w world, int) io" where
  "shutdown_main env platform =
     (if platform \<noteq> ''win32'' then io_return 0
      else
        io_then (process_do env ''start'' [''shutdown''] 0)
       (io_then (os_do env ''vllm._shutdown_core_processes'' [''0'', ''shutdown'', ''5''])
       (io_then (process_do env ''join'' [''1''] 0)
       (io_bind (call_ext env (process_call ''is_alive'' 0 [])) (\<lambda>(alive, _).
        let failed = io_raise RuntimeError ''cooperative shutdown failed'' in
        if alive \<noteq> 0 then failed
        else io_bind (exit_code env 0) (\<lambda>code. if code = Some 0 then io_return 0 else failed))))))"

section \<open>Generation with one or two ranks\<close>

record generate_arguments =
  gn_tp :: int
  gn_model :: string
  gn_model_len :: int
  gn_tokens :: int
  gn_batched :: "int option"
  gn_memory :: string
  gn_quantization :: "string option"
  gn_rccl :: "bool option"
  gn_d3d12 :: "bool option"

definition switch_text :: "bool \<Rightarrow> string" where
  "switch_text b = (if b then ''1'' else ''0'')"

text \<open>The variables the script sets before it imports vLLM.\<close>

definition generate_environment :: "generate_arguments \<Rightarrow> (string \<times> string) list" where
  "generate_environment a =
     [(''HIP_VISIBLE_DEVICES'', ''0,1''), (''CUDA_VISIBLE_DEVICES'', ''0,1''), (''VLLM_WORKER_MULTIPROC_METHOD'', ''spawn''),
      (''VLLM_USE_V2_MODEL_RUNNER'', ''0''), (''VLLM_DISTRIBUTED_USE_SPLIT_GROUP'', ''0''), (''WAVMG_ENABLE'', ''1''),
      (''VLLM_PLUGINS'', ''windows_amd_multigpu''), (''HF_HUB_OFFLINE'', ''1'')] @
     (case gn_rccl a of None \<Rightarrow> [] | Some b \<Rightarrow> [(''WAVMG_USE_RCCL'', switch_text b)]) @
     (case gn_d3d12 a of None \<Rightarrow> [] | Some b \<Rightarrow> [(''WAVMG_USE_D3D12'', switch_text b)])"

definition llm_options :: "generate_arguments \<Rightarrow> (string \<times> string) list" where
  "llm_options a =
     [(''model'', gn_model a), (''tensor_parallel_size'', py_str (gn_tp a)), (''distributed_executor_backend'', ''mp''),
      (''dtype'', ''bfloat16''), (''max_model_len'', py_str (gn_model_len a)), (''gpu_memory_utilization'', gn_memory a),
      (''enforce_eager'', ''True''), (''compilation_config'', ''0''), (''enable_prefix_caching'', ''False'')] @
     (case gn_batched a of None \<Rightarrow> [] | Some n \<Rightarrow> [(''max_num_batched_tokens'', py_str n)]) @
     (case gn_quantization a of None \<Rightarrow> [] | Some q \<Rightarrow> [(''quantization'', q)])"

definition prompts :: "string list" where
  "prompts = [''The capital of France is'', ''Two plus two equals'']"

definition engine_shutdown :: "'w extern \<Rightarrow> ('w world, unit) io" where
  "engine_shutdown env =
     io_bind (os_int env ''vllm.engine_core.shutdown'' [''callable'']) (\<lambda>callable.
     if callable \<noteq> 0 then os_do env ''vllm.engine_core.shutdown'' [''30''] else io_return ())"

definition generate_main :: "'w extern \<Rightarrow> generate_arguments \<Rightarrow> ('w world, int) io" where
  "generate_main env a =
     io_then (io_each (\<lambda>(name, v). os_do env ''setenv'' [name, v]) (generate_environment a))
    (io_then (os_do env ''vllm.LLM'' (concat (map (\<lambda>(name, v). [name, v]) (llm_options a))))
    (io_then (io_finally (os_do env ''vllm.generate'' (prompts @ [''0.0'', py_str (gn_tokens a), ''0''])) (engine_shutdown env))
    (io_return 0)))"

section \<open>What they guarantee\<close>

text \<open>Every host allocation that succeeds is freed, exactly once and with its own pointer; the calls are those the results say.\<close>

definition flag_calls :: "flag_result \<Rightarrow> ecall list" where
  "flag_calls r =
     (let p = VPtr (word_of_int (case fl_host r of None \<Rightarrow> 0 | Some a \<Rightarrow> a)) in
      Native ''hipHostMalloc'' [VRef T_void_p, VU64 4096, VU32 (word_of_int (fl_flags r))] #
      (if fl_alloc r = 0 then [Native ''hipHostGetDevicePointer'' [VRef T_void_p, p, VU32 0], Native ''hipHostFree'' [p]] else []))"

lemma flag_natives:
  "call_native env flag_sigs ''hipHostMalloc'' [PyByref T_void_p, PyInt 4096, PyInt value] =
     call_ext env (Native ''hipHostMalloc'' [VRef T_void_p, VU64 4096, VU32 (word_of_int value)])"
  "call_native env flag_sigs ''hipHostGetDevicePointer'' [PyByref T_void_p, PyVoidP p, PyInt 0] =
     call_ext env (Native ''hipHostGetDevicePointer'' [VRef T_void_p, VPtr (word_of_int p), VU32 0])"
  "call_native env flag_sigs ''hipHostFree'' [PyVoidP p] = call_ext env (Native ''hipHostFree'' [VPtr (word_of_int p)])"
  by (simp_all add: call_native_def flag_sigs_def)

lemma flag_case_log:
  assumes "flag_case env (name, value) w = (Inr r, w')"
  shows "fl_name r = name \<and> fl_flags r = value \<and> wlog w' = wlog w @ flag_calls r"
  using assms
  by (auto simp: flag_case_def void_p_def flag_natives flag_calls_def io_success call_ext_success_iff Let_def split: if_splits)

lemma flags_freed:
  "io_list (flag_case env) fs w = (Inr rs, w') \<Longrightarrow>
     map (\<lambda>r. (fl_name r, fl_flags r)) rs = fs \<and> wlog w' = wlog w @ concat (map flag_calls rs)"
proof (induction fs arbitrary: w rs)
  case (Cons f fs)
  obtain name flags where f: "f = (name, flags)" by (cases f)
  with Cons.prems obtain r v rs' where one: "flag_case env (name, flags) w = (Inr r, v)"
    and more: "io_list (flag_case env) fs v = (Inr rs', w')" "rs = r # rs'"
    by (auto simp: io_success)
  from flag_case_log [OF one] Cons.IH [OF more(1)] show ?case by (simp add: f more(2))
qed (simp add: io_success)

text \<open>The environment probe asks about every ordered pair of different devices once.\<close>

lemma ordered_pairs_exact: "distinct (ordered_pairs n)" "(s, t) \<in> set (ordered_pairs n) \<longleftrightarrow> 0 \<le> s \<and> s < n \<and> 0 \<le> t \<and> t < n \<and> s \<noteq> t"
  by (auto simp: ordered_pairs_def distinct_product)

text \<open>A probe that returns returns 0, in its own process or in another one.\<close>

lemma gloo_single_zero: "gloo_single env a w = (Inr n, w') \<Longrightarrow> n = 0"
  by (auto simp: gloo_single_def io_success io_finally_success_iff Let_def)

lemma gloo_single_main_zero: "gloo_single_main env unpickle spawn parent_cuda no_timeout timeout a w = (Inr n, w') \<Longrightarrow> n = 0"
  by (auto simp: gloo_single_main_def await_probe_def io_success Let_def dest: gloo_single_zero split: if_splits)

text \<open>However generation ends, the engine is asked whether it can be shut down.\<close>

lemma generation_shut_down:
  "io_post (io_finally m (engine_shutdown env)) (\<lambda>_ w'. Os ''vllm.engine_core.shutdown'' [''callable''] \<in> set (wlog w'))
     (\<lambda>_ w'. Os ''vllm.engine_core.shutdown'' [''callable''] \<in> set (wlog w')) w"
  by (auto simp: engine_shutdown_def os_int_def os_do_def wp io_post_def call_ext_def split: prod.splits sum.splits if_splits)

end
