(* ===== verification/Spec2Isabelle.thy ===== *)
theory Spec2Isabelle
  imports Bridge_Protocol Byte_Order Clean_Calls Collective_Probes Config_Probe
    Context_Managers Copy_Benchmark Cross_Process_Probe Ctypes_Ffi D3d12_All_Reduce
    D3d12_Link D3d12_Protocol D3d12_Shared D3d12_Transfer Disk
    Dist_Calls Drafter_Round_Trip Exchange_Benchmark Gloo_Probe Gpu_Streams
    Hip_Runtime Host_Buffers Host_Path_Protocol Host_Staged Hybrid_Probe
    Ipc_Probe Json_Round_Trip Json_Text Kept_Calls License_Copies
    Lifecycle Mapped_Peer_Kernel Mapping_Probes Model_Downloads Peer_Probe
    Platform_Config Prelude Prepare_Drafter Py_Text Rank_Launch
    Rccl Rccl_Probe Runtime_Paths Safetensors Scalar_Codec
    Shm_All_Reduce Shm_Link Shm_Protocol Single_Process_Probes Tensors
    Transition Vllm_Communicator Win32_Barrier
begin

text \<open>
  \<^bold>\<open>The program.\<close> The package \<open>windows_amd_vllm_multigpu\<close> lets vLLM run tensor-parallel on two AMD GPUs under Windows, where
  neither NCCL nor peer-to-peer copies are to be had. A plugin announces a platform; the platform names a communicator
  class; vLLM gives every collective of a GPU tensor to one object of that class. The communicator owns up to four
  transports and chooses between them call by call: a shared D3D12 heap ordered by timeline fences, a host mapping
  registered with both GPUs and ordered by 32-bit words in it, RCCL, and Gloo on pinned host copies. Under them lie the
  ctypes bindings of the HIP runtime and of two native libraries. Around them the repository has scripts that download and
  validate model snapshots and that cut a drafter checkpoint out of a safetensors shard, and probes for the hardware.

  \<^bold>\<open>How code becomes definitions.\<close> A Python object is a record; a method is a function of the pair of world and object, with
  the type \<open>meth\<close>, which returns an exception or a result \<^emph>\<open>and\<close> the state left behind, so that a \<open>raise\<close> keeps every earlier
  mutation (\<open>Prelude\<close>: \<open>io_bind\<close>, \<open>io_catch\<close>, \<open>io_finally\<close>). The world is the state of everything outside together with the log
  of the calls made to it. What an outside call answers is the parameter \<open>env\<close>, a function of the call and the outer state
  (\<open>Ctypes_Ffi\<close>); a theorem that needs the outside to behave states it as a hypothesis on \<open>env\<close>, and a witness instantiates it.
  A native call goes through the table of declared argument types, which truncates integers as ctypes does or raises.
  Integers are unbounded as in Python and become words where they cross into native code.

  \<^bold>\<open>Foundations.\<close>
  \<^item> \<open>Prelude\<close>, \<open>Py_Text\<close>: exceptions, methods, the calculus \<open>io_post\<close>; \<open>str\<close>, \<open>int\<close>, \<open>lower\<close>, \<open>strip\<close>.
  \<^item> \<open>Ctypes_Ffi\<close>, \<open>Tensors\<close>, \<open>Dist_Calls\<close>: native calls, tensors as metadata and an address, calls of \<open>torch.distributed\<close>.
  \<^item> \<open>Transition\<close>, \<open>Gpu_Streams\<close>: step relations, runs, and the locales \<open>invariant_system\<close>, \<open>progressing_system\<close>,
    \<open>two_stream_protocol\<close> and \<open>collective_protocol\<close>; the machine that runs two streams of commands in any interleaving. A write
    and a read of a shared slot are two commands each, so that a torn read is a reachable state unless the protocol excludes it.
  \<^item> \<open>Lifecycle\<close>: the locale \<open>destroyable\<close> of every object with an explicit destructor. \<open>Context_Managers\<close>: the three \<open>__exit__\<close>
    methods and what a \<open>with\<close> block guarantees, by three more interpretations.
  \<^item> \<open>Kept_Calls\<close>: invariants of computations by their shape, and which calls of a kind were made between two worlds;
    \<open>Clean_Calls\<close>: the instance "no call of \<open>torch.distributed\<close> mentions a GPU tensor".

  \<^bold>\<open>The transports\<close> (under \<open>src/src/windows_amd_vllm_multigpu/\<close>).
  \<^item> \<open>Runtime_Paths\<close> (\<open>runtime_paths.py\<close>, the loaders of \<open>rccl.py\<close>, \<open>d3d12_shared.py\<close>, \<open>mapped_peer_kernel.py\<close>): the search for
    the libraries; the file system and the variables are a record of functions. \<open>Hip_Runtime\<close>, \<open>Mapped_Peer_Kernel\<close>: every
    method passes exactly the declared types, and when it raises.
  \<^item> \<open>D3d12_Shared\<close>, \<open>D3d12_All_Reduce\<close> (\<open>d3d12_shared.py\<close>, \<open>d3d12_all_reduce.py\<close>): the context is released at most once; the two
    ranks never disagree on whether construction succeeded; a refused collective changes nothing; an accepted one succeeds
    when the native calls do. \<open>D3d12_Protocol\<close>: the commands of the two GPUs; every schedule ends and computes every sum.
    \<open>D3d12_Link\<close>: the calls the host code makes, read as commands, are that protocol.
  \<^item> \<open>Shm_All_Reduce\<close>, \<open>Shm_Protocol\<close>, \<open>Shm_Link\<close> (\<open>shared_memory_all_reduce.py\<close> and the order of the commands in
    \<open>native/mapped_peer_reduce.hip\<close>): the same for the mapped host memory. \<open>Host_Path_Protocol\<close>, \<open>Win32_Barrier\<close>
    (\<open>win32_barrier.py\<close>): the synchronous path between two barriers; it is safe, and it can lose a signal and stop. A
    synchronous call after a streamed one can overwrite a slot that is still read.
  \<^item> \<open>D3d12_Transfer\<close>, \<open>Bridge_Protocol\<close> (\<open>d3d12_transfer.py\<close>): the bridge between two GPUs of one process delivers every
    payload and restores the selected device; two source streams race.
  \<^item> \<open>Host_Staged\<close> (\<open>host_staged.py\<close>), \<open>Rccl\<close> (\<open>rccl.py\<close>): Gloo sees host tensors only, and running the staged calls on a memory
    computes the reduction; the counts given to RCCL cover the tensors.
  \<^item> \<open>Vllm_Communicator\<close> (\<open>vllm_communicator.py\<close>): construction, routing, tracing, destruction. The locale \<open>reducer\<close> is the
    contract of an all-reduce; the four transports and the communicator itself interpret it. \<open>Platform_Config\<close>
    (\<open>platform.py\<close>, \<open>platform_plugin.py\<close>, \<open>__init__.py\<close>): the configurations accepted are exactly the supported ones.

  \<^bold>\<open>The scripts\<close> (under \<open>src/scripts/\<close>, \<open>src/tools/\<close>).
  \<^item> \<open>Byte_Order\<close>, \<open>Json_Text\<close>, \<open>Json_Round_Trip\<close>, \<open>Disk\<close>: little-endian integers; the encoder and the decoder of Python's \<open>json\<close>
    and UTF-8, and that decoding gives the encoded value back; files and directories as state.
  \<^item> \<open>Safetensors\<close>, \<open>Prepare_Drafter\<close>, \<open>Drafter_Round_Trip\<close> (\<open>prepare-qwen38-27b-awq-mtp.py\<close>): the reader, the chunked copy and
    digest, the plan and the writer; the script writes only below its output and the temporary directory, and only
    after the shard has the expected digest; every tensor of the drafter is that of its source.
  \<^item> \<open>Model_Downloads\<close>, \<open>License_Copies\<close>: a path is reported only for a snapshot that passes every check.

  \<^bold>\<open>The probes\<close> (under \<open>src/probes/\<close>; \<open>Host_Buffers\<close> and \<open>Rank_Launch\<close> are what they share). \<open>Rank_Launch\<close> is the \<open>main\<close> of the
  two-process scripts: every process is started, then waited for, then ended if it is still alive, and only then are the
  reports and the exit codes read; the reports are judged in the order of the ranks, however they arrive. An invariant of a
  rank's local variables goes through its body by the collection \<open>object_kept\<close>.
  \<^item> \<open>Scalar_Codec\<close>, \<open>Rccl_Probe\<close> (\<open>rccl_two_rank_all_reduce.py\<close>): binary32, binary16 and bfloat16 of natural numbers, the round
    trip below the precision of each, and the rounding to nearest even; settings, loading, the collective, one rank with its
    clean-up, both processes; a rank reports whatever fails and gives back what it holds once.
  \<^item> \<open>Peer_Probe\<close> (\<open>hip_peer_access_probe.py\<close>): the outcome recorded for an operation is what the runtime returned; the exit code
    is 0 exactly for complete evidence in both directions; the clean-up stops at its first failure.
  \<^item> \<open>Ipc_Probe\<close> (\<open>hip_ipc_probe.py\<close>): the exporter and the importer as they alternate; both report, and the allocation is
    freed once and never while it is mapped.
  \<^item> \<open>Cross_Process_Probe\<close>, \<open>Exchange_Benchmark\<close> (\<open>d3d12_cross_process_probe.py\<close>, \<open>benchmark_d3d12_cross_adapter.py\<close>): two processes
    swap their payloads, once through one heap and again and again through two; the commands of their streams do so in every
    interleaving. The second is an interpretation of \<open>two_stream_protocol\<close>.
  \<^item> \<open>Hybrid_Probe\<close> (\<open>hybrid_all_reduce_probe.py\<close>): which transport each tensor takes, from the construction of both communicators
    to the report.
  \<^item> \<open>Gloo_Probe\<close> (\<open>two_rank_gloo.py\<close>): no GPU tensor reaches \<open>torch.distributed\<close> in any run; one complete run of a rank.
  \<^item> \<open>Mapping_Probes\<close> (\<open>hip_shared_memory_probe.py\<close>, \<open>benchmark_hip_shared_memory.py\<close>, \<open>benchmark_mapped_peer_kernel.py\<close>): a rank
    unregisters and closes its mapping exactly once, whatever fails.
  \<^item> \<open>Collective_Probes\<close> (\<open>d3d12_all_reduce_probe.py\<close>, \<open>benchmark_stream_all_reduce.py\<close>, \<open>benchmark_host_staged.py\<close>,
    \<open>rccl_torch_tensor_probe.py\<close>): tables of cases over one communicator; a passing report of the D3D12 probe covers its whole
    table in order.
  \<^item> \<open>Copy_Benchmark\<close> (\<open>benchmark_cross_device.py\<close>): the direct and the pinned all-reduce are the same function of memory.
  \<^item> \<open>Config_Probe\<close> (\<open>platform_config_probe.py\<close>): the repository's own check of the configuration gates passes on the model.
  \<^item> \<open>Single_Process_Probes\<close> (\<open>hip_host_malloc_flags.py\<close>, \<open>environment_probe.py\<close>, \<open>probe_windows_gloo_single.py\<close>,
    \<open>probe_windows_engine_shutdown.py\<close>, \<open>vllm_tp_output.py\<close>): every allocation that succeeds is freed once with its own pointer;
    every ordered pair of devices is asked about once; a probe that returns returns 0.

  \<^bold>\<open>Bounds and fuel.\<close> The JSON decoder has fuel, \<open>parse_fuel\<close>, twice the length of the text and two: a value takes one unit
  and every element of an array or an object consumes a character, so that it is never used up on what the encoder writes,
  which \<open>Json_Round_Trip\<close> proves. The chunked loops end by the number of bytes left. The runs of the protocols have no
  bound: a measure that every step decreases proves that each of them ends. The numbers the probe encodes are natural and
  below \<open>2 ^ 53\<close>, which a double holds exactly.

  \<^bold>\<open>Parameters.\<close> vLLM's base classes and its inherited check, \<open>torch\<close>, \<open>torch.distributed\<close>, kernel32, the HIP runtime, RCCL,
  the two native libraries, the Hugging Face client, SHA-256, the printing of floats, and the path functions of the system.
  The protocols take from the native side that a stream runs its commands in order, that a wait for a fence value blocks
  until the value is reached, and that signalled writes are visible to the waiter.

  \<^bold>\<open>Not modelled.\<close> The C++ and HIP sources except for the order of one entry point's commands; the adapter for llama.cpp and
  the patches to other projects; PowerShell and cmd drivers: none of it is Python, and the Python code sees it through the
  parameters above. Of the Python code: argument parsers, the clock and the rates computed from it, printing, tracebacks and
  log files; when the collector runs \<open>__del__\<close>; threads beyond the lock of the bridge; a pipe or queue that loses what was put
  into it; NaN payloads and the rounding of GPU arithmetic (the sum is a parameter of the protocols).

  \<^bold>\<open>Open.\<close> The values of the gathering collectives of \<open>Host_Staged\<close> over the memories of all ranks of a group, as the reduction
  has them, and a link from the bridge's contexts to the native library; both need a model of the other process's calls, which
  for these transports is in \<open>torch.distributed\<close> and in C++.
\<close>

end
